(* ===== verification/Prelude.thy ===== *)
theory Prelude
  imports Main "HOL-Library.AList" "HOL-Library.Char_ord" "HOL-Library.List_Lexorder"
begin

text \<open>
  The vocabulary every component of the plugin model shares:
  \<^item> \<open>('e, 'a) result\<close>: what a Python function without effects gives, a raised exception
    (\<open>Inl\<close>) or a returned value (\<open>Inr\<close>), with \<open>rbind\<close> for sequencing;
  \<^item> \<open>('w, 'e, 'a) prog\<close>: a Python function with effects on the world \<open>'w\<close> (the catalogs
    behind the runtime, the payload registry, the clock). An exception keeps the world it was
    raised in, as Python does: nothing is rolled back unless a transaction does it. \<open>pbind\<close>
    sequences, \<open>pcatch\<close> is \<open>try/except\<close>, \<open>pfinally\<close> is \<open>try/finally\<close>;
  \<^item> the inversion rules of these combinators, collected in \<open>flow\<close>, so that a goal
    "this call returned \<open>x\<close>" is split into its steps by \<open>simp add: flow\<close>;
  \<^item> a few lemmas on association lists, the model of Python's insertion-ordered dicts.
\<close>

named_theorems flow \<open>inversion of the control flow combinators on their outcome\<close>
named_theorems defs \<open>definitions of the model, to unfold a component\<close>

section \<open>Results without effects\<close>

type_synonym ('e, 'a) result = "'e + 'a"

definition rbind :: "('e, 'a) result \<Rightarrow> ('a \<Rightarrow> ('e, 'b) result) \<Rightarrow> ('e, 'b) result" where
  "rbind m f = (case m of Inl e \<Rightarrow> Inl e | Inr x \<Rightarrow> f x)"

definition ensure :: "bool \<Rightarrow> 'e \<Rightarrow> ('e, unit) result" where
  "ensure b e = (if b then Inr () else Inl e)"

definition rcatch :: "('e, 'a) result \<Rightarrow> ('e \<Rightarrow> ('e, 'a) result) \<Rightarrow> ('e, 'a) result" where
  "rcatch m h = (case m of Inl e \<Rightarrow> h e | Inr x \<Rightarrow> Inr x)"

fun rmap :: "('a \<Rightarrow> ('e, 'b) result) \<Rightarrow> 'a list \<Rightarrow> ('e, 'b list) result" where
  "rmap f [] = Inr []"
| "rmap f (x # xs) = rbind (f x) (\<lambda>y. rbind (rmap f xs) (\<lambda>ys. Inr (y # ys)))"

lemma rbind_simps [simp]:
  "rbind (Inl e) f = Inl e"
  "rbind (Inr x) f = f x"
  by (simp_all add: rbind_def)

lemma rbind_Inr_iff [flow]: "rbind m f = Inr y \<longleftrightarrow> (\<exists>x. m = Inr x \<and> f x = Inr y)"
  by (cases m) simp_all

lemma rbind_Inl_iff [flow]:
  "rbind m f = Inl e \<longleftrightarrow> m = Inl e \<or> (\<exists>x. m = Inr x \<and> f x = Inl e)"
  by (cases m) simp_all

lemma rbind_assoc: "rbind (rbind m f) g = rbind m (\<lambda>x. rbind (f x) g)"
  by (cases m) simp_all

lemma ensure_simps [simp]: "ensure True e = Inr ()" "ensure False e = Inl e"
  by (simp_all add: ensure_def)

lemma ensure_Inr_iff [flow]: "ensure b e = Inr u \<longleftrightarrow> b"
  by (simp add: ensure_def)

lemma ensure_Inl_iff [flow]: "ensure b e = Inl e' \<longleftrightarrow> \<not> b \<and> e = e'"
  by (auto simp: ensure_def)

lemma rcatch_simps [simp]:
  "rcatch (Inl e) h = h e"
  "rcatch (Inr x) h = Inr x"
  by (simp_all add: rcatch_def)

lemma rcatch_Inr_iff [flow]:
  "rcatch m h = Inr y \<longleftrightarrow> m = Inr y \<or> (\<exists>e. m = Inl e \<and> h e = Inr y)"
  by (cases m) simp_all

lemma rmap_Inr_iff: "rmap f xs = Inr ys \<longleftrightarrow> list_all2 (\<lambda>x y. f x = Inr y) xs ys"
  by (induction xs arbitrary: ys) (auto simp: flow list_all2_Cons1)

lemma rmap_cong_Inr: "(\<And>x. x \<in> set xs \<Longrightarrow> f x = Inr (g x)) \<Longrightarrow> rmap f xs = Inr (map g xs)"
  by (induction xs) simp_all

section \<open>Programs with effects\<close>

type_synonym ('w, 'e, 'a) prog = "'w \<Rightarrow> ('e, 'a) result \<times> 'w"

definition pret :: "'a \<Rightarrow> ('w, 'e, 'a) prog" where
  "pret x = (\<lambda>w. (Inr x, w))"

definition pthrow :: "'e \<Rightarrow> ('w, 'e, 'a) prog" where
  "pthrow e = (\<lambda>w. (Inl e, w))"

definition plift :: "('e, 'a) result \<Rightarrow> ('w, 'e, 'a) prog" where
  "plift r = (\<lambda>w. (r, w))"

definition pbind ::
  "('w, 'e, 'a) prog \<Rightarrow> ('a \<Rightarrow> ('w, 'e, 'b) prog) \<Rightarrow> ('w, 'e, 'b) prog" where
  "pbind m f = (\<lambda>w. case m w of (Inl e, w') \<Rightarrow> (Inl e, w') | (Inr x, w') \<Rightarrow> f x w')"

definition pcatch ::
  "('w, 'e, 'a) prog \<Rightarrow> ('e \<Rightarrow> ('w, 'e, 'a) prog) \<Rightarrow> ('w, 'e, 'a) prog" where
  "pcatch m h = (\<lambda>w. case m w of (Inl e, w') \<Rightarrow> h e w' | (Inr x, w') \<Rightarrow> (Inr x, w'))"

text \<open>An exception of the \<open>finally\<close> block replaces the outcome of the guarded block.\<close>

definition pfinally ::
  "('w, 'e, 'a) prog \<Rightarrow> ('w, 'e, unit) prog \<Rightarrow> ('w, 'e, 'a) prog" where
  "pfinally m c = (\<lambda>w. case m w of (r, w') \<Rightarrow>
     (case c w' of (Inl e, w'') \<Rightarrow> (Inl e, w'') | (Inr _, w'') \<Rightarrow> (r, w'')))"

definition pwhen :: "bool \<Rightarrow> ('w, 'e, unit) prog \<Rightarrow> ('w, 'e, unit) prog" where
  "pwhen b m = (if b then m else pret ())"

fun pmap :: "('a \<Rightarrow> ('w, 'e, 'b) prog) \<Rightarrow> 'a list \<Rightarrow> ('w, 'e, 'b list) prog" where
  "pmap f [] = pret []"
| "pmap f (x # xs) = pbind (f x) (\<lambda>y. pbind (pmap f xs) (\<lambda>ys. pret (y # ys)))"

lemma pret_apply [simp]: "pret x w = (Inr x, w)"
  by (simp add: pret_def)

lemma pthrow_apply [simp]: "pthrow e w = (Inl e, w)"
  by (simp add: pthrow_def)

lemma plift_apply [simp]: "plift r w = (r, w)"
  by (simp add: plift_def)

lemma pbind_pret [simp]: "pbind (pret x) f = f x"
  by (simp add: pbind_def pret_def)

lemma pbind_pthrow [simp]: "pbind (pthrow e) f = pthrow e"
  by (simp add: pbind_def pthrow_def)

lemma pbind_plift [simp]:
  "pbind (plift (Inr x)) f = f x"
  "pbind (plift (Inl e)) f = pthrow e"
  by (simp_all add: pbind_def plift_def pthrow_def)

lemma pbind_step:
  "m w = (Inr x, w') \<Longrightarrow> pbind m f w = f x w'"
  "m w = (Inl e, w') \<Longrightarrow> pbind m f w = (Inl e, w')"
  by (simp_all add: pbind_def)

lemma pcatch_step:
  "m w = (Inr x, w') \<Longrightarrow> pcatch m h w = (Inr x, w')"
  "m w = (Inl e, w') \<Longrightarrow> pcatch m h w = h e w'"
  by (simp_all add: pcatch_def)

lemma pbind_Inr_iff [flow]:
  "pbind m f w = (Inr y, w') \<longleftrightarrow> (\<exists>x w1. m w = (Inr x, w1) \<and> f x w1 = (Inr y, w'))"
  by (auto simp: pbind_def split: prod.splits sum.splits)

lemma pbind_Inl_iff [flow]:
  "pbind m f w = (Inl e, w') \<longleftrightarrow>
     m w = (Inl e, w') \<or> (\<exists>x w1. m w = (Inr x, w1) \<and> f x w1 = (Inl e, w'))"
  by (auto simp: pbind_def split: prod.splits sum.splits)

lemma pcatch_Inr_iff [flow]:
  "pcatch m h w = (Inr y, w') \<longleftrightarrow>
     m w = (Inr y, w') \<or> (\<exists>e w1. m w = (Inl e, w1) \<and> h e w1 = (Inr y, w'))"
  by (auto simp: pcatch_def split: prod.splits sum.splits)

lemma pcatch_Inl_iff [flow]:
  "pcatch m h w = (Inl e, w') \<longleftrightarrow> (\<exists>e1 w1. m w = (Inl e1, w1) \<and> h e1 w1 = (Inl e, w'))"
  by (auto simp: pcatch_def split: prod.splits sum.splits)

lemma pfinally_Inr_iff [flow]:
  "pfinally m c w = (Inr y, w') \<longleftrightarrow> (\<exists>w1. m w = (Inr y, w1) \<and> c w1 = (Inr (), w'))"
  by (auto simp: pfinally_def split: prod.splits sum.splits)

lemma pfinally_Inl_iff [flow]:
  "pfinally m c w = (Inl e, w') \<longleftrightarrow>
     (\<exists>r w1. m w = (r, w1) \<and> (c w1 = (Inl e, w') \<or> r = Inl e \<and> c w1 = (Inr (), w')))"
  by (auto simp: pfinally_def split: prod.splits sum.splits)

lemma pwhen_simps [simp]: "pwhen True m = m" "pwhen False m = pret ()"
  by (simp_all add: pwhen_def)

text \<open>
  A program keeps \<open>P\<close> when every outcome, an exception included, leaves a world that satisfies
  \<open>P\<close> if the first world did. The rules follow the combinators, so a component's invariant is
  proved by applying them along its code.
\<close>

definition keeps :: "('w \<Rightarrow> bool) \<Rightarrow> ('w, 'e, 'a) prog \<Rightarrow> bool" where
  "keeps P m \<longleftrightarrow> (\<forall>w. P w \<longrightarrow> P (snd (m w)))"

named_theorems keeps_intros \<open>rules that push an invariant through the combinators\<close>

lemma keepsD: "keeps P m \<Longrightarrow> P w \<Longrightarrow> m w = (r, w') \<Longrightarrow> P w'"
  by (auto simp: keeps_def dest: spec [of _ w])

lemma keeps_pret [keeps_intros]: "keeps P (pret x)"
  by (simp add: keeps_def)

lemma keeps_pthrow [keeps_intros]: "keeps P (pthrow e)"
  by (simp add: keeps_def)

lemma keeps_plift [keeps_intros]: "keeps P (plift r)"
  by (simp add: keeps_def)

lemma keeps_pbind [keeps_intros]: "keeps P m \<Longrightarrow> (\<And>x. keeps P (f x)) \<Longrightarrow> keeps P (pbind m f)"
  by (fastforce simp: keeps_def pbind_def split: prod.splits sum.splits)

lemma keeps_pcatch [keeps_intros]: "keeps P m \<Longrightarrow> (\<And>e. keeps P (h e)) \<Longrightarrow> keeps P (pcatch m h)"
  by (fastforce simp: keeps_def pcatch_def split: prod.splits sum.splits)

lemma keeps_pfinally [keeps_intros]: "keeps P m \<Longrightarrow> keeps P c \<Longrightarrow> keeps P (pfinally m c)"
  by (fastforce simp: keeps_def pfinally_def split: prod.splits sum.splits)

lemma keeps_pwhen [keeps_intros]: "keeps P m \<Longrightarrow> keeps P (pwhen b m)"
  by (simp add: pwhen_def keeps_pret)

lemma keeps_pmap [keeps_intros]: "(\<And>x. keeps P (f x)) \<Longrightarrow> keeps P (pmap f xs)"
  by (induction xs) (auto intro!: keeps_intros)

lemma keeps_if [keeps_intros]: "(b \<Longrightarrow> keeps P m) \<Longrightarrow> (\<not> b \<Longrightarrow> keeps P n) \<Longrightarrow> keeps P (if b then m else n)"
  by simp

lemma keeps_case_option [keeps_intros]:
  "keeps P m \<Longrightarrow> (\<And>x. keeps P (f x)) \<Longrightarrow> keeps P (case z of None \<Rightarrow> m | Some x \<Rightarrow> f x)"
  by (simp split: option.split)

lemma keeps_case_prod [keeps_intros]:
  "(\<And>x y. keeps P (f x y)) \<Longrightarrow> keeps P (case z of (x, y) \<Rightarrow> f x y)"
  by (simp split: prod.split)

section \<open>Dicts as association lists\<close>

type_synonym 'v dict = "(string \<times> 'v) list"

abbreviation keys :: "'v dict \<Rightarrow> string set" where
  "keys d \<equiv> set (map fst d)"

definition without :: "string list \<Rightarrow> 'v dict \<Rightarrow> 'v dict" where
  "without ks d = filter (\<lambda>p. fst p \<notin> set ks) d"

lemma map_of_without: "map_of (without ks d) k = (if k \<in> set ks then None else map_of d k)"
  by (induction d) (auto simp: without_def)

lemma keys_without: "keys (without ks d) = keys d - set ks"
  by (auto simp: without_def)

lemma without_id: "(\<And>k. k \<in> set ks \<Longrightarrow> k \<notin> keys d) \<Longrightarrow> without ks d = d"
  by (induction d) (auto simp: without_def)

lemma distinct_fst_without: "distinct (map fst d) \<Longrightarrow> distinct (map fst (without ks d))"
  by (induction d) (auto simp: without_def)

lemma map_of_is_Some_iff: "(\<exists>v. map_of d k = Some v) \<longleftrightarrow> k \<in> keys d"
  by (metis domIff dom_map_of_conv_image_fst not_None_eq set_map)

lemma keys_subset_cong:
  assumes "\<forall>k \<in> K. map_of d k = map_of d' k" "K \<subseteq> keys d'"
  shows "K \<subseteq> keys d"
proof
  fix k assume "k \<in> K"
  moreover with assms(2) have "k \<in> keys d'" by blast
  ultimately have "map_of d k \<noteq> None"
    using assms(1) map_of_is_Some_iff [of d' k] by (metis option.distinct(1))
  then show "k \<in> keys d" using map_of_is_Some_iff [of d k] by blast
qed

definition sort_dict :: "'v dict \<Rightarrow> 'v dict" where
  "sort_dict d = sort_key fst d"

lemma map_of_filter_eq: "map_of (filter (\<lambda>p. fst p = k) xs) k = map_of xs k"
  by (induction xs) auto

lemma map_of_sort_dict: "map_of (sort_dict d) = map_of d"
proof
  fix k
  have "filter (\<lambda>p. fst p = k) (sort_key fst d) = filter (\<lambda>p. fst p = k) d"
    by (rule sort_key_stable)
  then show "map_of (sort_dict d) k = map_of d k"
    by (metis map_of_filter_eq sort_dict_def)
qed

lemma keys_sort_dict [simp]: "keys (sort_dict d) = keys d"
  by (simp add: sort_dict_def)

lemma set_sort_dict [simp]: "set (sort_dict d) = set d"
  by (simp add: sort_dict_def)

lemma length_sort_dict [simp]: "length (sort_dict d) = length d"
  by (simp add: sort_dict_def)

lemma sort_dict_idem [simp]: "sort_dict (sort_dict d) = sort_dict d"
  by (simp add: sort_dict_def sort_key_id_if_sorted)

lemma distinct_fst_sort_dict [simp]: "distinct (map fst (sort_dict d)) \<longleftrightarrow> distinct (map fst d)"
  by (metis card_distinct distinct_card keys_sort_dict length_map length_sort_dict)

end
