(* ===== verification/PyValues.thy ===== *)
theory PyValues
  imports Prelude
begin

text \<open>
  The Python values the plugin inspects. A \<open>str\<close> is its UTF-8 encoding, a list of bytes
  (\<open>string\<close>): lengths in bytes, byte order and percent-encoding are then the code's own, and a
  character set test of ASCII characters reads the same on bytes as on code points. A lone
  surrogate, which UTF-8 cannot encode, is its three-byte generalised form; \<open>has_surrogate\<close>
  recognises it where the code encodes a string strictly. A \<open>dict\<close> is an association list in
  insertion order with distinct string keys; a mapping with some key that is not a string is
  \<open>POddMap n\<close>, of which the code only ever asks its size and whether it is such a mapping.
  A float is a sign, a mantissa and a binary exponent; \<open>==\<close> is \<open>py_eq\<close>, with the numeric
  tower's \<open>True == 1 == 1.0\<close> and order-free equality of mappings.
\<close>

datatype pyfloat = FFin bool int int | FInf bool | FNaN

datatype pyval =
    PNone
  | PBool bool
  | PInt int
  | PFloat pyfloat
  | PStr string
  | PBytes string
  | PList "pyval list"
  | PTuple "pyval list"
  | PDict "(string \<times> pyval) list"
  | PProxy "(string \<times> pyval) list"
  | POddMap nat
  | PObj string

section \<open>Type tests\<close>

text \<open>\<open>isinstance(value, Mapping)\<close> and, for string keys, its items.\<close>

definition is_mapping :: "pyval \<Rightarrow> bool" where
  "is_mapping v = (case v of PDict _ \<Rightarrow> True | PProxy _ \<Rightarrow> True | POddMap _ \<Rightarrow> True | _ \<Rightarrow> False)"

definition str_items :: "pyval \<Rightarrow> pyval dict option" where
  "str_items v = (case v of PDict d \<Rightarrow> Some d | PProxy d \<Rightarrow> Some d | _ \<Rightarrow> None)"

definition mapping_len :: "pyval \<Rightarrow> nat" where
  "mapping_len v = (case v of PDict d \<Rightarrow> length d | PProxy d \<Rightarrow> length d | POddMap n \<Rightarrow> n | _ \<Rightarrow> 0)"

text \<open>\<open>isinstance(value, Sequence) and not isinstance(value, str | bytes | bytearray)\<close>.\<close>

definition array_items :: "pyval \<Rightarrow> pyval list option" where
  "array_items v = (case v of PList xs \<Rightarrow> Some xs | PTuple xs \<Rightarrow> Some xs | _ \<Rightarrow> None)"

text \<open>\<open>isinstance(value, int) and not isinstance(value, bool)\<close>.\<close>

definition as_int :: "pyval \<Rightarrow> int option" where
  "as_int v = (case v of PInt i \<Rightarrow> Some i | _ \<Rightarrow> None)"

definition as_bool :: "pyval \<Rightarrow> bool option" where
  "as_bool v = (case v of PBool b \<Rightarrow> Some b | _ \<Rightarrow> None)"

definition of_opt :: "('a \<Rightarrow> pyval) \<Rightarrow> 'a option \<Rightarrow> pyval" where
  "of_opt f z = (case z of None \<Rightarrow> PNone | Some x \<Rightarrow> f x)"

lemma is_mapping_simps [simp]:
  "is_mapping (PDict d)" "is_mapping (PProxy d)" "is_mapping (POddMap n)"
  "\<not> is_mapping PNone" "\<not> is_mapping (PStr s)" "\<not> is_mapping (PList xs)" "\<not> is_mapping (PInt i)"
  "\<not> is_mapping (PBool b)" "\<not> is_mapping (PTuple xs)"
  by (simp_all add: is_mapping_def)

lemma str_items_simps [simp]:
  "str_items (PDict d) = Some d" "str_items (PProxy d) = Some d"
  "str_items (POddMap n) = None" "str_items PNone = None" "str_items (PList xs) = None"
  "str_items (PStr s) = None"
  by (simp_all add: str_items_def)

lemma mapping_len_simps [simp]:
  "mapping_len (PDict d) = length d" "mapping_len (PProxy d) = length d"
  by (simp_all add: mapping_len_def)

lemma array_items_simps [simp]:
  "array_items (PList xs) = Some xs" "array_items (PTuple xs) = Some xs"
  "array_items (PDict d) = None" "array_items PNone = None" "array_items (PStr s) = None"
  by (simp_all add: array_items_def)

lemma as_int_simps [simp]: "as_int (PInt i) = Some i" "as_int (PBool b) = None" "as_int PNone = None"
  by (simp_all add: as_int_def)

lemma as_int_Some_iff [simp]: "as_int v = Some i \<longleftrightarrow> v = PInt i"
  by (cases v) (auto simp: as_int_def)

lemma as_bool_simps [simp]: "as_bool (PBool b) = Some b"
  by (simp add: as_bool_def)

lemma as_bool_Some_iff [simp]: "as_bool v = Some b \<longleftrightarrow> v = PBool b"
  by (cases v) (auto simp: as_bool_def)

lemma of_opt_simps [simp]: "of_opt f None = PNone" "of_opt f (Some x) = f x"
  by (simp_all add: of_opt_def)

section \<open>Equality\<close>

datatype pynum = NFin int int | NInf bool | NNaN

definition num_view :: "pyval \<Rightarrow> pynum option" where
  "num_view v = (case v of
     PBool b \<Rightarrow> Some (NFin (if b then 1 else 0) 0)
   | PInt i \<Rightarrow> Some (NFin i 0)
   | PFloat (FFin s m e) \<Rightarrow> Some (NFin (if s then - m else m) e)
   | PFloat (FInf s) \<Rightarrow> Some (NInf s)
   | PFloat FNaN \<Rightarrow> Some NNaN
   | _ \<Rightarrow> None)"

text \<open>\<open>m * 2 ^ e = m' * 2 ^ e'\<close>, scaled to the smaller exponent.\<close>

fun num_eq :: "pynum \<Rightarrow> pynum \<Rightarrow> bool" where
  "num_eq (NFin m e) (NFin m' e') =
     (let d = min e e' in m * 2 ^ nat (e - d) = m' * 2 ^ nat (e' - d))"
| "num_eq (NInf s) (NInf s') = (s = s')"
| "num_eq _ _ = False"

definition scalar_eq :: "pyval \<Rightarrow> pyval \<Rightarrow> bool" where
  "scalar_eq x y = (case num_view x of
     Some a \<Rightarrow> (case num_view y of Some b \<Rightarrow> num_eq a b | None \<Rightarrow> False)
   | None \<Rightarrow> x = y)"

fun py_eq :: "pyval \<Rightarrow> pyval \<Rightarrow> bool"
  and list_eq :: "pyval list \<Rightarrow> pyval list \<Rightarrow> bool"
  and dict_sub :: "pyval dict \<Rightarrow> pyval dict \<Rightarrow> bool" where
  "py_eq (PList xs) y = (case y of PList ys \<Rightarrow> list_eq xs ys | _ \<Rightarrow> False)"
| "py_eq (PTuple xs) y = (case y of PTuple ys \<Rightarrow> list_eq xs ys | _ \<Rightarrow> False)"
| "py_eq (PDict d) y =
     (case str_items y of Some d' \<Rightarrow> length d = length d' \<and> dict_sub d d' | None \<Rightarrow> False)"
| "py_eq (PProxy d) y =
     (case str_items y of Some d' \<Rightarrow> length d = length d' \<and> dict_sub d d' | None \<Rightarrow> False)"
| "py_eq x y = scalar_eq x y"
| "list_eq [] ys = (ys = [])"
| "list_eq (x # xs) ys = (case ys of [] \<Rightarrow> False | y # ys' \<Rightarrow> py_eq x y \<and> list_eq xs ys')"
| "dict_sub [] d' = True"
| "dict_sub (p # d) d' =
     ((case map_of d' (fst p) of None \<Rightarrow> False | Some w \<Rightarrow> py_eq (snd p) w) \<and> dict_sub d d')"

definition dict_eq :: "pyval dict \<Rightarrow> pyval dict \<Rightarrow> bool" where
  "dict_eq d d' = py_eq (PDict d) (PDict d')"

text \<open>Equality of dicts whose values are plain (strings).\<close>

definition smap_eq :: "'v dict \<Rightarrow> 'v dict \<Rightarrow> bool" where
  "smap_eq d d' = (length d = length d' \<and> list_all (\<lambda>p. map_of d' (fst p) = Some (snd p)) d)"

text \<open>Plain values: distinct string keys at every level, no NaN.\<close>

fun wf_py :: "pyval \<Rightarrow> bool" where
  "wf_py (PList xs) = list_all wf_py xs"
| "wf_py (PTuple xs) = list_all wf_py xs"
| "wf_py (PDict d) = (distinct (map fst d) \<and> list_all (\<lambda>p. wf_py (snd p)) d)"
| "wf_py (PProxy d) = (distinct (map fst d) \<and> list_all (\<lambda>p. wf_py (snd p)) d)"
| "wf_py (PFloat f) = (f \<noteq> FNaN)"
| "wf_py (POddMap n) = False"
| "wf_py _ = True"

abbreviation wf_dict :: "pyval dict \<Rightarrow> bool" where
  "wf_dict d \<equiv> wf_py (PDict d)"

lemma wf_mapping_items: "wf_py v \<Longrightarrow> is_mapping v \<Longrightarrow> str_items v \<noteq> None"
  by (cases v) (simp_all add: is_mapping_def)

lemma num_eq_refl: "a \<noteq> NNaN \<Longrightarrow> num_eq a a"
  by (cases a) simp_all

lemma scalar_eq_refl: "v \<noteq> PFloat FNaN \<Longrightarrow> scalar_eq v v"
  by (auto simp: scalar_eq_def num_view_def split: option.splits pyval.splits pyfloat.splits)

lemma list_eq_refl: "list_all (\<lambda>x. py_eq x x) xs \<Longrightarrow> list_eq xs xs"
  by (induction xs) simp_all

lemma dict_sub_lookup:
  "list_all (\<lambda>p. \<exists>w. map_of d' (fst p) = Some w \<and> py_eq (snd p) w) d \<Longrightarrow> dict_sub d d'"
  by (induction d) auto

lemma dict_sub_refl:
  assumes "distinct (map fst d)" "list_all (\<lambda>p. py_eq (snd p) (snd p)) d"
  shows "dict_sub d d"
proof (rule dict_sub_lookup, unfold list_all_iff, intro ballI)
  fix p assume p: "p \<in> set d"
  have "map_of d (fst p) = Some (snd p)" using assms(1) p by simp
  with assms(2) p show "\<exists>w. map_of d (fst p) = Some w \<and> py_eq (snd p) w"
    by (auto simp: list_all_iff)
qed

lemma py_eq_refl: "wf_py v \<Longrightarrow> py_eq v v"
proof (induction v rule: wf_py.induct)
  case (1 xs)
  then show ?case by (auto simp: list_all_iff intro!: list_eq_refl)
next
  case (2 xs)
  then show ?case by (auto simp: list_all_iff intro!: list_eq_refl)
next
  case (3 d)
  then show ?case by (auto simp: list_all_iff intro!: dict_sub_refl)
next
  case (4 d)
  then show ?case by (auto simp: list_all_iff intro!: dict_sub_refl)
qed (auto intro: scalar_eq_refl)

lemma dict_eq_refl: "wf_dict d \<Longrightarrow> dict_eq d d"
  unfolding dict_eq_def by (rule py_eq_refl)

lemma dict_sub_map_of:
  "dict_sub d d' \<Longrightarrow> map_of d k = Some v \<Longrightarrow> \<exists>w. map_of d' k = Some w \<and> py_eq v w"
  by (induction d) (auto split: option.splits if_splits)

lemma dict_eq_lookup:
  "dict_eq d d' \<Longrightarrow> map_of d k = Some v \<Longrightarrow> \<exists>w. map_of d' k = Some w \<and> py_eq v w"
  by (auto simp: dict_eq_def intro: dict_sub_map_of)

text \<open>A string equals only itself, so equal records agree on their string fields.\<close>

lemma py_eq_PStr_left [simp]: "py_eq (PStr s) v \<longleftrightarrow> v = PStr s"
  by (auto simp: scalar_eq_def num_view_def)

lemma num_view_PStr [simp]: "num_view (PStr s) = None"
  by (simp add: num_view_def)

lemma scalar_eq_PStr: "scalar_eq v (PStr s) \<Longrightarrow> v = PStr s"
  by (auto simp: scalar_eq_def split: option.splits)

lemma py_eq_PStr_right [simp]: "py_eq v (PStr s) \<longleftrightarrow> v = PStr s"
  by (cases v) (auto dest: scalar_eq_PStr simp: scalar_eq_refl)

lemma py_eq_PNone_left [simp]: "py_eq PNone v \<longleftrightarrow> v = PNone"
  by (auto simp: scalar_eq_def num_view_def)

lemma py_eq_PInt [simp]: "py_eq (PInt i) (PInt j) \<longleftrightarrow> i = j"
  by (simp add: scalar_eq_def num_view_def)

lemma py_eq_PBool [simp]: "py_eq (PBool b) (PBool c) \<longleftrightarrow> b = c"
  by (simp add: scalar_eq_def num_view_def)

text \<open>The numeric tower: a boolean equals the integer of its truth value.\<close>

lemma scalar_eq_same [simp]:
  "scalar_eq (PInt i) (PInt j) \<longleftrightarrow> i = j"
  "scalar_eq (PBool b) (PBool c) \<longleftrightarrow> b = c"
  by (auto simp: scalar_eq_def num_view_def)

lemma py_eq_PBool_PInt: "py_eq (PBool b) (PInt i) \<longleftrightarrow> i = (if b then 1 else 0)"
  by (auto simp: scalar_eq_def num_view_def)

lemma smap_eq_refl: "distinct (map fst d) \<Longrightarrow> smap_eq d d"
  by (auto simp: smap_eq_def list_all_iff)

lemma smap_eq_map_of:
  assumes "smap_eq d d'" "distinct (map fst d)" "distinct (map fst d')"
  shows "map_of d = map_of d'"
proof -
  have sub: "set d \<subseteq> set d'"
    using assms by (auto simp: smap_eq_def list_all_iff dest: map_of_SomeD)
  have "card (set d) = card (set d')"
    using assms by (simp add: smap_eq_def distinct_card distinct_map)
  with sub have "set d = set d'" by (simp add: card_subset_eq)
  then show ?thesis using assms by (simp add: map_of_inject_set)
qed

section \<open>Strings\<close>

text \<open>A lone surrogate (U+D800 to U+DFFF) in the generalised encoding: ED A0..BF xx.\<close>

fun has_surrogate :: "string \<Rightarrow> bool" where
  "has_surrogate (a # b # s) = (of_char a = (237 :: nat) \<and> 160 \<le> (of_char b :: nat) \<or> has_surrogate (b # s))"
| "has_surrogate _ = False"

text \<open>
  \<open>any(character.isspace() for character in s)\<close>, on the UTF-8 bytes of \<open>s\<close>: the ASCII white
  space and the encodings of U+0085, U+00A0, U+1680, U+2000 to U+200A, U+2028, U+2029, U+202F,
  U+205F and U+3000.
\<close>

definition ascii_space :: "char \<Rightarrow> bool" where
  "ascii_space c = (let n = of_char c :: nat in 9 \<le> n \<and> n \<le> 13 \<or> 28 \<le> n \<and> n \<le> 32)"

definition space2 :: "char \<Rightarrow> char \<Rightarrow> bool" where
  "space2 a b = (of_char a = (194 :: nat) \<and> (of_char b = (133 :: nat) \<or> of_char b = (160 :: nat)))"

definition space3 :: "char \<Rightarrow> char \<Rightarrow> char \<Rightarrow> bool" where
  "space3 a b c = (let x = of_char a :: nat; y = of_char b :: nat; z = of_char c :: nat in
     x = 225 \<and> y = 154 \<and> z = 128
   \<or> x = 226 \<and> y = 128 \<and> (z \<le> 138 \<or> z = 168 \<or> z = 169 \<or> z = 175)
   \<or> x = 226 \<and> y = 129 \<and> z = 159
   \<or> x = 227 \<and> y = 128 \<and> z = 128)"

fun has_space :: "string \<Rightarrow> bool" where
  "has_space [] = False"
| "has_space [a] = ascii_space a"
| "has_space [a, b] = (ascii_space a \<or> space2 a b \<or> has_space [b])"
| "has_space (a # b # c # s) =
     (ascii_space a \<or> space2 a b \<or> space3 a b c \<or> has_space (b # c # s))"

text \<open>\<open>str(n)\<close> of an integer, in decimal.\<close>

fun nat_digits :: "nat \<Rightarrow> string" where
  "nat_digits n = (if n < 10 then [char_of (48 + n)] else nat_digits (n div 10) @ [char_of (48 + n mod 10)])"

declare nat_digits.simps [simp del]

definition int_str :: "int \<Rightarrow> string" where
  "int_str i = (if i < 0 then CHR ''-'' # nat_digits (nat (- i)) else nat_digits (nat i))"

definition is_digit :: "char \<Rightarrow> bool" where
  "is_digit c = (let n = of_char c :: nat in 48 \<le> n \<and> n \<le> 57)"

definition digit_val :: "char \<Rightarrow> int" where
  "digit_val c = int (of_char c) - 48"

definition digits_val :: "string \<Rightarrow> int" where
  "digits_val s = foldl (\<lambda>n c. 10 * n + digit_val c) 0 s"

lemma of_char_digit: "n < 10 \<Longrightarrow> of_char (char_of (48 + n) :: char) = (48 + n :: nat)"
  by (simp add: of_char_of take_bit_eq_mod)

lemma is_digit_char_of [simp]: "n < 10 \<Longrightarrow> is_digit (char_of (48 + n :: nat))"
  by (simp only: is_digit_def of_char_digit Let_def) simp

lemma digit_val_char_of [simp]: "n < 10 \<Longrightarrow> digit_val (char_of (48 + n :: nat)) = int n"
proof -
  assume "n < 10"
  then have "int (of_char (char_of (48 + n) :: char)) = int (48 + n)" by (simp only: of_char_digit)
  then show ?thesis unfolding digit_val_def by linarith
qed

lemma digits_val_snoc: "digits_val (s @ [c]) = 10 * digits_val s + digit_val c"
  by (simp add: digits_val_def)

lemma list_all_nat_digits: "list_all is_digit (nat_digits n)"
proof (induction n rule: nat_digits.induct)
  case (1 n)
  then show ?case by (subst nat_digits.simps) auto
qed

lemma nat_digits_nonempty [simp]: "nat_digits n \<noteq> []"
  by (subst nat_digits.simps) simp

lemma digits_val_nat_digits [simp]: "digits_val (nat_digits n) = int n"
proof (induction n rule: nat_digits.induct)
  case (1 n)
  show ?case
  proof (cases "n < 10")
    case True
    then show ?thesis by (subst nat_digits.simps) (simp add: digits_val_def)
  next
    case False
    then have "int n = 10 * int (n div 10) + int (n mod 10)" by presburger
    with 1 False show ?thesis by (subst nat_digits.simps) (simp add: digits_val_snoc)
  qed
qed

lemma nat_digits_inject [simp]: "nat_digits m = nat_digits n \<longleftrightarrow> m = n"
  by (metis digits_val_nat_digits of_nat_eq_iff)

end
