(* ===== verification/Errors.thy ===== *)
theory Errors
  imports PyValues
begin

text \<open>
  \<open>errors.py\<close>: the package's failures as one \<open>datatype\<close> of exceptions. Every class of the
  source is a function that builds its value: the code, the default message and the category of
  its constructor. Exceptions of the packages the source imports carry the class the source tests
  for and the category it reads; the builtin ones carry their message.
\<close>

datatype error_code =
    INVALID_PAYLOAD
  | IDENTITY_CONFLICT
  | STALE_CHANNEL_POINTER
  | INCOMPATIBLE_PROFILE
  | RESOURCE_NOT_FOUND
  | MISSING_OBJECT
  | DIGEST_MISMATCH
  | FORBIDDEN_DELETION
  | INCOMPLETE_PUBLICATION
  | INVALID_RESULT
  | SCHEMA_UNAVAILABLE

definition code_value :: "error_code \<Rightarrow> string" where
  "code_value c = ''MERIDIAN_CONFIG_ARTIFACT_'' @ (case c of
     INVALID_PAYLOAD \<Rightarrow> ''INVALID_PAYLOAD''
   | IDENTITY_CONFLICT \<Rightarrow> ''IDENTITY_CONFLICT''
   | STALE_CHANNEL_POINTER \<Rightarrow> ''STALE_CHANNEL_POINTER''
   | INCOMPATIBLE_PROFILE \<Rightarrow> ''INCOMPATIBLE_PROFILE''
   | RESOURCE_NOT_FOUND \<Rightarrow> ''RESOURCE_NOT_FOUND''
   | MISSING_OBJECT \<Rightarrow> ''MISSING_OBJECT''
   | DIGEST_MISMATCH \<Rightarrow> ''DIGEST_MISMATCH''
   | FORBIDDEN_DELETION \<Rightarrow> ''FORBIDDEN_DELETION''
   | INCOMPLETE_PUBLICATION \<Rightarrow> ''INCOMPLETE_PUBLICATION''
   | INVALID_RESULT \<Rightarrow> ''INVALID_RESULT''
   | SCHEMA_UNAVAILABLE \<Rightarrow> ''SCHEMA_UNAVAILABLE'')"

text \<open>The members of Core's \<open>ErrorCategory\<close> that the source names; any other by its name.\<close>

datatype error_category =
    VALIDATION | CONFLICT | COMPATIBILITY | NOT_FOUND | CORRUPTION | CONSTRAINT | TRANSIENT
  | CONFIGURATION | OtherCategory string

text \<open>
  Core's \<open>SafeCause\<close>: the type and code the source passes, or what \<open>SafeCause.from_exception\<close>
  makes of an exception, which is Core's own affair and named here by the exception's type only.
\<close>

datatype cause = SafeCause string string | FromException string

text \<open>The keyword details the source passes: \<open>resource_ref\<close>, \<open>cause\<close> and \<open>retryable\<close>.\<close>

record details =
  d_resource_ref :: "string option"
  d_cause :: "cause option"
  d_retryable :: "bool option"

definition no_details :: details where
  "no_details = \<lparr>d_resource_ref = None, d_cause = None, d_retryable = None\<rparr>"

definition about_ref :: "string \<Rightarrow> details" where
  "about_ref r = no_details\<lparr>d_resource_ref := Some r\<rparr>"

definition caused_by :: "cause \<Rightarrow> details" where
  "caused_by c = no_details\<lparr>d_cause := Some c\<rparr>"

text \<open>Exception classes of \<open>meridian_storage\<close> that the source distinguishes.\<close>

datatype foreign_class =
    ConditionalConflict | ImmutableObjectConflict | ObjectNotFound | OtherMeridian string

datatype exn =
    ConfigArtifactError error_code string error_category details
  | ForeignError foreign_class string error_category
  | ValueError string
  | TypeError string
  | KeyError string
  | RuntimeError string
  | OtherException string

section \<open>The package's error classes\<close>

definition InvalidPayload :: "string \<Rightarrow> details \<Rightarrow> exn" where
  "InvalidPayload msg d = ConfigArtifactError INVALID_PAYLOAD msg VALIDATION d"

definition IdentityConflict_msg :: "string \<Rightarrow> details \<Rightarrow> exn" where
  "IdentityConflict_msg msg d = ConfigArtifactError IDENTITY_CONFLICT msg CONFLICT d"

definition IdentityConflict :: "details \<Rightarrow> exn" where
  "IdentityConflict d = IdentityConflict_msg ''resource identity already has another digest'' d"

definition StaleChannelPointer :: "details \<Rightarrow> exn" where
  "StaleChannelPointer d =
     ConfigArtifactError STALE_CHANNEL_POINTER ''channel pointer version is stale'' CONFLICT d"

definition IncompatibleProfile :: "string \<Rightarrow> details \<Rightarrow> exn" where
  "IncompatibleProfile msg d = ConfigArtifactError INCOMPATIBLE_PROFILE msg COMPATIBILITY d"

definition ResourceNotFound :: "details \<Rightarrow> exn" where
  "ResourceNotFound d =
     ConfigArtifactError RESOURCE_NOT_FOUND ''stored resource was not found'' NOT_FOUND d"

definition MissingObject :: "details \<Rightarrow> exn" where
  "MissingObject d =
     ConfigArtifactError MISSING_OBJECT ''published artifact Object is missing'' NOT_FOUND d"

definition ArtifactDigestMismatch_msg :: "string \<Rightarrow> details \<Rightarrow> exn" where
  "ArtifactDigestMismatch_msg msg d = ConfigArtifactError DIGEST_MISMATCH msg CORRUPTION d"

definition ArtifactDigestMismatch :: "details \<Rightarrow> exn" where
  "ArtifactDigestMismatch d =
     ArtifactDigestMismatch_msg ''artifact digest verification failed'' d"

definition ForbiddenDeletion :: "details \<Rightarrow> exn" where
  "ForbiddenDeletion d =
     ConfigArtifactError FORBIDDEN_DELETION ''published resource deletion is forbidden'' CONSTRAINT d"

text \<open>\<open>details.setdefault("retryable", True)\<close>.\<close>

definition IncompletePublication :: "string \<Rightarrow> details \<Rightarrow> exn" where
  "IncompletePublication msg d =
     ConfigArtifactError INCOMPLETE_PUBLICATION msg TRANSIENT
       (d\<lparr>d_retryable := Some (case d_retryable d of None \<Rightarrow> True | Some b \<Rightarrow> b)\<rparr>)"

definition InvalidRepositoryResult :: "string \<Rightarrow> details \<Rightarrow> exn" where
  "InvalidRepositoryResult msg d = ConfigArtifactError INVALID_RESULT msg CORRUPTION d"

definition SchemaUnavailable :: "string \<Rightarrow> details \<Rightarrow> exn" where
  "SchemaUnavailable msg d = ConfigArtifactError SCHEMA_UNAVAILABLE msg CONFIGURATION d"

section \<open>What an \<open>except\<close> clause asks of an exception\<close>

text \<open>\<open>isinstance(exc, MeridianError)\<close> and, for those, \<open>exc.category\<close>.\<close>

definition is_meridian_error :: "exn \<Rightarrow> bool" where
  "is_meridian_error e =
     (case e of ConfigArtifactError _ _ _ _ \<Rightarrow> True | ForeignError _ _ _ \<Rightarrow> True | _ \<Rightarrow> False)"

definition category_of :: "exn \<Rightarrow> error_category option" where
  "category_of e = (case e of
     ConfigArtifactError _ _ c _ \<Rightarrow> Some c | ForeignError _ _ c \<Rightarrow> Some c | _ \<Rightarrow> None)"

definition has_code :: "error_code \<Rightarrow> exn \<Rightarrow> bool" where
  "has_code c e = (case e of ConfigArtifactError c' _ _ _ \<Rightarrow> c' = c | _ \<Rightarrow> False)"

definition is_conflict :: "exn \<Rightarrow> bool" where
  "is_conflict e = (category_of e = Some CONFLICT)"

definition is_not_found :: "exn \<Rightarrow> bool" where
  "is_not_found e = (category_of e = Some NOT_FOUND)"

definition is_foreign :: "foreign_class \<Rightarrow> exn \<Rightarrow> bool" where
  "is_foreign c e = (case e of ForeignError c' _ _ \<Rightarrow> c' = c | _ \<Rightarrow> False)"

text \<open>\<open>except (KeyError, TypeError, ValueError)\<close>.\<close>

definition is_parse_error :: "exn \<Rightarrow> bool" where
  "is_parse_error e = (case e of
     KeyError _ \<Rightarrow> True | TypeError _ \<Rightarrow> True | ValueError _ \<Rightarrow> True | _ \<Rightarrow> False)"

text \<open>\<open>except (TypeError, ValueError)\<close>.\<close>

definition is_value_error :: "exn \<Rightarrow> bool" where
  "is_value_error e = (case e of TypeError _ \<Rightarrow> True | ValueError _ \<Rightarrow> True | _ \<Rightarrow> False)"

definition type_name :: "exn \<Rightarrow> string" where
  "type_name e = (case e of
     ConfigArtifactError c _ _ _ \<Rightarrow> (case c of
         INVALID_PAYLOAD \<Rightarrow> ''InvalidPayload''
       | IDENTITY_CONFLICT \<Rightarrow> ''IdentityConflict''
       | STALE_CHANNEL_POINTER \<Rightarrow> ''StaleChannelPointer''
       | INCOMPATIBLE_PROFILE \<Rightarrow> ''IncompatibleProfile''
       | RESOURCE_NOT_FOUND \<Rightarrow> ''ResourceNotFound''
       | MISSING_OBJECT \<Rightarrow> ''MissingObject''
       | DIGEST_MISMATCH \<Rightarrow> ''ArtifactDigestMismatch''
       | FORBIDDEN_DELETION \<Rightarrow> ''ForbiddenDeletion''
       | INCOMPLETE_PUBLICATION \<Rightarrow> ''IncompletePublication''
       | INVALID_RESULT \<Rightarrow> ''InvalidRepositoryResult''
       | SCHEMA_UNAVAILABLE \<Rightarrow> ''SchemaUnavailable'')
   | ForeignError c _ _ \<Rightarrow> (case c of
         ConditionalConflict \<Rightarrow> ''ConditionalConflict''
       | ImmutableObjectConflict \<Rightarrow> ''ImmutableObjectConflict''
       | ObjectNotFound \<Rightarrow> ''ObjectNotFound''
       | OtherMeridian n \<Rightarrow> n)
   | ValueError _ \<Rightarrow> ''ValueError''
   | TypeError _ \<Rightarrow> ''TypeError''
   | KeyError _ \<Rightarrow> ''KeyError''
   | RuntimeError _ \<Rightarrow> ''RuntimeError''
   | OtherException n \<Rightarrow> n)"

definition safe_cause :: "exn \<Rightarrow> cause" where
  "safe_cause e = (case e of
     ConfigArtifactError c _ _ _ \<Rightarrow> SafeCause (type_name e) (code_value c)
   | ForeignError _ code _ \<Rightarrow> SafeCause (type_name e) code
   | _ \<Rightarrow> FromException (type_name e))"

lemmas error_defs =
  InvalidPayload_def IdentityConflict_msg_def IdentityConflict_def StaleChannelPointer_def
  IncompatibleProfile_def ResourceNotFound_def MissingObject_def ArtifactDigestMismatch_msg_def
  ArtifactDigestMismatch_def ForbiddenDeletion_def IncompletePublication_def
  InvalidRepositoryResult_def SchemaUnavailable_def

lemmas except_defs =
  is_meridian_error_def category_of_def has_code_def is_conflict_def is_not_found_def
  is_foreign_def is_parse_error_def is_value_error_def

lemma is_conflict_meridian: "is_conflict e \<Longrightarrow> is_meridian_error e"
  by (auto simp: except_defs split: exn.splits)

lemma is_not_found_meridian: "is_not_found e \<Longrightarrow> is_meridian_error e"
  by (auto simp: except_defs split: exn.splits)

lemma code_value_inject [simp]: "code_value c = code_value c' \<longleftrightarrow> c = c'"
  by (cases c; cases c') (simp_all add: code_value_def)

lemma has_code_simps [simp]:
  "has_code c (ConfigArtifactError c' m g d) \<longleftrightarrow> c' = c"
  "\<not> has_code c (ValueError m)" "\<not> has_code c (TypeError m)" "\<not> has_code c (RuntimeError m)"
  "\<not> has_code c (KeyError m)" "\<not> has_code c (OtherException m)" "\<not> has_code c (ForeignError f m g)"
  by (simp_all add: has_code_def)

end
