(* ===== verification/Timestamps.thy ===== *)
theory Timestamps
  imports Errors "HOL-Library.Monad_Syntax"
begin

text \<open>
  The UTC timestamps of \<open>_canonical.py\<close>, with what they use of \<open>datetime\<close>: a civil date and time,
  \<open>strptime\<close> and \<open>strftime\<close> for the two templates of \<open>utc_timestamp\<close>, and \<open>astimezone(UTC)\<close>.
  \<open>strptime\<close> takes one or two digits in a field and either case of a template letter; a year is
  four digits. \<open>%Y\<close> is printed with four digits. \<open>bounded_string\<close> stands here because the
  timestamp reader is its first caller.
\<close>

section \<open>Bounded strings\<close>

definition control_char :: "char \<Rightarrow> bool" where
  "control_char c = (let n = of_char c :: nat in n < 32 \<or> n = 127)"

definition bounded_string :: "pyval \<Rightarrow> string \<Rightarrow> nat \<Rightarrow> (exn, string) result" where
  "bounded_string v field_name maximum = (case v of
     PStr s \<Rightarrow>
       (if s = [] then Inl (ValueError (field_name @ '' must be a bounded non-empty printable string''))
        else if has_surrogate s then Inl (ValueError ''surrogates not allowed'')
        else if maximum < length s \<or> list_ex control_char s
        then Inl (ValueError (field_name @ '' must be a bounded non-empty printable string''))
        else Inr s)
   | _ \<Rightarrow> Inl (ValueError (field_name @ '' must be a bounded non-empty printable string'')))"

definition bounded_ok :: "nat \<Rightarrow> string \<Rightarrow> bool" where
  "bounded_ok maximum s = (s \<noteq> [] \<and> \<not> has_surrogate s \<and> length s \<le> maximum
     \<and> \<not> list_ex control_char s)"

lemma bounded_string_Inr_iff [flow]:
  "bounded_string v f n = Inr s \<longleftrightarrow> v = PStr s \<and> bounded_ok n s"
  by (cases v) (auto simp: bounded_string_def bounded_ok_def)

lemma bounded_string_PStr: "bounded_ok n s \<Longrightarrow> bounded_string (PStr s) f n = Inr s"
  by (simp add: flow)

lemma bounded_string_error: "bounded_string v f n = Inl e \<Longrightarrow> \<exists>m. e = ValueError m"
  by (cases v) (auto simp: bounded_string_def split: if_splits)

section \<open>Civil dates\<close>

record civil =
  c_year :: int
  c_month :: int
  c_day :: int
  c_hour :: int
  c_minute :: int
  c_second :: int
  c_micro :: int

definition is_leap :: "int \<Rightarrow> bool" where
  "is_leap y = (y mod 4 = 0 \<and> (y mod 100 \<noteq> 0 \<or> y mod 400 = 0))"

definition days_in_month :: "int \<Rightarrow> int \<Rightarrow> int" where
  "days_in_month y m =
     (if m = 2 then (if is_leap y then 29 else 28)
      else if m \<in> {4, 6, 9, 11} then 30 else 31)"

text \<open>What the \<open>datetime\<close> constructor accepts.\<close>

definition civil_ok :: "civil \<Rightarrow> bool" where
  "civil_ok c = (1 \<le> c_year c \<and> c_year c \<le> 9999 \<and> 1 \<le> c_month c \<and> c_month c \<le> 12
     \<and> 1 \<le> c_day c \<and> c_day c \<le> days_in_month (c_year c) (c_month c)
     \<and> 0 \<le> c_hour c \<and> c_hour c \<le> 23 \<and> 0 \<le> c_minute c \<and> c_minute c \<le> 59
     \<and> 0 \<le> c_second c \<and> c_second c \<le> 59 \<and> 0 \<le> c_micro c \<and> c_micro c \<le> 999999)"

lemma days_in_month_le [simp]: "days_in_month y m \<le> 31"
  by (simp add: days_in_month_def)

section \<open>\<open>strftime\<close>\<close>

definition dec_digit :: "int \<Rightarrow> char" where
  "dec_digit n = ''0123456789'' ! nat n"

fun pad :: "nat \<Rightarrow> int \<Rightarrow> string" where
  "pad 0 n = []"
| "pad (Suc k) n = pad k (n div 10) @ [dec_digit (n mod 10)]"

definition format_utc :: "civil \<Rightarrow> string" where
  "format_utc c = pad 4 (c_year c) @ ''-'' @ pad 2 (c_month c) @ ''-'' @ pad 2 (c_day c) @ ''T''
     @ pad 2 (c_hour c) @ '':'' @ pad 2 (c_minute c) @ '':'' @ pad 2 (c_second c) @ ''.''
     @ pad 6 (c_micro c) @ ''Z''"

section \<open>\<open>strptime\<close>\<close>

definition num_field :: "nat \<Rightarrow> nat \<Rightarrow> int \<Rightarrow> int \<Rightarrow> string \<Rightarrow> (int \<times> string) option" where
  "num_field mn mx lo hi s =
     (let ds = takeWhile is_digit s in
      if mn \<le> length ds \<and> length ds \<le> mx \<and> lo \<le> digits_val ds \<and> digits_val ds \<le> hi
      then Some (digits_val ds, dropWhile is_digit s) else None)"

text \<open>The day may be a blank and one digit.\<close>

definition day_field :: "string \<Rightarrow> (int \<times> string) option" where
  "day_field s = (case s of
     [] \<Rightarrow> None
   | c # r \<Rightarrow> if c = CHR '' '' then num_field 1 1 1 9 r else num_field 1 2 1 31 s)"

text \<open>Up to six digits of a second, read as microseconds.\<close>

definition micro_field :: "string \<Rightarrow> (int \<times> string) option" where
  "micro_field s =
     (let ds = takeWhile is_digit s in
      if 1 \<le> length ds \<and> length ds \<le> 6
      then Some (digits_val ds * 10 ^ (6 - length ds), dropWhile is_digit s) else None)"

definition lit :: "char \<Rightarrow> char \<Rightarrow> string \<Rightarrow> string option" where
  "lit a b s = (case s of [] \<Rightarrow> None | c # r \<Rightarrow> if c = a \<or> c = b then Some r else None)"

definition parse_utc :: "string \<Rightarrow> civil option" where
  "parse_utc s = do {
     (y, s1) \<leftarrow> num_field 4 4 0 9999 s; s1 \<leftarrow> lit CHR ''-'' CHR ''-'' s1;
     (mo, s2) \<leftarrow> num_field 1 2 1 12 s1; s2 \<leftarrow> lit CHR ''-'' CHR ''-'' s2;
     (d, s3) \<leftarrow> day_field s2; s3 \<leftarrow> lit CHR ''T'' CHR ''t'' s3;
     (h, s4) \<leftarrow> num_field 1 2 0 23 s3; s4 \<leftarrow> lit CHR '':'' CHR '':'' s4;
     (mi, s5) \<leftarrow> num_field 1 2 0 59 s4; s5 \<leftarrow> lit CHR '':'' CHR '':'' s5;
     (sec, s6) \<leftarrow> num_field 1 2 0 61 s5;
     (us, s7) \<leftarrow> (if CHR ''.'' \<in> set s
        then do { r \<leftarrow> lit CHR ''.'' CHR ''.'' s6; micro_field r } else Some (0, s6));
     s8 \<leftarrow> lit CHR ''Z'' CHR ''z'' s7;
     let c = \<lparr>c_year = y, c_month = mo, c_day = d, c_hour = h, c_minute = mi, c_second = sec,
              c_micro = us\<rparr>;
     if s8 = [] \<and> civil_ok c then Some c else None
   }"

section \<open>\<open>astimezone(UTC)\<close>\<close>

text \<open>A \<open>datetime\<close>: its civil fields and its UTC offset in microseconds, none when naive.\<close>

record datetime =
  dt_civil :: civil
  dt_offset :: "int option"

definition days_before_year :: "int \<Rightarrow> int" where
  "days_before_year y = (y - 1) * 365 + (y - 1) div 4 - (y - 1) div 100 + (y - 1) div 400"

definition days_before_month :: "int \<Rightarrow> int \<Rightarrow> int" where
  "days_before_month y m = sum_list (map (days_in_month y) [1..m - 1])"

definition ymd2ord :: "int \<Rightarrow> int \<Rightarrow> int \<Rightarrow> int" where
  "ymd2ord y m d = days_before_year y + days_before_month y m + d"

fun find_month :: "int \<Rightarrow> int list \<Rightarrow> int \<Rightarrow> int \<times> int" where
  "find_month y [] n = (12, n + 1)"
| "find_month y (m # ms) n =
     (if n < days_in_month y m then (m, n + 1) else find_month y ms (n - days_in_month y m))"

definition ord2ymd :: "int \<Rightarrow> int \<times> int \<times> int" where
  "ord2ymd ord =
     (let n = ord - 1; n400 = n div 146097; n = n mod 146097;
          n100 = n div 36524; n = n mod 36524; n4 = n div 1461; n = n mod 1461;
          n1 = n div 365; n = n mod 365;
          y = n400 * 400 + 1 + n100 * 100 + n4 * 4 + n1
      in if n1 = 4 \<or> n100 = 4 then (y - 1, 12, 31)
         else (case find_month y [1..12] n of (m, d) \<Rightarrow> (y, m, d)))"

definition micros_of :: "civil \<Rightarrow> int" where
  "micros_of c = (((ymd2ord (c_year c) (c_month c) (c_day c) * 24 + c_hour c) * 60 + c_minute c) * 60
     + c_second c) * 1000000 + c_micro c"

definition civil_of_micros :: "int \<Rightarrow> civil" where
  "civil_of_micros t =
     (case ord2ymd (t div 86400000000) of (y, m, d) \<Rightarrow>
        \<lparr>c_year = y, c_month = m, c_day = d, c_hour = t div 3600000000 mod 24,
         c_minute = t div 60000000 mod 60, c_second = t div 1000000 mod 60,
         c_micro = t mod 1000000\<rparr>)"

text \<open>The fields stay as they are at offset zero; a result outside years 1 to 9999 overflows.\<close>

definition to_utc :: "civil \<Rightarrow> int \<Rightarrow> (exn, civil) result" where
  "to_utc c off =
     (if off = 0 then Inr c
      else let t = micros_of c - off; d = t div 86400000000 in
        if 1 \<le> d \<and> d \<le> 3652059 then Inr (civil_of_micros t)
        else Inl (OtherException ''OverflowError''))"

section \<open>\<open>utc_timestamp\<close>\<close>

definition utc_of_datetime :: "datetime \<Rightarrow> (exn, string) result" where
  "utc_of_datetime v = (case dt_offset v of
     None \<Rightarrow> Inl (ValueError ''timestamp must be timezone-aware'')
   | Some off \<Rightarrow> rbind (to_utc (dt_civil v) off) (\<lambda>c. Inr (format_utc c)))"

definition utc_of_value :: "pyval \<Rightarrow> (exn, string) result" where
  "utc_of_value v = rbind (bounded_string v ''timestamp'' 64) (\<lambda>selected.
     (case parse_utc selected of
        None \<Rightarrow> Inl (ValueError ''timestamp must be UTC RFC 3339 with optional microseconds'')
      | Some c \<Rightarrow> Inr (format_utc c)))"

section \<open>Reading back what is printed\<close>

lemma length_pad [simp]: "length (pad k n) = k"
  by (induction k arbitrary: n) simp_all

lemma dec_digit_props:
  assumes "0 \<le> n" "n < 10"
  shows "is_digit (dec_digit n)" "digit_val (dec_digit n) = n" "\<not> control_char (dec_digit n)"
    "of_char (dec_digit n) < (128 :: nat)"
proof -
  have n: "n = 0 \<or> n = 1 \<or> n = 2 \<or> n = 3 \<or> n = 4 \<or> n = 5 \<or> n = 6 \<or> n = 7 \<or> n = 8 \<or> n = 9"
    using assms by presburger
  show "is_digit (dec_digit n)" "digit_val (dec_digit n) = n" "\<not> control_char (dec_digit n)"
    "of_char (dec_digit n) < (128 :: nat)"
    using n by (auto simp: is_digit_def digit_val_def dec_digit_def control_char_def)
qed

lemma pad_digits: "list_all is_digit (pad k n)"
  by (induction k arbitrary: n) (simp_all add: dec_digit_props)

lemma digits_val_pad: "0 \<le> n \<Longrightarrow> n < 10 ^ k \<Longrightarrow> digits_val (pad k n) = n"
proof (induction k arbitrary: n)
  case 0
  then show ?case by (simp add: digits_val_def)
next
  case (Suc k)
  then have "n div 10 < 10 ^ k" by (simp add: int_div_less_self flip: zdiv_mono1)
  with Suc show ?case by (simp add: digits_val_snoc dec_digit_props)
qed

lemma takeWhile_pad [simp]:
  "\<not> is_digit c \<Longrightarrow> takeWhile is_digit (pad k n @ c # r) = pad k n"
  "\<not> is_digit c \<Longrightarrow> dropWhile is_digit (pad k n @ c # r) = c # r"
  using pad_digits [of k n] by (simp_all add: list_all_iff)

lemma num_field_pad:
  assumes "\<not> is_digit c" "mn \<le> k" "k \<le> mx" "0 \<le> lo" "lo \<le> n" "n \<le> hi" "n < 10 ^ k"
  shows "num_field mn mx lo hi (pad k n @ c # r) = Some (n, c # r)"
  using assms by (simp add: num_field_def digits_val_pad)

lemma pad_2_Cons: "pad 2 n = [dec_digit (n div 10 mod 10), dec_digit (n mod 10)]"
  by (simp add: numeral_2_eq_2)

lemma day_field_pad:
  assumes "\<not> is_digit c" "1 \<le> n" "n \<le> 31"
  shows "day_field (pad 2 n @ c # r) = Some (n, c # r)"
proof -
  have "dec_digit (n div 10 mod 10) \<noteq> CHR '' ''"
    using dec_digit_props(1) [of "n div 10 mod 10"] by (auto simp: is_digit_def)
  then have "day_field (pad 2 n @ c # r) = num_field 1 2 1 31 (pad 2 n @ c # r)"
    by (simp add: day_field_def pad_2_Cons)
  then show ?thesis using assms by (simp add: num_field_pad)
qed

lemma micro_field_pad:
  assumes "\<not> is_digit c" "0 \<le> n" "n \<le> 999999"
  shows "micro_field (pad 6 n @ c # r) = Some (n, c # r)"
  using assms by (simp add: micro_field_def digits_val_pad)

lemma not_digit_seps [simp]:
  "\<not> is_digit CHR ''-''" "\<not> is_digit CHR ''T''" "\<not> is_digit CHR '':''" "\<not> is_digit CHR ''.''"
  "\<not> is_digit CHR ''Z''"
  by (simp_all add: is_digit_def)

lemma parse_format_utc:
  assumes "civil_ok c"
  shows "parse_utc (format_utc c) = Some c"
proof -
  have "c_day c \<le> 31" using assms days_in_month_le order_trans by (fastforce simp: civil_ok_def)
  then show ?thesis
    using assms
    by (simp add: parse_utc_def format_utc_def num_field_pad day_field_pad micro_field_pad lit_def
        civil_ok_def)
qed

lemma format_utc_bounded:
  "bounded_ok 64 (format_utc c)"
proof -
  have ascii: "\<not> has_surrogate s" if "list_all (\<lambda>c. of_char c < (128 :: nat)) s" for s
    using that by (induction s rule: has_surrogate.induct) auto
  have p: "list_all (\<lambda>c. of_char c < (128 :: nat) \<and> \<not> control_char c) (pad k n)" for k n
    by (induction k arbitrary: n) (simp_all add: dec_digit_props)
  then have q: "list_all (\<lambda>c. of_char c < (128 :: nat)) (pad k n)" "\<not> list_ex control_char (pad k n)" for k n
    by (force simp: list_all_iff list_ex_iff)+
  show ?thesis
    unfolding bounded_ok_def
    by (intro conjI ascii) (simp_all add: format_utc_def q control_char_def)
qed

lemma utc_of_value_format: "civil_ok c \<Longrightarrow> utc_of_value (PStr (format_utc c)) = Inr (format_utc c)"
  by (simp add: utc_of_value_def bounded_string_PStr format_utc_bounded parse_format_utc)

lemma parse_utc_ok: "parse_utc s = Some c \<Longrightarrow> civil_ok c"
  by (auto simp: parse_utc_def bind_eq_Some_conv Let_def split: if_splits prod.splits)

lemma utc_of_value_Inr:
  assumes "utc_of_value v = Inr t"
  obtains s c where "v = PStr s" "parse_utc s = Some c" "civil_ok c" "t = format_utc c"
proof -
  from assms obtain s c where p: "v = PStr s" "parse_utc s = Some c" "t = format_utc c"
    by (auto simp: utc_of_value_def flow split: option.splits)
  show ?thesis by (rule that [OF p(1,2) parse_utc_ok [OF p(2)] p(3)])
qed

lemma utc_of_value_idem: "utc_of_value v = Inr t \<Longrightarrow> utc_of_value (PStr t) = Inr t"
  by (elim utc_of_value_Inr) (simp add: utc_of_value_format)

lemma utc_of_value_length: "utc_of_value v = Inr t \<Longrightarrow> length t = 27"
  by (elim utc_of_value_Inr) (simp add: format_utc_def)

lemma utc_of_value_error: "utc_of_value v = Inl e \<Longrightarrow> \<exists>m. e = ValueError m"
  by (auto simp: utc_of_value_def flow split: option.splits dest: bounded_string_error)

lemma utc_of_datetime_utc:
  assumes "civil_ok (dt_civil d)" "dt_offset d = Some 0"
  shows "utc_of_datetime d = Inr (format_utc (dt_civil d))"
    "utc_of_value (PStr (format_utc (dt_civil d))) = Inr (format_utc (dt_civil d))"
  using assms by (simp_all add: utc_of_datetime_def to_utc_def utc_of_value_format)

end
