(* ===== verification/PyJson.thy ===== *)
theory PyJson
  imports PyValues "HOL-Library.Monad_Syntax"
begin

text \<open>
  \<open>json.loads\<close> of the standard library on the UTF-8 bytes of its argument: a lexer, then a parser
  that keeps its open arrays and objects on a stack and so recurses on the token list alone.
  \<open>None\<close> is \<open>JSONDecodeError\<close>. Numbers with a fraction or an exponent are rounded to the nearest
  double, ties to even; of two equal keys the later value stays, in the earlier place.
\<close>

section \<open>UTF-8\<close>

definition cont_byte :: "char \<Rightarrow> bool" where
  "cont_byte c = (let n = of_char c :: nat in 128 \<le> n \<and> n \<le> 191)"

definition byte_in :: "nat \<Rightarrow> nat \<Rightarrow> char \<Rightarrow> bool" where
  "byte_in lo hi c = (let n = of_char c in lo \<le> n \<and> n \<le> hi)"

text \<open>The strict decoder's acceptance: shortest forms, no surrogates, at most U+10FFFF.\<close>

definition lead3 :: "char \<Rightarrow> char \<Rightarrow> bool" where
  "lead3 a b = (byte_in 224 224 a \<and> byte_in 160 191 b \<or> byte_in 225 236 a \<and> cont_byte b
     \<or> byte_in 237 237 a \<and> byte_in 128 159 b \<or> byte_in 238 239 a \<and> cont_byte b)"

definition lead4 :: "char \<Rightarrow> char \<Rightarrow> bool" where
  "lead4 a b = (byte_in 240 240 a \<and> byte_in 144 191 b \<or> byte_in 241 243 a \<and> cont_byte b
     \<or> byte_in 244 244 a \<and> byte_in 128 143 b)"

fun utf8_pending :: "(char \<Rightarrow> bool) list \<Rightarrow> string \<Rightarrow> bool" where
  "utf8_pending ps [] = (ps = [])"
| "utf8_pending (p # ps) (c # s) = (p c \<and> utf8_pending ps s)"
| "utf8_pending [] (c # s) =
     (if byte_in 0 127 c then utf8_pending [] s
      else if byte_in 194 223 c then utf8_pending [cont_byte] s
      else if byte_in 224 239 c then utf8_pending [lead3 c, cont_byte] s
      else if byte_in 240 244 c then utf8_pending [lead4 c, cont_byte, cont_byte] s
      else False)"

definition utf8_valid :: "string \<Rightarrow> bool" where
  "utf8_valid s = utf8_pending [] s"

definition encode_cp :: "nat \<Rightarrow> string" where
  "encode_cp n =
     (if n < 128 then [char_of n]
      else if n < 2048 then [char_of (192 + n div 64), char_of (128 + n mod 64)]
      else if n < 65536 then
        [char_of (224 + n div 4096), char_of (128 + n div 64 mod 64), char_of (128 + n mod 64)]
      else [char_of (240 + n div 262144), char_of (128 + n div 4096 mod 64),
            char_of (128 + n div 64 mod 64), char_of (128 + n mod 64)])"

section \<open>Strings\<close>

definition hex_val :: "char \<Rightarrow> nat option" where
  "hex_val c = (let n = of_char c :: nat in
     if 48 \<le> n \<and> n \<le> 57 then Some (n - 48)
     else if 97 \<le> n \<and> n \<le> 102 then Some (n - 87)
     else if 65 \<le> n \<and> n \<le> 70 then Some (n - 55) else None)"

definition hex4 :: "char \<Rightarrow> char \<Rightarrow> char \<Rightarrow> char \<Rightarrow> nat option" where
  "hex4 a b c d = do { w \<leftarrow> hex_val a; x \<leftarrow> hex_val b; y \<leftarrow> hex_val c; z \<leftarrow> hex_val d;
     Some (((w * 16 + x) * 16 + y) * 16 + z) }"

definition escape_char :: "char \<Rightarrow> char option" where
  "escape_char c = map_of
     [(CHR 0x22, CHR 0x22), (CHR 0x5C, CHR 0x5C), (CHR ''/'', CHR ''/''), (CHR ''b'', CHR 0x08),
      (CHR ''f'', CHR 0x0C), (CHR ''n'', CHR 0x0A), (CHR ''r'', CHR 0x0D), (CHR ''t'', CHR 0x09)] c"

text \<open>
  The scanner's pending high surrogate of a \<open>\u\<close> escape: it joins a low one that follows at once,
  and stands alone otherwise.
\<close>

definition flush :: "nat option \<Rightarrow> string" where
  "flush h = (case h of None \<Rightarrow> [] | Some n \<Rightarrow> encode_cp n)"

text \<open>One escape after the backslash: the new pending surrogate, the text it adds, the rest.\<close>

definition scan_u :: "nat option \<Rightarrow> nat \<Rightarrow> nat option \<times> string" where
  "scan_u h n =
     (if 56320 \<le> n \<and> n \<le> 57343 \<and> h \<noteq> None
      then (None, encode_cp (65536 + (the h - 55296) * 1024 + (n - 56320)))
      else if 55296 \<le> n \<and> n \<le> 56319 then (Some n, flush h)
      else (None, flush h @ encode_cp n))"

definition scan_escape :: "nat option \<Rightarrow> string \<Rightarrow> (nat option \<times> string \<times> string) option" where
  "scan_escape h s = (case s of
     [] \<Rightarrow> None
   | e # r \<Rightarrow>
       (if e = CHR ''u'' then
          (if length r < 4 then None
           else (case hex4 (r ! 0) (r ! 1) (r ! 2) (r ! 3) of
                   None \<Rightarrow> None
                 | Some n \<Rightarrow> Some (fst (scan_u h n), snd (scan_u h n), drop 4 r)))
        else (case escape_char e of
                None \<Rightarrow> None
              | Some x \<Rightarrow> Some (None, flush h @ [x], r))))"

lemma scan_escape_shorter: "scan_escape h s = Some (h', t, r) \<Longrightarrow> length r < length s"
  by (cases s) (auto simp: scan_escape_def split: if_splits option.splits)

function scan_str :: "nat option \<Rightarrow> string \<Rightarrow> string \<Rightarrow> (string \<times> string) option" where
  "scan_str h acc [] = None"
| "scan_str h acc (c # s) =
     (if c = CHR 0x22 then Some (acc @ flush h, s)
      else if c = CHR 0x5C then
        (case scan_escape h s of
           None \<Rightarrow> None
         | Some (h', t, r) \<Rightarrow> scan_str h' (acc @ t) r)
      else if (of_char c :: nat) < 32 then None
      else scan_str None (acc @ flush h @ [c]) s)"
  by pat_completeness auto
termination
  by (relation "measure (\<lambda>(h, acc, s). length s)") (auto dest: scan_escape_shorter)

lemma scan_str_shorter: "scan_str h acc s = Some (x, r) \<Longrightarrow> length r < length s"
proof (induction h acc s rule: scan_str.induct)
  case (2 h acc c s)
  then show ?case
    by (fastforce split: if_splits option.splits prod.splits dest: scan_escape_shorter)
qed simp

section \<open>Numbers\<close>

function bit_len :: "int \<Rightarrow> int" where
  "bit_len n = (if n \<le> 0 then 0 else 1 + bit_len (n div 2))"
  by pat_completeness auto
termination
  by (relation "measure nat") auto

declare bit_len.simps [simp del]

definition round_half_even :: "int \<Rightarrow> int \<Rightarrow> int" where
  "round_half_even p q = (let d = p div q; r = p mod q in
     if 2 * r < q \<or> 2 * r = q \<and> even d then d else d + 1)"

text \<open>\<open>p / (q * 2 ^ k)\<close> as a quotient of integers.\<close>

definition scale2 :: "int \<Rightarrow> int \<Rightarrow> int \<Rightarrow> int \<times> int" where
  "scale2 p q k = (if 0 \<le> k then (p, q * 2 ^ nat k) else (p * 2 ^ nat (- k), q))"

definition to_double :: "bool \<Rightarrow> int \<Rightarrow> int \<Rightarrow> pyfloat" where
  "to_double s n e =
     (if n = 0 then FFin s 0 0
      else (let p = (if 0 \<le> e then n * 10 ^ nat e else n);
                q = (if 0 \<le> e then 1 else 10 ^ nat (- e));
                k0 = bit_len p - bit_len q - 53;
                (a, b) = scale2 p q k0;
                k = max (-1074) (if 9007199254740992 * b \<le> a then k0 + 1 else k0);
                (a', b') = scale2 p q k;
                m = round_half_even a' b'
            in if 971 < k \<or> k = 971 \<and> 9007199254740992 \<le> m then FInf s else FFin s m k))"

text \<open>\<open>-?(0|[1-9][0-9]*)\<close>, then an optional fraction and an optional exponent.\<close>

definition scan_frac :: "string \<Rightarrow> string \<times> string" where
  "scan_frac s = (case s of
     c # r \<Rightarrow> (if c = CHR ''.'' \<and> takeWhile is_digit r \<noteq> []
       then (takeWhile is_digit r, dropWhile is_digit r) else ([], s))
   | [] \<Rightarrow> ([], s))"

definition scan_exp :: "string \<Rightarrow> int option \<times> string" where
  "scan_exp s = (case s of
     c # r \<Rightarrow>
       (if c = CHR ''e'' \<or> c = CHR ''E'' then
          (let neg = (r \<noteq> [] \<and> hd r = CHR ''-'');
               r1 = (if r \<noteq> [] \<and> (hd r = CHR ''-'' \<or> hd r = CHR ''+'') then tl r else r);
               ds = takeWhile is_digit r1
           in if ds = [] then (None, s)
              else (Some (if neg then - digits_val ds else digits_val ds),
                    dropWhile is_digit r1))
        else (None, s))
   | [] \<Rightarrow> (None, s))"

definition scan_num :: "string \<Rightarrow> (pyval \<times> string) option" where
  "scan_num s =
     (let neg = (s \<noteq> [] \<and> hd s = CHR ''-'');
          s1 = (if neg then tl s else s);
          ip = (if s1 \<noteq> [] \<and> hd s1 = CHR ''0'' then ''0'' else takeWhile is_digit s1);
          s2 = drop (length ip) s1;
          (fs, s3) = scan_frac s2;
          (ex, s4) = scan_exp s3
      in if ip = [] then None
         else if fs = [] \<and> ex = None then
           (if 4300 < length ip then None
            else Some (PInt (if neg then - digits_val ip else digits_val ip), s4))
         else Some (PFloat (to_double neg (digits_val (ip @ fs))
                     ((case ex of None \<Rightarrow> 0 | Some k \<Rightarrow> k) - int (length fs))), s4))"

lemma scan_frac_shorter: "length (snd (scan_frac s)) \<le> length s"
  by (auto simp: scan_frac_def Let_def length_dropWhile_le le_SucI split: list.split)

lemma scan_exp_shorter: "length (snd (scan_exp s)) \<le> length s"
proof -
  have "length (dropWhile is_digit (tl r)) \<le> Suc (length r)" for r
    using length_dropWhile_le [of is_digit "tl r"] by simp
  then show ?thesis
    by (auto simp: scan_exp_def Let_def length_dropWhile_le le_SucI split: list.split)
qed

lemma scan_num_shorter: "scan_num s = Some (v, r) \<Longrightarrow> length r < length s"
proof -
  assume s: "scan_num s = Some (v, r)"
  define s1 where "s1 = (if s \<noteq> [] \<and> hd s = CHR ''-'' then tl s else s)"
  define ip where "ip = (if s1 \<noteq> [] \<and> hd s1 = CHR ''0'' then ''0'' else takeWhile is_digit s1)"
  define s2 where "s2 = drop (length ip) s1"
  from s have ip: "ip \<noteq> []" and r: "r = snd (scan_exp (snd (scan_frac s2)))"
    by (auto simp: scan_num_def Let_def s1_def ip_def s2_def split: prod.splits if_splits)
  have "length r \<le> length s2"
    unfolding r using scan_frac_shorter scan_exp_shorter le_trans by blast
  moreover have "length s2 < length s1"
    using ip by (cases s1) (auto simp: s2_def ip_def split: if_splits)
  moreover have "length s1 \<le> length s" by (simp add: s1_def)
  ultimately show ?thesis by simp
qed

section \<open>Tokens\<close>

datatype token = TLBrace | TRBrace | TLBracket | TRBracket | TColon | TComma | TStr string | TVal pyval

definition literals :: "(string \<times> pyval) list" where
  "literals = [(''null'', PNone), (''true'', PBool True), (''false'', PBool False),
     (''NaN'', PFloat FNaN), (''Infinity'', PFloat (FInf False)),
     (''-Infinity'', PFloat (FInf True))]"

fun strip_prefix :: "string \<Rightarrow> string \<Rightarrow> string option" where
  "strip_prefix [] s = Some s"
| "strip_prefix (p # ps) [] = None"
| "strip_prefix (p # ps) (c # s) = (if p = c then strip_prefix ps s else None)"

fun scan_literal :: "(string \<times> pyval) list \<Rightarrow> string \<Rightarrow> (pyval \<times> string) option" where
  "scan_literal [] s = None"
| "scan_literal ((n, v) # ls) s =
     (case strip_prefix n s of Some r \<Rightarrow> Some (v, r) | None \<Rightarrow> scan_literal ls s)"

definition punctuation :: "char \<Rightarrow> token option" where
  "punctuation c = map_of
     [(CHR ''{'', TLBrace), (CHR ''}'', TRBrace), (CHR ''['', TLBracket), (CHR '']'', TRBracket),
      (CHR '':'', TColon), (CHR '','', TComma)] c"

definition json_space :: "char \<Rightarrow> bool" where
  "json_space c = (c \<in> {CHR '' '', CHR 0x09, CHR 0x0A, CHR 0x0D})"

definition scan_token :: "char \<Rightarrow> string \<Rightarrow> (token \<times> string) option" where
  "scan_token c s = (case punctuation c of
     Some t \<Rightarrow> Some (t, s)
   | None \<Rightarrow>
       (if c = CHR 0x22 then map_option (map_prod TStr id) (scan_str None [] s)
        else (case scan_literal literals (c # s) of
                Some (v, r) \<Rightarrow> Some (TVal v, r)
              | None \<Rightarrow> map_option (map_prod TVal id) (scan_num (c # s)))))"

lemma strip_prefix_length: "strip_prefix p s = Some r \<Longrightarrow> length s = length p + length r"
  by (induction p s rule: strip_prefix.induct) (auto split: if_splits)

lemma scan_literal_shorter:
  "scan_literal ls s = Some (v, r) \<Longrightarrow> list_all (\<lambda>p. fst p \<noteq> []) ls \<Longrightarrow> length r < length s"
  by (induction ls s rule: scan_literal.induct)
    (auto split: option.splits dest!: strip_prefix_length)

lemma scan_token_cases:
  assumes "scan_token c s = Some (t, r)"
  obtains (punct) "punctuation c = Some t" "r = s"
  | (str) x where "scan_str None [] s = Some (x, r)" "t = TStr x"
  | (lit) v where "scan_literal literals (c # s) = Some (v, r)" "t = TVal v"
  | (num) v where "scan_num (c # s) = Some (v, r)" "t = TVal v"
  using assms by (auto simp: scan_token_def split: option.splits if_splits)

lemma scan_token_shorter:
  assumes "scan_token c s = Some (t, r)"
  shows "length r < Suc (length s)"
  using assms
proof (cases rule: scan_token_cases)
  case str
  then show ?thesis using scan_str_shorter less_SucI by blast
next
  case lit
  then show ?thesis using scan_literal_shorter [of literals "c # s"] by (simp add: literals_def)
next
  case num
  then show ?thesis using scan_num_shorter [of "c # s"] by simp
qed simp_all

function lex :: "string \<Rightarrow> token list option" where
  "lex [] = Some []"
| "lex (c # s) =
     (if json_space c then lex s
      else (case scan_token c s of
              None \<Rightarrow> None
            | Some (t, r) \<Rightarrow> map_option (Cons t) (lex r)))"
  by pat_completeness auto
termination
  by (relation "measure length") (auto dest: scan_token_shorter)

section \<open>The parser\<close>

text \<open>An open array with its items so far, or an open object with its entries and the key awaited.\<close>

datatype frame = FArr "pyval list" | FObj "pyval dict" string

text \<open>
  What the parser expects: a value (or, right after an opening bracket, its closing one), a key
  of the object with these entries (or its closing brace), the colon after a key, or what may
  follow a finished value.
\<close>

datatype mode = MValue bool | MKey "pyval dict" bool | MColon "pyval dict" string | MAfter pyval

fun parse_tokens :: "token list \<Rightarrow> frame list \<Rightarrow> mode \<Rightarrow> pyval option" where
  "parse_tokens [] stk m = (case (stk, m) of ([], MAfter v) \<Rightarrow> Some v | _ \<Rightarrow> None)"
| "parse_tokens (t # ts) stk (MValue close) = (case t of
     TVal v \<Rightarrow> parse_tokens ts stk (MAfter v)
   | TStr s \<Rightarrow> parse_tokens ts stk (MAfter (PStr s))
   | TLBracket \<Rightarrow> parse_tokens ts (FArr [] # stk) (MValue True)
   | TLBrace \<Rightarrow> parse_tokens ts stk (MKey [] True)
   | TRBracket \<Rightarrow> (case stk of FArr xs # stk' \<Rightarrow>
       (if close then parse_tokens ts stk' (MAfter (PList xs)) else None) | _ \<Rightarrow> None)
   | _ \<Rightarrow> None)"
| "parse_tokens (t # ts) stk (MKey d close) = (case t of
     TStr k \<Rightarrow> parse_tokens ts stk (MColon d k)
   | TRBrace \<Rightarrow> (if close then parse_tokens ts stk (MAfter (PDict d)) else None)
   | _ \<Rightarrow> None)"
| "parse_tokens (t # ts) stk (MColon d k) = (case t of
     TColon \<Rightarrow> parse_tokens ts (FObj d k # stk) (MValue False) | _ \<Rightarrow> None)"
| "parse_tokens (t # ts) stk (MAfter v) = (case stk of
     FArr xs # stk' \<Rightarrow> (case t of
         TComma \<Rightarrow> parse_tokens ts (FArr (xs @ [v]) # stk') (MValue False)
       | TRBracket \<Rightarrow> parse_tokens ts stk' (MAfter (PList (xs @ [v])))
       | _ \<Rightarrow> None)
   | FObj d k # stk' \<Rightarrow> (case t of
         TComma \<Rightarrow> parse_tokens ts stk' (MKey (AList.update k v d) False)
       | TRBrace \<Rightarrow> parse_tokens ts stk' (MAfter (PDict (AList.update k v d)))
       | _ \<Rightarrow> None)
   | [] \<Rightarrow> None)"

text \<open>\<open>json.loads(encoded.decode("utf-8"))\<close>.\<close>

definition json_loads :: "string \<Rightarrow> pyval option" where
  "json_loads b = (if utf8_valid b then
     (case lex b of None \<Rightarrow> None | Some ts \<Rightarrow> parse_tokens ts [] (MValue False)) else None)"

section \<open>What a parsed value looks like\<close>

text \<open>JSON data as \<open>json.loads\<close> builds it: dicts, lists and scalars, keys distinct.\<close>

fun json_data :: "pyval \<Rightarrow> bool" where
  "json_data (PList xs) = list_all json_data xs"
| "json_data (PDict d) = (distinct (map fst d) \<and> list_all (\<lambda>p. json_data (snd p)) d)"
| "json_data PNone = True"
| "json_data (PBool b) = True"
| "json_data (PInt i) = True"
| "json_data (PFloat f) = True"
| "json_data (PStr s) = True"
| "json_data _ = False"

abbreviation json_dict :: "pyval dict \<Rightarrow> bool" where
  "json_dict d \<equiv> json_data (PDict d)"

fun frame_ok :: "frame \<Rightarrow> bool" where
  "frame_ok (FArr xs) = list_all json_data xs"
| "frame_ok (FObj d k) = json_dict d"

fun mode_ok :: "mode \<Rightarrow> bool" where
  "mode_ok (MValue b) = True"
| "mode_ok (MKey d b) = json_dict d"
| "mode_ok (MColon d k) = json_dict d"
| "mode_ok (MAfter v) = json_data v"

definition token_ok :: "token \<Rightarrow> bool" where
  "token_ok t = (case t of TVal v \<Rightarrow> json_data v | _ \<Rightarrow> True)"

lemma json_dict_update: "json_dict d \<Longrightarrow> json_data v \<Longrightarrow> json_dict (AList.update k v d)"
proof -
  assume d: "json_dict d" and v: "json_data v"
  have "list_all (\<lambda>p. json_data (snd p)) (AList.update k v d)"
    using d v by (induction d) auto
  with d show ?thesis by (simp add: distinct_update)
qed

lemma parse_tokens_json_data:
  "parse_tokens ts stk m = Some v \<Longrightarrow> list_all token_ok ts \<Longrightarrow> list_all frame_ok stk \<Longrightarrow> mode_ok m
   \<Longrightarrow> json_data v"
proof (induction ts stk m rule: parse_tokens.induct)
  case (1 stk m)
  then show ?case by (auto split: list.splits mode.splits)
next
  case (2 t ts stk close)
  then show ?case by (auto simp: token_ok_def split: token.splits list.splits frame.splits if_splits)
next
  case (3 t ts stk d close)
  then show ?case by (auto split: token.splits if_splits)
next
  case (4 t ts stk d k)
  then show ?case by (auto split: token.splits)
next
  case (5 t ts stk v')
  then show ?case
    by (auto split: token.splits list.splits frame.splits simp del: json_data.simps(2)
        intro: json_dict_update)
qed

lemma scan_num_json: "scan_num s = Some (v, r) \<Longrightarrow> json_data v"
  by (auto simp: scan_num_def Let_def split: prod.splits if_splits)

lemma scan_literal_json:
  "scan_literal ls s = Some (v, r) \<Longrightarrow> list_all (\<lambda>p. json_data (snd p)) ls \<Longrightarrow> json_data v"
  by (induction ls s rule: scan_literal.induct) (auto split: option.splits)

lemma scan_token_ok:
  assumes "scan_token c s = Some (t, r)"
  shows "token_ok t"
  using assms
proof (cases rule: scan_token_cases)
  case punct
  then show ?thesis by (cases t) (auto simp: punctuation_def token_ok_def split: if_splits)
next
  case str
  then show ?thesis by (simp add: token_ok_def)
next
  case lit
  then show ?thesis using scan_literal_json [of literals "c # s"]
    by (simp add: token_ok_def literals_def)
next
  case num
  then show ?thesis using scan_num_json [of "c # s"] by (simp add: token_ok_def)
qed

lemma lex_ok: "lex s = Some ts \<Longrightarrow> list_all token_ok ts"
proof (induction s arbitrary: ts rule: lex.induct)
  case (2 c s)
  then show ?case
    by (auto split: if_splits option.splits prod.splits dest: scan_token_ok)
qed simp

lemma json_loads_data: "json_loads b = Some v \<Longrightarrow> json_data v"
  by (auto simp: json_loads_def split: if_splits option.splits
      dest!: lex_ok intro: parse_tokens_json_data)

lemma json_loads_example:
  "json_loads ''{\"a\": [1, -2, true, null], \"b\": 2.5}'' =
     Some (PDict [(''a'', PList [PInt 1, PInt (-2), PBool True, PNone]),
                  (''b'', PFloat (FFin False 5629499534213120 (-51)))])"
  by code_simp

end
