(* ===== verification/Hashing.thy ===== *)
theory Hashing
  imports PyValues
begin

text \<open>
  The two digests the source takes from the standard library, on bytes: \<open>hashlib.sha256\<close> of a
  payload and the SHA-1 inside \<open>uuid.uuid5\<close>. A 32-bit word is an \<open>int\<close> below \<open>2 ^ 32\<close> with the
  wrap-around written out, which the kernel evaluates quickly; the published test vectors are
  proved at the end. What the rest of the development uses is the format: 64 (or 32) lower case
  hexadecimal digits.
\<close>

unbundle bit_operations_syntax

section \<open>Words, blocks and hexadecimal digits\<close>

definition add32 :: "int \<Rightarrow> int \<Rightarrow> int" where
  "add32 a b = (a + b) mod 4294967296"

definition rol32 :: "nat \<Rightarrow> int \<Rightarrow> int" where
  "rol32 k x = (x * 2 ^ k) mod 4294967296 + x div 2 ^ (32 - k)"

definition shr32 :: "nat \<Rightarrow> int \<Rightarrow> int" where
  "shr32 k x = x div 2 ^ k"

definition not32 :: "int \<Rightarrow> int" where
  "not32 x = 4294967295 - x"

definition bytes_of :: "string \<Rightarrow> int list" where
  "bytes_of s = map of_char s"

fun be_bytes :: "nat \<Rightarrow> int \<Rightarrow> int list" where
  "be_bytes 0 n = []"
| "be_bytes (Suc k) n = be_bytes k (n div 256) @ [n mod 256]"

text \<open>The padding to a multiple of 64 bytes: 0x80, zeros, the bit length in eight bytes.\<close>

definition sha_pad :: "int list \<Rightarrow> int list" where
  "sha_pad bs = (let n = int (length bs) in
     bs @ [128] @ replicate (nat ((119 - n mod 64) mod 64)) 0 @ be_bytes 8 (8 * n))"

fun be_words :: "int list \<Rightarrow> int list" where
  "be_words (a # b # c # d # r) = (((a * 256 + b) * 256 + c) * 256 + d) # be_words r"
| "be_words _ = []"

fun sha_fold :: "nat \<Rightarrow> (int list \<Rightarrow> 's \<Rightarrow> 's) \<Rightarrow> int list \<Rightarrow> 's \<Rightarrow> 's" where
  "sha_fold 0 f ws h = h"
| "sha_fold (Suc n) f ws h = sha_fold n f (drop 16 ws) (f (take 16 ws) h)"

definition sha_blocks :: "(int list \<Rightarrow> 's \<Rightarrow> 's) \<Rightarrow> int list \<Rightarrow> 's \<Rightarrow> 's" where
  "sha_blocks f ws h = sha_fold (length ws div 16) f ws h"

definition hex_digit :: "int \<Rightarrow> char" where
  "hex_digit n = ''0123456789abcdef'' ! nat n"

fun hex_word :: "nat \<Rightarrow> int \<Rightarrow> string" where
  "hex_word 0 x = []"
| "hex_word (Suc k) x = hex_word k (x div 16) @ [hex_digit (x mod 16)]"

definition is_lower_hex :: "char \<Rightarrow> bool" where
  "is_lower_hex c = (is_digit c \<or> (let n = of_char c :: nat in 97 \<le> n \<and> n \<le> 102))"

lemma length_hex_word [simp]: "length (hex_word k x) = k"
  by (induction k arbitrary: x) simp_all

lemma is_lower_hex_digit: "0 \<le> n \<Longrightarrow> n < 16 \<Longrightarrow> is_lower_hex (hex_digit n)"
proof -
  assume "0 \<le> n" "n < 16"
  then have "hex_digit n \<in> set ''0123456789abcdef''"
    unfolding hex_digit_def by (intro nth_mem) simp
  moreover have "list_all is_lower_hex ''0123456789abcdef''"
    by (simp add: is_lower_hex_def is_digit_def)
  ultimately show ?thesis by (simp only: list_all_iff)
qed

lemma hex_word_lower: "list_all is_lower_hex (hex_word k x)"
  by (induction k arbitrary: x) (simp_all add: is_lower_hex_digit)

section \<open>SHA-1 and UUID version 5\<close>

type_synonym sha1_state = "int \<times> int \<times> int \<times> int \<times> int"

text \<open>The message schedule, as a window of sixteen words that emits its first.\<close>

fun sha1_schedule :: "nat \<Rightarrow> int list \<Rightarrow> int list" where
  "sha1_schedule 0 ws = []"
| "sha1_schedule (Suc n) ws = (case ws of [] \<Rightarrow> []
   | w # r \<Rightarrow> w # sha1_schedule n
       (r @ [rol32 1 (((r ! 12 XOR r ! 7) XOR r ! 1) XOR w)]))"

definition sha1_f :: "nat \<Rightarrow> int \<Rightarrow> int \<Rightarrow> int \<Rightarrow> int" where
  "sha1_f t b c d =
     (if t < 20 then (b AND c) OR (not32 b AND d)
      else if t < 40 then (b XOR c) XOR d
      else if t < 60 then ((b AND c) OR (b AND d)) OR (c AND d)
      else (b XOR c) XOR d)"

definition sha1_k :: "nat \<Rightarrow> int" where
  "sha1_k t =
     (if t < 20 then 0x5A827999 else if t < 40 then 0x6ED9EBA1
      else if t < 60 then 0x8F1BBCDC else 0xCA62C1D6)"

fun sha1_rounds :: "int list \<Rightarrow> nat \<Rightarrow> sha1_state \<Rightarrow> sha1_state" where
  "sha1_rounds [] t s = s"
| "sha1_rounds (w # ws) t (a, b, c, d, e) =
     sha1_rounds ws (t + 1)
       (add32 (add32 (add32 (add32 (rol32 5 a) (sha1_f t b c d)) e) (sha1_k t)) w,
        a, rol32 30 b, c, d)"

definition sha1_block :: "int list \<Rightarrow> sha1_state \<Rightarrow> sha1_state" where
  "sha1_block ws h = (case h of (a, b, c, d, e) \<Rightarrow>
     (case sha1_rounds (sha1_schedule 80 ws) 0 h of (a', b', c', d', e') \<Rightarrow>
        (add32 a a', add32 b b', add32 c c', add32 d d', add32 e e')))"

definition sha1 :: "int list \<Rightarrow> sha1_state" where
  "sha1 bs = sha_blocks sha1_block (be_words (sha_pad bs))
     (0x67452301, 0xEFCDAB89, 0x98BADCFE, 0x10325476, 0xC3D2E1F0)"

text \<open>
  \<open>uuid.uuid5(namespace, name).hex\<close>: the first sixteen bytes of the digest of the namespace's
  bytes and the name, with version 5 in the high half of byte 6 and variant 10 in the two high
  bits of byte 8. The namespace is its sixteen bytes.
\<close>

definition uuid5_hex :: "int list \<Rightarrow> string \<Rightarrow> string" where
  "uuid5_hex ns name = (case sha1 (ns @ bytes_of name) of (a, b, c, d, e) \<Rightarrow>
     hex_word 8 a @ hex_word 8 ((b div 65536) * 65536 + ((b mod 65536) mod 4096 + 20480))
     @ hex_word 8 ((c mod 1073741824) + 2147483648) @ hex_word 8 d)"

lemma uuid5_hex_format:
  "length (uuid5_hex ns name) = 32" "list_all is_lower_hex (uuid5_hex ns name)"
  by (auto simp: uuid5_hex_def hex_word_lower split: prod.split)

section \<open>SHA-256\<close>

type_synonym sha256_state = "int \<times> int \<times> int \<times> int \<times> int \<times> int \<times> int \<times> int"

definition sha256_ks :: "int list" where
  "sha256_ks =
     [0x428A2F98, 0x71374491, 0xB5C0FBCF, 0xE9B5DBA5, 0x3956C25B, 0x59F111F1,
      0x923F82A4, 0xAB1C5ED5, 0xD807AA98, 0x12835B01, 0x243185BE, 0x550C7DC3,
      0x72BE5D74, 0x80DEB1FE, 0x9BDC06A7, 0xC19BF174, 0xE49B69C1, 0xEFBE4786,
      0x0FC19DC6, 0x240CA1CC, 0x2DE92C6F, 0x4A7484AA, 0x5CB0A9DC, 0x76F988DA,
      0x983E5152, 0xA831C66D, 0xB00327C8, 0xBF597FC7, 0xC6E00BF3, 0xD5A79147,
      0x06CA6351, 0x14292967, 0x27B70A85, 0x2E1B2138, 0x4D2C6DFC, 0x53380D13,
      0x650A7354, 0x766A0ABB, 0x81C2C92E, 0x92722C85, 0xA2BFE8A1, 0xA81A664B,
      0xC24B8B70, 0xC76C51A3, 0xD192E819, 0xD6990624, 0xF40E3585, 0x106AA070,
      0x19A4C116, 0x1E376C08, 0x2748774C, 0x34B0BCB5, 0x391C0CB3, 0x4ED8AA4A,
      0x5B9CCA4F, 0x682E6FF3, 0x748F82EE, 0x78A5636F, 0x84C87814, 0x8CC70208,
      0x90BEFFFA, 0xA4506CEB, 0xBEF9A3F7, 0xC67178F2]"

definition sig0 :: "int \<Rightarrow> int" where
  "sig0 x = (rol32 25 x XOR rol32 14 x) XOR shr32 3 x"

definition sig1 :: "int \<Rightarrow> int" where
  "sig1 x = (rol32 15 x XOR rol32 13 x) XOR shr32 10 x"

definition sum0 :: "int \<Rightarrow> int" where
  "sum0 x = (rol32 30 x XOR rol32 19 x) XOR rol32 10 x"

definition sum1 :: "int \<Rightarrow> int" where
  "sum1 x = (rol32 26 x XOR rol32 21 x) XOR rol32 7 x"

fun sha256_schedule :: "nat \<Rightarrow> int list \<Rightarrow> int list" where
  "sha256_schedule 0 ws = []"
| "sha256_schedule (Suc n) ws = (case ws of [] \<Rightarrow> []
   | w # r \<Rightarrow> w # sha256_schedule n
       (r @ [add32 (add32 (sig1 (r ! 13)) (r ! 8)) (add32 (sig0 (r ! 0)) w)]))"

text \<open>One round: \<open>t1\<close> and \<open>t2\<close> are the two temporaries of the standard.\<close>

definition sha256_step :: "int \<Rightarrow> int \<Rightarrow> sha256_state \<Rightarrow> sha256_state" where
  "sha256_step t1 t2 s = (case s of (a, b, c, d, e, f, g, h) \<Rightarrow>
     (add32 t1 t2, a, b, c, add32 d t1, e, f, g))"

fun sha256_rounds :: "int list \<Rightarrow> int list \<Rightarrow> sha256_state \<Rightarrow> sha256_state" where
  "sha256_rounds (w # ws) (k # ks) (a, b, c, d, e, f, g, h) =
     sha256_rounds ws ks (sha256_step
       (add32 (add32 h (sum1 e)) (add32 (add32 ((e AND f) XOR (not32 e AND g)) k) w))
       (add32 (sum0 a) (((a AND b) XOR (a AND c)) XOR (b AND c)))
       (a, b, c, d, e, f, g, h))"
| "sha256_rounds _ _ s = s"

definition sha256_block :: "int list \<Rightarrow> sha256_state \<Rightarrow> sha256_state" where
  "sha256_block ws s = (case s of (a, b, c, d, e, f, g, h) \<Rightarrow>
     (case sha256_rounds (sha256_schedule 64 ws) sha256_ks s of (a', b', c', d', e', f', g', h') \<Rightarrow>
        (add32 a a', add32 b b', add32 c c', add32 d d',
         add32 e e', add32 f f', add32 g g', add32 h h')))"

definition sha256 :: "int list \<Rightarrow> sha256_state" where
  "sha256 bs = sha_blocks sha256_block (be_words (sha_pad bs))
     (0x6A09E667, 0xBB67AE85, 0x3C6EF372, 0xA54FF53A, 0x510E527F, 0x9B05688C, 0x1F83D9AB, 0x5BE0CD19)"

text \<open>\<open>f"sha256:{hashlib.sha256(raw).hexdigest()}"\<close>.\<close>

definition sha256_hex :: "string \<Rightarrow> string" where
  "sha256_hex raw = (case sha256 (bytes_of raw) of (a, b, c, d, e, f, g, h) \<Rightarrow>
     concat (map (hex_word 8) [a, b, c, d, e, f, g, h]))"

definition sha256_digest :: "string \<Rightarrow> string" where
  "sha256_digest raw = ''sha256:'' @ sha256_hex raw"

lemma sha256_hex_format:
  "length (sha256_hex raw) = 64" "list_all is_lower_hex (sha256_hex raw)"
  by (auto simp: sha256_hex_def hex_word_lower split: prod.split)

section \<open>Published test vectors\<close>

lemma sha1_abc:
  "uuid5_hex [0x6b, 0xa7, 0xb8, 0x10, 0x9d, 0xad, 0x11, 0xd1, 0x80, 0xb4, 0x00, 0xc0, 0x4f, 0xd4, 0x30, 0xc8]
     ''python.org'' = ''886313e13b8a53729b900c9aee199e5d''"
  by code_simp

lemma sha256_words_abc:
  "sha256 (bytes_of ''abc'') = (0xba7816bf, 0x8f01cfea, 0x414140de, 0x5dae2223, 0xb00361a3, 0x96177a9c, 0xb410ff61, 0xf20015ad)"
  by code_simp

lemma sha256_abc:
  "sha256_hex ''abc'' = ''ba7816bf8f01cfea414140de5dae2223b00361a396177a9cb410ff61f20015ad''"
proof -
  have "concat (map (hex_word 8) [0xba7816bf, 0x8f01cfea, 0x414140de, 0x5dae2223, 0xb00361a3, 0x96177a9c, 0xb410ff61, 0xf20015ad])
      = ''ba7816bf8f01cfea414140de5dae2223b00361a396177a9cb410ff61f20015ad''"
    by code_simp
  then show ?thesis unfolding sha256_hex_def sha256_words_abc prod.case .
qed

end
