(* ===== verification/Canonical.thy ===== *)
theory Canonical
  imports Timestamps PyJson Hashing
begin

text \<open>
  The rest of \<open>_canonical.py\<close>: validated scalars, canonical JSON mappings, string mappings, and the
  frozen form of JSON data (read-only mappings with sorted keys, tuples for arrays). The encoder
  \<open>canonical_json_bytes\<close> belongs to Meridian Semantics and is the argument \<open>cj\<close>; the decoder is
  the \<open>json_loads\<close> of \<open>PyJson\<close>. The locale \<open>canonical_codec\<close> states what is documented of the
  encoder, and its lemmas show that normalising twice is normalising once.
\<close>

section \<open>Scalars\<close>

definition is_alnum :: "char \<Rightarrow> bool" where
  "is_alnum c = (let n = of_char c :: nat in
     65 \<le> n \<and> n \<le> 90 \<or> 97 \<le> n \<and> n \<le> 122 \<or> 48 \<le> n \<and> n \<le> 57)"

definition name_char :: "char \<Rightarrow> bool" where
  "name_char c = (is_alnum c \<or> c \<in> set ''_.:/-'')"

definition channel_char :: "char \<Rightarrow> bool" where
  "channel_char c = (is_alnum c \<or> c \<in> set ''_.-'')"

text \<open>\<open>_NAME_RE\<close>, \<open>_CHANNEL_RE\<close> and \<open>_DIGEST_RE\<close>, as full matches.\<close>

definition name_re :: "string \<Rightarrow> bool" where
  "name_re s = (case s of [] \<Rightarrow> False
     | c # r \<Rightarrow> is_alnum c \<and> list_all name_char r \<and> length r \<le> 255)"

definition channel_re :: "string \<Rightarrow> bool" where
  "channel_re s = (case s of [] \<Rightarrow> False
     | c # r \<Rightarrow> is_alnum c \<and> list_all channel_char r \<and> length r \<le> 127)"

definition digest_re :: "string \<Rightarrow> bool" where
  "digest_re s = (take 7 s = ''sha256:'' \<and> length (drop 7 s) = 64 \<and> list_all is_lower_hex (drop 7 s))"

definition logical_name :: "pyval \<Rightarrow> string \<Rightarrow> (exn, string) result" where
  "logical_name v field_name = rbind (bounded_string v field_name 256) (\<lambda>selected.
     if name_re selected then Inr selected
     else Inl (ValueError (field_name @ '' is not a valid logical name'')))"

definition channel_name :: "pyval \<Rightarrow> (exn, string) result" where
  "channel_name v = rbind (bounded_string v ''channel'' 128) (\<lambda>selected.
     if channel_re selected then Inr selected
     else Inl (ValueError ''channel is not a valid bounded logical name''))"

definition digest :: "pyval \<Rightarrow> (exn, string) result" where
  "digest v = (case v of
     PStr s \<Rightarrow> if digest_re s then Inr s
               else Inl (ValueError ''digest must use sha256:<lowercase-hex>'')
   | _ \<Rightarrow> Inl (ValueError ''digest must use sha256:<lowercase-hex>''))"

definition media_type :: "pyval \<Rightarrow> (exn, string) result" where
  "media_type v = rbind (bounded_string v ''media type'' 255) (\<lambda>selected.
     if CHR ''/'' \<notin> set selected \<or> has_space selected
     then Inl (ValueError ''media type must be an Internet media type'') else Inr selected)"

definition logical_ok :: "string \<Rightarrow> bool" where
  "logical_ok s = (bounded_ok 256 s \<and> name_re s)"

definition channel_ok :: "string \<Rightarrow> bool" where
  "channel_ok s = (bounded_ok 128 s \<and> channel_re s)"

definition media_ok :: "string \<Rightarrow> bool" where
  "media_ok s = (bounded_ok 255 s \<and> CHR ''/'' \<in> set s \<and> \<not> has_space s)"

lemma logical_name_Inr_iff [flow]: "logical_name v f = Inr s \<longleftrightarrow> v = PStr s \<and> logical_ok s"
  by (auto simp: logical_name_def flow logical_ok_def)

lemma channel_name_Inr_iff [flow]: "channel_name v = Inr s \<longleftrightarrow> v = PStr s \<and> channel_ok s"
  by (auto simp: channel_name_def flow channel_ok_def)

lemma digest_Inr_iff [flow]: "digest v = Inr s \<longleftrightarrow> v = PStr s \<and> digest_re s"
  by (cases v) (auto simp: digest_def)

lemma media_type_Inr_iff [flow]: "media_type v = Inr s \<longleftrightarrow> v = PStr s \<and> media_ok s"
  by (auto simp: media_type_def flow media_ok_def)

lemma sha256_digest_re [simp]: "digest_re (sha256_digest raw)"
  using sha256_hex_format [of raw] by (simp add: digest_re_def sha256_digest_def)

lemma logical_name_PStr: "logical_ok s \<Longrightarrow> logical_name (PStr s) f = Inr s"
  by (simp add: flow)

lemma channel_name_PStr: "channel_ok s \<Longrightarrow> channel_name (PStr s) = Inr s"
  by (simp add: flow)

lemma media_type_PStr: "media_ok s \<Longrightarrow> media_type (PStr s) = Inr s"
  by (simp add: flow)

lemma digest_PStr: "digest_re s \<Longrightarrow> digest (PStr s) = Inr s"
  by (simp add: flow)

lemmas scalar_PStr = bounded_string_PStr logical_name_PStr channel_name_PStr media_type_PStr digest_PStr

lemma scalar_errors:
  "logical_name v f = Inl e \<Longrightarrow> \<exists>m. e = ValueError m"
  "channel_name v = Inl e \<Longrightarrow> \<exists>m. e = ValueError m"
  "digest v = Inl e \<Longrightarrow> \<exists>m. e = ValueError m"
  "media_type v = Inl e \<Longrightarrow> \<exists>m. e = ValueError m"
  by (auto simp: logical_name_def channel_name_def digest_def media_type_def rbind_Inl_iff
      dest: bounded_string_error split: if_splits pyval.splits)

section \<open>Frozen JSON\<close>

fun freeze_json :: "pyval \<Rightarrow> pyval" where
  "freeze_json (PDict d) = PProxy (sort_dict (map (\<lambda>p. (fst p, freeze_json (snd p))) d))"
| "freeze_json (PList xs) = PTuple (map freeze_json xs)"
| "freeze_json v = v"

fun thaw_json :: "pyval \<Rightarrow> pyval" where
  "thaw_json (PDict d) = PDict (map (\<lambda>p. (fst p, thaw_json (snd p))) d)"
| "thaw_json (PProxy d) = PDict (map (\<lambda>p. (fst p, thaw_json (snd p))) d)"
| "thaw_json (PTuple xs) = PList (map thaw_json xs)"
| "thaw_json v = v"

abbreviation thaw_items :: "pyval dict \<Rightarrow> pyval dict" where
  "thaw_items d \<equiv> map (\<lambda>p. (fst p, thaw_json (snd p))) d"

text \<open>The values \<open>freeze_json\<close> produces.\<close>

fun frozen :: "pyval \<Rightarrow> bool" where
  "frozen (PProxy d) = (distinct (map fst d) \<and> sorted (map fst d) \<and> list_all (\<lambda>p. frozen (snd p)) d)"
| "frozen (PTuple xs) = list_all frozen xs"
| "frozen PNone = True"
| "frozen (PBool b) = True"
| "frozen (PInt i) = True"
| "frozen (PFloat f) = True"
| "frozen (PStr s) = True"
| "frozen _ = False"

abbreviation frozen_dict :: "pyval dict \<Rightarrow> bool" where
  "frozen_dict d \<equiv> frozen (PProxy d)"

lemma sorted_sort_dict: "sorted (map fst (sort_dict d))"
  by (simp add: sort_dict_def)

lemma sort_dict_sorted: "sorted (map fst d) \<Longrightarrow> sort_dict d = d"
  by (simp add: sort_dict_def sort_key_id_if_sorted)

lemma frozen_freeze: "json_data v \<Longrightarrow> frozen (freeze_json v)"
proof (induction v rule: json_data.induct)
  case (2 d)
  then show ?case by (auto simp: list_all_iff sorted_sort_dict o_def)
qed (auto simp: list_all_iff)

lemma freeze_thaw: "frozen v \<Longrightarrow> freeze_json (thaw_json v) = v"
proof (induction v rule: frozen.induct)
  case (1 d)
  then have "map (\<lambda>p. (fst p, freeze_json (thaw_json (snd p)))) d = d"
    by (intro map_idI) (auto simp: list_all_iff)
  with 1 show ?case by (simp add: o_def sort_dict_sorted)
next
  case (2 xs)
  then show ?case by (auto simp: list_all_iff intro: map_idI)
qed auto

lemma json_thaw: "frozen v \<Longrightarrow> json_data (thaw_json v)"
  by (induction v rule: frozen.induct) (auto simp: list_all_iff o_def)

lemma freeze_idem: "json_data v \<Longrightarrow> freeze_json (thaw_json (freeze_json v)) = freeze_json v"
  by (simp add: freeze_thaw frozen_freeze)

lemma map_of_thaw_items: "map_of (thaw_items d) k = map_option thaw_json (map_of d k)"
  by (induction d) auto

lemma dict_sub_thaw:
  "list_all (\<lambda>p. map_of d' (fst p) = Some (freeze_json (snd p)) \<and>
      py_eq (snd p) (thaw_json (freeze_json (snd p)))) d \<Longrightarrow> dict_sub d (thaw_items d')"
  by (induction d) (auto simp: map_of_thaw_items)

text \<open>Thawing what was frozen gives an equal value; only the order of keys may change.\<close>

lemma wf_freeze: "wf_py v \<Longrightarrow> wf_py (freeze_json v)"
  by (induction v rule: freeze_json.induct) (auto simp: list_all_iff o_def)

lemma py_eq_thaw_freeze: "json_data v \<Longrightarrow> wf_py v \<Longrightarrow> py_eq v (thaw_json (freeze_json v))"
proof (induction v rule: json_data.induct)
  case (1 xs)
  have "list_eq xs (map (\<lambda>x. thaw_json (freeze_json x)) xs)"
    if "list_all (\<lambda>x. py_eq x (thaw_json (freeze_json x))) xs" for xs
    using that by (induction xs) auto
  with 1 show ?case by (auto simp: list_all_iff o_def)
next
  case (2 d)
  let ?d' = "sort_dict (map (\<lambda>p. (fst p, freeze_json (snd p))) d)"
  have "map_of ?d' (fst p) = Some (freeze_json (snd p))" if "p \<in> set d" for p
    using that 2 by (force simp: map_of_sort_dict o_def intro!: map_of_is_SomeI)
  with 2 have "dict_sub d (thaw_items ?d')" by (intro dict_sub_thaw) (auto simp: list_all_iff)
  then show ?case by simp
qed (auto simp: scalar_eq_refl)

section \<open>Canonical mappings\<close>

type_synonym encoder = "pyval \<Rightarrow> (exn, string) result"

definition canonical_value :: "encoder \<Rightarrow> pyval \<Rightarrow> (exn, pyval) result" where
  "canonical_value cj v = rbind (cj v) (\<lambda>encoded. case json_loads encoded of
     None \<Rightarrow> Inl (ValueError ''JSONDecodeError'') | Some x \<Rightarrow> Inr x)"

text \<open>\<open>dict(value)\<close>: a shallow copy, a plain dict of the mapping's items.\<close>

definition shallow_dict :: "pyval \<Rightarrow> pyval" where
  "shallow_dict v = (case str_items v of Some d \<Rightarrow> PDict d | None \<Rightarrow> v)"

definition canonical_mapping ::
  "encoder \<Rightarrow> pyval \<Rightarrow> string \<Rightarrow> nat option \<Rightarrow> nat option \<Rightarrow> (exn, pyval dict) result" where
  "canonical_mapping cj v field_name maximum_entries maximum_bytes =
     rbind (ensure (is_mapping v) (TypeError (field_name @ '' must be a mapping''))) (\<lambda>_.
     rbind (ensure (case maximum_entries of None \<Rightarrow> True | Some n \<Rightarrow> mapping_len v \<le> n)
              (ValueError (field_name @ '' may contain at most '' @
                 int_str (int (case maximum_entries of None \<Rightarrow> 0 | Some n \<Rightarrow> n)) @ '' entries''))) (\<lambda>_.
     rbind (canonical_value cj (shallow_dict v)) (\<lambda>normalized.
     (case normalized of
        PDict d \<Rightarrow>
          rbind (case maximum_bytes of None \<Rightarrow> Inr ()
             | Some n \<Rightarrow> rbind (cj normalized) (\<lambda>b. ensure (length b \<le> n)
                 (ValueError (field_name @ '' exceeds '' @ int_str (int n) @ '' canonical JSON bytes''))))
          (\<lambda>_. Inr (case freeze_json normalized of PProxy fd \<Rightarrow> fd | _ \<Rightarrow> []))
      | _ \<Rightarrow> Inl (TypeError (field_name @ '' must be a JSON object''))))))"

text \<open>\<open>_payload_bytes\<close> and \<open>_mapping_bytes\<close>: the canonical bytes of a frozen mapping.\<close>

definition mapping_bytes :: "encoder \<Rightarrow> pyval dict \<Rightarrow> (exn, string) result" where
  "mapping_bytes cj d = cj (PDict (thaw_items d))"

lemma canonical_mapping_Inr:
  assumes "canonical_mapping cj v f me mb = Inr d"
  obtains b d' where "is_mapping v" "\<forall>n. me = Some n \<longrightarrow> mapping_len v \<le> n"
    "cj (shallow_dict v) = Inr b" "json_loads b = Some (PDict d')"
    "freeze_json (PDict d') = PProxy d"
    "\<forall>n. mb = Some n \<longrightarrow> (\<exists>b'. cj (PDict d') = Inr b' \<and> length b' \<le> n)"
proof -
  from assms obtain x where m: "is_mapping v"
    and len: "case me of None \<Rightarrow> True | Some n \<Rightarrow> mapping_len v \<le> n"
    and x: "canonical_value cj (shallow_dict v) = Inr x"
    and rest: "(case x of PDict d \<Rightarrow> rbind (case mb of None \<Rightarrow> Inr ()
       | Some n \<Rightarrow> rbind (cj x) (\<lambda>b. ensure (length b \<le> n)
           (ValueError (f @ '' exceeds '' @ int_str (int n) @ '' canonical JSON bytes''))))
       (\<lambda>_. Inr (case freeze_json x of PProxy fd \<Rightarrow> fd | _ \<Rightarrow> []))
     | _ \<Rightarrow> Inl (TypeError (f @ '' must be a JSON object''))) = Inr d"
    unfolding canonical_mapping_def by (auto simp only: rbind_Inr_iff ensure_Inr_iff)
  from x obtain b where b: "cj (shallow_dict v) = Inr b" "json_loads b = Some x"
    by (auto simp: canonical_value_def rbind_Inr_iff split: option.splits)
  from rest obtain d' where d': "x = PDict d'" by (cases x) auto
  have "\<forall>n. mb = Some n \<longrightarrow> (\<exists>b'. cj (PDict d') = Inr b' \<and> length b' \<le> n)"
    "freeze_json (PDict d') = PProxy d"
    using rest by (auto simp: d' rbind_Inr_iff ensure_Inr_iff split: option.splits)
  moreover have "\<forall>n. me = Some n \<longrightarrow> mapping_len v \<le> n" using len by auto
  ultimately show ?thesis using m b d' by (intro that) auto
qed

lemma canonical_mapping_frozen: "canonical_mapping cj v f me mb = Inr d \<Longrightarrow> frozen_dict d"
  by (erule canonical_mapping_Inr) (metis frozen_freeze json_loads_data)

section \<open>String mappings and arrays\<close>

definition string_item :: "string \<Rightarrow> string \<times> pyval \<Rightarrow> (exn, string \<times> string) result" where
  "string_item field_name p =
     rbind (bounded_string (PStr (fst p)) (field_name @ '' key'') 128) (\<lambda>k.
     rbind (bounded_string (snd p) (field_name @ '' value'') 512) (\<lambda>x. Inr (k, x)))"

definition string_mapping :: "pyval \<Rightarrow> string \<Rightarrow> nat \<Rightarrow> (exn, string dict) result" where
  "string_mapping v field_name maximum_entries =
     (if \<not> is_mapping v \<or> maximum_entries < mapping_len v
      then Inl (ValueError (field_name @ '' may contain at most '' @ int_str (int maximum_entries)
             @ '' entries''))
      else (case str_items v of
              None \<Rightarrow> Inl (ValueError (field_name @ '' key must be a bounded non-empty printable string''))
            | Some d \<Rightarrow> rbind (rmap (string_item field_name) d) (\<lambda>r. Inr (sort_dict r))))"

definition sequence :: "pyval \<Rightarrow> string \<Rightarrow> nat \<Rightarrow> (exn, pyval list) result" where
  "sequence v field_name maximum = (case array_items v of
     None \<Rightarrow> Inl (TypeError (field_name @ '' must be an array''))
   | Some xs \<Rightarrow> if maximum < length xs
       then Inl (ValueError (field_name @ '' may contain at most '' @ int_str (int maximum) @ '' entries''))
       else Inr xs)"

definition str_dict :: "string dict \<Rightarrow> pyval dict" where
  "str_dict d = map (\<lambda>p. (fst p, PStr (snd p))) d"

definition labels_ok :: "nat \<Rightarrow> string dict \<Rightarrow> bool" where
  "labels_ok n d = (distinct (map fst d) \<and> sorted (map fst d) \<and> length d \<le> n
     \<and> list_all (\<lambda>p. bounded_ok 128 (fst p) \<and> bounded_ok 512 (snd p)) d)"

lemma str_dict_simps [simp]:
  "map fst (str_dict d) = map fst d" "length (str_dict d) = length d" "str_dict [] = []"
  by (simp_all add: str_dict_def)

lemma string_item_Inr_iff [flow]:
  "string_item f p = Inr q \<longleftrightarrow> fst q = fst p \<and> snd p = PStr (snd q)
     \<and> bounded_ok 128 (fst q) \<and> bounded_ok 512 (snd q)"
  by (cases q) (auto simp: string_item_def flow)

lemma rmap_string_item:
  "rmap (string_item f) d = Inr r \<Longrightarrow>
     map fst r = map fst d \<and> list_all (\<lambda>p. bounded_ok 128 (fst p) \<and> bounded_ok 512 (snd p)) r"
  by (induction d arbitrary: r) (auto simp: flow)

lemma string_mapping_ok:
  assumes "string_mapping v f n = Inr d" "wf_py v"
  shows "labels_ok n d"
proof -
  from assms(1) obtain items r where *: "str_items v = Some items" "mapping_len v \<le> n"
    "rmap (string_item f) items = Inr r" "d = sort_dict r"
    by (auto simp: string_mapping_def flow split: if_splits option.splits)
  moreover have "distinct (map fst items)" "mapping_len v = length items"
    using *(1) assms(2) by (auto simp: str_items_def split: pyval.splits)
  moreover have "length r = length items" using rmap_string_item [OF *(3)] by (metis length_map)
  ultimately show ?thesis
    using rmap_string_item [OF *(3)] by (simp add: labels_ok_def sorted_sort_dict list_all_iff)
qed

lemma string_mapping_fixed:
  "labels_ok n d \<Longrightarrow> string_mapping (PProxy (str_dict d)) f n = Inr d"
  "labels_ok n d \<Longrightarrow> string_mapping (PDict (str_dict d)) f n = Inr d"
proof -
  have "rmap (string_item f) (str_dict d) = Inr d"
    if "list_all (\<lambda>p. bounded_ok 128 (fst p) \<and> bounded_ok 512 (snd p)) d" for d
    using that by (induction d) (auto simp: str_dict_def string_item_def scalar_PStr)
  then show "labels_ok n d \<Longrightarrow> string_mapping (PProxy (str_dict d)) f n = Inr d"
    "labels_ok n d \<Longrightarrow> string_mapping (PDict (str_dict d)) f n = Inr d"
    by (simp_all add: string_mapping_def labels_ok_def sort_dict_sorted)
qed

section \<open>The encoder's contract\<close>

text \<open>
  What Meridian Semantics documents of its canonical encoder: the bytes of a mapping are a JSON
  object with as many members, which decodes to standard JSON (no NaN) and re-encodes to the same
  bytes; frozen data is encoded as the plain data it stands for; key order does not matter.
\<close>

locale canonical_codec =
  fixes cj :: encoder
  assumes decodes: "cj (PDict d) = Inr b \<Longrightarrow>
      \<exists>d'. json_loads b = Some (PDict d') \<and> wf_dict d' \<and> length d' = length d \<and> cj (PDict d') = Inr b"
    and thawed: "cj (thaw_json v) = cj v"
    and reordered: "json_data v \<Longrightarrow> cj (freeze_json v) = cj v"
begin

lemma encode_frozen: "freeze_json (PDict d') = PProxy d \<Longrightarrow> json_dict d' \<Longrightarrow>
   cj (PDict d) = cj (PDict d') \<and> mapping_bytes cj d = cj (PDict d')"
  using reordered [of "PDict d'"] thawed [of "PProxy d"] thawed [of "PDict d"]
  by (simp add: mapping_bytes_def)

lemma canonical_mapping_normal:
  assumes "canonical_mapping cj v f me mb = Inr d" "str_items v \<noteq> None"
  obtains b where "mapping_bytes cj d = Inr b" "cj (PDict d) = Inr b" "cj (shallow_dict v) = Inr b"
    "length d = mapping_len v" "\<forall>n. mb = Some n \<longrightarrow> length b \<le> n"
    "json_loads b \<noteq> None" "\<forall>d'. json_loads b = Some d' \<longrightarrow> wf_py d' \<and> freeze_json d' = PProxy d"
proof -
  from assms(2) obtain items where it: "shallow_dict v = PDict items" "mapping_len v = length items"
    by (auto simp: shallow_dict_def str_items_def split: pyval.splits)
  from assms(1) obtain b d' where b: "cj (PDict items) = Inr b" "json_loads b = Some (PDict d')"
    and d: "freeze_json (PDict d') = PProxy d"
    and n: "\<forall>n. mb = Some n \<longrightarrow> (\<exists>b'. cj (PDict d') = Inr b' \<and> length b' \<le> n)"
    by (elim canonical_mapping_Inr) (simp add: it)
  from decodes [OF b(1)] b(2) have d': "wf_dict d'" "length d' = length items" "cj (PDict d') = Inr b"
    by auto
  have "json_dict d'" using b(2) by (rule json_loads_data)
  from encode_frozen [OF d this] d' have "mapping_bytes cj d = Inr b" "cj (PDict d) = Inr b" by simp_all
  moreover have "length d = length items" using d d'(2) by auto
  ultimately show ?thesis using that b d n d' it by auto
qed

lemma canonical_mapping_again:
  assumes "canonical_mapping cj v f me mb = Inr d" "str_items v \<noteq> None"
    "me' = me \<or> me' = None" "mb' = mb \<or> mb' = None"
  shows "canonical_mapping cj (PProxy d) f' me' mb' = Inr d"
    "canonical_mapping cj (PDict d) f' me' mb' = Inr d"
proof -
  obtain b where b: "cj (PDict d) = Inr b" "length d = mapping_len v" "\<forall>n. mb = Some n \<longrightarrow> length b \<le> n"
    and l: "json_loads b \<noteq> None"
    "\<forall>d'. json_loads b = Some d' \<longrightarrow> wf_py d' \<and> freeze_json d' = PProxy d"
    using canonical_mapping_normal [OF assms(1,2)] by metis
  from decodes [OF b(1)] obtain d' where d': "json_loads b = Some (PDict d')" "cj (PDict d') = Inr b"
    by auto
  have len: "\<forall>n. me' = Some n \<longrightarrow> length d \<le> n"
    using assms(1,3) b(2) by (auto elim: canonical_mapping_Inr)
  have bytes: "\<forall>n. mb' = Some n \<longrightarrow> length b \<le> n" using assms(4) b(3) by auto
  have *: "freeze_json (PDict d') = PProxy d" using l(2) d'(1) by simp
  show "canonical_mapping cj (PProxy d) f' me' mb' = Inr d"
    "canonical_mapping cj (PDict d) f' me' mb' = Inr d"
    using len bytes d' b(1) *
    by (auto simp: canonical_mapping_def canonical_value_def shallow_dict_def split: option.splits)
qed

lemma canonical_mapping_wf:
  assumes "canonical_mapping cj v f me mb = Inr d" "str_items v \<noteq> None"
  shows "wf_dict d"
proof -
  obtain d' where "wf_py d'" "json_data d'" "freeze_json d' = PProxy d"
    using canonical_mapping_normal [OF assms] json_loads_data by (metis option.exhaust)
  then have "wf_py (PProxy d)" by (metis wf_freeze)
  then show ?thesis by simp
qed

end

end
