(* ===== verification/Refs.thy ===== *)
theory Refs
  imports Canonical
begin

text \<open>
  \<open>models/refs.py\<close>: profiles and states, the logical identity of a resource and the identifiers
  derived from it, payload Schema references and stored-resource references. A dataclass is a
  \<open>record\<close>; its constructor with \<open>__post_init__\<close> is a function from the raw arguments. The
  lemmas show that the canonical text of an identity determines it, because percent-encoding
  never writes a separator, so that two identities share an identifier only through a collision
  of the digest.
\<close>

section \<open>Enumerations\<close>

datatype resource_profile = CONFIGURATION_PROFILE | ARTIFACT_PROFILE

datatype resource_state = DRAFT | PUBLISHED | DEPRECATED

definition profile_value :: "resource_profile \<Rightarrow> string" where
  "profile_value p = (case p of CONFIGURATION_PROFILE \<Rightarrow> ''configuration'' | ARTIFACT_PROFILE \<Rightarrow> ''artifact'')"

definition state_value :: "resource_state \<Rightarrow> string" where
  "state_value s = (case s of DRAFT \<Rightarrow> ''DRAFT'' | PUBLISHED \<Rightarrow> ''PUBLISHED'' | DEPRECATED \<Rightarrow> ''DEPRECATED'')"

definition parse_profile :: "pyval \<Rightarrow> (exn, resource_profile) result" where
  "parse_profile v =
     (if v = PStr ''configuration'' then Inr CONFIGURATION_PROFILE
      else if v = PStr ''artifact'' then Inr ARTIFACT_PROFILE
      else Inl (ValueError ''not a valid ResourceProfile''))"

definition parse_state :: "pyval \<Rightarrow> (exn, resource_state) result" where
  "parse_state v =
     (if v = PStr ''DRAFT'' then Inr DRAFT
      else if v = PStr ''PUBLISHED'' then Inr PUBLISHED
      else if v = PStr ''DEPRECATED'' then Inr DEPRECATED
      else Inl (ValueError ''not a valid ResourceState''))"

lemma parse_profile_Inr_iff [flow]: "parse_profile v = Inr p \<longleftrightarrow> v = PStr (profile_value p)"
  by (cases p) (auto simp: parse_profile_def profile_value_def)

lemma parse_state_Inr_iff [flow]: "parse_state v = Inr s \<longleftrightarrow> v = PStr (state_value s)"
  by (cases s) (auto simp: parse_state_def state_value_def)

lemma parse_values [simp]:
  "parse_profile (PStr (profile_value p)) = Inr p" "parse_state (PStr (state_value s)) = Inr s"
  by (simp_all add: flow)

lemma enum_values_inject [simp]:
  "profile_value p = profile_value p' \<longleftrightarrow> p = p'" "state_value s = state_value s' \<longleftrightarrow> s = s'"
  by (auto simp: profile_value_def state_value_def
      split: resource_profile.splits resource_state.splits)

section \<open>Percent-encoding\<close>

definition unreserved :: "char \<Rightarrow> bool" where
  "unreserved c = (is_alnum c \<or> c \<in> set ''_.-~'')"

definition upper_hex :: "nat \<Rightarrow> char" where
  "upper_hex n = ''0123456789ABCDEF'' ! n"

definition escape_byte :: "char \<Rightarrow> string" where
  "escape_byte c =
     (if unreserved c then [c]
      else [CHR ''%'', upper_hex (of_char c div 16), upper_hex (of_char c mod 16)])"

text \<open>\<open>_escaped\<close>: \<open>quote(value, safe="")\<close>, on the UTF-8 bytes of the value.\<close>

definition escaped :: "string \<Rightarrow> string" where
  "escaped s = concat (map escape_byte s)"

section \<open>Identities\<close>

record resource_identity =
  ri_namespace :: string
  ri_kind :: string
  ri_name :: string
  ri_version :: string

definition mk_identity :: "pyval \<Rightarrow> pyval \<Rightarrow> pyval \<Rightarrow> pyval \<Rightarrow> (exn, resource_identity) result" where
  "mk_identity namespace kind name version =
     rbind (logical_name namespace ''namespace'') (\<lambda>ns.
     rbind (logical_name kind ''kind'') (\<lambda>k.
     rbind (logical_name name ''name'') (\<lambda>n.
     rbind (bounded_string version ''version'' 256) (\<lambda>v.
     Inr \<lparr>ri_namespace = ns, ri_kind = k, ri_name = n, ri_version = v\<rparr>))))"

definition identity_ok :: "resource_identity \<Rightarrow> bool" where
  "identity_ok i = (logical_ok (ri_namespace i) \<and> logical_ok (ri_kind i) \<and> logical_ok (ri_name i)
     \<and> bounded_ok 256 (ri_version i))"

definition identity_canonical :: "resource_identity \<Rightarrow> string" where
  "identity_canonical i = escaped (ri_namespace i) @ '':'' @ escaped (ri_kind i) @ ''/''
     @ escaped (ri_name i) @ ''@'' @ escaped (ri_version i)"

definition resource_id_namespace :: "int list" where
  "resource_id_namespace = [0x9C, 0x55, 0x4A, 0x86, 0x78, 0x3D, 0x4E, 0x78, 0xAF, 0x85, 0xA3, 0xF9, 0xE9, 0x76, 0x48, 0x9A]"

definition channel_id_namespace :: "int list" where
  "channel_id_namespace = [0x12, 0xD7, 0x53, 0x51, 0xEA, 0x66, 0x45, 0xE2, 0xB5, 0xC4, 0x53, 0xBC, 0x97, 0xF3, 0xFA, 0x6F]"

definition orphan_id_namespace :: "int list" where
  "orphan_id_namespace = [0x70, 0x75, 0xE4, 0x9B, 0x9D, 0x7F, 0x41, 0x34, 0xA8, 0x79, 0x58, 0x0C, 0x05, 0xB2, 0xDB, 0x07]"

definition identity_resource_id :: "resource_identity \<Rightarrow> string" where
  "identity_resource_id i = ''rs_'' @ uuid5_hex resource_id_namespace (identity_canonical i)"

definition identity_object_id :: "resource_identity \<Rightarrow> string" where
  "identity_object_id i = ''artifacts/'' @ identity_resource_id i"

definition identity_to_dict :: "resource_identity \<Rightarrow> pyval dict" where
  "identity_to_dict i =
     [(''namespace'', PStr (ri_namespace i)), (''kind'', PStr (ri_kind i)),
      (''name'', PStr (ri_name i)), (''version'', PStr (ri_version i))]"

section \<open>Payload Schema references\<close>

record schema_ref =
  ps_namespace :: string
  ps_name :: string
  ps_version :: string
  ps_catalog :: string

definition mk_schema_ref :: "pyval \<Rightarrow> pyval \<Rightarrow> pyval \<Rightarrow> pyval \<Rightarrow> (exn, schema_ref) result" where
  "mk_schema_ref namespace name version catalog =
     rbind (ensure (py_eq catalog (PStr ''structured''))
       (ValueError ''configuration payload Schema must use the structured Catalog'')) (\<lambda>_.
     rbind (logical_name namespace ''schema namespace'') (\<lambda>ns.
     rbind (logical_name name ''schema name'') (\<lambda>n.
     rbind (bounded_string version ''schema version'' 128) (\<lambda>v.
     Inr \<lparr>ps_namespace = ns, ps_name = n, ps_version = v, ps_catalog = ''structured''\<rparr>))))"

definition schema_ref_ok :: "schema_ref \<Rightarrow> bool" where
  "schema_ref_ok s = (logical_ok (ps_namespace s) \<and> logical_ok (ps_name s)
     \<and> bounded_ok 128 (ps_version s) \<and> ps_catalog s = ''structured'')"

definition schema_ref_canonical :: "schema_ref \<Rightarrow> string" where
  "schema_ref_canonical s =
     ps_catalog s @ '':'' @ ps_namespace s @ ''.'' @ ps_name s @ ''@'' @ ps_version s"

definition schema_ref_to_dict :: "schema_ref \<Rightarrow> pyval dict" where
  "schema_ref_to_dict s =
     [(''catalog'', PStr (ps_catalog s)), (''namespace'', PStr (ps_namespace s)),
      (''name'', PStr (ps_name s)), (''version'', PStr (ps_version s))]"

text \<open>\<open>s.split(c, 1)\<close> and \<open>s.rsplit(c, 1)\<close> of a string that holds \<open>c\<close>.\<close>

definition split_first :: "char \<Rightarrow> string \<Rightarrow> string \<times> string" where
  "split_first c s = (takeWhile (\<lambda>x. x \<noteq> c) s, tl (dropWhile (\<lambda>x. x \<noteq> c) s))"

definition split_last :: "char \<Rightarrow> string \<Rightarrow> string \<times> string" where
  "split_last c s = (case split_first c (rev s) of (b, a) \<Rightarrow> (rev a, rev b))"

lemma split_first_append: "c \<notin> set a \<Longrightarrow> split_first c (a @ c # b) = (a, b)"
  by (induction a) (auto simp: split_first_def)

lemma split_last_append: "c \<notin> set b \<Longrightarrow> split_last c (a @ c # b) = (a, b)"
  using split_first_append [of c "rev b" "rev a"] by (simp add: split_last_def)

text \<open>The argument of \<open>parse\<close>: a reference already built, or a string or mapping.\<close>

datatype schema_arg = SchemaRefArg schema_ref | SchemaValueArg pyval

definition schema_ref_hint :: string where
  "schema_ref_hint = ''payload SchemaRef must be '' @ [CHR 0x27] @ ''<namespace>.<name>@<version>''
     @ [CHR 0x27]"

definition parse_schema_mapping :: "pyval dict \<Rightarrow> (exn, schema_ref) result" where
  "parse_schema_mapping d =
     (if keys d \<noteq> {''catalog'', ''namespace'', ''name'', ''version''}
      then Inl (ValueError ''payload SchemaRef requires catalog, namespace, name and version'')
      else mk_schema_ref (the (map_of d ''namespace'')) (the (map_of d ''name''))
             (the (map_of d ''version'')) (the (map_of d ''catalog'')))"

definition parse_schema_string :: "string \<Rightarrow> (exn, schema_ref) result" where
  "parse_schema_string s =
     (if CHR ''@'' \<notin> set s
      then Inl (ValueError schema_ref_hint)
      else (case split_last CHR ''@'' s of (address, version) \<Rightarrow>
        (case (if CHR '':'' \<in> set address then split_first CHR '':'' address
               else (''structured'', address)) of (catalog, address) \<Rightarrow>
          (if CHR ''.'' \<notin> set address
           then Inl (ValueError ''payload SchemaRef must include namespace and name'')
           else (case split_last CHR ''.'' address of (namespace, name) \<Rightarrow>
             mk_schema_ref (PStr namespace) (PStr name) (PStr version) (PStr catalog))))))"

definition parse_schema_ref :: "schema_arg \<Rightarrow> (exn, schema_ref) result" where
  "parse_schema_ref arg = (case arg of
     SchemaRefArg s \<Rightarrow> Inr s
   | SchemaValueArg v \<Rightarrow> (case v of
       PDict d \<Rightarrow> parse_schema_mapping d
     | PProxy d \<Rightarrow> parse_schema_mapping d
     | POddMap _ \<Rightarrow> Inl (ValueError ''payload SchemaRef requires catalog, namespace, name and version'')
     | PStr s \<Rightarrow> parse_schema_string s
     | _ \<Rightarrow> Inl (ValueError schema_ref_hint)))"

section \<open>Stored resource references and derived identifiers\<close>

record stored_ref =
  rr_resource_id :: string
  rr_namespace :: string
  rr_kind :: string
  rr_name :: string
  rr_version :: string
  rr_profile :: resource_profile
  rr_digest :: string

definition mk_stored_ref ::
  "pyval \<Rightarrow> pyval \<Rightarrow> pyval \<Rightarrow> pyval \<Rightarrow> pyval \<Rightarrow> pyval \<Rightarrow> pyval \<Rightarrow> (exn, stored_ref) result" where
  "mk_stored_ref resource_id namespace kind name version profile dig =
     rbind (mk_identity namespace kind name version) (\<lambda>i.
     rbind (ensure (py_eq resource_id (PStr (identity_resource_id i)))
       (ValueError ''resource id does not match its logical identity'')) (\<lambda>_.
     rbind (parse_profile profile) (\<lambda>p.
     rbind (digest dig) (\<lambda>dg.
     Inr \<lparr>rr_resource_id = identity_resource_id i, rr_namespace = ri_namespace i,
       rr_kind = ri_kind i, rr_name = ri_name i, rr_version = ri_version i,
       rr_profile = p, rr_digest = dg\<rparr>))))"

definition stored_ref_identity :: "stored_ref \<Rightarrow> resource_identity" where
  "stored_ref_identity r = \<lparr>ri_namespace = rr_namespace r, ri_kind = rr_kind r,
     ri_name = rr_name r, ri_version = rr_version r\<rparr>"

definition stored_ref_to_dict :: "stored_ref \<Rightarrow> pyval dict" where
  "stored_ref_to_dict r = (''resourceId'', PStr (rr_resource_id r))
     # identity_to_dict (stored_ref_identity r)
     @ [(''profile'', PStr (profile_value (rr_profile r))), (''digest'', PStr (rr_digest r))]"

definition channel_text :: "string \<Rightarrow> string \<Rightarrow> string \<Rightarrow> string \<Rightarrow> int \<Rightarrow> string" where
  "channel_text namespace kind name channel pointer_version =
     escaped namespace @ '':'' @ escaped kind @ ''/'' @ escaped name @ ''#'' @ escaped channel
     @ ''@'' @ int_str pointer_version"

definition channel_version_id :: "string \<Rightarrow> string \<Rightarrow> string \<Rightarrow> string \<Rightarrow> int \<Rightarrow> string" where
  "channel_version_id namespace kind name channel pointer_version =
     ''ch_'' @ uuid5_hex channel_id_namespace
       (channel_text namespace kind name channel pointer_version)"

definition orphan_text :: "string \<Rightarrow> string \<Rightarrow> string \<Rightarrow> string" where
  "orphan_text resource_id object_id object_digest =
     escaped resource_id @ ''|'' @ escaped object_id @ ''|'' @ escaped object_digest"

definition orphan_candidate_id :: "string \<Rightarrow> string \<Rightarrow> string \<Rightarrow> string" where
  "orphan_candidate_id resource_id object_id object_digest =
     ''oc_'' @ uuid5_hex orphan_id_namespace (orphan_text resource_id object_id object_digest)"

definition resource_id_re :: "string \<Rightarrow> bool" where
  "resource_id_re s = (take 3 s = ''rs_'' \<and> length (drop 3 s) = 32 \<and> list_all is_lower_hex (drop 3 s))"

definition validate_resource_id :: "pyval \<Rightarrow> (exn, string) result" where
  "validate_resource_id v = (case v of
     PStr s \<Rightarrow> if resource_id_re s then Inr s
       else Inl (ValueError ''resource id must be an opaque rs_<lowercase-hex> identifier'')
   | _ \<Rightarrow> Inl (ValueError ''resource id must be an opaque rs_<lowercase-hex> identifier''))"

section \<open>Basic facts\<close>

lemma identity_collapse [simp]:
  "\<lparr>ri_namespace = ri_namespace i, ri_kind = ri_kind i, ri_name = ri_name i, ri_version = ri_version i\<rparr> = i"
  by (cases i) simp

lemma mk_identity_Inr_iff [flow]:
  "mk_identity ns k n v = Inr i \<longleftrightarrow> ns = PStr (ri_namespace i) \<and> k = PStr (ri_kind i)
     \<and> n = PStr (ri_name i) \<and> v = PStr (ri_version i) \<and> identity_ok i"
  by (cases i) (auto simp: mk_identity_def flow identity_ok_def)

lemma mk_schema_ref_Inr_iff [flow]:
  "mk_schema_ref ns n v c = Inr s \<longleftrightarrow> ns = PStr (ps_namespace s) \<and> n = PStr (ps_name s)
     \<and> v = PStr (ps_version s) \<and> c = PStr (ps_catalog s) \<and> schema_ref_ok s"
  by (cases s) (auto simp: mk_schema_ref_def flow schema_ref_ok_def)

lemma validate_resource_id_Inr_iff [flow]:
  "validate_resource_id v = Inr s \<longleftrightarrow> v = PStr s \<and> resource_id_re s"
  by (cases v) (auto simp: validate_resource_id_def)

lemma resource_id_re_identity [simp]: "resource_id_re (identity_resource_id i)"
  by (simp add: resource_id_re_def identity_resource_id_def uuid5_hex_format)

lemma schema_ref_roundtrip [simp]:
  "schema_ref_ok s \<Longrightarrow> parse_schema_mapping (schema_ref_to_dict s) = Inr s"
  by (simp add: parse_schema_mapping_def schema_ref_to_dict_def flow insert_commute)

lemma parse_schema_ref_ok:
  "parse_schema_ref (SchemaValueArg v) = Inr s \<Longrightarrow> schema_ref_ok s"
  by (auto simp: parse_schema_ref_def parse_schema_mapping_def parse_schema_string_def flow
      split: pyval.splits if_splits prod.splits)

section \<open>Injectivity of the canonical texts\<close>

lemma upper_hex_inject: "m < 16 \<Longrightarrow> n < 16 \<Longrightarrow> upper_hex m = upper_hex n \<Longrightarrow> m = n"
  unfolding upper_hex_def by (subst (asm) nth_eq_iff_index_eq) simp_all

lemma upper_hex_unreserved: "n < 16 \<Longrightarrow> unreserved (upper_hex n)"
proof -
  assume "n < 16"
  then have "upper_hex n \<in> set ''0123456789ABCDEF''" unfolding upper_hex_def by (intro nth_mem) simp
  moreover have "list_all unreserved ''0123456789ABCDEF''"
    by (simp add: unreserved_def is_alnum_def)
  ultimately show ?thesis by (simp only: list_all_iff)
qed

lemma of_char_less: "of_char c < (256 :: nat)"
  by (cases c) (simp add: of_char_def)

lemma of_char_nibbles: "of_char c div 16 < (16 :: nat)" "of_char c mod 16 < (16 :: nat)"
  using of_char_less [of c] by (simp_all add: div_less_iff_less_mult)

lemma escape_byte_inject: "escape_byte c @ s = escape_byte d @ t \<Longrightarrow> c = d \<and> s = t"
proof -
  assume eq: "escape_byte c @ s = escape_byte d @ t"
  have p: "\<not> unreserved CHR ''%''" by (simp add: unreserved_def is_alnum_def)
  have "of_char c = (of_char d :: nat)" if "\<not> unreserved c" "\<not> unreserved d"
  proof -
    have "of_char c div 16 = (of_char d div 16 :: nat)" "of_char c mod 16 = (of_char d mod 16 :: nat)"
      using eq that by (auto simp: escape_byte_def of_char_nibbles dest!: upper_hex_inject [rotated 2])
    then show ?thesis by (metis div_mult_mod_eq)
  qed
  with eq p show ?thesis by (auto simp: escape_byte_def split: if_splits)
qed

lemma escape_byte_nonempty [simp]: "escape_byte c \<noteq> []"
  by (simp add: escape_byte_def)

lemma escaped_inject [simp]: "escaped s = escaped t \<longleftrightarrow> s = t"
proof
  show "escaped s = escaped t \<Longrightarrow> s = t"
  proof (induction s arbitrary: t)
    case Nil
    then show ?case by (cases t) (simp_all add: escaped_def)
  next
    case (Cons c s)
    then obtain d t' where t: "t = d # t'" by (cases t) (auto simp: escaped_def)
    with Cons show ?case
      by (auto simp: escaped_def dest!: escape_byte_inject)
  qed
qed simp

definition separator :: "char \<Rightarrow> bool" where
  "separator c = (c \<in> set '':/@#|'')"

lemma separator_not_escaped: "separator c \<Longrightarrow> c \<notin> set (escaped s)"
proof -
  assume c: "separator c"
  have "\<not> unreserved c" using c by (auto simp: separator_def unreserved_def is_alnum_def)
  moreover have "unreserved x \<or> x = CHR ''%''" if "x \<in> set (escape_byte y)" for x y
    using that by (auto simp: escape_byte_def upper_hex_unreserved of_char_nibbles split: if_splits)
  moreover have "c \<noteq> CHR ''%''" using c by (auto simp: separator_def)
  ultimately show ?thesis by (auto simp: escaped_def)
qed

lemma append_sep_inject:
  "c \<notin> set s \<Longrightarrow> c \<notin> set t \<Longrightarrow> s @ c # x = t @ c # y \<longleftrightarrow> s = t \<and> x = y"
proof (induction s arbitrary: t)
  case Nil
  then show ?case by (cases t) auto
next
  case (Cons a s)
  then show ?case by (cases t) auto
qed

lemma escaped_sep_inject [simp]:
  "separator c \<Longrightarrow> escaped s @ c # x = escaped t @ c # y \<longleftrightarrow> s = t \<and> x = y"
  by (simp add: append_sep_inject separator_not_escaped)

lemma separators [simp]:
  "separator CHR '':''" "separator CHR ''/''" "separator CHR ''@''" "separator CHR ''#''"
  "separator CHR ''|''"
  by (simp_all add: separator_def)

lemma identity_canonical_inject: "identity_canonical i = identity_canonical j \<longleftrightarrow> i = j"
  by (cases i; cases j) (simp add: identity_canonical_def)

lemma int_str_inject: "0 \<le> m \<Longrightarrow> 0 \<le> n \<Longrightarrow> int_str m = int_str n \<Longrightarrow> m = n"
  by (simp add: int_str_def)

lemma channel_text_inject:
  "0 \<le> p \<Longrightarrow> 0 \<le> p' \<Longrightarrow> channel_text ns k n c p = channel_text ns' k' n' c' p' \<longleftrightarrow>
     ns = ns' \<and> k = k' \<and> n = n' \<and> c = c' \<and> p = p'"
  by (auto simp: channel_text_def dest: int_str_inject)

lemma orphan_text_inject:
  "orphan_text r o1 d = orphan_text r' o2 d' \<longleftrightarrow> r = r' \<and> o1 = o2 \<and> d = d'"
  by (simp add: orphan_text_def)

end
