(* ===== verification/External.thy ===== *)
theory External
  imports Refs
begin

text \<open>
  The data and pure functions of the imported packages, as far as the plugin uses them: the
  attributes it reads of \<open>ResourceRef\<close>, \<open>ObjectReference\<close>, \<open>ObjectMetadata\<close> and
  \<open>PayloadReference\<close> are records; the parsers, printers and constructors are the fields of
  \<open>external\<close>, the model's parameter for code that is not in this repository. The locale
  \<open>external_contract\<close> names what the plugin relies on.
\<close>

record resource_ref =
  rf_catalog :: string
  rf_namespace :: string
  rf_name :: string

record object_ref =
  or_resource :: resource_ref
  or_object_id :: string
  or_digest :: "string option"

record object_metadata =
  om_object_ref :: object_ref
  om_digest :: string
  om_byte_length :: int
  om_media_type :: string
  om_user_metadata :: "pyval dict"

record payload_ref =
  pr_handle :: string
  pr_expected_digest :: "string option"
  pr_expected_length :: "int option"

text \<open>A \<open>ByteRange\<close> is passed through; the plugin asks only for the length it resolves to.\<close>

type_synonym byte_range = pyval

text \<open>\<open>parse_object_reference(value, require_digest=True)\<close> takes a reference or its mapping.\<close>

datatype object_ref_arg = RefObject object_ref | RefMapping pyval

record external =
  x_canonical_json_bytes :: encoder
  x_parse_object_reference :: "object_ref_arg \<Rightarrow> (exn, object_ref) result"
  x_object_reference_dict :: "object_ref \<Rightarrow> pyval"
  x_object_reference :: "resource_ref \<Rightarrow> string \<Rightarrow> string option \<Rightarrow> (exn, object_ref) result"
  x_parse_object_metadata :: "pyval dict \<Rightarrow> (exn, object_metadata) result"
  x_parse_payload_reference :: "pyval dict \<Rightarrow> (exn, payload_ref) result"
  x_parse_resource_ref :: "pyval dict \<Rightarrow> (exn, resource_ref) result"
  x_resource_ref :: "string \<Rightarrow> resource_ref \<Rightarrow> (exn, resource_ref) result"
  x_resource_reference :: "resource_ref \<Rightarrow> (exn, resource_ref) result"
  x_range_length :: "byte_range \<Rightarrow> int \<Rightarrow> (exn, int) result"
  x_schema_document :: "schema_ref \<Rightarrow> pyval \<Rightarrow> (exn, pyval) result"
  x_validate_record :: "pyval \<Rightarrow> pyval \<Rightarrow> (exn, pyval) result"

text \<open>
  The contract of the pure functions: the encoder is a \<open>canonical_codec\<close>; a parsed reference
  carries a digest; a reference that carries one is parsed as it is, and so is its mapping, which
  is plain data that compares equal to itself.
\<close>

locale external_contract = canonical_codec "x_canonical_json_bytes x" for x :: external +
  assumes parsed_digest: "x_parse_object_reference x a = Inr r \<Longrightarrow> or_digest r \<noteq> None"
    and parse_object: "or_digest r \<noteq> None \<Longrightarrow> x_parse_object_reference x (RefObject r) = Inr r"
    and parse_printed: "or_digest r \<noteq> None \<Longrightarrow>
      x_parse_object_reference x (RefMapping (x_object_reference_dict x r)) = Inr r"
    and printed_mapping: "is_mapping (x_object_reference_dict x r) \<and> wf_py (x_object_reference_dict x r)"

end
