(* ===== verification/Resources.thy ===== *)
theory Resources
  imports External
begin

text \<open>
  \<open>models/resources.py\<close> and \<open>models/results.py\<close>: provenance, stored resources, channel pointers,
  orphan candidates and the receipts that carry them. Each dataclass is a record of validated
  fields; its constructor is a function from the raw values (\<open>cast\<close> does nothing at run time, so
  a field read from a mapping arrives as any Python value), in the order of \<open>__post_init__\<close>.
  \<open>resource_ok\<close>, \<open>channel_row_ok\<close> and \<open>orphan_ok\<close> are the invariants the constructors establish, and
  the main results are that printing and parsing again gives back the same value.
\<close>

definition provenance_format :: string where
  "provenance_format = ''meridian.config-artifact.provenance.v1''"

definition resource_format :: string where
  "resource_format = ''meridian.config-artifact.stored-resource.v1''"

definition channel_format :: string where
  "channel_format = ''meridian.config-artifact.resource-channel.v1''"

definition orphan_format :: string where
  "orphan_format = ''meridian.config-artifact.orphan-candidate.v1''"

section \<open>Optional and integer fields\<close>

definition optional :: "(pyval \<Rightarrow> (exn, 'a) result) \<Rightarrow> pyval \<Rightarrow> (exn, 'a option) result" where
  "optional f v = (if v = PNone then Inr None else rbind (f v) (\<lambda>x. Inr (Some x)))"

definition byte_count :: "string \<Rightarrow> pyval \<Rightarrow> (exn, int) result" where
  "byte_count what v = (case as_int v of
     None \<Rightarrow> Inl (TypeError (what @ '' must be an integer''))
   | Some n \<Rightarrow> if n < 0 then Inl (ValueError (what @ '' cannot be negative'')) else Inr n)"

definition nat_value :: "string \<Rightarrow> int \<Rightarrow> pyval \<Rightarrow> (exn, int) result" where
  "nat_value msg least v = (case as_int v of
     None \<Rightarrow> Inl (ValueError msg)
   | Some n \<Rightarrow> if n < least then Inl (ValueError msg) else Inr n)"

text \<open>\<open>_validate_record_version\<close>: a string, an integer or nothing.\<close>

definition record_version_ok :: "pyval \<Rightarrow> bool" where
  "record_version_ok v = (case v of PNone \<Rightarrow> True | PStr _ \<Rightarrow> True | PInt _ \<Rightarrow> True | _ \<Rightarrow> False)"

definition validate_record_version :: "pyval \<Rightarrow> (exn, unit) result" where
  "validate_record_version v =
     ensure (record_version_ok v) (TypeError ''record version must be a string or integer'')"

text \<open>\<open>_require_record_fields\<close>.\<close>

definition require_record_fields :: "pyval dict \<Rightarrow> string list \<Rightarrow> string list \<Rightarrow> (exn, unit) result" where
  "require_record_fields d required allowed =
     ensure (set required \<subseteq> keys d \<and> keys d \<subseteq> set allowed)
       (ValueError ''record contains missing fields or unknown fields'')"

definition get_or :: "pyval dict \<Rightarrow> string \<Rightarrow> pyval \<Rightarrow> pyval" where
  "get_or d k v = (case map_of d k of None \<Rightarrow> v | Some x \<Rightarrow> x)"

definition parse_items :: "pyval \<Rightarrow> (exn, pyval list) result" where
  "parse_items v = (case array_items v of
     None \<Rightarrow> Inl (TypeError ''repository items must be an array'') | Some xs \<Rightarrow> Inr xs)"

lemma get_or_simps [simp]:
  "get_or [] k v = v"
  "get_or ((k', x) # d) k v = (if k = k' then x else get_or d k v)"
  by (simp_all add: get_or_def)

lemma get_or_cong: "map_of d k = map_of d' k \<Longrightarrow> get_or d k v = get_or d' k v"
  by (simp add: get_or_def)

lemma wf_get_or: "wf_dict d \<Longrightarrow> wf_py v \<Longrightarrow> wf_py (get_or d k v)"
  by (induction d) (auto simp: get_or_def)

lemma optional_Inr_iff [flow]:
  "optional f v = Inr z \<longleftrightarrow> (case z of None \<Rightarrow> v = PNone | Some x \<Rightarrow> v \<noteq> PNone \<and> f v = Inr x)"
  by (cases z) (auto simp: optional_def flow)

lemma byte_count_Inr_iff [flow]: "byte_count w v = Inr n \<longleftrightarrow> v = PInt n \<and> 0 \<le> n"
  by (cases v) (auto simp: byte_count_def as_int_def)

lemma nat_value_Inr_iff [flow]: "nat_value m l v = Inr n \<longleftrightarrow> v = PInt n \<and> l \<le> n"
  by (cases v) (auto simp: nat_value_def as_int_def)

lemma validate_record_version_Inr_iff [flow]:
  "validate_record_version v = Inr u \<longleftrightarrow> record_version_ok v"
  by (simp add: validate_record_version_def flow)

lemma record_version_ok_simps [simp]:
  "record_version_ok PNone" "record_version_ok (PStr s)" "record_version_ok (PInt i)"
  "\<not> record_version_ok (PBool b)"
  by (simp_all add: record_version_ok_def)

lemma optional_simps [simp]:
  "optional f PNone = Inr None"
  "f (PStr s) = Inr x \<Longrightarrow> optional f (PStr s) = Inr (Some x)"
  "f (PInt i) = Inr y \<Longrightarrow> optional f (PInt i) = Inr (Some y)"
  by (simp_all add: optional_def)

section \<open>Provenance\<close>

record provenance =
  pv_producer :: string
  pv_producer_version :: string
  pv_source_digests :: "string dict"
  pv_build_id :: "string option"
  pv_validation_version :: "string option"
  pv_attributes :: "pyval dict"
  pv_format_version :: string

record provenance_args =
  pa_producer :: pyval
  pa_producer_version :: pyval
  pa_source_digests :: pyval
  pa_build_id :: pyval
  pa_validation_version :: pyval
  pa_attributes :: pyval
  pa_format_version :: pyval

definition mk_provenance :: "encoder \<Rightarrow> provenance_args \<Rightarrow> (exn, provenance) result" where
  "mk_provenance cj a =
     rbind (bounded_string (pa_producer a) ''producer'' 256) (\<lambda>producer.
     rbind (bounded_string (pa_producer_version a) ''producer version'' 128) (\<lambda>version.
     rbind (string_mapping (pa_source_digests a) ''source digests'' 64) (\<lambda>sources.
     rbind (rmap (\<lambda>p. digest (PStr (snd p))) sources) (\<lambda>_.
     rbind (optional (\<lambda>v. bounded_string v ''build id'' 256) (pa_build_id a)) (\<lambda>build.
     rbind (optional (\<lambda>v. bounded_string v ''validation version'' 256) (pa_validation_version a))
       (\<lambda>validation.
     rbind (canonical_mapping cj (pa_attributes a) ''provenance attributes'' (Some 64) (Some 262144))
       (\<lambda>attributes.
     rbind (ensure (py_eq (pa_format_version a) (PStr provenance_format))
       (ValueError ''unsupported provenance format version'')) (\<lambda>_.
     Inr \<lparr>pv_producer = producer, pv_producer_version = version, pv_source_digests = sources,
       pv_build_id = build, pv_validation_version = validation, pv_attributes = attributes,
       pv_format_version = provenance_format\<rparr>))))))))"

definition provenance_to_dict :: "provenance \<Rightarrow> pyval dict" where
  "provenance_to_dict p =
     [(''formatVersion'', PStr (pv_format_version p)),
      (''producer'', PStr (pv_producer p)),
      (''producerVersion'', PStr (pv_producer_version p)),
      (''sourceDigests'', PDict (str_dict (pv_source_digests p))),
      (''buildId'', of_opt PStr (pv_build_id p)),
      (''validationVersion'', of_opt PStr (pv_validation_version p)),
      (''attributes'', PDict (thaw_items (pv_attributes p)))]"

definition provenance_fields :: "string list" where
  "provenance_fields = [''formatVersion'', ''producer'', ''producerVersion'', ''sourceDigests'',
     ''buildId'', ''validationVersion'', ''attributes'']"

definition provenance_from_dict :: "encoder \<Rightarrow> pyval dict \<Rightarrow> (exn, provenance) result" where
  "provenance_from_dict cj d =
     (if \<not> {''producer'', ''producerVersion''} \<subseteq> keys d \<or> \<not> keys d \<subseteq> set provenance_fields
      then Inl (ValueError ''provenance contains unknown or missing fields'')
      else if \<not> is_mapping (get_or d ''sourceDigests'' (PDict []))
         \<or> \<not> is_mapping (get_or d ''attributes'' (PDict []))
      then Inl (TypeError ''provenance sourceDigests and attributes must be objects'')
      else mk_provenance cj
        \<lparr>pa_producer = the (map_of d ''producer''),
         pa_producer_version = the (map_of d ''producerVersion''),
         pa_source_digests = get_or d ''sourceDigests'' (PDict []),
         pa_build_id = get_or d ''buildId'' PNone,
         pa_validation_version = get_or d ''validationVersion'' PNone,
         pa_attributes = get_or d ''attributes'' (PDict []),
         pa_format_version = get_or d ''formatVersion'' (PStr provenance_format)\<rparr>)"

definition provenance_from_mapping :: "encoder \<Rightarrow> pyval \<Rightarrow> (exn, provenance) result" where
  "provenance_from_mapping cj v = (case str_items v of
     None \<Rightarrow> Inl (ValueError ''provenance contains unknown or missing fields'')
   | Some d \<Rightarrow> provenance_from_dict cj d)"

text \<open>The dataclass equality.\<close>

definition provenance_eq :: "provenance \<Rightarrow> provenance \<Rightarrow> bool" where
  "provenance_eq p q =
     (pv_producer p = pv_producer q \<and> pv_producer_version p = pv_producer_version q
      \<and> smap_eq (pv_source_digests p) (pv_source_digests q)
      \<and> pv_build_id p = pv_build_id q \<and> pv_validation_version p = pv_validation_version q
      \<and> dict_eq (pv_attributes p) (pv_attributes q)
      \<and> pv_format_version p = pv_format_version q)"

text \<open>A mapping the encoder leaves as it is, within its limits.\<close>

definition normal :: "encoder \<Rightarrow> nat option \<Rightarrow> nat option \<Rightarrow> pyval dict \<Rightarrow> bool" where
  "normal cj me mb d = (frozen_dict d \<and> wf_dict d \<and>
     (\<forall>f. canonical_mapping cj (PProxy d) f me mb = Inr d) \<and>
     (\<forall>f. canonical_mapping cj (PDict (thaw_items d)) f me mb = Inr d))"

definition provenance_ok :: "encoder \<Rightarrow> provenance \<Rightarrow> bool" where
  "provenance_ok cj p =
     (bounded_ok 256 (pv_producer p) \<and> bounded_ok 128 (pv_producer_version p)
      \<and> labels_ok 64 (pv_source_digests p) \<and> list_all (\<lambda>q. digest_re (snd q)) (pv_source_digests p)
      \<and> (\<forall>s. pv_build_id p = Some s \<longrightarrow> bounded_ok 256 s)
      \<and> (\<forall>s. pv_validation_version p = Some s \<longrightarrow> bounded_ok 256 s)
      \<and> normal cj (Some 64) (Some 262144) (pv_attributes p)
      \<and> pv_format_version p = provenance_format)"

lemma rmap_digest [simp]:
  "(\<exists>r. rmap (\<lambda>p. digest (PStr (snd p))) d = Inr r) \<longleftrightarrow> list_all (\<lambda>p. digest_re (snd p)) d"
  by (induction d) (auto simp: flow)

lemma rmap_digest_Inr:
  "list_all (\<lambda>p. digest_re (snd p)) d \<Longrightarrow>
     rmap (\<lambda>p. digest (PStr (snd p))) d = Inr (map snd d)"
  by (induction d) (auto simp: flow scalar_PStr)

lemma optional_bounded [simp]:
  "(\<And>s. z = Some s \<Longrightarrow> bounded_ok n s) \<Longrightarrow>
     optional (\<lambda>v. bounded_string v f n) (of_opt PStr z) = Inr z"
  by (cases z) (simp_all add: scalar_PStr)

text \<open>What the plugin passes on to a constructor: plain Python values with distinct keys.\<close>

lemma normal_again:
  "normal cj me mb d \<Longrightarrow> canonical_mapping cj (PProxy d) f me mb = Inr d"
  "normal cj me mb d \<Longrightarrow> canonical_mapping cj (PDict (thaw_items d)) f me mb = Inr d"
  by (simp_all add: normal_def)

lemma provenance_roundtrip:
  "provenance_ok cj p \<Longrightarrow> provenance_from_dict cj (provenance_to_dict p) = Inr p"
  by (cases p) (simp add: provenance_ok_def provenance_from_dict_def provenance_to_dict_def
      provenance_fields_def get_or_def mk_provenance_def scalar_PStr string_mapping_fixed
      rmap_digest_Inr normal_again)

lemma provenance_eq_refl: "provenance_ok cj p \<Longrightarrow> provenance_eq p p"
  by (simp add: provenance_ok_def provenance_eq_def smap_eq_refl dict_eq_refl labels_ok_def normal_def
      del: wf_py.simps)

lemma canonical_mapping_cong:
  assumes "is_mapping v = is_mapping v'" "mapping_len v = mapping_len v'"
    "canonical_value cj (shallow_dict v) = canonical_value cj (shallow_dict v')"
  shows "canonical_mapping cj v f me mb = canonical_mapping cj v' f me mb"
  unfolding canonical_mapping_def assms ..

context canonical_codec
begin

lemma canonical_mapping_normal_form:
  assumes "canonical_mapping cj v f me mb = Inr d" "str_items v \<noteq> None"
  shows "normal cj me mb d" "normal cj me None d" "normal cj None None d"
proof -
  have fr: "frozen_dict d" using assms(1) by (rule canonical_mapping_frozen)
  have again: "canonical_mapping cj (PProxy d) f' me' mb' = Inr d"
    "canonical_mapping cj (PDict (thaw_items d)) f' me' mb' = Inr d"
    if "me' = me \<or> me' = None" "mb' = mb \<or> mb' = None" for f' me' mb'
  proof -
    show *: "canonical_mapping cj (PProxy d) f' me' mb' = Inr d"
      using canonical_mapping_again [OF assms that] by simp
    have "cj (PDict (thaw_items d)) = cj (PDict d)" using thawed [of "PDict d"] by simp
    then have "canonical_value cj (shallow_dict (PDict (thaw_items d))) = canonical_value cj (shallow_dict (PProxy d))"
      by (simp add: canonical_value_def shallow_dict_def)
    then have "canonical_mapping cj (PDict (thaw_items d)) f' me' mb' = canonical_mapping cj (PProxy d) f' me' mb'"
      by (intro canonical_mapping_cong) simp_all
    with * show "canonical_mapping cj (PDict (thaw_items d)) f' me' mb' = Inr d" by simp
  qed
  have wf: "wf_dict d" using assms by (rule canonical_mapping_wf)
  show "normal cj me mb d" "normal cj me None d" "normal cj None None d"
    using fr wf again unfolding normal_def by auto
qed

lemma mk_provenance_ok:
  assumes "mk_provenance cj a = Inr p" "wf_py (pa_source_digests a)" "str_items (pa_attributes a) \<noteq> None"
  shows "provenance_ok cj p"
proof -
  from assms(1) obtain ds where fields:
    "bounded_string (pa_producer a) ''producer'' 256 = Inr (pv_producer p)"
    "bounded_string (pa_producer_version a) ''producer version'' 128 = Inr (pv_producer_version p)"
    "string_mapping (pa_source_digests a) ''source digests'' 64 = Inr (pv_source_digests p)"
    "rmap (\<lambda>p. digest (PStr (snd p))) (pv_source_digests p) = Inr ds"
    "optional (\<lambda>v. bounded_string v ''build id'' 256) (pa_build_id a) = Inr (pv_build_id p)"
    "optional (\<lambda>v. bounded_string v ''validation version'' 256) (pa_validation_version a)
       = Inr (pv_validation_version p)"
    "canonical_mapping cj (pa_attributes a) ''provenance attributes'' (Some 64) (Some 262144)
       = Inr (pv_attributes p)"
    "pv_format_version p = provenance_format"
    unfolding mk_provenance_def
    by (auto simp only: rbind_Inr_iff ensure_Inr_iff sum.inject provenance.select_convs)
  have "labels_ok 64 (pv_source_digests p)" using fields(3) assms(2) by (rule string_mapping_ok)
  moreover have "normal cj (Some 64) (Some 262144) (pv_attributes p)"
    using fields(7) assms(3) by (rule canonical_mapping_normal_form)
  moreover have "list_all (\<lambda>q. digest_re (snd q)) (pv_source_digests p)"
    using fields(4) rmap_digest [of "pv_source_digests p"] by blast
  ultimately show ?thesis
    using fields(1,2,5,6,8) by (auto simp: provenance_ok_def flow split: option.splits)
qed

end

end
