(* ===== verification/Records.thy ===== *)
theory Records
  imports Resources
begin

text \<open>
  \<open>StoredResourceV1\<close>, \<open>ResourceChannelV1\<close> and \<open>OrphanCandidateV1\<close> of \<open>models/resources.py\<close>, and
  the result classes of \<open>models/results.py\<close>. A constructor takes a record of raw arguments; a
  field whose class is checked before the call (an enumeration member, a parsed reference) is
  already typed. Equality of dataclasses leaves out \<open>record_version\<close> (\<open>compare=False\<close>).
\<close>

section \<open>Stored resources\<close>

record stored_resource =
  sr_resource_id :: string
  sr_namespace :: string
  sr_kind :: string
  sr_name :: string
  sr_version :: string
  sr_profile :: resource_profile
  sr_state :: resource_state
  sr_media_type :: string
  sr_digest :: string
  sr_byte_length :: int
  sr_created_by :: string
  sr_created_at :: string
  sr_object_ref :: "object_ref option"
  sr_payload :: "pyval dict option"
  sr_payload_schema :: "schema_ref option"
  sr_labels :: "string dict"
  sr_annotations :: "pyval dict"
  sr_provenance :: "provenance option"
  sr_supersedes :: "string option"
  sr_immutable :: bool
  sr_version_order :: "int option"
  sr_record_version :: pyval
  sr_format_version :: string

record resource_args =
  ra_resource_id :: pyval
  ra_namespace :: pyval
  ra_kind :: pyval
  ra_name :: pyval
  ra_version :: pyval
  ra_profile :: resource_profile
  ra_state :: resource_state
  ra_media_type :: pyval
  ra_digest :: pyval
  ra_byte_length :: pyval
  ra_created_by :: pyval
  ra_created_at :: pyval
  ra_object_ref :: "object_ref option"
  ra_payload :: pyval
  ra_payload_schema :: "schema_ref option"
  ra_labels :: pyval
  ra_annotations :: pyval
  ra_provenance :: "provenance option"
  ra_supersedes :: pyval
  ra_immutable :: pyval
  ra_version_order :: pyval
  ra_record_version :: pyval
  ra_format_version :: pyval

definition check_immutable :: "resource_state \<Rightarrow> pyval \<Rightarrow> (exn, bool) result" where
  "check_immutable state v = (case as_bool v of
     None \<Rightarrow> Inl (TypeError ''immutable must be boolean'')
   | Some b \<Rightarrow>
       if state = DRAFT \<and> b
       then Inl (ValueError ''draft resources cannot claim immutable publication state'')
       else if state \<noteq> DRAFT \<and> \<not> b
       then Inl (ValueError ''published and deprecated resources must be immutable'')
       else Inr b)"

text \<open>
  The part of \<open>__post_init__\<close> that depends on the profile: what a Configuration and what an
  Artifact may carry, with the digest and the length recomputed from an inline payload.
\<close>

definition check_profile ::
  "external \<Rightarrow> resource_args \<Rightarrow> string \<Rightarrow> int
    \<Rightarrow> (exn, pyval dict option \<times> schema_ref option \<times> object_ref option) result" where
  "check_profile x a dig len = (case ra_profile a of
     CONFIGURATION_PROFILE \<Rightarrow>
       rbind (ensure (ra_payload a \<noteq> PNone \<and> ra_payload_schema a \<noteq> None \<and> ra_object_ref a = None)
         (ValueError ''configuration requires payload and SchemaRef and no ObjectRef'')) (\<lambda>_.
       rbind (canonical_mapping (x_canonical_json_bytes x) (ra_payload a) ''configuration payload''
         None None) (\<lambda>payload.
       rbind (parse_schema_ref (SchemaRefArg (the (ra_payload_schema a)))) (\<lambda>schema.
       rbind (mapping_bytes (x_canonical_json_bytes x) payload) (\<lambda>encoded.
       rbind (ensure (sha256_digest encoded = dig \<and> int (length encoded) = len)
         (ValueError ''configuration digest or byte length does not match payload'')) (\<lambda>_.
       Inr (Some payload, Some schema, None))))))
   | ARTIFACT_PROFILE \<Rightarrow>
       (case ra_object_ref a of
          None \<Rightarrow> Inl (ValueError ''artifact requires an ObjectRef and no inline payload'')
        | Some r \<Rightarrow>
            rbind (ensure (ra_payload a = PNone \<and> ra_payload_schema a = None)
              (ValueError ''artifact requires an ObjectRef and no inline payload'')) (\<lambda>_.
            rbind (x_parse_object_reference x (RefObject r)) (\<lambda>reference.
            rbind (ensure (or_digest reference = Some dig)
              (ValueError ''artifact ObjectRef digest does not match resource digest'')) (\<lambda>_.
            Inr (None, None, Some reference))))))"

definition mk_stored_resource :: "external \<Rightarrow> resource_args \<Rightarrow> (exn, stored_resource) result" where
  "mk_stored_resource x a =
     rbind (mk_identity (ra_namespace a) (ra_kind a) (ra_name a) (ra_version a)) (\<lambda>i.
     rbind (ensure (py_eq (ra_resource_id a) (PStr (identity_resource_id i)))
       (ValueError ''resource id does not match its logical identity'')) (\<lambda>_.
     rbind (media_type (ra_media_type a)) (\<lambda>media.
     rbind (digest (ra_digest a)) (\<lambda>dig.
     rbind (byte_count ''byte length'' (ra_byte_length a)) (\<lambda>len.
     rbind (bounded_string (ra_created_by a) ''actor'' 512) (\<lambda>actor.
     rbind (utc_of_value (ra_created_at a)) (\<lambda>at.
     rbind (string_mapping (ra_labels a) ''labels'' 64) (\<lambda>labels.
     rbind (canonical_mapping (x_canonical_json_bytes x) (ra_annotations a) ''annotations''
       (Some 64) (Some 262144)) (\<lambda>annotations.
     rbind (optional (\<lambda>v. bounded_string v ''supersedes'' 256) (ra_supersedes a)) (\<lambda>supersedes.
     rbind (check_immutable (ra_state a) (ra_immutable a)) (\<lambda>immutable.
     rbind (optional (nat_value ''version order must be a non-negative integer'' 0)
       (ra_version_order a)) (\<lambda>order.
     rbind (validate_record_version (ra_record_version a)) (\<lambda>_.
     rbind (check_profile x a dig len) (\<lambda>(payload, schema, object).
     rbind (ensure (py_eq (ra_format_version a) (PStr resource_format))
       (ValueError ''unsupported stored resource format version'')) (\<lambda>_.
     Inr \<lparr>sr_resource_id = identity_resource_id i, sr_namespace = ri_namespace i,
       sr_kind = ri_kind i, sr_name = ri_name i, sr_version = ri_version i,
       sr_profile = ra_profile a, sr_state = ra_state a, sr_media_type = media,
       sr_digest = dig, sr_byte_length = len, sr_created_by = actor, sr_created_at = at,
       sr_object_ref = object, sr_payload = payload, sr_payload_schema = schema,
       sr_labels = labels, sr_annotations = annotations, sr_provenance = ra_provenance a,
       sr_supersedes = supersedes, sr_immutable = immutable, sr_version_order = order,
       sr_record_version = ra_record_version a, sr_format_version = resource_format\<rparr>)))))))))))))))"

definition sr_identity :: "stored_resource \<Rightarrow> resource_identity" where
  "sr_identity r = \<lparr>ri_namespace = sr_namespace r, ri_kind = sr_kind r, ri_name = sr_name r,
     ri_version = sr_version r\<rparr>"

text \<open>The \<open>ref\<close> property, whose constructor checks the identity once more.\<close>

definition sr_ref :: "stored_resource \<Rightarrow> (exn, stored_ref) result" where
  "sr_ref r = mk_stored_ref (PStr (sr_resource_id r)) (PStr (sr_namespace r)) (PStr (sr_kind r))
     (PStr (sr_name r)) (PStr (sr_version r)) (PStr (profile_value (sr_profile r)))
     (PStr (sr_digest r))"

definition resource_to_record :: "external \<Rightarrow> stored_resource \<Rightarrow> pyval dict" where
  "resource_to_record x r =
     [(''formatVersion'', PStr (sr_format_version r)),
      (''resourceId'', PStr (sr_resource_id r)),
      (''namespace'', PStr (sr_namespace r)),
      (''kind'', PStr (sr_kind r)),
      (''name'', PStr (sr_name r)),
      (''version'', PStr (sr_version r)),
      (''profile'', PStr (profile_value (sr_profile r))),
      (''state'', PStr (state_value (sr_state r))),
      (''mediaType'', PStr (sr_media_type r)),
      (''digest'', PStr (sr_digest r)),
      (''byteLength'', PInt (sr_byte_length r)),
      (''objectRef'', of_opt (x_object_reference_dict x) (sr_object_ref r)),
      (''payload'', of_opt (\<lambda>d. PDict (thaw_items d)) (sr_payload r)),
      (''payloadSchema'', of_opt (\<lambda>s. PDict (schema_ref_to_dict s)) (sr_payload_schema r)),
      (''labels'', PDict (str_dict (sr_labels r))),
      (''annotations'', PDict (thaw_items (sr_annotations r))),
      (''provenance'', of_opt (\<lambda>p. PDict (provenance_to_dict p)) (sr_provenance r)),
      (''createdBy'', PStr (sr_created_by r)),
      (''createdAt'', PStr (sr_created_at r)),
      (''supersedes'', of_opt PStr (sr_supersedes r)),
      (''immutable'', PBool (sr_immutable r)),
      (''versionOrder'', of_opt PInt (sr_version_order r))]"

definition resource_fields :: "string list" where
  "resource_fields = [''formatVersion'', ''resourceId'', ''namespace'', ''kind'', ''name'',
     ''version'', ''profile'', ''state'', ''mediaType'', ''digest'', ''byteLength'', ''objectRef'',
     ''payload'', ''payloadSchema'', ''labels'', ''annotations'', ''provenance'', ''createdBy'',
     ''createdAt'', ''supersedes'', ''immutable'', ''versionOrder'']"

definition optional_mapping :: "string \<Rightarrow> pyval \<Rightarrow> (exn, unit) result" where
  "optional_mapping msg v = ensure (v = PNone \<or> is_mapping v) (TypeError msg)"

definition resource_from_record :: "external \<Rightarrow> pyval dict \<Rightarrow> (exn, stored_resource) result" where
  "resource_from_record x d =
     rbind (require_record_fields d resource_fields (''recordVersion'' # resource_fields)) (\<lambda>_.
     let at = (\<lambda>k. get_or d k PNone) in
     rbind (optional_mapping ''stored configuration payload must be an object'' (at ''payload'')) (\<lambda>_.
     rbind (optional_mapping ''stored payload SchemaRef must be an object'' (at ''payloadSchema'')) (\<lambda>_.
     rbind (optional_mapping ''stored ObjectRef must be an object'' (at ''objectRef'')) (\<lambda>_.
     rbind (optional_mapping ''stored provenance must be an object'' (at ''provenance'')) (\<lambda>_.
     rbind (ensure (is_mapping (at ''labels'') \<and> is_mapping (at ''annotations''))
       (TypeError ''stored labels and annotations must be objects'')) (\<lambda>_.
     rbind (parse_profile (at ''profile'')) (\<lambda>profile.
     rbind (parse_state (at ''state'')) (\<lambda>state.
     rbind (optional (\<lambda>v. x_parse_object_reference x (RefMapping v)) (at ''objectRef'')) (\<lambda>object.
     rbind (optional (\<lambda>v. parse_schema_ref (SchemaValueArg v)) (at ''payloadSchema'')) (\<lambda>schema.
     rbind (optional (provenance_from_mapping (x_canonical_json_bytes x)) (at ''provenance''))
       (\<lambda>provenance.
     mk_stored_resource x
       \<lparr>ra_resource_id = at ''resourceId'', ra_namespace = at ''namespace'', ra_kind = at ''kind'',
        ra_name = at ''name'', ra_version = at ''version'', ra_profile = profile, ra_state = state,
        ra_media_type = at ''mediaType'', ra_digest = at ''digest'',
        ra_byte_length = at ''byteLength'', ra_created_by = at ''createdBy'',
        ra_created_at = at ''createdAt'', ra_object_ref = object, ra_payload = at ''payload'',
        ra_payload_schema = schema, ra_labels = at ''labels'',
        ra_annotations = at ''annotations'', ra_provenance = provenance,
        ra_supersedes = at ''supersedes'', ra_immutable = at ''immutable'',
        ra_version_order = at ''versionOrder'', ra_record_version = at ''recordVersion'',
        ra_format_version = at ''formatVersion''\<rparr>)))))))))))"

text \<open>What every constructed resource satisfies.\<close>

definition profile_part_ok :: "external \<Rightarrow> stored_resource \<Rightarrow> bool" where
  "profile_part_ok x r = (case sr_profile r of
     CONFIGURATION_PROFILE \<Rightarrow> sr_object_ref r = None
       \<and> (\<exists>s. sr_payload_schema r = Some s \<and> schema_ref_ok s)
       \<and> (\<exists>d b. sr_payload r = Some d \<and> normal (x_canonical_json_bytes x) None None d
             \<and> mapping_bytes (x_canonical_json_bytes x) d = Inr b
             \<and> sr_digest r = sha256_digest b \<and> sr_byte_length r = int (length b))
   | ARTIFACT_PROFILE \<Rightarrow> sr_payload r = None \<and> sr_payload_schema r = None
       \<and> (\<exists>o1. sr_object_ref r = Some o1 \<and> or_digest o1 = Some (sr_digest r)))"

definition resource_ok :: "external \<Rightarrow> stored_resource \<Rightarrow> bool" where
  "resource_ok x r =
     (identity_ok (sr_identity r) \<and> sr_resource_id r = identity_resource_id (sr_identity r)
      \<and> media_ok (sr_media_type r) \<and> digest_re (sr_digest r) \<and> 0 \<le> sr_byte_length r
      \<and> bounded_ok 512 (sr_created_by r)
      \<and> utc_of_value (PStr (sr_created_at r)) = Inr (sr_created_at r)
      \<and> labels_ok 64 (sr_labels r)
      \<and> normal (x_canonical_json_bytes x) (Some 64) (Some 262144) (sr_annotations r)
      \<and> (\<forall>p. sr_provenance r = Some p \<longrightarrow> provenance_ok (x_canonical_json_bytes x) p)
      \<and> (\<forall>s. sr_supersedes r = Some s \<longrightarrow> bounded_ok 256 s)
      \<and> sr_immutable r = (sr_state r \<noteq> DRAFT)
      \<and> (\<forall>n. sr_version_order r = Some n \<longrightarrow> 0 \<le> n)
      \<and> record_version_ok (sr_record_version r)
      \<and> sr_format_version r = resource_format
      \<and> profile_part_ok x r)"

lemma profile_part_version [simp]:
  "profile_part_ok x (r\<lparr>sr_record_version := v\<rparr>) = profile_part_ok x r"
  by (cases "sr_profile r") (simp_all add: profile_part_ok_def)

lemma sr_identity_update [simp]:
  "sr_identity (r\<lparr>sr_record_version := v\<rparr>) = sr_identity r"
  "sr_identity (r\<lparr>sr_state := s\<rparr>) = sr_identity r"
  by (simp_all add: sr_identity_def)

lemma resource_ok_version:
  "resource_ok x r \<Longrightarrow> record_version_ok v \<Longrightarrow> resource_ok x (r\<lparr>sr_record_version := v\<rparr>)"
  by (simp add: resource_ok_def)

lemma check_immutable_Inr_iff [flow]:
  "check_immutable s v = Inr b \<longleftrightarrow> v = PBool b \<and> b = (s \<noteq> DRAFT)"
  by (cases v) (auto simp: check_immutable_def as_bool_def)

lemma optional_mapping_Inr_iff [flow]:
  "optional_mapping msg v = Inr u \<longleftrightarrow> v = PNone \<or> is_mapping v"
  by (simp add: optional_mapping_def flow)

lemma mk_stored_resource_fields:
  assumes "mk_stored_resource x a = Inr r"
  shows "mk_identity (ra_namespace a) (ra_kind a) (ra_name a) (ra_version a) = Inr (sr_identity r)"
    "sr_resource_id r = identity_resource_id (sr_identity r)"
    "media_type (ra_media_type a) = Inr (sr_media_type r)"
    "digest (ra_digest a) = Inr (sr_digest r)"
    "byte_count ''byte length'' (ra_byte_length a) = Inr (sr_byte_length r)"
    "bounded_string (ra_created_by a) ''actor'' 512 = Inr (sr_created_by r)"
    "utc_of_value (ra_created_at a) = Inr (sr_created_at r)"
    "string_mapping (ra_labels a) ''labels'' 64 = Inr (sr_labels r)"
    "canonical_mapping (x_canonical_json_bytes x) (ra_annotations a) ''annotations''
       (Some 64) (Some 262144) = Inr (sr_annotations r)"
    "optional (\<lambda>v. bounded_string v ''supersedes'' 256) (ra_supersedes a) = Inr (sr_supersedes r)"
    "check_immutable (ra_state a) (ra_immutable a) = Inr (sr_immutable r)"
    "optional (nat_value ''version order must be a non-negative integer'' 0) (ra_version_order a)
       = Inr (sr_version_order r)"
    "record_version_ok (ra_record_version a)"
    "check_profile x a (sr_digest r) (sr_byte_length r)
       = Inr (sr_payload r, sr_payload_schema r, sr_object_ref r)"
    "sr_profile r = ra_profile a" "sr_state r = ra_state a" "sr_provenance r = ra_provenance a"
    "sr_record_version r = ra_record_version a" "sr_format_version r = resource_format"
  using assms unfolding mk_stored_resource_def
  by (auto simp only: rbind_Inr_iff ensure_Inr_iff validate_record_version_Inr_iff sum.inject
      stored_resource.select_convs sr_identity_def identity_collapse split_paired_Ex prod.case)

text \<open>
  Conversely, the constructor gives back a resource from arguments that print its fields.
\<close>

lemma mk_stored_resource_Inr:
  assumes ok: "resource_ok x r"
    and "ra_resource_id a = PStr (sr_resource_id r)" "ra_namespace a = PStr (sr_namespace r)"
    "ra_kind a = PStr (sr_kind r)" "ra_name a = PStr (sr_name r)" "ra_version a = PStr (sr_version r)"
    "ra_profile a = sr_profile r" "ra_state a = sr_state r"
    "ra_media_type a = PStr (sr_media_type r)" "ra_digest a = PStr (sr_digest r)"
    "ra_byte_length a = PInt (sr_byte_length r)" "ra_created_by a = PStr (sr_created_by r)"
    "ra_created_at a = PStr (sr_created_at r)" "ra_labels a = PDict (str_dict (sr_labels r))"
    "ra_annotations a = PDict (thaw_items (sr_annotations r))"
    "ra_provenance a = sr_provenance r" "ra_supersedes a = of_opt PStr (sr_supersedes r)"
    "ra_immutable a = PBool (sr_immutable r)" "ra_version_order a = of_opt PInt (sr_version_order r)"
    "ra_record_version a = sr_record_version r" "ra_format_version a = PStr (sr_format_version r)"
    and profile: "check_profile x a (sr_digest r) (sr_byte_length r)
       = Inr (sr_payload r, sr_payload_schema r, sr_object_ref r)"
  shows "mk_stored_resource x a = Inr r"
proof -
  have "mk_identity (ra_namespace a) (ra_kind a) (ra_name a) (ra_version a) = Inr (sr_identity r)"
    using assms by (simp add: flow resource_ok_def sr_identity_def)
  moreover have "optional (\<lambda>v. bounded_string v ''supersedes'' 256) (ra_supersedes a) = Inr (sr_supersedes r)"
    using assms by (simp add: resource_ok_def)
  moreover have "optional (nat_value ''version order must be a non-negative integer'' 0) (ra_version_order a)
      = Inr (sr_version_order r)"
    using assms by (cases "sr_version_order r") (simp_all add: flow resource_ok_def)
  moreover have "check_immutable (sr_state r) (PBool (sr_immutable r)) = Inr (sr_immutable r)"
    using assms by (simp add: flow resource_ok_def)
  moreover have "r = \<lparr>sr_resource_id = sr_resource_id r, sr_namespace = sr_namespace r,
       sr_kind = sr_kind r, sr_name = sr_name r, sr_version = sr_version r,
       sr_profile = sr_profile r, sr_state = sr_state r, sr_media_type = sr_media_type r,
       sr_digest = sr_digest r, sr_byte_length = sr_byte_length r, sr_created_by = sr_created_by r,
       sr_created_at = sr_created_at r, sr_object_ref = sr_object_ref r,
       sr_payload = sr_payload r, sr_payload_schema = sr_payload_schema r,
       sr_labels = sr_labels r, sr_annotations = sr_annotations r, sr_provenance = sr_provenance r,
       sr_supersedes = sr_supersedes r, sr_immutable = sr_immutable r,
       sr_version_order = sr_version_order r, sr_record_version = sr_record_version r,
       sr_format_version = sr_format_version r\<rparr>"
    by simp
  ultimately show ?thesis
    using assms
    by (simp add: mk_stored_resource_def resource_ok_def scalar_PStr string_mapping_fixed normal_again
        byte_count_def validate_record_version_def sr_identity_def)
qed

lemma check_profile_configuration:
  assumes "ra_profile a = CONFIGURATION_PROFILE"
  shows "check_profile x a dig len = Inr (pl, sc, ob) \<longleftrightarrow>
     ra_payload a \<noteq> PNone \<and> ra_object_ref a = None \<and> ob = None
     \<and> sc \<noteq> None \<and> ra_payload_schema a = sc
     \<and> (\<exists>d b. pl = Some d
           \<and> canonical_mapping (x_canonical_json_bytes x) (ra_payload a) ''configuration payload'' None None = Inr d
           \<and> mapping_bytes (x_canonical_json_bytes x) d = Inr b
           \<and> dig = sha256_digest b \<and> len = int (length b))"
  using assms
  by (auto simp only: check_profile_def resource_profile.case rbind_Inr_iff ensure_Inr_iff
      parse_schema_ref_def schema_arg.case sum.inject prod.inject option.sel option.inject
      option.distinct simp_thms not_None_eq)

lemma check_profile_artifact:
  assumes "ra_profile a = ARTIFACT_PROFILE"
  shows "check_profile x a dig len = Inr (pl, sc, ob) \<longleftrightarrow>
     ra_payload a = PNone \<and> ra_payload_schema a = None \<and> pl = None \<and> sc = None
     \<and> (\<exists>r r'. ra_object_ref a = Some r \<and> x_parse_object_reference x (RefObject r) = Inr r'
           \<and> or_digest r' = Some dig \<and> ob = Some r')"
  using assms
  by (cases "ra_object_ref a") (auto simp add: check_profile_def rbind_Inr_iff ensure_Inr_iff)

context external_contract
begin

lemma printed_not_none [simp]: "x_object_reference_dict x r \<noteq> PNone"
  using printed_mapping [of r] by auto

lemma check_profile_ok:
  assumes "check_profile x a (sr_digest r) (sr_byte_length r)
      = Inr (sr_payload r, sr_payload_schema r, sr_object_ref r)"
    "sr_profile r = ra_profile a" "wf_py (ra_payload a)"
    "\<forall>s. ra_payload_schema a = Some s \<longrightarrow> schema_ref_ok s"
  shows "profile_part_ok x r"
proof (cases "ra_profile a")
  case CONFIGURATION_PROFILE
  note c = assms(1) [unfolded check_profile_configuration [OF this]]
  then obtain d where d: "sr_payload r = Some d"
    "canonical_mapping (x_canonical_json_bytes x) (ra_payload a) ''configuration payload'' None None = Inr d"
    by auto
  have "is_mapping (ra_payload a)" using d(2) by (rule canonical_mapping_Inr)
  with assms(3) have "str_items (ra_payload a) \<noteq> None" by (rule wf_mapping_items)
  with d(2) have "normal (x_canonical_json_bytes x) None None d" by (rule canonical_mapping_normal_form)
  with c d(1) CONFIGURATION_PROFILE assms(2,4) show ?thesis
    by (auto simp: profile_part_ok_def)
next
  case ARTIFACT_PROFILE
  with assms(1,2) show ?thesis by (auto simp: profile_part_ok_def check_profile_artifact)
qed

lemma check_profile_again:
  assumes "profile_part_ok x r" "ra_profile a = sr_profile r"
    "ra_payload a = of_opt (\<lambda>d. PDict (thaw_items d)) (sr_payload r)
      \<or> ra_payload a = of_opt PProxy (sr_payload r)"
    "ra_payload_schema a = sr_payload_schema r" "ra_object_ref a = sr_object_ref r"
  shows "check_profile x a (sr_digest r) (sr_byte_length r)
      = Inr (sr_payload r, sr_payload_schema r, sr_object_ref r)"
proof (cases "sr_profile r")
  case CONFIGURATION_PROFILE
  with assms show ?thesis
    by (subst check_profile_configuration) (auto simp: profile_part_ok_def normal_again)
next
  case ARTIFACT_PROFILE
  with assms show ?thesis
    by (subst check_profile_artifact) (auto simp: profile_part_ok_def parse_object)
qed

lemma mk_stored_resource_ok:
  assumes "mk_stored_resource x a = Inr r" "wf_py (ra_labels a)" "wf_py (ra_annotations a)"
    "wf_py (ra_payload a)" "\<forall>s. ra_payload_schema a = Some s \<longrightarrow> schema_ref_ok s"
    "\<forall>p. ra_provenance a = Some p \<longrightarrow> provenance_ok (x_canonical_json_bytes x) p"
  shows "resource_ok x r"
proof -
  note f = mk_stored_resource_fields [OF assms(1)]
  have "labels_ok 64 (sr_labels r)" using f(8) assms(2) by (rule string_mapping_ok)
  moreover have "is_mapping (ra_annotations a)" using f(9) by (rule canonical_mapping_Inr)
  with assms(3) have "str_items (ra_annotations a) \<noteq> None" by (rule wf_mapping_items)
  with f(9) have "normal (x_canonical_json_bytes x) (Some 64) (Some 262144) (sr_annotations r)"
    by (rule canonical_mapping_normal_form)
  moreover have "profile_part_ok x r" using f(14,15) assms(4,5) by (rule check_profile_ok)
  moreover have "utc_of_value (PStr (sr_created_at r)) = Inr (sr_created_at r)"
    using f(7) by (rule utc_of_value_idem)
  ultimately show ?thesis
    using f(1-6,10-13,15-19) assms(6)
    by (auto simp: resource_ok_def flow split: option.splits)
qed

lemma printed_fields:
  shows "get_or (resource_to_record x r) ''formatVersion'' PNone = PStr (sr_format_version r)"
    "get_or (resource_to_record x r) ''resourceId'' PNone = PStr (sr_resource_id r)"
    "get_or (resource_to_record x r) ''namespace'' PNone = PStr (sr_namespace r)"
    "get_or (resource_to_record x r) ''kind'' PNone = PStr (sr_kind r)" "get_or (resource_to_record x r) ''name'' PNone = PStr (sr_name r)"
    "get_or (resource_to_record x r) ''version'' PNone = PStr (sr_version r)"
    "get_or (resource_to_record x r) ''profile'' PNone = PStr (profile_value (sr_profile r))"
    "get_or (resource_to_record x r) ''state'' PNone = PStr (state_value (sr_state r))"
    "get_or (resource_to_record x r) ''mediaType'' PNone = PStr (sr_media_type r)"
    "get_or (resource_to_record x r) ''digest'' PNone = PStr (sr_digest r)"
    "get_or (resource_to_record x r) ''byteLength'' PNone = PInt (sr_byte_length r)"
    "get_or (resource_to_record x r) ''objectRef'' PNone = of_opt (x_object_reference_dict x) (sr_object_ref r)"
    "get_or (resource_to_record x r) ''payload'' PNone = of_opt (\<lambda>d. PDict (thaw_items d)) (sr_payload r)"
    "get_or (resource_to_record x r) ''payloadSchema'' PNone = of_opt (\<lambda>s. PDict (schema_ref_to_dict s)) (sr_payload_schema r)"
    "get_or (resource_to_record x r) ''labels'' PNone = PDict (str_dict (sr_labels r))"
    "get_or (resource_to_record x r) ''annotations'' PNone = PDict (thaw_items (sr_annotations r))"
    "get_or (resource_to_record x r) ''provenance'' PNone = of_opt (\<lambda>p. PDict (provenance_to_dict p)) (sr_provenance r)"
    "get_or (resource_to_record x r) ''createdBy'' PNone = PStr (sr_created_by r)"
    "get_or (resource_to_record x r) ''createdAt'' PNone = PStr (sr_created_at r)"
    "get_or (resource_to_record x r) ''supersedes'' PNone = of_opt PStr (sr_supersedes r)"
    "get_or (resource_to_record x r) ''immutable'' PNone = PBool (sr_immutable r)"
    "get_or (resource_to_record x r) ''versionOrder'' PNone = of_opt PInt (sr_version_order r)"
  by (simp_all add: resource_to_record_def)

text \<open>
  Reading back a printed resource gives the resource, whatever the order of the keys, with the
  record version that came with the record.
\<close>

lemma resource_from_record_lookup:
  assumes ok: "resource_ok x r"
    and keys: "keys d \<subseteq> set (''recordVersion'' # resource_fields)"
    and fields: "\<forall>k \<in> set resource_fields. map_of d k = map_of (resource_to_record x r) k"
    and version: "record_version_ok (get_or d ''recordVersion'' PNone)"
  shows "resource_from_record x d = Inr (r\<lparr>sr_record_version := get_or d ''recordVersion'' PNone\<rparr>)"
proof -
  let ?v = "get_or d ''recordVersion'' PNone"
  let ?r = "r\<lparr>sr_record_version := ?v\<rparr>"
  have same: "get_or d k PNone = get_or (resource_to_record x r) k PNone" if "k \<in> set resource_fields" for k
    using fields that by (auto intro!: get_or_cong)
  have at: "get_or d ''formatVersion'' PNone = PStr (sr_format_version r)"
    "get_or d ''resourceId'' PNone = PStr (sr_resource_id r)"
    "get_or d ''namespace'' PNone = PStr (sr_namespace r)"
    "get_or d ''kind'' PNone = PStr (sr_kind r)" "get_or d ''name'' PNone = PStr (sr_name r)"
    "get_or d ''version'' PNone = PStr (sr_version r)"
    "get_or d ''profile'' PNone = PStr (profile_value (sr_profile r))"
    "get_or d ''state'' PNone = PStr (state_value (sr_state r))"
    "get_or d ''mediaType'' PNone = PStr (sr_media_type r)"
    "get_or d ''digest'' PNone = PStr (sr_digest r)"
    "get_or d ''byteLength'' PNone = PInt (sr_byte_length r)"
    "get_or d ''objectRef'' PNone = of_opt (x_object_reference_dict x) (sr_object_ref r)"
    "get_or d ''payload'' PNone = of_opt (\<lambda>d. PDict (thaw_items d)) (sr_payload r)"
    "get_or d ''payloadSchema'' PNone = of_opt (\<lambda>s. PDict (schema_ref_to_dict s)) (sr_payload_schema r)"
    "get_or d ''labels'' PNone = PDict (str_dict (sr_labels r))"
    "get_or d ''annotations'' PNone = PDict (thaw_items (sr_annotations r))"
    "get_or d ''provenance'' PNone = of_opt (\<lambda>p. PDict (provenance_to_dict p)) (sr_provenance r)"
    "get_or d ''createdBy'' PNone = PStr (sr_created_by r)"
    "get_or d ''createdAt'' PNone = PStr (sr_created_at r)"
    "get_or d ''supersedes'' PNone = of_opt PStr (sr_supersedes r)"
    "get_or d ''immutable'' PNone = PBool (sr_immutable r)"
    "get_or d ''versionOrder'' PNone = of_opt PInt (sr_version_order r)"
    by (simp_all add: same resource_fields_def printed_fields)
  have "set resource_fields \<subseteq> keys (resource_to_record x r)"
    by (simp add: resource_fields_def resource_to_record_def)
  with fields have "set resource_fields \<subseteq> keys d" by (rule keys_subset_cong)
  with keys have req: "require_record_fields d resource_fields (''recordVersion'' # resource_fields) = Inr ()"
    by (simp add: require_record_fields_def)
  have ok': "resource_ok x ?r" using ok version by (rule resource_ok_version)
  have mappings: "optional_mapping m (of_opt (x_object_reference_dict x) (sr_object_ref r)) = Inr ()"
    "optional_mapping m (of_opt (\<lambda>d. PDict (thaw_items d)) (sr_payload r)) = Inr ()"
    "optional_mapping m (of_opt (\<lambda>s. PDict (schema_ref_to_dict s)) (sr_payload_schema r)) = Inr ()"
    "optional_mapping m (of_opt (\<lambda>p. PDict (provenance_to_dict p)) (sr_provenance r)) = Inr ()" for m
    using printed_mapping
    by (simp_all add: flow of_opt_def split: option.split)
  have "optional (\<lambda>v. x_parse_object_reference x (RefMapping v))
      (of_opt (x_object_reference_dict x) (sr_object_ref r)) = Inr (sr_object_ref r)"
    using ok parse_printed
    by (cases "sr_profile r") (auto simp: resource_ok_def profile_part_ok_def flow)
  moreover have "optional (\<lambda>v. parse_schema_ref (SchemaValueArg v))
      (of_opt (\<lambda>s. PDict (schema_ref_to_dict s)) (sr_payload_schema r)) = Inr (sr_payload_schema r)"
    using ok
    by (cases "sr_profile r") (auto simp: resource_ok_def profile_part_ok_def flow parse_schema_ref_def)
  moreover have "optional (provenance_from_mapping (x_canonical_json_bytes x))
      (of_opt (\<lambda>p. PDict (provenance_to_dict p)) (sr_provenance r)) = Inr (sr_provenance r)"
    using ok by (cases "sr_provenance r")
      (auto simp: resource_ok_def flow provenance_from_mapping_def provenance_roundtrip)
  ultimately show ?thesis
    unfolding resource_from_record_def
    by (simp add: req at mappings Let_def)
      (rule mk_stored_resource_Inr [OF ok'], simp_all,
       insert check_profile_again [of "?r"] ok', simp add: resource_ok_def)
qed

lemma resource_from_printed:
  assumes "resource_ok x r"
  shows "resource_from_record x (resource_to_record x r) = Inr (r\<lparr>sr_record_version := PNone\<rparr>)"
    "record_version_ok v \<Longrightarrow> resource_from_record x (resource_to_record x r @ [(''recordVersion'', v)])
       = Inr (r\<lparr>sr_record_version := v\<rparr>)"
proof -
  have k: "keys (resource_to_record x r) = set resource_fields"
    by (simp add: resource_to_record_def resource_fields_def)
  have "map_of (resource_to_record x r) ''recordVersion'' = None"
    by (simp add: resource_to_record_def)
  then have v: "get_or (resource_to_record x r) ''recordVersion'' PNone = PNone"
    "get_or (resource_to_record x r @ [(''recordVersion'', v)]) ''recordVersion'' PNone = v" for v
    by (simp_all add: get_or_def map_add_def)
  have f: "\<forall>k \<in> set resource_fields. map_of (resource_to_record x r @ [(''recordVersion'', v)]) k
      = map_of (resource_to_record x r) k" for v
    by (simp add: resource_fields_def resource_to_record_def)
  show "resource_from_record x (resource_to_record x r) = Inr (r\<lparr>sr_record_version := PNone\<rparr>)"
    using resource_from_record_lookup [OF assms, of "resource_to_record x r"] k v(1) by auto
  show "record_version_ok v \<Longrightarrow> resource_from_record x (resource_to_record x r @ [(''recordVersion'', v)])
       = Inr (r\<lparr>sr_record_version := v\<rparr>)"
    using resource_from_record_lookup [OF assms, of "resource_to_record x r @ [(''recordVersion'', v)]"]
      k v(2) f by auto
qed

lemma provenance_from_mapping_ok:
  assumes "provenance_from_mapping (x_canonical_json_bytes x) v = Inr p" "wf_py v"
  shows "provenance_ok (x_canonical_json_bytes x) p"
proof -
  from assms obtain d where d: "provenance_from_dict (x_canonical_json_bytes x) d = Inr p" "wf_dict d"
    by (cases v) (auto simp: provenance_from_mapping_def str_items_def)
  have "wf_py (get_or d ''sourceDigests'' (PDict []))" "wf_py (get_or d ''attributes'' (PDict []))"
    using d(2) by (simp_all add: wf_get_or)
  with d(1) show ?thesis
    by (auto simp: provenance_from_dict_def split: if_splits intro!: mk_provenance_ok
        dest: wf_mapping_items)
qed

lemma resource_from_record_ok:
  assumes "resource_from_record x d = Inr r" "wf_dict d"
  shows "resource_ok x r"
proof -
  have wf: "wf_py (get_or d k PNone)" for k using assms(2) by (simp add: wf_get_or)
  from assms(1) obtain a where a: "mk_stored_resource x a = Inr r"
    "ra_labels a = get_or d ''labels'' PNone" "ra_annotations a = get_or d ''annotations'' PNone"
    "ra_payload a = get_or d ''payload'' PNone"
    "optional (\<lambda>v. parse_schema_ref (SchemaValueArg v)) (get_or d ''payloadSchema'' PNone)
       = Inr (ra_payload_schema a)"
    "optional (provenance_from_mapping (x_canonical_json_bytes x)) (get_or d ''provenance'' PNone)
       = Inr (ra_provenance a)"
    unfolding resource_from_record_def Let_def
    by (auto simp only: rbind_Inr_iff resource_args.select_convs)
  have "\<forall>s. ra_payload_schema a = Some s \<longrightarrow> schema_ref_ok s"
    using a(5) by (auto simp: flow intro: parse_schema_ref_ok)
  moreover have "\<forall>p. ra_provenance a = Some p \<longrightarrow> provenance_ok (x_canonical_json_bytes x) p"
    using a(6) wf by (auto simp: flow intro: provenance_from_mapping_ok)
  ultimately show ?thesis using mk_stored_resource_ok [OF a(1)] a(2-4) wf by simp
qed

end

end
