(* ===== verification/Pointers.thy ===== *)
theory Pointers
  imports Records
begin

text \<open>
  The other persisted records of \<open>models/resources.py\<close>: channel pointer versions
  (\<open>ResourceChannelV1\<close>), orphan candidates (\<open>OrphanCandidateV1\<close>) and the provenance record; and the
  results of \<open>models/results.py\<close>. As for stored resources, the constructors establish an invariant
  and printing followed by parsing is the identity, up to the record version.
\<close>

section \<open>Channel pointers\<close>

record channel_row =
  ch_channel_version_id :: string
  ch_namespace :: string
  ch_kind :: string
  ch_name :: string
  ch_channel :: string
  ch_target_resource_id :: string
  ch_pointer_version :: int
  ch_actor :: string
  ch_updated_at :: string
  ch_record_version :: pyval
  ch_format_version :: string

record channel_args =
  ca_channel_version_id :: pyval
  ca_namespace :: pyval
  ca_kind :: pyval
  ca_name :: pyval
  ca_channel :: pyval
  ca_target_resource_id :: pyval
  ca_pointer_version :: pyval
  ca_actor :: pyval
  ca_updated_at :: pyval
  ca_record_version :: pyval
  ca_format_version :: pyval

definition mk_channel_row :: "channel_args \<Rightarrow> (exn, channel_row) result" where
  "mk_channel_row a =
     rbind (logical_name (ca_namespace a) ''namespace'') (\<lambda>ns.
     rbind (logical_name (ca_kind a) ''kind'') (\<lambda>k.
     rbind (logical_name (ca_name a) ''name'') (\<lambda>n.
     rbind (channel_name (ca_channel a)) (\<lambda>c.
     rbind (nat_value ''pointer version must be a positive integer'' 1 (ca_pointer_version a)) (\<lambda>p.
     rbind (ensure (py_eq (ca_channel_version_id a) (PStr (channel_version_id ns k n c p)))
       (ValueError ''channel version id does not match its logical identity'')) (\<lambda>_.
     rbind (validate_resource_id (ca_target_resource_id a)) (\<lambda>target.
     rbind (bounded_string (ca_actor a) ''actor'' 512) (\<lambda>actor.
     rbind (utc_of_value (ca_updated_at a)) (\<lambda>at.
     rbind (validate_record_version (ca_record_version a)) (\<lambda>_.
     rbind (ensure (py_eq (ca_format_version a) (PStr channel_format))
       (ValueError ''unsupported resource channel format version'')) (\<lambda>_.
     Inr \<lparr>ch_channel_version_id = channel_version_id ns k n c p, ch_namespace = ns, ch_kind = k,
       ch_name = n, ch_channel = c, ch_target_resource_id = target, ch_pointer_version = p,
       ch_actor = actor, ch_updated_at = at, ch_record_version = ca_record_version a,
       ch_format_version = channel_format\<rparr>)))))))))))"

definition channel_to_record :: "channel_row \<Rightarrow> pyval dict" where
  "channel_to_record c =
     [(''formatVersion'', PStr (ch_format_version c)),
      (''channelVersionId'', PStr (ch_channel_version_id c)),
      (''namespace'', PStr (ch_namespace c)),
      (''kind'', PStr (ch_kind c)),
      (''name'', PStr (ch_name c)),
      (''channel'', PStr (ch_channel c)),
      (''targetResourceId'', PStr (ch_target_resource_id c)),
      (''pointerVersion'', PInt (ch_pointer_version c)),
      (''actor'', PStr (ch_actor c)),
      (''updatedAt'', PStr (ch_updated_at c))]"

definition channel_fields :: "string list" where
  "channel_fields = [''formatVersion'', ''channelVersionId'', ''namespace'', ''kind'', ''name'',
     ''channel'', ''targetResourceId'', ''pointerVersion'', ''actor'', ''updatedAt'']"

definition channel_from_record :: "pyval dict \<Rightarrow> (exn, channel_row) result" where
  "channel_from_record d =
     rbind (require_record_fields d channel_fields (''recordVersion'' # channel_fields)) (\<lambda>_.
     let at = (\<lambda>k. get_or d k PNone) in
     mk_channel_row
       \<lparr>ca_channel_version_id = at ''channelVersionId'', ca_namespace = at ''namespace'',
        ca_kind = at ''kind'', ca_name = at ''name'', ca_channel = at ''channel'',
        ca_target_resource_id = at ''targetResourceId'', ca_pointer_version = at ''pointerVersion'',
        ca_actor = at ''actor'', ca_updated_at = at ''updatedAt'',
        ca_record_version = at ''recordVersion'', ca_format_version = at ''formatVersion''\<rparr>)"

definition channel_row_ok :: "channel_row \<Rightarrow> bool" where
  "channel_row_ok c =
     (logical_ok (ch_namespace c) \<and> logical_ok (ch_kind c) \<and> logical_ok (ch_name c)
      \<and> channel_ok (ch_channel c) \<and> 1 \<le> ch_pointer_version c
      \<and> ch_channel_version_id c = channel_version_id (ch_namespace c) (ch_kind c) (ch_name c)
          (ch_channel c) (ch_pointer_version c)
      \<and> resource_id_re (ch_target_resource_id c) \<and> bounded_ok 512 (ch_actor c)
      \<and> utc_of_value (PStr (ch_updated_at c)) = Inr (ch_updated_at c)
      \<and> record_version_ok (ch_record_version c) \<and> ch_format_version c = channel_format)"

lemma mk_channel_row_Inr_iff:
  "mk_channel_row a = Inr c \<longleftrightarrow>
     ca_namespace a = PStr (ch_namespace c) \<and> ca_kind a = PStr (ch_kind c)
     \<and> ca_name a = PStr (ch_name c) \<and> ca_channel a = PStr (ch_channel c)
     \<and> ca_pointer_version a = PInt (ch_pointer_version c)
     \<and> ca_channel_version_id a = PStr (ch_channel_version_id c)
     \<and> ca_target_resource_id a = PStr (ch_target_resource_id c) \<and> ca_actor a = PStr (ch_actor c)
     \<and> utc_of_value (ca_updated_at a) = Inr (ch_updated_at c)
     \<and> ca_record_version a = ch_record_version c \<and> ca_format_version a = PStr (ch_format_version c)
     \<and> channel_row_ok c"
proof -
  have at: "utc_of_value v = Inr t \<longleftrightarrow> utc_of_value v = Inr t \<and> utc_of_value (PStr t) = Inr t" for v t
    using utc_of_value_idem by blast
  show ?thesis
    by (cases c) (subst at, auto simp: mk_channel_row_def rbind_Inr_iff ensure_Inr_iff
        logical_name_Inr_iff channel_name_Inr_iff nat_value_Inr_iff validate_resource_id_Inr_iff
        bounded_string_Inr_iff validate_record_version_Inr_iff channel_row_ok_def
        dest: utc_of_value_idem)
qed

lemma channel_from_record_lookup:
  assumes "channel_row_ok c" "keys d \<subseteq> set (''recordVersion'' # channel_fields)"
    and fields: "\<forall>k \<in> set channel_fields. map_of d k = map_of (channel_to_record c) k"
    and version: "record_version_ok (get_or d ''recordVersion'' PNone)"
  shows "channel_from_record d = Inr (c\<lparr>ch_record_version := get_or d ''recordVersion'' PNone\<rparr>)"
proof -
  have "set channel_fields \<subseteq> keys (channel_to_record c)"
    by (simp add: channel_fields_def channel_to_record_def)
  with fields have "set channel_fields \<subseteq> keys d" by (rule keys_subset_cong)
  with assms(2) have req: "require_record_fields d channel_fields (''recordVersion'' # channel_fields) = Inr ()"
    by (simp add: require_record_fields_def)
  have "list_all (\<lambda>k. get_or d k PNone = get_or (channel_to_record c) k PNone) channel_fields"
    using fields by (auto simp: list_all_iff intro!: get_or_cong)
  then show ?thesis
    using assms(1) version unfolding channel_from_record_def req rbind_simps Let_def
    by (simp add: mk_channel_row_Inr_iff channel_fields_def channel_to_record_def channel_row_ok_def)
qed

lemma channel_from_printed:
  assumes "channel_row_ok c"
  shows "channel_from_record (channel_to_record c) = Inr (c\<lparr>ch_record_version := PNone\<rparr>)"
    "record_version_ok v \<Longrightarrow> channel_from_record (channel_to_record c @ [(''recordVersion'', v)])
       = Inr (c\<lparr>ch_record_version := v\<rparr>)"
  using assms
  by (subst channel_from_record_lookup [of c]; simp add: channel_fields_def channel_to_record_def)+

lemma channel_from_record_ok: "channel_from_record d = Inr c \<Longrightarrow> channel_row_ok c"
  by (auto simp: channel_from_record_def Let_def rbind_Inr_iff mk_channel_row_Inr_iff)

section \<open>Orphan candidates\<close>

datatype orphan_state = DISCOVERED | RECORDED | RESOLVED

definition orphan_state_value :: "orphan_state \<Rightarrow> string" where
  "orphan_state_value s =
     (case s of DISCOVERED \<Rightarrow> ''DISCOVERED'' | RECORDED \<Rightarrow> ''RECORDED'' | RESOLVED \<Rightarrow> ''RESOLVED'')"

definition parse_orphan_state :: "pyval \<Rightarrow> (exn, orphan_state) result" where
  "parse_orphan_state v =
     (if v = PStr ''DISCOVERED'' then Inr DISCOVERED
      else if v = PStr ''RECORDED'' then Inr RECORDED
      else if v = PStr ''RESOLVED'' then Inr RESOLVED
      else Inl (ValueError ''not a valid OrphanState''))"

lemma parse_orphan_state_Inr_iff [flow]:
  "parse_orphan_state v = Inr s \<longleftrightarrow> v = PStr (orphan_state_value s)"
  by (cases s) (auto simp: parse_orphan_state_def orphan_state_value_def)

lemma parse_orphan_state_value [simp]: "parse_orphan_state (PStr (orphan_state_value s)) = Inr s"
  by (simp add: flow)

record orphan_candidate =
  oc_candidate_id :: string
  oc_resource_id :: string
  oc_object_ref :: object_ref
  oc_digest :: string
  oc_byte_length :: int
  oc_reason :: string
  oc_discovered_at :: string
  oc_state :: orphan_state
  oc_record_version :: pyval
  oc_format_version :: string

record orphan_args =
  oa_candidate_id :: pyval
  oa_resource_id :: pyval
  oa_object_ref :: object_ref
  oa_digest :: pyval
  oa_byte_length :: pyval
  oa_reason :: pyval
  oa_discovered_at :: pyval
  oa_state :: orphan_state
  oa_record_version :: pyval
  oa_format_version :: pyval

definition mk_orphan_candidate :: "external \<Rightarrow> orphan_args \<Rightarrow> (exn, orphan_candidate) result" where
  "mk_orphan_candidate x a =
     rbind (validate_resource_id (oa_resource_id a)) (\<lambda>resource_id.
     rbind (x_parse_object_reference x (RefObject (oa_object_ref a))) (\<lambda>reference.
     rbind (digest (oa_digest a)) (\<lambda>dig.
     rbind (ensure (or_digest reference = Some dig)
       (ValueError ''orphan ObjectRef digest does not match candidate digest'')) (\<lambda>_.
     rbind (ensure (py_eq (oa_candidate_id a)
         (PStr (orphan_candidate_id resource_id (or_object_id reference) dig)))
       (ValueError ''orphan candidate id does not match its logical identity'')) (\<lambda>_.
     rbind (byte_count ''orphan byte length'' (oa_byte_length a)) (\<lambda>len.
     rbind (bounded_string (oa_reason a) ''orphan reason'' 512) (\<lambda>reason.
     rbind (utc_of_value (oa_discovered_at a)) (\<lambda>at.
     rbind (validate_record_version (oa_record_version a)) (\<lambda>_.
     rbind (ensure (py_eq (oa_format_version a) (PStr orphan_format))
       (ValueError ''unsupported orphan candidate format version'')) (\<lambda>_.
     Inr \<lparr>oc_candidate_id = orphan_candidate_id resource_id (or_object_id reference) dig,
       oc_resource_id = resource_id, oc_object_ref = reference, oc_digest = dig,
       oc_byte_length = len, oc_reason = reason, oc_discovered_at = at, oc_state = oa_state a,
       oc_record_version = oa_record_version a, oc_format_version = orphan_format\<rparr>))))))))))"

definition orphan_to_record :: "external \<Rightarrow> orphan_candidate \<Rightarrow> pyval dict" where
  "orphan_to_record x c =
     [(''formatVersion'', PStr (oc_format_version c)),
      (''candidateId'', PStr (oc_candidate_id c)),
      (''resourceId'', PStr (oc_resource_id c)),
      (''objectRef'', x_object_reference_dict x (oc_object_ref c)),
      (''digest'', PStr (oc_digest c)),
      (''byteLength'', PInt (oc_byte_length c)),
      (''reason'', PStr (oc_reason c)),
      (''discoveredAt'', PStr (oc_discovered_at c)),
      (''state'', PStr (orphan_state_value (oc_state c)))]"

definition orphan_fields :: "string list" where
  "orphan_fields = [''formatVersion'', ''candidateId'', ''resourceId'', ''objectRef'', ''digest'',
     ''byteLength'', ''reason'', ''discoveredAt'', ''state'']"

definition orphan_from_record :: "external \<Rightarrow> pyval dict \<Rightarrow> (exn, orphan_candidate) result" where
  "orphan_from_record x d =
     rbind (require_record_fields d orphan_fields (''recordVersion'' # orphan_fields)) (\<lambda>_.
     let at = (\<lambda>k. get_or d k PNone) in
     rbind (ensure (is_mapping (at ''objectRef'')) (TypeError ''orphan ObjectRef must be an object'')) (\<lambda>_.
     rbind (x_parse_object_reference x (RefMapping (at ''objectRef''))) (\<lambda>reference.
     rbind (parse_orphan_state (at ''state'')) (\<lambda>state.
     mk_orphan_candidate x
       \<lparr>oa_candidate_id = at ''candidateId'', oa_resource_id = at ''resourceId'',
        oa_object_ref = reference, oa_digest = at ''digest'', oa_byte_length = at ''byteLength'',
        oa_reason = at ''reason'', oa_discovered_at = at ''discoveredAt'', oa_state = state,
        oa_record_version = at ''recordVersion'', oa_format_version = at ''formatVersion''\<rparr>))))"

definition orphan_ok :: "orphan_candidate \<Rightarrow> bool" where
  "orphan_ok c =
     (resource_id_re (oc_resource_id c) \<and> digest_re (oc_digest c)
      \<and> or_digest (oc_object_ref c) = Some (oc_digest c)
      \<and> oc_candidate_id c = orphan_candidate_id (oc_resource_id c)
          (or_object_id (oc_object_ref c)) (oc_digest c)
      \<and> 0 \<le> oc_byte_length c \<and> bounded_ok 512 (oc_reason c)
      \<and> utc_of_value (PStr (oc_discovered_at c)) = Inr (oc_discovered_at c)
      \<and> record_version_ok (oc_record_version c) \<and> oc_format_version c = orphan_format)"

lemma mk_orphan_candidate_fields:
  assumes "mk_orphan_candidate x a = Inr c"
  shows "orphan_ok c" "x_parse_object_reference x (RefObject (oa_object_ref a)) = Inr (oc_object_ref c)"
    "oa_resource_id a = PStr (oc_resource_id c)" "oa_digest a = PStr (oc_digest c)"
    "oa_byte_length a = PInt (oc_byte_length c)" "oa_reason a = PStr (oc_reason c)"
    "oc_state c = oa_state a" "oc_record_version c = oa_record_version a"
    "oa_candidate_id a = PStr (oc_candidate_id c)"
    "utc_of_value (oa_discovered_at a) = Inr (oc_discovered_at c)"
  using assms
  by (auto simp: mk_orphan_candidate_def rbind_Inr_iff ensure_Inr_iff validate_resource_id_Inr_iff
      digest_Inr_iff byte_count_Inr_iff bounded_string_Inr_iff validate_record_version_Inr_iff
      orphan_ok_def dest: utc_of_value_idem)

context external_contract
begin

lemma mk_orphan_candidate_Inr:
  assumes "orphan_ok c" "oa_candidate_id a = PStr (oc_candidate_id c)"
    "oa_resource_id a = PStr (oc_resource_id c)" "oa_object_ref a = oc_object_ref c"
    "oa_digest a = PStr (oc_digest c)" "oa_byte_length a = PInt (oc_byte_length c)"
    "oa_reason a = PStr (oc_reason c)" "oa_discovered_at a = PStr (oc_discovered_at c)"
    "oa_state a = oc_state c" "oa_record_version a = oc_record_version c"
    "oa_format_version a = PStr (oc_format_version c)"
  shows "mk_orphan_candidate x a = Inr c"
proof -
  have "x_parse_object_reference x (RefObject (oc_object_ref c)) = Inr (oc_object_ref c)"
    using assms(1) by (intro parse_object) (simp add: orphan_ok_def)
  with assms show ?thesis
    by (cases c) (simp add: mk_orphan_candidate_def orphan_ok_def validate_resource_id_def
        digest_PStr byte_count_def scalar_PStr validate_record_version_def)
qed

lemma orphan_from_record_lookup:
  assumes ok: "orphan_ok c" and keys: "keys d \<subseteq> set (''recordVersion'' # orphan_fields)"
    and fields: "\<forall>k \<in> set orphan_fields. map_of d k = map_of (orphan_to_record x c) k"
    and version: "record_version_ok (get_or d ''recordVersion'' PNone)"
  shows "orphan_from_record x d = Inr (c\<lparr>oc_record_version := get_or d ''recordVersion'' PNone\<rparr>)"
proof -
  have "set orphan_fields \<subseteq> keys (orphan_to_record x c)"
    by (simp add: orphan_fields_def orphan_to_record_def)
  with fields have "set orphan_fields \<subseteq> keys d" by (rule keys_subset_cong)
  with keys have req: "require_record_fields d orphan_fields (''recordVersion'' # orphan_fields) = Inr ()"
    by (simp add: require_record_fields_def)
  have "list_all (\<lambda>k. get_or d k PNone = get_or (orphan_to_record x c) k PNone) orphan_fields"
    using fields by (auto simp: list_all_iff intro!: get_or_cong)
  moreover have "x_parse_object_reference x (RefMapping (x_object_reference_dict x (oc_object_ref c)))
      = Inr (oc_object_ref c)" "is_mapping (x_object_reference_dict x (oc_object_ref c))"
    using ok printed_mapping by (simp_all add: orphan_ok_def parse_printed)
  ultimately show ?thesis
    using ok version unfolding orphan_from_record_def req rbind_simps Let_def
    by (simp add: orphan_fields_def orphan_to_record_def parse_orphan_state_Inr_iff
        mk_orphan_candidate_Inr [of "c\<lparr>oc_record_version := _\<rparr>"] orphan_ok_def
        parse_orphan_state_value)
qed

lemma orphan_from_printed:
  assumes "orphan_ok c"
  shows "orphan_from_record x (orphan_to_record x c) = Inr (c\<lparr>oc_record_version := PNone\<rparr>)"
    "record_version_ok v \<Longrightarrow> orphan_from_record x (orphan_to_record x c @ [(''recordVersion'', v)])
       = Inr (c\<lparr>oc_record_version := v\<rparr>)"
  using assms
  by (subst orphan_from_record_lookup [of c]; simp add: orphan_fields_def orphan_to_record_def)+

end

lemma orphan_from_record_ok: "orphan_from_record x d = Inr c \<Longrightarrow> orphan_ok c"
  by (auto simp: orphan_from_record_def Let_def rbind_Inr_iff dest: mk_orphan_candidate_fields(1))

section \<open>The provenance record and the results\<close>

definition provenance_record :: "stored_resource \<Rightarrow> pyval dict option" where
  "provenance_record r = (case sr_provenance r of
     None \<Rightarrow> None
   | Some p \<Rightarrow> Some
       [(''formatVersion'', PStr ''meridian.config-artifact.provenance-record.v1''),
        (''provenanceId'', PStr (sr_resource_id r)),
        (''resourceId'', PStr (sr_resource_id r)),
        (''document'', PDict (provenance_to_dict p)),
        (''createdAt'', PStr (sr_created_at r))])"

record resource_page =
  rp_items :: "stored_resource list"
  rp_cursor :: "string option"

record orphan_page =
  op_items :: "orphan_candidate list"
  op_cursor :: "string option"

record resolved_resource =
  rs_resource :: stored_resource
  rs_channel :: "channel_row option"

definition resolved_pointer_version :: "resolved_resource \<Rightarrow> int option" where
  "resolved_pointer_version r = map_option ch_pointer_version (rs_channel r)"

record publication_receipt =
  rc_resource :: stored_resource
  rc_idempotent :: bool
  rc_object_committed :: bool
  rc_metadata_committed :: bool
  rc_channel :: "channel_row option"
  rc_orphan_candidate :: "orphan_candidate option"

definition receipt_ref :: "publication_receipt \<Rightarrow> (exn, stored_ref) result" where
  "receipt_ref r = sr_ref (rc_resource r)"

text \<open>A valid resource always has a reference, and it points back at the resource's identity.\<close>

lemma sr_ref_ok:
  assumes "resource_ok x r"
  shows "sr_ref r = Inr \<lparr>rr_resource_id = sr_resource_id r, rr_namespace = sr_namespace r,
     rr_kind = sr_kind r, rr_name = sr_name r, rr_version = sr_version r,
     rr_profile = sr_profile r, rr_digest = sr_digest r\<rparr>"
proof -
  have "mk_identity (PStr (sr_namespace r)) (PStr (sr_kind r)) (PStr (sr_name r)) (PStr (sr_version r))
      = Inr (sr_identity r)"
    using assms by (simp add: flow resource_ok_def sr_identity_def)
  with assms show ?thesis
    by (simp add: sr_ref_def mk_stored_ref_def resource_ok_def digest_PStr) (simp add: sr_identity_def)
qed

end
