(* ===== verification/Runtime.thy ===== *)
theory Runtime
  imports Pointers
begin

text \<open>
  \<open>_runtime.py\<close>: the subset of Core's \<open>Meridian\<close> API the plugin calls, over an arbitrary world
  \<open>'w\<close>. An expression built by a Catalog surface is one constructor of \<open>expr\<close> with the arguments
  the source passes; building it is a call of its own (\<open>rt_build\<close>), because the surface checks its
  arguments and the source builds some expressions outside a \<open>try\<close>. Executing one may raise and
  may change the world. The payload registry, the clocks and the streams are further parameters.
  \<open>with_transaction\<close> is the \<open>with\<close> statement: the exit sees the exception of the body, if any, and
  does not swallow it.
\<close>

record sort_order =
  so_field :: string
  so_direction :: string
  so_nulls :: string

record object_put =
  op_object_id :: string
  op_payload :: payload_ref
  op_media_type :: string
  op_expected_digest :: string
  op_expected_length :: int
  op_user_metadata :: "string dict"
  op_creation_context :: "pyval dict"
  op_provenance :: "pyval dict"
  op_retention :: string
  op_publish_once :: bool
  op_create_only :: bool

datatype expr =
    SGet resource_ref "pyval dict"
  | SPut resource_ref "pyval dict" string
  | SPatch resource_ref "pyval dict" "pyval dict" pyval
  | SQuery resource_ref "pyval dict" "sort_order list" int "string option"
  | OPut resource_ref object_put
  | OStat resource_ref object_ref
  | OGet resource_ref object_ref
  | ORange resource_ref object_ref byte_range
  | OList resource_ref string int "string option" string

record op_result =
  res_data :: pyval
  res_resources :: "resource_ref list"

text \<open>What a payload argument can be; the contents behind a reader or a source are the world's.\<close>

datatype artifact_payload =
    PayloadBytes string
  | PayloadRef payload_ref
  | PayloadSource string
  | PayloadCallable string
  | PayloadStream string
  | PayloadOther

datatype payload_source = BytesSource string | GivenSource string | FactorySource string | StreamSource string

record 'w runtime =
  rt_ext :: external
  rt_surface :: "string \<Rightarrow> ('w, exn, bool) prog"
  rt_build :: "expr \<Rightarrow> (exn, unit) result"
  rt_execute :: "expr \<Rightarrow> ('w, exn, op_result) prog"
  rt_tx_enter :: "resource_ref \<Rightarrow> ('w, exn, unit) prog"
  rt_tx_exit :: "resource_ref \<Rightarrow> exn option \<Rightarrow> ('w, exn, unit) prog"
  rt_schema :: "schema_ref \<Rightarrow> ('w, exn, pyval) prog"
  rt_now :: "('w, exn, datetime) prog"
  rt_register :: "payload_source \<Rightarrow> string \<Rightarrow> int \<Rightarrow> ('w, exn, payload_ref) prog"
  rt_release :: "payload_ref \<Rightarrow> ('w, exn, unit) prog"
  rt_open :: "payload_ref \<Rightarrow> ('w, exn, string) prog"
  rt_read :: "string \<Rightarrow> int \<Rightarrow> ('w, exn, pyval) prog"
  rt_chunks :: "string \<Rightarrow> ('w, exn, string list) prog"
  rt_close :: "string \<Rightarrow> exn option \<Rightarrow> ('w, exn, unit) prog"

type_synonym 'w clock = "('w, exn, datetime) prog"

definition build :: "'w runtime \<Rightarrow> expr \<Rightarrow> ('w, exn, unit) prog" where
  "build rt e = plift (rt_build rt e)"

definition execute :: "'w runtime \<Rightarrow> expr \<Rightarrow> ('w, exn, op_result) prog" where
  "execute rt e = rt_execute rt e"

text \<open>\<open>meridian.execute(surface.method(...))\<close>.\<close>

definition run :: "'w runtime \<Rightarrow> expr \<Rightarrow> ('w, exn, op_result) prog" where
  "run rt e = pbind (build rt e) (\<lambda>_. execute rt e)"

definition guarded ::
  "('w, exn, 'a) prog \<Rightarrow> (exn option \<Rightarrow> ('w, exn, unit) prog) \<Rightarrow> ('w, exn, 'a) prog" where
  "guarded body exit = (\<lambda>w. case body w of (r, w1) \<Rightarrow>
     (case exit (case r of Inl e \<Rightarrow> Some e | Inr _ \<Rightarrow> None) w1 of
        (Inl e', w2) \<Rightarrow> (Inl e', w2) | (Inr _, w2) \<Rightarrow> (r, w2)))"

definition with_transaction ::
  "'w runtime \<Rightarrow> resource_ref \<Rightarrow> ('w, exn, 'a) prog \<Rightarrow> ('w, exn, 'a) prog" where
  "with_transaction rt res body =
     pbind (rt_tx_enter rt res) (\<lambda>_. guarded body (rt_tx_exit rt res))"

text \<open>\<open>utc_timestamp(self._clock())\<close>.\<close>

definition timestamp_now :: "'w clock \<Rightarrow> ('w, exn, string) prog" where
  "timestamp_now clock = pbind clock (\<lambda>d. plift (utc_of_datetime d))"

text \<open>\<open>raise X from exc\<close> for the exceptions \<open>p\<close> recognises; any other goes on.\<close>

definition reraise :: "(exn \<Rightarrow> bool) \<Rightarrow> (exn \<Rightarrow> exn) \<Rightarrow> (exn, 'a) result \<Rightarrow> (exn, 'a) result" where
  "reraise p f m = rcatch m (\<lambda>e. Inl (if p e then f e else e))"

lemma reraise_Inr_iff [flow]: "reraise p f m = Inr y \<longleftrightarrow> m = Inr y"
  by (cases m) (simp_all add: reraise_def)

lemma reraise_Inr [simp]: "reraise p f (Inr y) = Inr y"
  by (simp add: reraise_def)

lemma reraise_Inl_iff: "reraise p f m = Inl e \<longleftrightarrow> (\<exists>e'. m = Inl e' \<and> e = (if p e' then f e' else e'))"
  by (cases m) (auto simp: reraise_def)

lemma build_Inr_iff [flow]: "build rt e w = (Inr u, w') \<longleftrightarrow> rt_build rt e = Inr () \<and> w' = w"
  by (auto simp: build_def)

lemma run_Inr_iff [flow]:
  "run rt e w = (Inr r, w') \<longleftrightarrow> rt_build rt e = Inr () \<and> rt_execute rt e w = (Inr r, w')"
  by (auto simp: run_def execute_def build_def flow)

text \<open>A block that raises never commits: its exit is told of the exception.\<close>

lemma guarded_Inr_iff [flow]:
  "guarded body exit w = (Inr x, w') \<longleftrightarrow>
     (\<exists>w1. body w = (Inr x, w1) \<and> exit None w1 = (Inr (), w'))"
  unfolding guarded_def
  by (cases "body w"; cases "fst (body w)"; cases "exit None (snd (body w))")
    (auto split: prod.splits sum.splits)

lemma guarded_Inl:
  assumes "body w = (Inl e, w1)" "exit (Some e) w1 = (r, w2)"
  shows "guarded body exit w = (case r of Inl e' \<Rightarrow> (Inl e', w2) | Inr _ \<Rightarrow> (Inl e, w2))"
  using assms by (simp add: guarded_def split: sum.splits)

lemma with_transaction_Inr_iff [flow]:
  "with_transaction rt res body w = (Inr x, w') \<longleftrightarrow>
     (\<exists>w1 w2. rt_tx_enter rt res w = (Inr (), w1) \<and> body w1 = (Inr x, w2)
        \<and> rt_tx_exit rt res None w2 = (Inr (), w'))"
  by (auto simp: with_transaction_def flow)

lemma keeps_guarded [keeps_intros]:
  assumes "keeps P body" "\<And>z. keeps P (exit z)"
  shows "keeps P (guarded body exit)"
  unfolding keeps_def
proof (intro allI impI)
  fix w assume "P w"
  obtain r w1 where b: "body w = (r, w1)" by fastforce
  with assms(1) \<open>P w\<close> have "P w1" by (rule keepsD)
  obtain z where z: "z = (case r of Inl e \<Rightarrow> Some e | Inr _ \<Rightarrow> None)" by simp
  obtain r' w2 where e: "exit z w1 = (r', w2)" by fastforce
  with assms(2) \<open>P w1\<close> have "P w2" by (rule keepsD)
  with b e z show "P (snd (guarded body exit w))"
    by (cases r'; cases r) (simp_all add: guarded_def)
qed

lemma keeps_build [keeps_intros]: "keeps P (build rt e)"
  by (simp add: build_def keeps_intros)

lemma keeps_run [keeps_intros]: "keeps P (rt_execute rt e) \<Longrightarrow> keeps P (run rt e)"
  unfolding run_def execute_def by (intro keeps_intros)

lemma keeps_with_transaction [keeps_intros]:
  assumes "keeps P (rt_tx_enter rt res)" "keeps P body" "\<And>z. keeps P (rt_tx_exit rt res z)"
  shows "keeps P (with_transaction rt res body)"
  unfolding with_transaction_def by (intro keeps_intros assms)

lemma keeps_timestamp_now [keeps_intros]: "keeps P clock \<Longrightarrow> keeps P (timestamp_now clock)"
  unfolding timestamp_now_def by (intro keeps_intros)

end
