(* ===== verification/Objects.thy ===== *)
theory Objects
  imports Metadata
begin

text \<open>
  \<open>repositories/object.py\<close> (immutable Objects behind the object Catalog), \<open>artifact/payloads.py\<close>
  (what may be published and how it is registered) and \<open>validation.py\<close> (the exact Schema of a
  configuration payload).
\<close>

section \<open>Object repository\<close>

record object_read =
  rd_metadata :: object_metadata
  rd_payload :: payload_ref
  rd_byte_range :: "pyval dict option"

record object_page =
  pg_items :: "object_metadata list"
  pg_cursor :: "string option"

record 'w object_repository =
  ob_runtime :: "'w runtime"
  ob_resource :: resource_ref

abbreviation ob_ext :: "'w object_repository \<Rightarrow> external" where
  "ob_ext repo \<equiv> rt_ext (ob_runtime repo)"

definition mk_object_repository ::
  "'w runtime \<Rightarrow> resource_ref \<Rightarrow> ('w, exn, 'w object_repository) prog" where
  "mk_object_repository rt object_resource =
     pbind (rt_surface rt ''object'') (\<lambda>released.
     pbind (plift (ensure released
       (TypeError ''object Catalog did not expose the released V1 surface''))) (\<lambda>_.
     pbind (plift (x_resource_ref (rt_ext rt) ''object'' object_resource)) (\<lambda>res.
     pret \<lparr>ob_runtime = rt, ob_resource = res\<rparr>)))"

definition object_mapping :: "string \<Rightarrow> pyval \<Rightarrow> (exn, pyval dict) result" where
  "object_mapping description v = (case str_items v of
     None \<Rightarrow> Inl (invalid_result (description @ '' was not an object'')) | Some d \<Rightarrow> Inr d)"

definition violated_by :: "string \<Rightarrow> exn \<Rightarrow> exn" where
  "violated_by what e =
     InvalidRepositoryResult (what @ '' violated the V1 contract'') (caused_by (safe_cause e))"

definition object_metadata_of :: "external \<Rightarrow> string \<Rightarrow> op_result \<Rightarrow> (exn, object_metadata) result" where
  "object_metadata_of x description r =
     rbind (object_mapping description (res_data r)) (\<lambda>d.
     reraise is_parse_error (violated_by description)
       (rbind (object_mapping (description @ '' metadata'') (get_or d ''metadata'' PNone))
         (x_parse_object_metadata x)))"

definition object_read_of :: "external \<Rightarrow> string \<Rightarrow> op_result \<Rightarrow> (exn, object_read) result" where
  "object_read_of x description r =
     rbind (object_mapping description (res_data r)) (\<lambda>d.
     rbind (object_metadata_of x description r) (\<lambda>metadata.
     rbind (reraise is_parse_error (violated_by (description @ '' payload''))
       (rbind (object_mapping (description @ '' payload'') (get_or d ''payload'' PNone))
         (x_parse_payload_reference x))) (\<lambda>reference.
     let byte_range = get_or d ''range'' PNone in
     rbind (ensure (byte_range = PNone \<or> is_mapping byte_range)
       (invalid_result (description @ '' range was not an object''))) (\<lambda>_.
     Inr \<lparr>rd_metadata = metadata, rd_payload = reference, rd_byte_range = str_items byte_range\<rparr>))))"

text \<open>\<open>put\<close>: an immutable Object, written once; the caller's arguments with the fixed ones.\<close>

definition put_object ::
  "'w object_repository \<Rightarrow> string \<Rightarrow> payload_ref \<Rightarrow> string \<Rightarrow> string \<Rightarrow> int \<Rightarrow> string dict \<Rightarrow> pyval dict
    \<Rightarrow> pyval dict \<Rightarrow> ('w, exn, object_metadata) prog" where
  "put_object repo object_id payload media expected_digest expected_length user_metadata
     creation_context prov =
     pbind (run (ob_runtime repo) (OPut (ob_resource repo)
       \<lparr>op_object_id = object_id, op_payload = payload, op_media_type = media,
        op_expected_digest = expected_digest, op_expected_length = expected_length,
        op_user_metadata = user_metadata, op_creation_context = creation_context,
        op_provenance = prov, op_retention = ''immutable'', op_publish_once = True,
        op_create_only = True\<rparr>)) (\<lambda>r.
     plift (object_metadata_of (ob_ext repo) ''Object put result'' r))"

definition object_stat ::
  "'w object_repository \<Rightarrow> object_ref \<Rightarrow> ('w, exn, object_metadata) prog" where
  "object_stat repo reference = pbind (run (ob_runtime repo) (OStat (ob_resource repo) reference)) (\<lambda>r.
     plift (object_metadata_of (ob_ext repo) ''Object stat result'' r))"

definition object_get ::
  "'w object_repository \<Rightarrow> object_ref \<Rightarrow> ('w, exn, object_read) prog" where
  "object_get repo reference = pbind (run (ob_runtime repo) (OGet (ob_resource repo) reference)) (\<lambda>r.
     plift (object_read_of (ob_ext repo) ''Object get result'' r))"

definition object_read_range ::
  "'w object_repository \<Rightarrow> object_ref \<Rightarrow> byte_range \<Rightarrow> ('w, exn, object_read) prog" where
  "object_read_range repo reference rng =
     pbind (run (ob_runtime repo) (ORange (ob_resource repo) reference rng)) (\<lambda>r.
     plift (object_read_of (ob_ext repo) ''Object range result'' r))"

definition object_list ::
  "'w object_repository \<Rightarrow> string \<Rightarrow> int \<Rightarrow> string option \<Rightarrow> ('w, exn, object_page) prog" where
  "object_list repo prefix limit cursor =
     pbind (run (ob_runtime repo)
       (OList (ob_resource repo) prefix limit cursor ''orphan-reconciliation'')) (\<lambda>r.
     plift (rbind (object_mapping ''Object list result'' (res_data r)) (\<lambda>d.
       let bad = invalid_result ''Object list result had an invalid page envelope'' in
       (case array_items (get_or d ''items'' PNone) of
          None \<Rightarrow> Inl bad
        | Some items \<Rightarrow>
            rbind (case get_or d ''cursor'' PNone of
                PNone \<Rightarrow> Inr None | PStr c \<Rightarrow> Inr (Some c) | _ \<Rightarrow> Inl bad) (\<lambda>next_cursor.
            rbind (reraise is_parse_error (violated_by ''Object list item'')
              (rmap (\<lambda>item. rbind (object_mapping ''Object list item'' item)
                 (x_parse_object_metadata (ob_ext repo))) items)) (\<lambda>parsed.
            Inr \<lparr>pg_items = parsed, pg_cursor = next_cursor\<rparr>))))))"

section \<open>Payload registration\<close>

record registered_payload =
  rg_reference :: payload_ref
  rg_digest :: string
  rg_byte_length :: int
  rg_owned :: bool

abbreviation invalid_payload :: "string \<Rightarrow> exn" where
  "invalid_payload msg \<equiv> InvalidPayload msg no_details"

definition is_ValueError :: "exn \<Rightarrow> bool" where
  "is_ValueError e = (case e of ValueError _ \<Rightarrow> True | _ \<Rightarrow> False)"

definition required_digest :: "pyval \<Rightarrow> (exn, string) result" where
  "required_digest v =
     (if v = PNone
      then Inl (invalid_payload ''streamed artifact publication requires expected_digest'')
      else reraise is_ValueError
        (\<lambda>_. invalid_payload ''expected_digest must use sha256:<lowercase-hex>'') (digest v))"

definition required_length :: "pyval \<Rightarrow> (exn, int) result" where
  "required_length v =
     (if v = PNone
      then Inl (invalid_payload ''streamed artifact publication requires expected_length'')
      else case as_int v of
        None \<Rightarrow> Inl (invalid_payload ''expected_length must be a non-negative integer'')
      | Some n \<Rightarrow> if n < 0 then Inl (invalid_payload ''expected_length must be a non-negative integer'')
          else Inr n)"

definition match_declared :: "string \<Rightarrow> int \<Rightarrow> pyval \<Rightarrow> pyval \<Rightarrow> (exn, unit) result" where
  "match_declared observed_digest observed_length expected_digest expected_length =
     rbind (if expected_digest = PNone then Inr () else
       rbind (required_digest expected_digest) (\<lambda>dg. ensure (dg = observed_digest)
         (invalid_payload ''artifact bytes do not match expected_digest''))) (\<lambda>_.
     if expected_length = PNone then Inr () else
       rbind (required_length expected_length) (\<lambda>n. ensure (n = observed_length)
         (invalid_payload ''artifact bytes do not match expected_length'')))"

text \<open>\<open>expected_digest or payload.expected_digest\<close>: a falsy argument gives way.\<close>

definition falsy :: "pyval \<Rightarrow> bool" where
  "falsy v = (case v of
     PNone \<Rightarrow> True | PBool b \<Rightarrow> \<not> b | PInt i \<Rightarrow> i = 0
   | PFloat (FFin _ m _) \<Rightarrow> m = 0 | PFloat _ \<Rightarrow> False
   | PStr s \<Rightarrow> s = [] | PBytes s \<Rightarrow> s = []
   | PList xs \<Rightarrow> xs = [] | PTuple xs \<Rightarrow> xs = []
   | PDict d \<Rightarrow> d = [] | PProxy d \<Rightarrow> d = [] | POddMap n \<Rightarrow> n = 0
   | PObj _ \<Rightarrow> False)"

definition register_payload ::
  "'w runtime \<Rightarrow> artifact_payload \<Rightarrow> pyval \<Rightarrow> pyval \<Rightarrow> ('w, exn, registered_payload) prog" where
  "register_payload rt payload expected_digest expected_length =
     (let streamed = (\<lambda>source.
        pbind (plift (required_digest expected_digest)) (\<lambda>dg.
        pbind (plift (required_length expected_length)) (\<lambda>n.
        pbind (plift source) (\<lambda>src.
        pbind (rt_register rt src dg n) (\<lambda>reference.
        pret \<lparr>rg_reference = reference, rg_digest = dg, rg_byte_length = n, rg_owned = True\<rparr>))))) in
      (case payload of
         PayloadBytes raw \<Rightarrow>
           (let observed_digest = sha256_digest raw; observed_length = int (length raw) in
            pbind (plift (match_declared observed_digest observed_length expected_digest expected_length)) (\<lambda>_.
            pbind (rt_register rt (BytesSource raw) observed_digest observed_length) (\<lambda>reference.
            pret \<lparr>rg_reference = reference, rg_digest = observed_digest,
              rg_byte_length = observed_length, rg_owned = True\<rparr>)))
       | PayloadRef p \<Rightarrow>
           pbind (plift (required_digest
             (if falsy expected_digest then of_opt PStr (pr_expected_digest p) else expected_digest))) (\<lambda>dg.
           pbind (plift (required_length
             (if expected_length = PNone then of_opt PInt (pr_expected_length p) else expected_length))) (\<lambda>n.
           pret \<lparr>rg_reference = p, rg_digest = dg, rg_byte_length = n, rg_owned = False\<rparr>))
       | PayloadSource s \<Rightarrow> streamed (Inr (GivenSource s))
       | PayloadCallable s \<Rightarrow> streamed (Inr (FactorySource s))
       | PayloadStream s \<Rightarrow> streamed (Inr (StreamSource s))
       | PayloadOther \<Rightarrow> streamed
           (Inl (TypeError ''artifact payload must be bytes, a binary stream, or a PayloadSource''))))"

section \<open>Configuration payload validation\<close>

definition about :: "string \<Rightarrow> cause \<Rightarrow> details" where
  "about r c = (about_ref r)\<lparr>d_cause := Some c\<rparr>"

definition is_schema_error :: "exn \<Rightarrow> bool" where
  "is_schema_error e = (is_parse_error e \<or> is_meridian_error e)"

definition is_validation_error :: "exn \<Rightarrow> bool" where
  "is_validation_error e = (is_value_error e \<or> is_meridian_error e)"

type_synonym 'w validator = "pyval \<Rightarrow> schema_ref \<Rightarrow> ('w, exn, pyval) prog"

definition validate_payload :: "'w runtime \<Rightarrow> 'w validator" where
  "validate_payload rt payload schema =
     pbind (pcatch
       (pbind (rt_schema rt schema) (\<lambda>def_doc.
        plift (x_schema_document (rt_ext rt) schema def_doc)))
       (\<lambda>e. pthrow (if is_schema_error e
          then SchemaUnavailable ''configuration payload Schema is unavailable or invalid''
            (about (schema_ref_canonical schema) (safe_cause e))
          else e))) (\<lambda>document.
     plift (reraise is_validation_error
       (\<lambda>e. InvalidPayload ''configuration payload does not satisfy its exact Schema''
         (about (schema_ref_canonical schema) (safe_cause e)))
       (x_validate_record (rt_ext rt) document payload)))"

text \<open>\<open>CallablePayloadValidator\<close>: an application's own validator, called as it is.\<close>

definition validate_callable :: "'w validator \<Rightarrow> 'w validator" where
  "validate_callable v payload schema = v payload schema"

end
