(* ===== verification/Channels.thy ===== *)
theory Channels
  imports Objects
begin

text \<open>
  \<open>channels/repository.py\<close>: compare-and-set promotion of a channel pointer through append-only
  rows. Every pointer version is a row of its own, written only if absent; the version a caller
  expects is compared with the newest row, and the Catalog's \<open>if_absent\<close> decides between two
  callers that saw the same one.
\<close>

record 'w channel_repository =
  cr_metadata :: "'w metadata_repository"
  cr_clock :: "'w clock"

definition mk_channel_repository ::
  "'w metadata_repository \<Rightarrow> 'w clock option \<Rightarrow> 'w channel_repository" where
  "mk_channel_repository metadata clock = \<lparr>cr_metadata = metadata,
     cr_clock = (case clock of None \<Rightarrow> rt_now (mr_runtime metadata) | Some c \<Rightarrow> c)\<rparr>"

text \<open>\<open>get\<close>, with the arguments as the caller passes them.\<close>

definition get_channel ::
  "'w channel_repository \<Rightarrow> pyval \<Rightarrow> pyval \<Rightarrow> pyval \<Rightarrow> pyval \<Rightarrow> bool
    \<Rightarrow> ('w, exn, channel_row option) prog" where
  "get_channel repo namespace kind name channel required =
     pbind (plift (logical_name namespace ''namespace'')) (\<lambda>ns.
     pbind (plift (logical_name kind ''kind'')) (\<lambda>k.
     pbind (plift (logical_name name ''name'')) (\<lambda>n.
     pbind (plift (channel_name channel)) (\<lambda>c.
     latest_channel (cr_metadata repo) ns k n c required))))"

datatype promotion_target =
    TargetResource stored_resource | TargetRef stored_ref | TargetIdentity resource_identity

definition target_resource ::
  "'w metadata_repository \<Rightarrow> promotion_target \<Rightarrow> ('w, exn, stored_resource) prog" where
  "target_resource metadata target = (case target of
     TargetResource r \<Rightarrow> pret r
   | _ \<Rightarrow> pbind (get_resource metadata (case target of
           TargetRef r \<Rightarrow> rr_resource_id r
         | TargetIdentity i \<Rightarrow> identity_resource_id i
         | TargetResource r \<Rightarrow> sr_resource_id r) True) (\<lambda>z. (case z of
       None \<Rightarrow> pthrow (RuntimeError ''required resource lookup returned no value'')
     | Some r \<Rightarrow> pret r)))"

definition check_target ::
  "promotion_target \<Rightarrow> stored_resource \<Rightarrow> resource_profile option \<Rightarrow> (exn, unit) result" where
  "check_target target resource expected_profile =
     rbind (case target of
         TargetRef t \<Rightarrow> rbind (sr_ref resource) (\<lambda>r. ensure (r = t)
           (IdentityConflict_msg ''channel target reference does not match stored resource''
             (about_ref (rr_resource_id t))))
       | _ \<Rightarrow> Inr ()) (\<lambda>_.
     rbind (case expected_profile of
         None \<Rightarrow> Inr ()
       | Some p \<Rightarrow> ensure (sr_profile resource = p)
           (IncompatibleProfile (''channel target is not a '' @ profile_value p)
             (about_ref (sr_resource_id resource)))) (\<lambda>_.
     ensure (sr_state resource = PUBLISHED)
       (IncompatibleProfile ''only a PUBLISHED immutable resource may be promoted''
         (about_ref (sr_resource_id resource)))))"

definition pointer_ref :: "stored_resource \<Rightarrow> string \<Rightarrow> string" where
  "pointer_ref r channel =
     sr_namespace r @ '':'' @ sr_kind r @ ''/'' @ sr_name r @ ''#'' @ channel"

text \<open>The pointer version that follows the newest row, if the caller expects that row.\<close>

definition next_pointer :: "channel_row option \<Rightarrow> int \<Rightarrow> int option" where
  "next_pointer current expected = (case current of
     None \<Rightarrow> if expected = 0 then Some 1 else None
   | Some c \<Rightarrow> if ch_pointer_version c = expected then Some (ch_pointer_version c + 1) else None)"

definition requested_row ::
  "stored_resource \<Rightarrow> string \<Rightarrow> int \<Rightarrow> pyval \<Rightarrow> string \<Rightarrow> (exn, channel_row) result" where
  "requested_row r channel pointer_version actor at = mk_channel_row
     \<lparr>ca_channel_version_id = PStr (channel_version_id (sr_namespace r) (sr_kind r) (sr_name r)
        channel pointer_version),
      ca_namespace = PStr (sr_namespace r), ca_kind = PStr (sr_kind r), ca_name = PStr (sr_name r),
      ca_channel = PStr channel, ca_target_resource_id = PStr (sr_resource_id r),
      ca_pointer_version = PInt pointer_version, ca_actor = actor, ca_updated_at = PStr at,
      ca_record_version = PNone, ca_format_version = PStr channel_format\<rparr>"

text \<open>Write the requested row; losing the race, or to another target, is a stale pointer.\<close>

definition put_pointer ::
  "'w channel_repository \<Rightarrow> exn \<Rightarrow> channel_row \<Rightarrow> ('w, exn, channel_row) prog" where
  "put_pointer repo stale requested =
     pbind (pcatch (put_channel (cr_metadata repo) requested)
       (\<lambda>exc. pthrow (if is_conflict exc then stale else exc))) (\<lambda>winner.
     if ch_target_resource_id winner \<noteq> ch_target_resource_id requested then pthrow stale
     else pret winner)"

definition advance_pointer ::
  "'w channel_repository \<Rightarrow> stored_resource \<Rightarrow> string \<Rightarrow> int \<Rightarrow> pyval \<Rightarrow> ('w, exn, channel_row) prog" where
  "advance_pointer repo resource channel expected actor =
     pbind (get_channel repo (PStr (sr_namespace resource)) (PStr (sr_kind resource))
       (PStr (sr_name resource)) (PStr channel) False) (\<lambda>current.
     let stale = StaleChannelPointer (about_ref (pointer_ref resource channel)) in
     (case next_pointer current expected of
        None \<Rightarrow> pthrow stale
      | Some pointer_version \<Rightarrow>
          pbind (timestamp_now (cr_clock repo)) (\<lambda>at.
          pbind (plift (requested_row resource channel pointer_version actor at)) (\<lambda>requested.
          put_pointer repo stale requested))))"

definition promote ::
  "'w channel_repository \<Rightarrow> promotion_target \<Rightarrow> pyval \<Rightarrow> pyval \<Rightarrow> pyval \<Rightarrow> resource_profile option
    \<Rightarrow> ('w, exn, channel_row) prog" where
  "promote repo target channel expected_pointer_version actor expected_profile =
     pbind (plift (nat_value ''expected pointer version must be a non-negative integer'' 0
       expected_pointer_version)) (\<lambda>expected.
     pbind (target_resource (cr_metadata repo) target) (\<lambda>resource.
     pbind (plift (check_target target resource expected_profile)) (\<lambda>_.
     pbind (plift (channel_name channel)) (\<lambda>selected_channel.
     advance_pointer repo resource selected_channel expected actor))))"

end
