(* ===== verification/Publication.thy ===== *)
theory Publication
  imports Channels
begin

text \<open>
  What \<open>ConfigurationPublisher\<close> and \<open>ArtifactPublisher\<close> do alike: the keyword arguments of
  \<open>publish\<close>, the comparison of two publications of one identity, the write of a metadata row with
  its provenance in one transaction, deprecation, the optional promotion that follows, and the
  consumers' lookups.
\<close>

record publication =
  pb_namespace :: pyval
  pb_kind :: pyval
  pb_name :: pyval
  pb_version :: pyval
  pb_actor :: pyval
  pb_media_type :: pyval
  pb_labels :: pyval
  pb_annotations :: pyval
  pb_provenance :: "provenance option"
  pb_supersedes :: pyval
  pb_version_order :: pyval
  pb_channel :: pyval
  pb_expected_pointer :: pyval

definition opt_eq :: "('a \<Rightarrow> 'a \<Rightarrow> bool) \<Rightarrow> 'a option \<Rightarrow> 'a option \<Rightarrow> bool" where
  "opt_eq f a b = (case (a, b) of (None, None) \<Rightarrow> True | (Some x, Some y) \<Rightarrow> f x y | _ \<Rightarrow> False)"

text \<open>\<open>_same_publication\<close> of the artifact module, and of the configuration module, which also
  compares the inline payload and its Schema.\<close>

definition same_artifact :: "stored_resource \<Rightarrow> stored_resource \<Rightarrow> bool" where
  "same_artifact l r =
     (sr_resource_id l = sr_resource_id r \<and> sr_profile l = sr_profile r
      \<and> sr_media_type l = sr_media_type r \<and> sr_digest l = sr_digest r
      \<and> sr_byte_length l = sr_byte_length r \<and> sr_object_ref l = sr_object_ref r
      \<and> smap_eq (sr_labels l) (sr_labels r) \<and> dict_eq (sr_annotations l) (sr_annotations r)
      \<and> opt_eq provenance_eq (sr_provenance l) (sr_provenance r)
      \<and> sr_supersedes l = sr_supersedes r \<and> sr_version_order l = sr_version_order r)"

definition same_configuration :: "stored_resource \<Rightarrow> stored_resource \<Rightarrow> bool" where
  "same_configuration l r =
     (same_artifact l r \<and> opt_eq dict_eq (sr_payload l) (sr_payload r)
      \<and> sr_payload_schema l = sr_payload_schema r)"

text \<open>\<open>{} if value is None else value\<close>.\<close>

definition or_empty :: "pyval \<Rightarrow> pyval" where
  "or_empty v = (if v = PNone then PDict [] else v)"

text \<open>
  The construction of a candidate: the arguments are evaluated in order (the media type where the
  caller gives one to check, the annotations, the clock), then the constructor checks them.
\<close>

definition make_candidate ::
  "external \<Rightarrow> 'w clock \<Rightarrow> resource_identity \<Rightarrow> resource_profile \<Rightarrow> publication \<Rightarrow> string \<Rightarrow> string \<Rightarrow> int
    \<Rightarrow> pyval \<Rightarrow> schema_ref option \<Rightarrow> object_ref option \<Rightarrow> ('w, exn, stored_resource) prog" where
  "make_candidate x clock i profile p media dig len payload schema object =
     pbind (plift (canonical_mapping (x_canonical_json_bytes x) (or_empty (pb_annotations p))
       ''annotations'' (Some 64) (Some 262144))) (\<lambda>annotations.
     pbind (timestamp_now clock) (\<lambda>at.
     plift (mk_stored_resource x
       \<lparr>ra_resource_id = PStr (identity_resource_id i), ra_namespace = PStr (ri_namespace i),
        ra_kind = PStr (ri_kind i), ra_name = PStr (ri_name i), ra_version = PStr (ri_version i),
        ra_profile = profile, ra_state = PUBLISHED, ra_media_type = PStr media,
        ra_digest = PStr dig, ra_byte_length = PInt len, ra_created_by = pb_actor p,
        ra_created_at = PStr at, ra_object_ref = object, ra_payload = payload,
        ra_payload_schema = schema, ra_labels = or_empty (pb_labels p),
        ra_annotations = PProxy annotations, ra_provenance = pb_provenance p,
        ra_supersedes = pb_supersedes p, ra_immutable = PBool True,
        ra_version_order = pb_version_order p, ra_record_version = PNone,
        ra_format_version = PStr resource_format\<rparr>)))"

text \<open>The row and its provenance, in one transaction; what came back must be what was sent.\<close>

definition commit ::
  "(stored_resource \<Rightarrow> stored_resource \<Rightarrow> bool) \<Rightarrow> 'w metadata_repository \<Rightarrow> resource_identity
    \<Rightarrow> stored_resource \<Rightarrow> ('w, exn, stored_resource) prog" where
  "commit same repo i candidate = transaction repo
     (pbind (put_resource repo candidate) (\<lambda>stored.
      pbind (plift (ensure (same candidate stored) (IdentityConflict (about_ref (identity_canonical i))))) (\<lambda>_.
      (case provenance_record stored of
         None \<Rightarrow> pret stored
       | Some row \<Rightarrow> pbind (put_provenance repo row) (\<lambda>_. pret stored)))))"

definition promote_optional ::
  "'w channel_repository \<Rightarrow> resource_profile \<Rightarrow> stored_resource \<Rightarrow> pyval \<Rightarrow> pyval \<Rightarrow> pyval
    \<Rightarrow> ('w, exn, channel_row option) prog" where
  "promote_optional channels profile resource channel expected actor =
     (if channel = PNone
      then if expected \<noteq> PNone then pthrow (ValueError ''expected_pointer_version requires channel'')
        else pret None
      else if expected = PNone
      then pthrow (ValueError ''channel promotion requires expected_pointer_version'')
      else pbind (promote channels (TargetResource resource) channel expected actor (Some profile))
        (\<lambda>c. pret (Some c)))"

text \<open>\<open>deprecate\<close> of both publishers; \<open>check\<close> is the profile guard of each.\<close>

definition required_resource ::
  "'w metadata_repository \<Rightarrow> string \<Rightarrow> ('w, exn, stored_resource) prog" where
  "required_resource repo resource_id = pbind (get_resource repo resource_id True) (\<lambda>z. (case z of
     None \<Rightarrow> pthrow (RuntimeError ''required resource lookup returned no value'')
   | Some r \<Rightarrow> pret r))"

definition deprecate ::
  "'w metadata_repository \<Rightarrow> (stored_resource \<Rightarrow> (exn, unit) result) \<Rightarrow> resource_identity
    \<Rightarrow> ('w, exn, stored_resource) prog" where
  "deprecate repo check i =
     pbind (required_resource repo (identity_resource_id i)) (\<lambda>resource.
     pbind (plift (check resource)) (\<lambda>_.
     if sr_state resource = DEPRECATED then pret resource
     else pcatch (deprecate_resource repo resource) (\<lambda>exc.
       if is_conflict exc
       then pbind (get_resource repo (identity_resource_id i) True) (\<lambda>z. (case z of
           None \<Rightarrow> pthrow exc
         | Some winner \<Rightarrow> if sr_state winner = DEPRECATED then pret winner else pthrow exc))
       else pthrow exc)))"

definition forbid_delete :: "resource_identity \<Rightarrow> ('w, exn, unit) prog" where
  "forbid_delete i = pthrow (ForbiddenDeletion (about_ref (identity_canonical i)))"

text \<open>The consumers' \<open>exact\<close>, \<open>latest\<close> and \<open>channel\<close>.\<close>

definition resolve_exact ::
  "'w metadata_repository \<Rightarrow> (stored_resource \<Rightarrow> (exn, unit) result) \<Rightarrow> resource_identity
    \<Rightarrow> ('w, exn, resolved_resource) prog" where
  "resolve_exact repo check i =
     pbind (required_resource repo (identity_resource_id i)) (\<lambda>resource.
     pbind (plift (check resource)) (\<lambda>_.
     pret \<lparr>rs_resource = resource, rs_channel = None\<rparr>))"

definition resolve_latest ::
  "'w metadata_repository \<Rightarrow> (stored_resource \<Rightarrow> (exn, unit) result) \<Rightarrow> resource_profile
    \<Rightarrow> string \<Rightarrow> string \<Rightarrow> string \<Rightarrow> ('w, exn, resolved_resource) prog" where
  "resolve_latest repo check profile namespace kind name =
     pbind (latest_resource repo namespace kind name (Some (profile_value profile))) (\<lambda>resource.
     pbind (plift (check resource)) (\<lambda>_.
     pret \<lparr>rs_resource = resource, rs_channel = None\<rparr>))"

definition resolve_channel ::
  "'w metadata_repository \<Rightarrow> 'w channel_repository \<Rightarrow> (stored_resource \<Rightarrow> (exn, unit) result)
    \<Rightarrow> pyval \<Rightarrow> pyval \<Rightarrow> pyval \<Rightarrow> pyval \<Rightarrow> ('w, exn, resolved_resource) prog" where
  "resolve_channel repo channels check namespace kind name channel =
     pbind (get_channel channels namespace kind name channel True) (\<lambda>z. (case z of
       None \<Rightarrow> pthrow (RuntimeError ''required channel lookup returned no value'')
     | Some pointer \<Rightarrow>
         pbind (required_resource repo (ch_target_resource_id pointer)) (\<lambda>resource.
         pbind (plift (check resource)) (\<lambda>_.
         pret \<lparr>rs_resource = resource, rs_channel = Some pointer\<rparr>))))"

text \<open>\<open>resource.resource if isinstance(resource, ResolvedResource) else resource\<close>.\<close>

datatype resource_arg = Stored stored_resource | Resolved resolved_resource

definition selected :: "resource_arg \<Rightarrow> stored_resource" where
  "selected a = (case a of Stored r \<Rightarrow> r | Resolved r \<Rightarrow> rs_resource r)"

end
