(* ===== verification/Catalog.thy ===== *)
theory Catalog
  imports Publication
begin

text \<open>
  What the plugin relies on of a structured Catalog, and what it gives its callers in return. A
  Catalog is seen through the rows of its collections. \<open>structured_catalog\<close> states the laws of the
  four calls: reads change nothing and answer from the rows, a put is atomic and only of a new
  key, a failed put writes nothing. \<open>metadata_catalog\<close> adds the layout of a repository. The client
  lemmas are the guarantees of the channel protocol: a pointer moves only from the version its
  caller expects, every move appends exactly one row, and of two writers that saw the same row
  one fails.
\<close>

text \<open>\<open>item.get(field) == value\<close> for every item of \<open>where\<close>.\<close>

definition matches :: "pyval dict \<Rightarrow> pyval dict \<Rightarrow> bool" where
  "matches wh row = list_all (\<lambda>p. py_eq (get_or row (fst p) PNone) (snd p)) wh"

definition page_data :: "pyval dict list \<Rightarrow> pyval \<Rightarrow> pyval" where
  "page_data items cursor = PDict [(''items'', PList (map PDict items)), (''cursor'', cursor)]"

definition is_cursor :: "pyval \<Rightarrow> bool" where
  "is_cursor v = (case v of PNone \<Rightarrow> True | PStr _ \<Rightarrow> True | _ \<Rightarrow> False)"

definition stored_as :: "pyval dict \<Rightarrow> pyval dict \<Rightarrow> bool" where
  "stored_as d row \<longleftrightarrow> (\<exists>v. v \<noteq> PNone \<and> record_version_ok v \<and> row = d @ [(''recordVersion'', v)])"

locale structured_catalog =
  fixes rt :: "'w runtime"
    and rows :: "resource_ref \<Rightarrow> 'w \<Rightarrow> pyval dict list"
    and key_field :: "resource_ref \<Rightarrow> string"
    and known :: "resource_ref set"
    and valid :: "'w \<Rightarrow> bool"
  assumes get_reads: "valid w \<Longrightarrow> res \<in> known \<Longrightarrow> rt_execute rt (SGet res wh) w = (out, w') \<Longrightarrow>
      valid w' \<and> (\<forall>c. rows c w' = rows c w)"
    and query_reads: "valid w \<Longrightarrow> res \<in> known \<Longrightarrow>
      rt_execute rt (SQuery res wh order limit cursor) w = (out, w') \<Longrightarrow>
      valid w' \<and> (\<forall>c. rows c w' = rows c w)"
    and get_found: "valid w \<Longrightarrow> res \<in> known \<Longrightarrow>
      rt_execute rt (SGet res [(key_field res, PStr k)]) w = (Inr r, w') \<Longrightarrow>
      \<exists>row \<in> set (rows res w). map_of row (key_field res) = Some (PStr k) \<and> res_data r = PDict row"
    and get_missing: "valid w \<Longrightarrow> res \<in> known \<Longrightarrow>
      rt_execute rt (SGet res [(key_field res, PStr k)]) w = (Inl e, w') \<Longrightarrow> is_not_found e \<Longrightarrow>
      row \<in> set (rows res w) \<Longrightarrow> map_of row (key_field res) \<noteq> Some (PStr k)"
    and query_items: "valid w \<Longrightarrow> res \<in> known \<Longrightarrow>
      rt_execute rt (SQuery res wh order limit cursor) w = (Inr r, w') \<Longrightarrow>
      \<exists>items c. res_data r = page_data items c \<and> is_cursor c
        \<and> (\<forall>row \<in> set items. row \<in> set (rows res w) \<and> matches wh row)"
    and query_top: "valid w \<Longrightarrow> res \<in> known \<Longrightarrow>
      rt_execute rt (SQuery res wh [descending f] 1 None) w = (Inr r, w') \<Longrightarrow>
      \<forall>row \<in> set (rows res w). matches wh row \<longrightarrow> (\<exists>n. map_of row f = Some (PInt n)) \<Longrightarrow>
      (\<exists>c. res_data r = page_data [] c \<and> is_cursor c) \<and> (\<forall>row \<in> set (rows res w). \<not> matches wh row)
      \<or> (\<exists>row c n. res_data r = page_data [row] c \<and> is_cursor c \<and> row \<in> set (rows res w)
          \<and> matches wh row \<and> map_of row f = Some (PInt n)
          \<and> (\<forall>row' \<in> set (rows res w). matches wh row' \<longrightarrow>
               (\<exists>n'. map_of row' f = Some (PInt n') \<and> n' \<le> n)))"
    and put_done: "valid w \<Longrightarrow> res \<in> known \<Longrightarrow> map_of d ''recordVersion'' = None \<Longrightarrow>
      map_of d (key_field res) = Some (PStr k) \<Longrightarrow>
      rt_execute rt (SPut res d ''if_absent'') w = (Inr r, w') \<Longrightarrow>
      valid w' \<and> (\<forall>row \<in> set (rows res w). map_of row (key_field res) \<noteq> Some (PStr k))
      \<and> (\<exists>row. stored_as d row \<and> rows res w' = rows res w @ [row] \<and> res_data r = PDict row)
      \<and> (\<forall>c. c \<noteq> res \<longrightarrow> rows c w' = rows c w)"
    and put_failed: "valid w \<Longrightarrow> res \<in> known \<Longrightarrow>
      rt_execute rt (SPut res d ''if_absent'') w = (Inl e, w') \<Longrightarrow>
      valid w' \<and> (\<forall>c. rows c w' = rows c w)"

locale metadata_catalog =
  structured_catalog "mr_runtime repo" rows key_field known valid
  for repo :: "'w metadata_repository" and rows key_field known valid +
  assumes layout: "{mr_metadata_resource repo, mr_channel_resource repo,
      mr_provenance_resource repo, mr_orphan_resource repo} \<subseteq> known"
    and layout_distinct: "distinct [mr_metadata_resource repo, mr_channel_resource repo,
      mr_provenance_resource repo, mr_orphan_resource repo]"
    and layout_keys: "key_field (mr_metadata_resource repo) = ''resourceId''"
      "key_field (mr_channel_resource repo) = ''channelVersionId''"
      "key_field (mr_provenance_resource repo) = ''provenanceId''"
      "key_field (mr_orphan_resource repo) = ''candidateId''"

definition same_rows ::
  "('w \<Rightarrow> bool) \<Rightarrow> (resource_ref \<Rightarrow> 'w \<Rightarrow> pyval dict list) \<Rightarrow> 'w \<Rightarrow> 'w \<Rightarrow> bool" where
  "same_rows valid rows w w' \<longleftrightarrow> valid w' \<and> (\<forall>c. rows c w' = rows c w)"

text \<open>Programs that leave every collection as it is.\<close>

definition neutral ::
  "('w \<Rightarrow> bool) \<Rightarrow> (resource_ref \<Rightarrow> 'w \<Rightarrow> pyval dict list) \<Rightarrow> ('w, 'e, 'a) prog \<Rightarrow> bool" where
  "neutral valid rows m \<longleftrightarrow> (\<forall>w. valid w \<longrightarrow> same_rows valid rows w (snd (m w)))"

lemma neutralI:
  assumes "\<And>w r w'. valid w \<Longrightarrow> m w = (r, w') \<Longrightarrow> same_rows valid rows w w'"
  shows "neutral valid rows m"
  unfolding neutral_def using assms by (metis prod.collapse)

lemma neutralD: "neutral valid rows m \<Longrightarrow> valid w \<Longrightarrow> m w = (r, w') \<Longrightarrow> same_rows valid rows w w'"
  unfolding neutral_def by (metis snd_conv)

section \<open>Rows of channels\<close>

definition channel_of :: "channel_row \<Rightarrow> pyval dict \<Rightarrow> bool" where
  "channel_of c row \<longleftrightarrow> channel_row_ok c \<and> ch_record_version c \<noteq> PNone
     \<and> row = channel_to_record c @ [(''recordVersion'', ch_record_version c)]"

text \<open>The names that make one channel.\<close>

definition channel_id :: "channel_row \<Rightarrow> string \<times> string \<times> string \<times> string" where
  "channel_id c = (ch_namespace c, ch_kind c, ch_name c, ch_channel c)"

text \<open>
  The channel rows of a well-formed history: all parse, and the pointer versions of a channel are
  \<open>1 .. n\<close>, each written once.
\<close>

definition pointers :: "string \<times> string \<times> string \<times> string \<Rightarrow> pyval dict list \<Rightarrow> int set" where
  "pointers i rows = {ch_pointer_version c |c row. row \<in> set rows \<and> channel_of c row \<and> channel_id c = i}"

definition newest :: "string \<times> string \<times> string \<times> string \<Rightarrow> pyval dict list \<Rightarrow> int \<Rightarrow> bool" where
  "newest i rows n \<longleftrightarrow> pointers i rows = {1..n} \<and> 0 \<le> n"

definition history_ok :: "pyval dict list \<Rightarrow> bool" where
  "history_ok rows \<longleftrightarrow> (\<forall>row \<in> set rows. \<exists>c. channel_of c row) \<and> (\<forall>i. \<exists>n. newest i rows n)"

lemma channel_of_parse:
  assumes "channel_of c row"
  shows "channel_from_record row = Inr c"
proof -
  from assms have ok: "channel_row_ok c" "record_version_ok (ch_record_version c)"
    and row: "row = channel_to_record c @ [(''recordVersion'', ch_record_version c)]"
    by (auto simp: channel_of_def channel_row_ok_def)
  have "c\<lparr>ch_record_version := ch_record_version c\<rparr> = c" by simp
  with channel_from_printed(2) [OF ok] show ?thesis unfolding row by metis
qed

lemma channel_of_inject: "channel_of c row \<Longrightarrow> channel_of c' row \<Longrightarrow> c = c'"
  by (metis channel_of_parse sum.inject(2))

lemma newest_unique:
  assumes "newest i rows m" "newest i rows n"
  shows "m = n"
proof (rule antisym)
  have "{1..m} = {1..n}" "0 \<le> m" "0 \<le> n" using assms by (simp_all add: newest_def)
  then show "m \<le> n" "n \<le> m"
    by (cases "1 \<le> m"; cases "1 \<le> n"; force simp: atLeastAtMost_iff set_eq_iff)+
qed

lemma matches_channel:
  "channel_of c row \<Longrightarrow> matches (channel_where ns k n ch) row \<longleftrightarrow> channel_id c = (ns, k, n, ch)"
  by (auto simp: channel_of_def matches_def channel_where_def channel_to_record_def channel_id_def)

lemma channel_of_pointer: "channel_of c row \<Longrightarrow> map_of row ''pointerVersion'' = Some (PInt (ch_pointer_version c))"
  by (auto simp: channel_of_def channel_to_record_def)

lemma channel_of_key: "channel_of c row \<Longrightarrow> map_of row ''channelVersionId'' = Some (PStr (ch_channel_version_id c))"
  by (auto simp: channel_of_def channel_to_record_def)

text \<open>Parsing a stored row gives the pointer it was written from.\<close>

lemma parse_channel_row:
  assumes "channel_of c row"
  shows "parse_channel row = Inr c" "item_record d (PDict row) = Inr row"
    "result_record d \<lparr>res_data = PDict row, res_resources = rs\<rparr> = Inr row"
proof -
  from assms have c: "channel_row_ok c" "row = channel_to_record c @ [(''recordVersion'', ch_record_version c)]"
    and rv: "record_version_ok (ch_record_version c)"
    by (auto simp: channel_of_def channel_row_ok_def)
  have no: "map_of row ''createdAt'' = None" "map_of row ''values'' = None"
    using c(2) by (auto simp: channel_to_record_def)
  then have "without [''createdAt''] row = row"
    by (intro without_id) (auto simp: map_of_eq_None_iff)
  moreover have "channel_from_record row = Inr c" using assms by (rule channel_of_parse)
  ultimately show "parse_channel row = Inr c"
    using no by (simp add: parse_channel_def without_record_timestamps_def check_timestamp_def)
  show "item_record d (PDict row) = Inr row"
    "result_record d \<lparr>res_data = PDict row, res_resources = rs\<rparr> = Inr row"
    using no by (simp_all add: item_record_def result_record_def result_mapping_def logical_record_def)
qed

lemma result_page_data:
  "res_data r = page_data items c \<Longrightarrow> is_cursor c \<Longrightarrow>
     \<exists>z. result_page d r = Inr (map PDict items, z)"
  by (cases c) (auto simp: result_page_def result_mapping_def page_data_def is_cursor_def)

lemma stored_as_channel:
  assumes "channel_row_ok c" "stored_as (channel_to_record c) row"
  obtains v where "v \<noteq> PNone" "channel_of (c\<lparr>ch_record_version := v\<rparr>) row"
proof -
  from assms(2) obtain v where v: "v \<noteq> PNone" "record_version_ok v"
    "row = channel_to_record c @ [(''recordVersion'', v)]"
    by (auto simp: stored_as_def)
  moreover have "channel_to_record (c\<lparr>ch_record_version := v\<rparr>) = channel_to_record c"
    by (simp add: channel_to_record_def)
  moreover have "channel_row_ok (c\<lparr>ch_record_version := v\<rparr>)"
    using assms(1) v(2) by (simp add: channel_row_ok_def)
  ultimately show ?thesis using that by (simp add: channel_of_def)
qed

lemma result_record_PDict:
  "res_data r = PDict row \<Longrightarrow> map_of row ''values'' = None \<Longrightarrow> result_record d r = Inr row"
  by (simp add: result_record_def result_mapping_def logical_record_def)

lemma pointers_append:
  assumes "channel_of c row"
  shows "pointers i (rows @ [row]) = pointers i rows \<union> (if channel_id c = i then {ch_pointer_version c} else {})"
proof -
  have "channel_of d row \<longleftrightarrow> d = c" for d using assms channel_of_inject by blast
  then show ?thesis by (auto simp: pointers_def)
qed

lemma newest_append:
  assumes "channel_of c row" "newest (channel_id c) rows (ch_pointer_version c - 1)"
  shows "newest (channel_id c) (rows @ [row]) (ch_pointer_version c)"
proof -
  from assms have "1 \<le> ch_pointer_version c" by (simp add: channel_of_def channel_row_ok_def)
  then have "{1..ch_pointer_version c} = insert (ch_pointer_version c) {1..ch_pointer_version c - 1}"
    by auto
  with assms show ?thesis by (simp add: newest_def pointers_append)
qed

lemma history_ok_append:
  assumes "history_ok rows" "channel_of c row" "newest (channel_id c) rows n" "ch_pointer_version c = n + 1"
  shows "history_ok (rows @ [row])"
proof -
  have new: "newest (channel_id c) rows (ch_pointer_version c - 1)" using assms(3,4) by simp
  have "\<exists>n. newest i (rows @ [row]) n" for i
  proof (cases "channel_id c = i")
    case True
    then show ?thesis using newest_append [OF assms(2) new] by blast
  next
    case False
    then have "pointers i (rows @ [row]) = pointers i rows"
      by (simp add: pointers_append [OF assms(2)])
    moreover obtain n where "newest i rows n" using assms(1) unfolding history_ok_def by blast
    ultimately show ?thesis by (auto simp: newest_def)
  qed
  with assms(1,2) show ?thesis by (auto simp: history_ok_def)
qed

section \<open>Guarantees of the channel rows\<close>

context metadata_catalog
begin

lemma latest_channel_reads:
  assumes "valid w" "latest_channel repo ns k n ch b w = (out, w')"
  shows "same_rows valid rows w w'"
proof -
  let ?q = "SQuery (mr_channel_resource repo) (channel_where ns k n ch) [descending ''pointerVersion''] 1 None"
  obtain o1 w1 where run: "run (mr_runtime repo) ?q w = (o1, w1)" by fastforce
  then have "same_rows valid rows w w1"
    using query_reads [OF assms(1), of "mr_channel_resource repo"] layout assms(1)
    by (cases "rt_build (mr_runtime repo) ?q")
      (auto simp: same_rows_def run_def build_def execute_def)
  moreover have "w' = w1" using assms(2) run
    by (cases o1) (auto simp: latest_channel_def pbind_def split: sum.splits)
  ultimately show ?thesis by simp
qed

lemma latest_channel_spec:
  assumes "valid w" "history_ok (rows (mr_channel_resource repo) w)"
    "latest_channel repo ns k n ch False w = (Inr z, w')"
  shows "newest (ns, k, n, ch) (rows (mr_channel_resource repo) w) (case z of None \<Rightarrow> 0 | Some c \<Rightarrow> ch_pointer_version c)"
proof -
  let ?wh = "channel_where ns k n ch" and ?R = "rows (mr_channel_resource repo) w"
  let ?i = "(ns, k, n, ch)"
  have known: "mr_channel_resource repo \<in> known" using layout by simp
  from assms(3) obtain r where q: "rt_execute (mr_runtime repo)
      (SQuery (mr_channel_resource repo) ?wh [descending ''pointerVersion''] 1 None) w = (Inr r, w')"
    and z: "rbind (result_page ''structured channel query result'' r) (\<lambda>(items, _).
       (case items of [] \<Rightarrow> if False
            then Inl (ResourceNotFound (about_ref (ns @ '':'' @ k @ ''/'' @ n @ ''#'' @ ch)))
            else Inr None
        | item # _ \<Rightarrow> rbind (item_record ''channel page item'' item) (\<lambda>d.
            rbind (parse_channel d) (\<lambda>c. Inr (Some c))))) = Inr z"
    by (auto simp: latest_channel_def pbind_Inr_iff run_Inr_iff)
  have all: "\<exists>c. channel_of c row" if "row \<in> set ?R" for row
    using assms(2) that by (simp add: history_ok_def )
  have "\<forall>row \<in> set ?R. matches ?wh row \<longrightarrow> (\<exists>n. map_of row ''pointerVersion'' = Some (PInt n))"
    using all channel_of_pointer by blast
  from query_top [OF assms(1) known q this] show ?thesis
  proof (elim disjE conjE exE)
    fix c assume r: "res_data r = page_data [] c" "is_cursor c" "\<forall>row \<in> set ?R. \<not> matches ?wh row"
    have "pointers ?i ?R = {}"
      using r(3) matches_channel by (fastforce simp: pointers_def)
    moreover have "z = None" using result_page_data [OF r(1,2), of "''structured channel query result''"] z by auto
    ultimately show ?thesis by (simp add: newest_def )
  next
    fix row c m
    assume r: "res_data r = page_data [row] c" "is_cursor c" "row \<in> set ?R" "matches ?wh row"
      "map_of row ''pointerVersion'' = Some (PInt m)"
      "\<forall>row' \<in> set ?R. matches ?wh row' \<longrightarrow> (\<exists>n'. map_of row' ''pointerVersion'' = Some (PInt n') \<and> n' \<le> m)"
    from all r(3) obtain d where d: "channel_of d row" by blast
    then have z': "z = Some d" "ch_pointer_version d = m"
      using result_page_data [OF r(1,2), of "''structured channel query result''"] z r(5)
        parse_channel_row(1,2) [OF d] channel_of_pointer [OF d] by auto
    have id: "channel_id d = ?i" using r(4) matches_channel [OF d] by simp
    with d r(3) z'(2) have m: "m \<in> pointers ?i ?R" by (auto simp: pointers_def)
    have top: "p \<le> m" if "p \<in> pointers ?i ?R" for p
    proof -
      from that obtain c' row' where c': "row' \<in> set ?R" "channel_of c' row'" "channel_id c' = ?i"
        "p = ch_pointer_version c'" by (auto simp: pointers_def)
      with r(6) matches_channel [OF c'(2)] channel_of_pointer [OF c'(2)] show ?thesis by fastforce
    qed
    from assms(2) obtain N where N: "newest ?i ?R N" unfolding history_ok_def by blast
    with m have "1 \<le> m" "m \<le> N" by (auto simp: newest_def)
    moreover from N calculation have "N \<in> pointers ?i ?R" by (simp add: newest_def)
    ultimately have "N = m" using top by force
    with N z' show ?thesis by simp
  qed
qed

lemma put_channel_spec:
  assumes "valid w" "channel_row_ok c" "put_channel repo c w = (Inr c', w')"
  shows "valid w'" "\<exists>v. v \<noteq> PNone \<and> c' = c\<lparr>ch_record_version := v\<rparr>"
    "\<exists>row. channel_of c' row \<and> rows (mr_channel_resource repo) w' = rows (mr_channel_resource repo) w @ [row]"
    "\<forall>row \<in> set (rows (mr_channel_resource repo) w). map_of row ''channelVersionId'' \<noteq> Some (PStr (ch_channel_version_id c))"
    "\<forall>res. res \<noteq> mr_channel_resource repo \<longrightarrow> rows res w' = rows res w"
proof -
  have known: "mr_channel_resource repo \<in> known" using layout by simp
  from assms(3) obtain r where p: "rt_execute (mr_runtime repo)
      (SPut (mr_channel_resource repo) (channel_to_record c) ''if_absent'') w = (Inr r, w')"
    and c': "rbind (result_record ''structured channel put result'' r) parse_channel = Inr c'"
    by (auto simp: put_channel_def put_row_def pbind_Inr_iff run_Inr_iff)
  have d: "map_of (channel_to_record c) ''recordVersion'' = None"
    "map_of (channel_to_record c) (key_field (mr_channel_resource repo)) = Some (PStr (ch_channel_version_id c))"
    by (simp_all add: channel_to_record_def layout_keys)
  note put = put_done [OF assms(1) known d p]
  then obtain row where row: "stored_as (channel_to_record c) row" "rows (mr_channel_resource repo) w' = rows (mr_channel_resource repo) w @ [row]"
    "res_data r = PDict row"
    by auto
  obtain v where v: "v \<noteq> PNone" "channel_of (c\<lparr>ch_record_version := v\<rparr>) row"
    by (rule stored_as_channel [OF assms(2) row(1)])
  have "map_of row ''values'' = None" using row(1) by (auto simp: stored_as_def channel_to_record_def)
  then have "c' = c\<lparr>ch_record_version := v\<rparr>"
    using c' result_record_PDict [OF row(3)] parse_channel_row(1) [OF v(2)] by simp
  with v row put show "valid w'" "\<exists>v. v \<noteq> PNone \<and> c' = c\<lparr>ch_record_version := v\<rparr>"
    "\<exists>row. channel_of c' row \<and> rows (mr_channel_resource repo) w' = rows (mr_channel_resource repo) w @ [row]"
    "\<forall>row \<in> set (rows (mr_channel_resource repo) w). map_of row ''channelVersionId'' \<noteq> Some (PStr (ch_channel_version_id c))"
    "\<forall>res. res \<noteq> mr_channel_resource repo \<longrightarrow> rows res w' = rows res w"
    by (auto simp: layout_keys)
qed

lemma put_channel_failed:
  assumes "valid w" "channel_row_ok c" "put_channel repo c w = (Inl e, w')"
  shows "same_rows valid rows w w'"
proof -
  let ?e = "SPut (mr_channel_resource repo) (channel_to_record c) ''if_absent''"
  have known: "mr_channel_resource repo \<in> known" using layout by simp
  obtain o1 w1 where x: "rt_execute (mr_runtime repo) ?e w = (o1, w1)" by fastforce
  show ?thesis
  proof (cases "rt_build (mr_runtime repo) ?e")
    case (Inl e1)
    with assms show ?thesis
      by (auto simp: put_channel_def put_row_def run_def build_def pbind_def plift_def same_rows_def)
  next
    case (Inr u)
    show ?thesis
    proof (cases o1)
      case (Inl e2)
      with x Inr assms(3) have "w' = w1"
        by (auto simp: put_channel_def put_row_def run_def build_def execute_def pbind_def plift_def)
      with put_failed [OF assms(1) known] x Inl show ?thesis by (simp add: same_rows_def)
    next
      case o1: (Inr r)
      have d: "map_of (channel_to_record c) ''recordVersion'' = None"
        "map_of (channel_to_record c) (key_field (mr_channel_resource repo)) = Some (PStr (ch_channel_version_id c))"
        by (simp_all add: channel_to_record_def layout_keys)
      from put_done [OF assms(1) known d, of r w1] x o1 obtain row
        where row: "stored_as (channel_to_record c) row" "res_data r = PDict row" by auto
      obtain v where v: "channel_of (c\<lparr>ch_record_version := v\<rparr>) row"
        by (rule stored_as_channel [OF assms(2) row(1)])
      have "map_of row ''values'' = None" using row(1) by (auto simp: stored_as_def channel_to_record_def)
      then have "put_channel repo c w = (Inr (c\<lparr>ch_record_version := v\<rparr>), w1)"
        using x o1 Inr result_record_PDict [OF row(2)] parse_channel_row(1) [OF v]
        by (simp add: put_channel_def put_row_def run_def build_def execute_def pbind_def plift_def)
      with assms(3) show ?thesis by simp
    qed
  qed
qed

lemma get_row_reads:
  assumes "valid w" "res \<in> known" "get_row repo res f key b d parse w = (out, w')"
  shows "same_rows valid rows w w'"
proof -
  let ?e = "SGet res [(f, PStr key)]"
  obtain o1 w1 where x: "rt_execute (mr_runtime repo) ?e w = (o1, w1)" by fastforce
  then have "same_rows valid rows w w1" using get_reads [OF assms(1,2)] by (simp add: same_rows_def)
  moreover have "w' = w \<or> w' = w1"
    using assms(3) x
    by (auto simp: get_row_def Let_def build_def execute_def pbind_def pcatch_def plift_def pthrow_def
        pret_def split: sum.splits option.splits if_splits)
  ultimately show ?thesis using assms(1) by (auto simp: same_rows_def)
qed

lemma get_channel_reads:
  assumes "valid w" "cr_metadata chs = repo" "get_channel chs ns k n ch b w = (out, w')"
  shows "same_rows valid rows w w'"
  using assms latest_channel_reads
  by (auto simp: get_channel_def pbind_def plift_def same_rows_def split: sum.splits)

lemma put_pointer_spec:
  assumes "valid w" "cr_metadata chs = repo" "channel_row_ok c" "put_pointer chs stale c w = (out, w')"
  shows "(\<exists>e. out = Inl e \<and> same_rows valid rows w w')
    \<or> (\<exists>v. v \<noteq> PNone \<and> out = Inr (c\<lparr>ch_record_version := v\<rparr>) \<and>
        put_channel repo c w = (Inr (c\<lparr>ch_record_version := v\<rparr>), w'))"
proof -
  obtain o1 w1 where p: "put_channel repo c w = (o1, w1)" by fastforce
  show ?thesis
  proof (cases o1)
    case (Inl e)
    with p assms put_channel_failed [OF assms(1,3)] show ?thesis
      by (auto simp: put_pointer_def pbind_def pcatch_def pthrow_def)
  next
    case (Inr c')
    with put_channel_spec(2) [OF assms(1,3)] p obtain v
      where "v \<noteq> PNone" "c' = c\<lparr>ch_record_version := v\<rparr>" by blast
    with Inr p assms show ?thesis
      by (auto simp: put_pointer_def pbind_def pcatch_def pthrow_def)
  qed
qed

lemma advance_pointer_spec:
  assumes "valid w" "history_ok (rows (mr_channel_resource repo) w)" "cr_metadata chs = repo"
    "neutral valid rows (cr_clock chs)" "advance_pointer chs resource channel expected actor w = (out, w')"
  shows "(\<exists>e. out = Inl e \<and> same_rows valid rows w w') \<or>
    (\<exists>c row. out = Inr c \<and> valid w' \<and> channel_of c row
      \<and> channel_id c = (sr_namespace resource, sr_kind resource, sr_name resource, channel)
      \<and> ch_pointer_version c = expected + 1 \<and> ch_target_resource_id c = sr_resource_id resource
      \<and> newest (channel_id c) (rows (mr_channel_resource repo) w) expected
      \<and> rows (mr_channel_resource repo) w' = rows (mr_channel_resource repo) w @ [row]
      \<and> (\<forall>res. res \<noteq> mr_channel_resource repo \<longrightarrow> rows res w' = rows res w))"
proof (cases out)
  case (Inl e)
  obtain o1 w1 where g: "get_channel chs (PStr (sr_namespace resource)) (PStr (sr_kind resource))
      (PStr (sr_name resource)) (PStr channel) False w = (o1, w1)" by fastforce
  then have s1: "same_rows valid rows w w1" using get_channel_reads assms(1,3) by blast
  show ?thesis
  proof (cases "\<exists>c w2. same_rows valid rows w1 w2 \<and> channel_row_ok c
      \<and> put_pointer chs (StaleChannelPointer (about_ref (pointer_ref resource channel))) c w2 = (Inl e, w')")
    case True
    then obtain c w2 where w2: "same_rows valid rows w1 w2" "channel_row_ok c"
      "put_pointer chs (StaleChannelPointer (about_ref (pointer_ref resource channel))) c w2 = (Inl e, w')"
      by blast
    then have "same_rows valid rows w2 w'"
      using put_pointer_spec [OF _ assms(3) w2(2,3)] by (auto simp: same_rows_def)
    with s1 w2(1) Inl show ?thesis by (simp add: same_rows_def)
  next
    case False
    have ok: "requested_row resource channel p actor at = Inr c \<Longrightarrow> channel_row_ok c" for p at c
      by (simp add: requested_row_def mk_channel_row_Inr_iff)
    have clock: "cr_clock chs w1 = (o2, w2) \<Longrightarrow> same_rows valid rows w1 w2" for o2 w2
      using s1 neutralD [OF assms(4), of w1 o2 w2] by (simp add: same_rows_def)
    have "w' = w1 \<or> same_rows valid rows w1 w'"
      using assms(5) g False Inl ok
      by (auto simp: advance_pointer_def Let_def timestamp_now_def pbind_def plift_def pthrow_def
          split: sum.splits option.splits prod.splits dest!: clock)
    with s1 Inl show ?thesis by (auto simp: same_rows_def)
  qed
next
  case (Inr c)
  from assms(5) [unfolded Inr] obtain current w1 p at w2 requested
    where g: "get_channel chs (PStr (sr_namespace resource)) (PStr (sr_kind resource))
      (PStr (sr_name resource)) (PStr channel) False w = (Inr current, w1)"
    and p: "next_pointer current expected = Some p"
    and at: "timestamp_now (cr_clock chs) w1 = (Inr at, w2)"
    and r: "requested_row resource channel p actor at = Inr requested"
    and put: "put_pointer chs (StaleChannelPointer (about_ref (pointer_ref resource channel)))
      requested w2 = (Inr c, w')"
    by (auto simp: advance_pointer_def Let_def pbind_Inr_iff split: option.splits)
  have s1: "same_rows valid rows w w1" using get_channel_reads assms(1,3) g by blast
  have "same_rows valid rows w1 w2" using at s1 neutralD [OF assms(4), of w1 _ w2]
    by (auto simp: timestamp_now_def pbind_Inr_iff same_rows_def)
  with s1 have s2: "valid w2" "rows res w2 = rows res w" for res by (simp_all add: same_rows_def)
  from g assms(3) have l: "latest_channel repo (sr_namespace resource) (sr_kind resource)
      (sr_name resource) channel False w = (Inr current, w1)"
    by (auto simp: get_channel_def pbind_Inr_iff logical_name_Inr_iff channel_name_Inr_iff)
  have top: "newest (sr_namespace resource, sr_kind resource, sr_name resource, channel)
      (rows (mr_channel_resource repo) w) expected" "p = expected + 1"
    using latest_channel_spec [OF assms(1,2) l] p
    by (auto simp: next_pointer_def split: option.splits if_splits)
  from r have req: "channel_row_ok requested"
    "channel_id requested = (sr_namespace resource, sr_kind resource, sr_name resource, channel)"
    "ch_pointer_version requested = p" "ch_target_resource_id requested = sr_resource_id resource"
    by (auto simp: requested_row_def mk_channel_row_Inr_iff channel_id_def)
  from put_pointer_spec [OF s2(1) assms(3) req(1) put] obtain v
    where v: "c = requested\<lparr>ch_record_version := v\<rparr>" "put_channel repo requested w2 = (Inr c, w')"
    by auto
  note spec = put_channel_spec [OF s2(1) req(1) v(2)]
  have "channel_id c = channel_id requested" "ch_pointer_version c = p"
    "ch_target_resource_id c = sr_resource_id resource"
    using v(1) req by (simp_all add: channel_id_def)
  with Inr spec s2 top req(2) show ?thesis by auto
qed

lemma get_resource_reads:
  "valid w \<Longrightarrow> get_resource repo k b w = (out, w') \<Longrightarrow> same_rows valid rows w w'"
  unfolding get_resource_def using layout by (intro get_row_reads) auto

lemma target_resource_reads:
  "valid w \<Longrightarrow> target_resource repo t w = (out, w') \<Longrightarrow> same_rows valid rows w w'"
  by (cases t) (auto simp: target_resource_def pbind_def pret_def pthrow_def same_rows_def
      split: sum.splits option.splits prod.splits dest!: get_resource_reads)

text \<open>
  Compare-and-set: \<open>promote\<close> either fails and writes nothing, or appends the one row that follows
  the version its caller expected, and the history stays well formed.
\<close>

lemma promote_spec:
  assumes "valid w" "history_ok (rows (mr_channel_resource repo) w)" "cr_metadata chs = repo"
    "neutral valid rows (cr_clock chs)" "promote chs target channel expected actor profile w = (out, w')"
  shows "(\<exists>e. out = Inl e \<and> same_rows valid rows w w') \<or>
    (\<exists>c row n. out = Inr c \<and> expected = PInt n \<and> valid w' \<and> channel_of c row
      \<and> channel = PStr (ch_channel c) \<and> ch_pointer_version c = n + 1
      \<and> newest (channel_id c) (rows (mr_channel_resource repo) w) n
      \<and> rows (mr_channel_resource repo) w' = rows (mr_channel_resource repo) w @ [row]
      \<and> (\<forall>res. res \<noteq> mr_channel_resource repo \<longrightarrow> rows res w' = rows res w))"
proof -
  obtain o1 w1 where t: "target_resource repo target w = (o1, w1)" by fastforce
  then have s1: "valid w1" "rows res w1 = rows res w" for res
    using target_resource_reads [OF assms(1) t] by (simp_all add: same_rows_def)
  show ?thesis
  proof (cases "\<exists>n resource ch. expected = PInt n \<and> channel = PStr ch \<and>
      advance_pointer chs resource ch n actor w1 = (out, w')")
    case True
    then obtain n resource ch where a: "expected = PInt n" "channel = PStr ch"
      "advance_pointer chs resource ch n actor w1 = (out, w')" by blast
    from s1(2) assms(2) have "history_ok (rows (mr_channel_resource repo) w1)" by simp
    from advance_pointer_spec [OF s1(1) this assms(3,4) a(3)] s1 a(1,2) show ?thesis
      by (auto simp: same_rows_def channel_id_def)
  next
    case False
    with assms(3,5) t have "(w' = w \<or> w' = w1) \<and> (\<exists>e. out = Inl e)"
      by (auto simp: promote_def pbind_def plift_def pthrow_def nat_value_Inr_iff channel_name_Inr_iff
          split: sum.splits prod.splits)
    with s1 assms(1) show ?thesis by (auto simp: same_rows_def)
  qed
qed

lemma promote_history:
  assumes "valid w" "history_ok (rows (mr_channel_resource repo) w)" "cr_metadata chs = repo"
    "neutral valid rows (cr_clock chs)" "promote chs target channel expected actor profile w = (out, w')"
  shows "valid w' \<and> history_ok (rows (mr_channel_resource repo) w')"
  using promote_spec [OF assms] assms(1,2) by (auto simp: same_rows_def intro: history_ok_append)

text \<open>
  Two writers that read the same newest row request the same pointer version. Once the first has
  written it, the second cannot write: not at any later time, whatever target it chose.
\<close>

lemma put_channel_taken:
  assumes "valid w" "channel_row_ok c" "channel_of d row" "row \<in> set (rows (mr_channel_resource repo) w)"
    "channel_id d = channel_id c" "ch_pointer_version d = ch_pointer_version c"
  shows "\<exists>e w'. put_channel repo c w = (Inl e, w') \<and> same_rows valid rows w w'"
proof -
  obtain o1 w1 where p: "put_channel repo c w = (o1, w1)" by fastforce
  have "ch_channel_version_id d = ch_channel_version_id c"
    using assms(2,3,5,6) by (simp add: channel_of_def channel_row_ok_def channel_id_def)
  then have key: "map_of row ''channelVersionId'' = Some (PStr (ch_channel_version_id c))"
    using channel_of_key [OF assms(3)] by simp
  show ?thesis
  proof (cases o1)
    case (Inl e)
    with p put_channel_failed [OF assms(1,2)] show ?thesis by auto
  next
    case (Inr c')
    with put_channel_spec(4) [OF assms(1,2)] p assms(4) key show ?thesis by auto
  qed
qed

lemma put_pointer_race:
  assumes "valid w" "channel_row_ok c" "put_channel repo c w = (Inr c', w1)"
    and "valid w2" "set (rows (mr_channel_resource repo) w1) \<subseteq> set (rows (mr_channel_resource repo) w2)"
    and "cr_metadata chs = repo" "channel_row_ok d" "channel_id d = channel_id c"
    "ch_pointer_version d = ch_pointer_version c"
  shows "\<exists>e w3. put_pointer chs stale d w2 = (Inl e, w3) \<and> same_rows valid rows w2 w3"
proof -
  obtain v where v: "c' = c\<lparr>ch_record_version := v\<rparr>" using put_channel_spec(2) [OF assms(1-3)] by blast
  obtain row where row: "channel_of c' row" "row \<in> set (rows (mr_channel_resource repo) w2)"
    using put_channel_spec(3) [OF assms(1-3)] assms(5) by auto
  have "channel_id c' = channel_id d" "ch_pointer_version c' = ch_pointer_version d"
    using v assms(8,9) by (simp_all add: channel_id_def)
  from put_channel_taken [OF assms(4,7) row this] assms(6) show ?thesis
    by (auto simp: put_pointer_def pbind_def pcatch_def pthrow_def)
qed

text \<open>A caller that expects any version but the newest is refused.\<close>

lemma promote_stale:
  assumes "valid w" "history_ok (rows (mr_channel_resource repo) w)" "cr_metadata chs = repo"
    "neutral valid rows (cr_clock chs)" "newest i (rows (mr_channel_resource repo) w) m" "m \<noteq> n"
    "advance_pointer chs resource channel n actor w = (out, w')"
    "i = (sr_namespace resource, sr_kind resource, sr_name resource, channel)"
  shows "(\<exists>e. out = Inl e) \<and> same_rows valid rows w w'"
  using advance_pointer_spec [OF assms(1-4,7)] newest_unique [OF assms(5)] assms(6,8)
  by auto

end

end
