(* ===== verification/Rows.thy ===== *)
theory Rows
  imports Catalog
begin

text \<open>
  The rows of the metadata collection: what a valid resource is stored as, and that it is read
  back from such a row whatever record version the Catalog gave it.
\<close>

definition resource_of :: "external \<Rightarrow> stored_resource \<Rightarrow> pyval dict \<Rightarrow> bool" where
  "resource_of x r row \<longleftrightarrow> resource_ok x r \<and> sr_record_version r \<noteq> PNone
     \<and> row = resource_to_record x r @ [(''recordVersion'', sr_record_version r)]"

lemma resource_to_record_version [simp]:
  "resource_to_record x (r\<lparr>sr_record_version := v\<rparr>) = resource_to_record x r"
  by (simp add: resource_to_record_def sr_identity_def)

lemma resource_row_keys:
  "map_of (resource_to_record x r) ''updatedAt'' = None" "map_of (resource_to_record x r) ''values'' = None"
  "map_of (resource_to_record x r) ''recordVersion'' = None"
  "map_of (resource_to_record x r) ''resourceId'' = Some (PStr (sr_resource_id r))"
  by (simp_all add: resource_to_record_def)

lemma stored_as_resource:
  assumes "resource_ok x r" "stored_as (resource_to_record x r) row"
  obtains v where "v \<noteq> PNone" "resource_of x (r\<lparr>sr_record_version := v\<rparr>) row"
  using assms resource_ok_version [OF assms(1)] by (auto simp: stored_as_def resource_of_def)

context external_contract
begin

lemma parse_resource_row:
  assumes "resource_of x r row"
  shows "parse_resource x row = Inr r" "map_of row ''values'' = None"
    "map_of row ''resourceId'' = Some (PStr (sr_resource_id r))"
proof -
  from assms have r: "resource_ok x r" "record_version_ok (sr_record_version r)"
    and row: "row = resource_to_record x r @ [(''recordVersion'', sr_record_version r)]"
    by (simp_all add: resource_of_def resource_ok_def)
  have no: "map_of row ''updatedAt'' = None" using row by (simp add: resource_row_keys map_add_def)
  then have "without [''updatedAt''] row = row" by (intro without_id) (auto simp: map_of_eq_None_iff)
  moreover have "r\<lparr>sr_record_version := sr_record_version r\<rparr> = r" by simp
  then have "resource_from_record x row = Inr r"
    using resource_from_printed(2) [OF r] row by metis
  ultimately show "parse_resource x row = Inr r"
    using no by (simp add: parse_resource_def without_record_timestamps_def check_timestamp_def)
  show "map_of row ''values'' = None" "map_of row ''resourceId'' = Some (PStr (sr_resource_id r))"
    using row by (simp_all add: resource_row_keys map_add_def)
qed

end

section \<open>The metadata collection as a map\<close>

text \<open>
  The abstraction of the metadata rows: the resource stored under an identifier. Rows are well
  formed when each is the row of a valid resource and no identifier occurs twice.
\<close>

definition row_id :: "pyval dict \<Rightarrow> pyval option" where
  "row_id row = map_of row ''resourceId''"

definition resource_at :: "external \<Rightarrow> pyval dict list \<Rightarrow> string \<Rightarrow> stored_resource option" where
  "resource_at x rs k = (case find (\<lambda>row. row_id row = Some (PStr k)) rs of
     None \<Rightarrow> None
   | Some row \<Rightarrow> (case parse_resource x row of Inl _ \<Rightarrow> None | Inr r \<Rightarrow> Some r))"

definition metadata_ok :: "external \<Rightarrow> pyval dict list \<Rightarrow> bool" where
  "metadata_ok x rs \<longleftrightarrow> (\<forall>row \<in> set rs. \<exists>r. resource_of x r row) \<and> distinct (map row_id rs)"

lemma find_map_of_distinct:
  "distinct (map f xs) \<Longrightarrow> x \<in> set xs \<Longrightarrow> f x = k \<Longrightarrow> find (\<lambda>y. f y = k) xs = Some x"
  by (induction xs) (auto simp: image_iff)

lemma find_append: "find P (xs @ ys) = (case find P xs of None \<Rightarrow> find P ys | Some x \<Rightarrow> Some x)"
  by (induction xs) simp_all

lemma metadata_ok_Nil [simp]: "metadata_ok x []" "resource_at x [] k = None"
  by (simp_all add: metadata_ok_def resource_at_def)

context external_contract
begin

lemma resource_of_id: "resource_of x r row \<Longrightarrow> row_id row = Some (PStr (sr_resource_id r))"
  by (simp add: row_id_def parse_resource_row)

lemma resource_at_row:
  assumes "metadata_ok x rs" "row \<in> set rs" "resource_of x r row"
  shows "resource_at x rs (sr_resource_id r) = Some r"
  using assms find_map_of_distinct [of row_id rs row] parse_resource_row(1) [OF assms(3)] resource_of_id [OF assms(3)]
  by (simp add: resource_at_def metadata_ok_def)

lemma resource_at_Some:
  assumes "metadata_ok x rs" "resource_at x rs k = Some r"
  obtains row where "row \<in> set rs" "resource_of x r row" "sr_resource_id r = k"
proof -
  from assms(2) obtain row where row: "find (\<lambda>row. row_id row = Some (PStr k)) rs = Some row"
    "parse_resource x row = Inr r"
    by (auto simp: resource_at_def split: option.splits sum.splits)
  then have "row \<in> set rs" "row_id row = Some (PStr k)" by (auto simp: find_Some_iff)
  moreover then obtain r' where "resource_of x r' row" using assms(1) by (auto simp: metadata_ok_def)
  ultimately show ?thesis
    using that row(2) parse_resource_row(1) resource_of_id by fastforce
qed

lemma resource_at_None:
  assumes "metadata_ok x rs"
  shows "resource_at x rs k = None \<longleftrightarrow> (\<forall>row \<in> set rs. row_id row \<noteq> Some (PStr k))"
proof
  assume "resource_at x rs k = None"
  then show "\<forall>row \<in> set rs. row_id row \<noteq> Some (PStr k)"
    using assms resource_at_row [OF assms] resource_of_id by (fastforce simp: metadata_ok_def)
next
  assume "\<forall>row \<in> set rs. row_id row \<noteq> Some (PStr k)"
  then have "find (\<lambda>row. row_id row = Some (PStr k)) rs = None" by (simp add: find_None_iff)
  then show "resource_at x rs k = None" by (simp add: resource_at_def)
qed

lemma metadata_ok_append:
  assumes "metadata_ok x rs" "resource_of x r row" "resource_at x rs (sr_resource_id r) = None"
  shows "metadata_ok x (rs @ [row])" "resource_at x (rs @ [row]) = (resource_at x rs)(sr_resource_id r \<mapsto> r)"
proof -
  have new: "\<forall>row' \<in> set rs. row_id row' \<noteq> Some (PStr (sr_resource_id r))"
    using assms(3) resource_at_None [OF assms(1)] by simp
  with assms(1,2) show ok: "metadata_ok x (rs @ [row])"
    by (auto simp: metadata_ok_def resource_of_id [OF assms(2)])
  show "resource_at x (rs @ [row]) = (resource_at x rs)(sr_resource_id r \<mapsto> r)"
  proof
    fix k
    show "resource_at x (rs @ [row]) k = ((resource_at x rs)(sr_resource_id r \<mapsto> r)) k"
    proof (cases "k = sr_resource_id r")
      case True
      then show ?thesis using resource_at_row [OF ok _ assms(2)] by simp
    next
      case False
      then show ?thesis using resource_of_id [OF assms(2)]
        by (simp add: resource_at_def find_append split: option.split)
    qed
  qed
qed

end

end
