(* ===== verification/Ledger.thy ===== *)
theory Ledger
  imports Rows
begin

text \<open>
  The metadata repository over a Catalog that keeps the contract: \<open>get_resource\<close> reads the map
  \<open>resource_at\<close>, \<open>put_resource\<close> adds one entry to it, a provenance write touches only its own
  collection. \<open>transactional_catalog\<close> adds the laws of a transaction and of a conditional patch. A
  transaction that raises leaves the rows of its start or those of its end: the plugin relies on
  the first for atomicity, but its invariants hold under either.
\<close>

locale resource_catalog = metadata_catalog repo rows key_field known valid
    + external_contract "rt_ext (mr_runtime repo)"
  for repo :: "'w metadata_repository" and rows key_field known valid

locale transactional_catalog = resource_catalog repo rows key_field known valid
  for repo :: "'w metadata_repository" and rows key_field known valid +
  assumes transaction_keeps: "valid w \<Longrightarrow>
      with_transaction (mr_runtime repo) res (body :: ('w, exn, stored_resource) prog) w = (out, w') \<Longrightarrow>
      (\<And>w1 r w2. same_rows valid rows w w1 \<Longrightarrow> body w1 = (r, w2) \<Longrightarrow> valid w2) \<Longrightarrow>
      same_rows valid rows w w' \<and> (\<exists>e. out = Inl e) \<or>
      (\<exists>w1 r w2. same_rows valid rows w w1 \<and> body w1 = (r, w2) \<and> same_rows valid rows w2 w'
         \<and> (\<forall>s. out = Inr s \<longrightarrow> r = Inr s))"
    and patch_done: "valid w \<Longrightarrow> res \<in> known \<Longrightarrow> f \<noteq> ''recordVersion'' \<Longrightarrow> f \<noteq> key_field res \<Longrightarrow>
      key_field res \<noteq> ''recordVersion'' \<Longrightarrow> distinct (map (\<lambda>row. map_of row (key_field res)) (rows res w)) \<Longrightarrow>
      rt_execute (mr_runtime repo) (SPatch res [(key_field res, PStr k)] [(f, c)] v) w = (Inr r, w') \<Longrightarrow>
      valid w' \<and> (\<forall>c. c \<noteq> res \<longrightarrow> rows c w' = rows c w)
      \<and> (\<exists>i v'. i < length (rows res w) \<and> map_of (rows res w ! i) (key_field res) = Some (PStr k)
           \<and> (v \<noteq> PNone \<longrightarrow> py_eq v (get_or (rows res w ! i) ''recordVersion'' PNone))
           \<and> v' \<noteq> PNone \<and> record_version_ok v'
           \<and> (let row = AList.update ''recordVersion'' v' (AList.update f c (rows res w ! i)) in
                rows res w' = (rows res w)[i := row] \<and> res_data r = PList [PDict row]))"
    and patch_failed: "valid w \<Longrightarrow> res \<in> known \<Longrightarrow>
      rt_execute (mr_runtime repo) (SPatch res wh changes v) w = (Inl e, w') \<Longrightarrow>
      valid w' \<and> (\<forall>c. rows c w' = rows c w)"

lemma same_rows_refl: "valid w \<Longrightarrow> same_rows valid rows w w"
  by (simp add: same_rows_def)

lemma same_rows_trans: "same_rows valid rows w w1 \<Longrightarrow> same_rows valid rows w1 w2 \<Longrightarrow> same_rows valid rows w w2"
  by (simp add: same_rows_def)

context external_contract
begin

lemma metadata_ok_update:
  assumes "metadata_ok x rs" "i < length rs" "resource_of x r row" "row_id (rs ! i) = Some (PStr (sr_resource_id r))"
  shows "metadata_ok x (rs[i := row])" "resource_at x (rs[i := row]) = (resource_at x rs)(sr_resource_id r \<mapsto> r)"
proof -
  have id: "row_id row = row_id (rs ! i)" using assms(3,4) by (simp add: resource_of_id)
  have "map row_id (rs[i := row]) = map row_id rs" using assms(2) id by (simp add: map_update list_update_same_conv)
  then show ok: "metadata_ok x (rs[i := row])"
    using assms(1,3) set_update_subset_insert [of rs i row] by (fastforce simp: metadata_ok_def)
  show "resource_at x (rs[i := row]) = (resource_at x rs)(sr_resource_id r \<mapsto> r)"
  proof
    fix k
    show "resource_at x (rs[i := row]) k = ((resource_at x rs)(sr_resource_id r \<mapsto> r)) k"
    proof (cases "k = sr_resource_id r")
      case True
      then show ?thesis using resource_at_row [OF ok _ assms(3)] assms(2) by (simp add: set_update_memI)
    next
      case False
      have same: "find (\<lambda>row. row_id row = Some (PStr k)) (rs[i := row]) = find (\<lambda>row. row_id row = Some (PStr k)) rs"
        if "row_id (rs ! i) \<noteq> Some (PStr k)" "row_id row \<noteq> Some (PStr k)" for rs i
        using that by (induction rs arbitrary: i) (auto split: nat.split)
      show ?thesis using False assms(4) id same [of rs i] by (simp add: resource_at_def)
    qed
  qed
qed

end

section \<open>Writes of a row\<close>

context metadata_catalog
begin

lemma put_row_cases:
  assumes "valid w" "res \<in> known" "map_of d ''recordVersion'' = None" "map_of d (key_field res) = Some (PStr k)"
    "put_row repo res d w = (out, w')"
  obtains (failed) e where "out = Inl e" "same_rows valid rows w w'"
  | (written) r row where "out = Inr r" "valid w'" "stored_as d row" "res_data r = PDict row"
      "rows res w' = rows res w @ [row]" "\<forall>row \<in> set (rows res w). map_of row (key_field res) \<noteq> Some (PStr k)"
      "\<forall>c. c \<noteq> res \<longrightarrow> rows c w' = rows c w"
proof -
  let ?e = "SPut res d ''if_absent''"
  obtain o1 w1 where x: "rt_execute (mr_runtime repo) ?e w = (o1, w1)" by fastforce
  show ?thesis
  proof (cases "rt_build (mr_runtime repo) ?e")
    case (Inl e)
    with assms(1,5) show ?thesis
      by (intro failed [of e]) (simp_all add: put_row_def run_def build_def same_rows_def)
  next
    case (Inr u)
    with x assms(5) have "out = o1" "w' = w1" by (simp_all add: put_row_def run_def build_def execute_def)
    then show ?thesis
    proof (cases o1)
      case (Inl e)
      with put_failed [OF assms(1,2)] x \<open>out = o1\<close> \<open>w' = w1\<close> show ?thesis
        by (intro failed [of e]) (simp_all add: same_rows_def)
    next
      case (Inr r)
      with put_done [OF assms(1-4), of r w'] x \<open>out = o1\<close> \<open>w' = w1\<close> that(2) show ?thesis by auto
    qed
  qed
qed

end

section \<open>Resources\<close>

context resource_catalog
begin

lemma get_resource_spec:
  assumes "valid w" "metadata_ok (rt_ext (mr_runtime repo)) (rows (mr_metadata_resource repo) w)"
    "get_resource repo k b w = (Inr z, w')"
  shows "z = resource_at (rt_ext (mr_runtime repo)) (rows (mr_metadata_resource repo) w) k"
    "b \<Longrightarrow> z \<noteq> None"
proof -
  let ?M = "rows (mr_metadata_resource repo) w" and ?e = "SGet (mr_metadata_resource repo) [(''resourceId'', PStr k)]"
  have known: "mr_metadata_resource repo \<in> known" using layout by simp
  obtain o1 w1 where x: "rt_execute (mr_runtime repo) ?e w = (o1, w1)" by fastforce
  have "z = resource_at (rt_ext (mr_runtime repo)) ?M k \<and> (b \<longrightarrow> z \<noteq> None)"
  proof (cases o1)
    case (Inl e)
    with x assms(3) have e: "is_not_found e" "z = None" "\<not> b"
      by (auto simp: get_resource_def get_row_def Let_def build_def execute_def pbind_def pcatch_def
          plift_def pthrow_def split: sum.splits if_splits)
    then have "\<forall>row \<in> set ?M. row_id row \<noteq> Some (PStr k)"
      using get_missing [OF assms(1) known, of k e w1] x Inl by (simp add: layout_keys row_id_def)
    then show ?thesis using e resource_at_None [OF assms(2), of k] by simp
  next
    case (Inr r)
    from get_found [OF assms(1) known, of k r w1] x Inr obtain row
      where row: "row \<in> set ?M" "row_id row = Some (PStr k)" "res_data r = PDict row"
      by (auto simp: layout_keys row_id_def)
    then obtain s where s: "resource_of (rt_ext (mr_runtime repo)) s row"
      using assms(2) by (auto simp: metadata_ok_def)
    note parse = parse_resource_row [OF s]
    have "z = Some s"
      using x Inr row(3) assms(3) parse result_record_PDict [OF row(3) parse(2)]
      by (auto simp: get_resource_def get_row_def Let_def build_def execute_def pbind_def pcatch_def
          plift_def split: sum.splits)
    moreover have "sr_resource_id s = k" using parse(3) row(2) by (simp add: row_id_def)
    ultimately show ?thesis using resource_at_row [OF assms(2) row(1) s] by auto
  qed
  then show "z = resource_at (rt_ext (mr_runtime repo)) ?M k" "b \<Longrightarrow> z \<noteq> None" by auto
qed

lemma put_resource_cases:
  assumes "valid w" "resource_ok (rt_ext (mr_runtime repo)) c" "put_resource repo c w = (out, w')"
    "metadata_ok (rt_ext (mr_runtime repo)) (rows (mr_metadata_resource repo) w)"
  obtains (failed) e where "out = Inl e" "same_rows valid rows w w'"
  | (written) s row v where "out = Inr s" "valid w'" "s = c\<lparr>sr_record_version := v\<rparr>" "v \<noteq> PNone"
      "resource_of (rt_ext (mr_runtime repo)) s row"
      "rows (mr_metadata_resource repo) w' = rows (mr_metadata_resource repo) w @ [row]"
      "resource_at (rt_ext (mr_runtime repo)) (rows (mr_metadata_resource repo) w) (sr_resource_id c) = None"
      "\<forall>res. res \<noteq> mr_metadata_resource repo \<longrightarrow> rows res w' = rows res w"
proof -
  let ?d = "resource_to_record (rt_ext (mr_runtime repo)) c"
  have known: "mr_metadata_resource repo \<in> known" using layout by simp
  have d: "map_of ?d ''recordVersion'' = None" "map_of ?d (key_field (mr_metadata_resource repo)) = Some (PStr (sr_resource_id c))"
    by (simp_all add: resource_row_keys layout_keys)
  obtain o1 w1 where p: "put_row repo (mr_metadata_resource repo) ?d w = (o1, w1)" by fastforce
  from assms(1) known d p show ?thesis
  proof (cases rule: put_row_cases)
    case (failed e)
    with assms(3) p show ?thesis by (intro that(1) [of e]) (simp_all add: put_resource_def pbind_def)
  next
    case (written r row)
    obtain v where v: "v \<noteq> PNone" "resource_of (rt_ext (mr_runtime repo)) (c\<lparr>sr_record_version := v\<rparr>) row"
      by (rule stored_as_resource [OF assms(2) written(3)])
    note parse = parse_resource_row [OF v(2)]
    have "put_resource repo c w = (Inr (c\<lparr>sr_record_version := v\<rparr>), w1)"
      using p written(1) parse(1) result_record_PDict [OF written(4) parse(2)]
      by (simp add: put_resource_def pbind_def)
    moreover have "resource_at (rt_ext (mr_runtime repo)) (rows (mr_metadata_resource repo) w) (sr_resource_id c) = None"
      using written(6) by (simp add: resource_at_None [OF assms(4)] layout_keys row_id_def)
    ultimately show ?thesis using that(2) [of "c\<lparr>sr_record_version := v\<rparr>" v row] assms(3) v written by simp
  qed
qed

lemma put_provenance_reads:
  assumes "valid w" "provenance_record r = Some d" "put_provenance repo d w = (out, w')"
  shows "valid w'" "res \<noteq> mr_provenance_resource repo \<Longrightarrow> rows res w' = rows res w"
proof -
  have known: "mr_provenance_resource repo \<in> known" using layout by simp
  have d: "map_of d ''recordVersion'' = None" "map_of d (key_field (mr_provenance_resource repo)) = Some (PStr (sr_resource_id r))"
    using assms(2) by (auto simp: provenance_record_def layout_keys split: option.splits)
  obtain o1 w1 where p: "put_row repo (mr_provenance_resource repo) d w = (o1, w1)" by fastforce
  with assms(3) have "w' = w1" by (auto simp: put_provenance_def pbind_def split: sum.splits)
  from assms(1) known d p have "valid w1 \<and> (\<forall>res. res \<noteq> mr_provenance_resource repo \<longrightarrow> rows res w1 = rows res w)"
  proof (cases rule: put_row_cases)
    case (failed e)
    then show ?thesis by (simp add: same_rows_def)
  qed simp
  with \<open>w' = w1\<close> show "valid w'" "res \<noteq> mr_provenance_resource repo \<Longrightarrow> rows res w' = rows res w"
    by simp_all
qed

end

section \<open>The metadata transaction\<close>

context transactional_catalog
begin

text \<open>
  A transaction whose body either raises without a trace or reaches \<open>P\<close>, a fact about its outcome
  and the rows it leaves, does so as a whole.
\<close>

lemma transaction_cases:
  assumes "valid w" "with_transaction (mr_runtime repo) res (body :: ('w, exn, stored_resource) prog) w = (out, w')"
    and body: "\<And>u r u'. same_rows valid rows w u \<Longrightarrow> body u = (r, u') \<Longrightarrow>
      (\<exists>e. r = Inl e) \<and> same_rows valid rows u u' \<or> valid u' \<and> P r u'"
    and P: "\<And>r u u'. P r u \<Longrightarrow> same_rows valid rows u u' \<Longrightarrow> P r u'"
  obtains (unchanged) e where "out = Inl e" "same_rows valid rows w w'"
  | (left) r where "valid w'" "P r w'" "\<forall>s. out = Inr s \<longrightarrow> r = Inr s"
proof -
  have "valid u'" if "same_rows valid rows w u" "body u = (r, u')" for u r u'
    using body [OF that] by (auto simp: same_rows_def)
  then have "same_rows valid rows w w' \<and> (\<exists>e. out = Inl e) \<or>
      (\<exists>w1 r w2. same_rows valid rows w w1 \<and> body w1 = (r, w2) \<and> same_rows valid rows w2 w'
         \<and> (\<forall>s. out = Inr s \<longrightarrow> r = Inr s))"
    by (rule transaction_keeps [OF assms(1,2)])
  then show ?thesis
  proof (elim disjE exE conjE)
    fix w1 r w2
    assume t: "same_rows valid rows w w1" "body w1 = (r, w2)" "same_rows valid rows w2 w'"
      "\<forall>s. out = Inr s \<longrightarrow> r = Inr s"
    from body [OF t(1,2)] show ?thesis
    proof (elim disjE exE conjE)
      fix e assume "r = Inl e" "same_rows valid rows w1 w2"
      with t show ?thesis by (cases out) (auto simp: same_rows_def intro: unchanged)
    next
      assume "P r w2"
      with P t show ?thesis by (intro left [of r]) (auto simp: same_rows_def)
    qed
  qed (rule unchanged)
qed

text \<open>The body of \<open>commit\<close>: the row, the comparison with what was sent, the provenance.\<close>

lemma commit_cases:
  assumes "valid w" "resource_ok (rt_ext (mr_runtime repo)) c" "commit same repo i c w = (out, w')"
    "metadata_ok (rt_ext (mr_runtime repo)) (rows (mr_metadata_resource repo) w)"
  obtains (unchanged) e where "out = Inl e" "valid w'" 
      "\<forall>res. res \<noteq> mr_provenance_resource repo \<longrightarrow> rows res w' = rows res w"
  | (written) s row v where "\<forall>s'. out = Inr s' \<longrightarrow> s' = s \<and> same c s" "s = c\<lparr>sr_record_version := v\<rparr>" "v \<noteq> PNone"
      "resource_of (rt_ext (mr_runtime repo)) s row" "valid w'"
      "rows (mr_metadata_resource repo) w' = rows (mr_metadata_resource repo) w @ [row]"
      "resource_at (rt_ext (mr_runtime repo)) (rows (mr_metadata_resource repo) w) (sr_resource_id c) = None"
      "\<forall>res. res \<notin> {mr_metadata_resource repo, mr_provenance_resource repo} \<longrightarrow> rows res w' = rows res w"
proof -
  let ?x = "rt_ext (mr_runtime repo)" and ?M = "mr_metadata_resource repo"
  let ?body = "pbind (put_resource repo c) (\<lambda>stored.
      pbind (plift (ensure (same c stored) (IdentityConflict (about_ref (identity_canonical i))))) (\<lambda>_.
      (case provenance_record stored of
         None \<Rightarrow> pret stored
       | Some row \<Rightarrow> pbind (put_provenance repo row) (\<lambda>_. pret stored))))"
  have body: "(\<exists>e. r = Inl e) \<and> same_rows valid rows u u' \<or>
      (\<exists>s row v. (\<forall>s'. r = Inr s' \<longrightarrow> s' = s \<and> same c s) \<and> s = c\<lparr>sr_record_version := v\<rparr> \<and> v \<noteq> PNone \<and> resource_of ?x s row
        \<and> valid u' \<and> rows ?M u' = rows ?M u @ [row] \<and> resource_at ?x (rows ?M u) (sr_resource_id c) = None
        \<and> (\<forall>res. res \<notin> {?M, mr_provenance_resource repo} \<longrightarrow> rows res u' = rows res u))"
    if "valid u" "metadata_ok ?x (rows ?M u)" "?body u = (r, u')" for u r u'
  proof -
    obtain o1 u1 where p: "put_resource repo c u = (o1, u1)" by fastforce
    from that(1) assms(2) p that(2) show ?thesis
    proof (cases rule: put_resource_cases)
      case (failed e)
      with p that(3) show ?thesis by (auto simp: pbind_def)
    next
      case (written s row v)
      have "valid u' \<and> (\<forall>res. res \<noteq> mr_provenance_resource repo \<longrightarrow> rows res u' = rows res u1)
          \<and> (\<forall>s'. r = Inr s' \<longrightarrow> s' = s \<and> same c s)"
      proof (cases "same c s")
        case False
        with p that(3) written show ?thesis by (auto simp: pbind_def)
      next
        case True
        show ?thesis
        proof (cases "provenance_record s")
          case None
          with True p that(3) written show ?thesis by (auto simp: pbind_def)
        next
          case (Some d)
          obtain o2 u2 where q: "put_provenance repo d u1 = (o2, u2)" by fastforce
          from put_provenance_reads [OF written(2) Some q] True Some p q that(3) written(1) show ?thesis
            by (auto simp: pbind_def split: sum.splits)
        qed
      qed
      moreover have "?M \<noteq> mr_provenance_resource repo" using layout_distinct by auto
      ultimately show ?thesis using written by (intro disjI2 exI [of _ s] exI [of _ row] exI [of _ v]) auto
    qed
  qed
  have tx: "with_transaction (mr_runtime repo) ?M ?body w = (out, w')"
    using assms(3) by (simp add: commit_def transaction_def)
  let ?P = "\<lambda>r u'. \<exists>s row v. (\<forall>s'. r = Inr s' \<longrightarrow> s' = s \<and> same c s) \<and> s = c\<lparr>sr_record_version := v\<rparr> \<and> v \<noteq> PNone
      \<and> resource_of ?x s row \<and> rows ?M u' = rows ?M w @ [row] \<and> resource_at ?x (rows ?M w) (sr_resource_id c) = None
      \<and> (\<forall>res. res \<notin> {?M, mr_provenance_resource repo} \<longrightarrow> rows res u' = rows res w)"
  show ?thesis
  proof (rule transaction_cases [where P = ?P, OF assms(1) tx], goal_cases)
    case (1 u r u')
    then have "valid u" "metadata_ok ?x (rows ?M u)" using assms(4) by (simp_all add: same_rows_def)
    from body [OF this 1(2)] 1(1) show ?case unfolding same_rows_def by metis
  next
    case (2 r u u')
    then show ?case unfolding same_rows_def by metis
  next
    case (3 e)
    then show ?case by (intro that(1)) (simp_all add: same_rows_def)
  next
    case (4 r)
    then obtain s row v where "\<forall>s'. r = Inr s' \<longrightarrow> s' = s \<and> same c s" "s = c\<lparr>sr_record_version := v\<rparr>" "v \<noteq> PNone"
      "resource_of ?x s row" "rows ?M w' = rows ?M w @ [row]" "resource_at ?x (rows ?M w) (sr_resource_id c) = None"
      "\<forall>res. res \<notin> {?M, mr_provenance_resource repo} \<longrightarrow> rows res w' = rows res w" by blast
    with 4 show ?case by (intro that(2) [of s v row]) auto
  qed
qed

text \<open>A deprecated row is the row of the same resource in state DEPRECATED.\<close>

lemma deprecated_row:
  assumes "resource_of (rt_ext (mr_runtime repo)) s row" "sr_state s \<noteq> DRAFT" "v \<noteq> PNone" "record_version_ok v"
  shows "resource_of (rt_ext (mr_runtime repo)) (s\<lparr>sr_state := DEPRECATED, sr_record_version := v\<rparr>)
    (AList.update ''recordVersion'' v (AList.update ''state'' (PStr (state_value DEPRECATED)) row))"
proof -
  let ?x = "rt_ext (mr_runtime repo)"
  have "resource_ok ?x (s\<lparr>sr_state := DEPRECATED, sr_record_version := v\<rparr>)"
    using assms by (auto simp: resource_of_def resource_ok_def sr_identity_def profile_part_ok_def
        split: resource_profile.splits)
  moreover have "AList.update ''recordVersion'' v (AList.update ''state'' (PStr (state_value DEPRECATED)) row)
      = resource_to_record ?x (s\<lparr>sr_state := DEPRECATED, sr_record_version := v\<rparr>) @ [(''recordVersion'', v)]"
    using assms(1) by (simp add: resource_of_def resource_to_record_def)
  ultimately show ?thesis using assms(3) by (simp add: resource_of_def)
qed

lemma deprecate_resource_cases:
  assumes "valid w" "deprecate_resource repo r w = (out, w')"
    "metadata_ok (rt_ext (mr_runtime repo)) (rows (mr_metadata_resource repo) w)"
    "\<And>k s. resource_at (rt_ext (mr_runtime repo)) (rows (mr_metadata_resource repo) w) k = Some s \<Longrightarrow> sr_state s \<noteq> DRAFT"
  obtains (unchanged) e where "out = Inl e" "same_rows valid rows w w'"
  | (patched) s v where "resource_at (rt_ext (mr_runtime repo)) (rows (mr_metadata_resource repo) w) (sr_resource_id r) = Some s"
      "v \<noteq> PNone" "py_eq (sr_record_version r) (sr_record_version s)"
      "\<forall>s'. out = Inr s' \<longrightarrow> s' = s\<lparr>sr_state := DEPRECATED, sr_record_version := v\<rparr>"
      "valid w'" "metadata_ok (rt_ext (mr_runtime repo)) (rows (mr_metadata_resource repo) w')"
      "resource_at (rt_ext (mr_runtime repo)) (rows (mr_metadata_resource repo) w')
         = (resource_at (rt_ext (mr_runtime repo)) (rows (mr_metadata_resource repo) w))
             (sr_resource_id r \<mapsto> s\<lparr>sr_state := DEPRECATED, sr_record_version := v\<rparr>)"
      "\<forall>res. res \<noteq> mr_metadata_resource repo \<longrightarrow> rows res w' = rows res w"
proof -
  let ?x = "rt_ext (mr_runtime repo)" and ?M = "mr_metadata_resource repo" and ?id = "sr_resource_id r"
  let ?e = "SPatch ?M [(''resourceId'', PStr ?id)] [(''state'', PStr (state_value DEPRECATED))] (sr_record_version r)"
  let ?body = "pbind (run (mr_runtime repo) ?e) (\<lambda>res. plift (deprecation_result repo res r))"
  let ?P = "\<lambda>o1 u'. \<exists>s v. resource_at ?x (rows ?M w) ?id = Some s \<and> v \<noteq> PNone
      \<and> py_eq (sr_record_version r) (sr_record_version s)
      \<and> (\<forall>s'. o1 = Inr s' \<longrightarrow> s' = s\<lparr>sr_state := DEPRECATED, sr_record_version := v\<rparr>)
      \<and> metadata_ok ?x (rows ?M u')
      \<and> resource_at ?x (rows ?M u') = (resource_at ?x (rows ?M w))(?id \<mapsto> s\<lparr>sr_state := DEPRECATED, sr_record_version := v\<rparr>)
      \<and> (\<forall>res. res \<noteq> ?M \<longrightarrow> rows res u' = rows res w)"
  have known: "?M \<in> known" using layout by simp
  show ?thesis
  proof (cases "sr_record_version r = PNone")
    case True
    with assms(1,2) show ?thesis
      by (intro that(1)) (auto simp: deprecate_resource_def same_rows_def)
  next
    case False
    with assms(2) have tx: "with_transaction (mr_runtime repo) ?M ?body w = (out, w')"
      by (simp add: deprecate_resource_def transaction_def)
    have body: "(\<exists>e. o1 = Inl e) \<and> same_rows valid rows u u' \<or> valid u' \<and> ?P o1 u'"
      if u: "same_rows valid rows w u" "?body u = (o1, u')" for u o1 u'
    proof -
      from u(1) have w: "valid u" "rows res u = rows res w" for res by (simp_all add: same_rows_def)
      obtain o2 u2 where x: "rt_execute (mr_runtime repo) ?e u = (o2, u2)" by fastforce
      show ?thesis
      proof (cases "rt_build (mr_runtime repo) ?e")
        case (Inl e)
        with u(2) w(1) show ?thesis by (auto simp: run_def build_def same_rows_def)
      next
        case (Inr b)
        show ?thesis
        proof (cases o2)
          case (Inl e)
          with Inr u(2) x patch_failed [OF w(1) known] show ?thesis
            by (auto simp: run_def build_def execute_def pbind_def same_rows_def)
        next
          case (Inr res)
          then have o1: "o1 = deprecation_result repo res r" "u' = u2"
            using u(2) x \<open>rt_build (mr_runtime repo) ?e = Inr b\<close>
            by (simp_all add: run_def build_def execute_def pbind_def)
          have key: "key_field ?M = ''resourceId''" by (rule layout_keys(1))
          have "distinct (map (\<lambda>row. map_of row (key_field ?M)) (rows ?M u))"
            using assms(3) w(2) by (simp add: metadata_ok_def row_id_def [abs_def] key)
          with patch_done [OF w(1) known, of "''state''" ?id "PStr (state_value DEPRECATED)" "sr_record_version r" res u2]
          obtain i v where i: "valid u2" "\<forall>c. c \<noteq> ?M \<longrightarrow> rows c u2 = rows c u" "i < length (rows ?M w)"
            "row_id (rows ?M w ! i) = Some (PStr ?id)"
            "py_eq (sr_record_version r) (get_or (rows ?M w ! i) ''recordVersion'' PNone)"
            "v \<noteq> PNone" "record_version_ok v"
            "rows ?M u2 = (rows ?M w)[i := AList.update ''recordVersion'' v
               (AList.update ''state'' (PStr (state_value DEPRECATED)) (rows ?M w ! i))]"
            "res_data res = PList [PDict (AList.update ''recordVersion'' v
               (AList.update ''state'' (PStr (state_value DEPRECATED)) (rows ?M w ! i)))]"
            using x Inr False w(2) by (auto simp: key row_id_def Let_def)
          from i(3) have "rows ?M w ! i \<in> set (rows ?M w)" by (rule nth_mem)
          with assms(3) obtain s where s: "resource_of ?x s (rows ?M w ! i)"
            unfolding metadata_ok_def by blast
          have id: "sr_resource_id s = ?id" using i(4) resource_of_id [OF s] by simp
          have at: "resource_at ?x (rows ?M w) ?id = Some s"
            using resource_at_row [OF assms(3) _ s] i(3) id by simp
          let ?s = "s\<lparr>sr_state := DEPRECATED, sr_record_version := v\<rparr>"
          note row = deprecated_row [OF s assms(4) [OF at] i(6,7)]
          have "row_id (rows ?M w ! i) = Some (PStr (sr_resource_id ?s))" using i(4) id by simp
          note upd = metadata_ok_update [OF assms(3) i(3) row this]
          have "s' = ?s" if "o1 = Inr s'" for s'
            using that parse_resource_row(1,2) [OF row]
            by (auto simp: o1(1) deprecation_result_def i(9) result_mapping_def logical_record_def
                rbind_Inr_iff split: if_splits)
          moreover have "py_eq (sr_record_version r) (sr_record_version s)"
            using i(5) s by (auto simp: resource_of_def get_or_def map_add_def resource_row_keys)
          ultimately have "?P o1 u'" using at i(2,6,8) upd id w(2) o1(2)
            by (intro exI [of _ s] exI [of _ v]) simp
          with i(1) o1(2) have "?P o1 u' \<and> valid u'" by simp
          then show ?thesis by blast
        qed
      qed
    qed
    show ?thesis
    proof (rule transaction_cases [where P = ?P, OF assms(1) tx], goal_cases)
      case (1 u o1 u')
      then show ?case by (rule body)
    next
      case (2 o1 u u')
      then show ?case unfolding same_rows_def by metis
    next
      case (3 e)
      then show ?case by (rule that(1))
    next
      case (4 o1)
      then obtain s v where "resource_at ?x (rows ?M w) ?id = Some s" "v \<noteq> PNone"
        "py_eq (sr_record_version r) (sr_record_version s)"
        "\<forall>s'. o1 = Inr s' \<longrightarrow> s' = s\<lparr>sr_state := DEPRECATED, sr_record_version := v\<rparr>"
        "metadata_ok ?x (rows ?M w')"
        "resource_at ?x (rows ?M w') = (resource_at ?x (rows ?M w))(?id \<mapsto> s\<lparr>sr_state := DEPRECATED, sr_record_version := v\<rparr>)"
        "\<forall>res. res \<noteq> ?M \<longrightarrow> rows res w' = rows res w" by blast
      with 4 show ?case by (intro that(2) [of s v]) auto
    qed
  qed
qed

end

end
