(* ===== verification/Guarantees.thy ===== *)
theory Guarantees
  imports Ledger
begin

text \<open>
  What every operation of the plugin guarantees of the collections behind it. The metadata
  collection, seen as a map from identifiers to resources, only ever evolves: an entry appears, or
  the entry of a published resource is marked deprecated; nothing is removed and nothing else
  changes. The channel collection only grows, and its histories stay well formed. The guarantees
  are proved along the code by the \<open>keeps\<close> rules, from those of the three writes.
\<close>

section \<open>Evolution\<close>

definition deprecated_of :: "stored_resource \<Rightarrow> stored_resource \<Rightarrow> bool" where
  "deprecated_of r r' \<longleftrightarrow> (\<exists>v. r' = r\<lparr>sr_state := DEPRECATED, sr_record_version := v\<rparr>)"

definition evolves :: "(string \<Rightarrow> stored_resource option) \<Rightarrow> (string \<Rightarrow> stored_resource option) \<Rightarrow> bool" where
  "evolves m m' \<longleftrightarrow> (\<forall>k r. m k = Some r \<longrightarrow> (\<exists>r'. m' k = Some r' \<and> (r' = r \<or> deprecated_of r r')))"

definition catalogue ::
  "'w metadata_repository \<Rightarrow> (resource_ref \<Rightarrow> 'w \<Rightarrow> pyval dict list) \<Rightarrow> 'w \<Rightarrow> string \<Rightarrow> stored_resource option" where
  "catalogue repo rows w = resource_at (rt_ext (mr_runtime repo)) (rows (mr_metadata_resource repo) w)"

definition ledger_ok ::
  "'w metadata_repository \<Rightarrow> ('w \<Rightarrow> bool) \<Rightarrow> (resource_ref \<Rightarrow> 'w \<Rightarrow> pyval dict list) \<Rightarrow> 'w \<Rightarrow> bool" where
  "ledger_ok repo valid rows w \<longleftrightarrow> valid w
     \<and> metadata_ok (rt_ext (mr_runtime repo)) (rows (mr_metadata_resource repo) w)
     \<and> (\<forall>k r. catalogue repo rows w k = Some r \<longrightarrow> sr_state r \<noteq> DRAFT)
     \<and> history_ok (rows (mr_channel_resource repo) w)"

definition moves ::
  "'w metadata_repository \<Rightarrow> ('w \<Rightarrow> bool) \<Rightarrow> (resource_ref \<Rightarrow> 'w \<Rightarrow> pyval dict list) \<Rightarrow> 'w \<Rightarrow> 'w \<Rightarrow> bool" where
  "moves repo valid rows w w' \<longleftrightarrow> ledger_ok repo valid rows w'
     \<and> evolves (catalogue repo rows w) (catalogue repo rows w')
     \<and> (\<exists>new. rows (mr_channel_resource repo) w' = rows (mr_channel_resource repo) w @ new)"

lemma deprecated_of_trans: "deprecated_of r s \<Longrightarrow> deprecated_of s t \<Longrightarrow> deprecated_of r t"
  by (auto simp: deprecated_of_def)

lemma evolves_refl: "evolves m m"
  by (simp add: evolves_def)

lemma evolves_trans: "evolves m m' \<Longrightarrow> evolves m' m'' \<Longrightarrow> evolves m m''"
  unfolding evolves_def
proof (intro allI impI)
  assume a: "\<forall>k r. m k = Some r \<longrightarrow> (\<exists>r'. m' k = Some r' \<and> (r' = r \<or> deprecated_of r r'))"
    and b: "\<forall>k r. m' k = Some r \<longrightarrow> (\<exists>r'. m'' k = Some r' \<and> (r' = r \<or> deprecated_of r r'))"
  fix k r assume "m k = Some r"
  with a obtain s where s: "m' k = Some s" "s = r \<or> deprecated_of r s" by blast
  with b obtain t where "m'' k = Some t" "t = s \<or> deprecated_of s t" by blast
  with s show "\<exists>r'. m'' k = Some r' \<and> (r' = r \<or> deprecated_of r r')"
    using deprecated_of_trans by blast
qed

lemma evolves_new: "m k = None \<Longrightarrow> evolves m (m(k \<mapsto> r))"
  by (auto simp: evolves_def)

lemma evolves_deprecated: "m k = Some r \<Longrightarrow> evolves m (m(k \<mapsto> r\<lparr>sr_state := DEPRECATED, sr_record_version := v\<rparr>))"
proof -
  assume m: "m k = Some r"
  have "deprecated_of r (r\<lparr>sr_state := DEPRECATED, sr_record_version := v\<rparr>)"
    unfolding deprecated_of_def by blast
  with m show ?thesis by (simp add: evolves_def)
qed

lemma moves_refl: "ledger_ok repo valid rows w \<Longrightarrow> moves repo valid rows w w"
  by (simp add: moves_def evolves_refl)

lemma moves_trans: "moves repo valid rows w w1 \<Longrightarrow> moves repo valid rows w1 w2 \<Longrightarrow> moves repo valid rows w w2"
proof -
  assume a: "moves repo valid rows w w1" and b: "moves repo valid rows w1 w2"
  from a b have "evolves (catalogue repo rows w) (catalogue repo rows w2)"
    unfolding moves_def by (blast intro: evolves_trans)
  moreover from a b obtain n1 n2 where "rows (mr_channel_resource repo) w2 = (rows (mr_channel_resource repo) w @ n1) @ n2"
    unfolding moves_def by metis
  then have "\<exists>new. rows (mr_channel_resource repo) w2 = rows (mr_channel_resource repo) w @ new" by simp
  ultimately show ?thesis using b by (simp add: moves_def)
qed

lemma moves_ok: "moves repo valid rows w w' \<Longrightarrow> ledger_ok repo valid rows w'"
  by (simp add: moves_def)

lemma ledger_ok_same:
  "ledger_ok repo valid rows w \<Longrightarrow> same_rows valid rows w w' \<Longrightarrow> ledger_ok repo valid rows w'"
  "same_rows valid rows w w' \<Longrightarrow> catalogue repo rows w' = catalogue repo rows w"
  by (simp_all add: ledger_ok_def same_rows_def catalogue_def)

lemma moves_same: "ledger_ok repo valid rows w \<Longrightarrow> same_rows valid rows w w' \<Longrightarrow> moves repo valid rows w w'"
  unfolding moves_def by (simp add: ledger_ok_same evolves_refl) (simp add: same_rows_def)

lemma neutral_keeps: "neutral valid rows m \<longleftrightarrow> (\<forall>w0. keeps (same_rows valid rows w0) m)"
proof
  assume n: "neutral valid rows m"
  show "\<forall>w0. keeps (same_rows valid rows w0) m"
    unfolding keeps_def
  proof (intro allI impI)
    fix w0 w assume w: "same_rows valid rows w0 w"
    with n have "same_rows valid rows w (snd (m w))" by (simp add: neutral_def same_rows_def)
    with w show "same_rows valid rows w0 (snd (m w))" by (rule same_rows_trans)
  qed
next
  assume "\<forall>w0. keeps (same_rows valid rows w0) m"
  then show "neutral valid rows m" unfolding neutral_def keeps_def by (metis same_rows_refl)
qed

text \<open>Operations that guarantee \<open>moves\<close> from every well-formed world.\<close>

lemma keeps_movesI:
  assumes "\<And>w r w'. ledger_ok repo valid rows w \<Longrightarrow> m w = (r, w') \<Longrightarrow> moves repo valid rows w w'"
  shows "keeps (moves repo valid rows w0) m"
  unfolding keeps_def
proof (intro allI impI)
  fix w assume w: "moves repo valid rows w0 w"
  then have "moves repo valid rows w (snd (m w))"
    using assms [of w "fst (m w)" "snd (m w)"] by (simp add: moves_ok)
  with w show "moves repo valid rows w0 (snd (m w))" by (rule moves_trans)
qed

lemma keeps_moves_neutral: "neutral valid rows m \<Longrightarrow> keeps (moves repo valid rows w0) m"
  by (rule keeps_movesI) (metis moves_same neutralD ledger_ok_def)

text \<open>The rule for a step whose result has a property the rest relies on.\<close>

lemma keeps_pbind_with:
  assumes "keeps P m" "\<And>w x w'. m w = (Inr x, w') \<Longrightarrow> Q x" "\<And>x. Q x \<Longrightarrow> keeps P (f x)"
  shows "keeps P (pbind m f)"
  unfolding keeps_def
proof (intro allI impI)
  fix w assume "P w"
  obtain r w1 where m: "m w = (r, w1)" by fastforce
  with assms(1) \<open>P w\<close> have "P w1" by (rule keepsD)
  with m assms(2,3) show "P (snd (pbind m f w))" by (cases r) (auto simp: pbind_def keeps_def)
qed

lemma keeps_case_sum [keeps_intros]:
  "(\<And>x. keeps P (f x)) \<Longrightarrow> (\<And>y. keeps P (g y)) \<Longrightarrow> keeps P (case z of Inl x \<Rightarrow> f x | Inr y \<Rightarrow> g y)"
  by (simp split: sum.split)

named_theorems neutral_rules \<open>programs that leave every collection as it is\<close>

lemma neutral_pret [neutral_rules]: "neutral valid rows (pret x)"
  by (auto simp: neutral_keeps intro!: keeps_intros)

lemma neutral_pthrow [neutral_rules]: "neutral valid rows (pthrow e)"
  by (auto simp: neutral_keeps intro!: keeps_intros)

lemma neutral_plift [neutral_rules]: "neutral valid rows (plift r)"
  by (auto simp: neutral_keeps intro!: keeps_intros)

lemma neutral_pbind [neutral_rules]: "neutral valid rows m \<Longrightarrow> (\<And>x. neutral valid rows (f x)) \<Longrightarrow> neutral valid rows (pbind m f)"
  by (auto simp: neutral_keeps intro!: keeps_intros)

lemma neutral_pcatch [neutral_rules]: "neutral valid rows m \<Longrightarrow> (\<And>e. neutral valid rows (h e)) \<Longrightarrow> neutral valid rows (pcatch m h)"
  by (auto simp: neutral_keeps intro!: keeps_intros)

lemma neutral_pfinally [neutral_rules]: "neutral valid rows m \<Longrightarrow> neutral valid rows c \<Longrightarrow> neutral valid rows (pfinally m c)"
  by (auto simp: neutral_keeps intro!: keeps_intros)

lemma neutral_pwhen [neutral_rules]: "neutral valid rows c \<Longrightarrow> neutral valid rows (pwhen b c)"
  by (auto simp: neutral_keeps intro!: keeps_intros)

lemma neutral_if [neutral_rules]: "neutral valid rows m \<Longrightarrow> neutral valid rows n \<Longrightarrow> neutral valid rows (if b then m else n)"
  by (auto simp: neutral_keeps intro!: keeps_intros)

lemma neutral_guarded [neutral_rules]: "neutral valid rows m \<Longrightarrow> (\<And>z. neutral valid rows (exit z)) \<Longrightarrow> neutral valid rows (guarded m exit)"
  by (auto simp: neutral_keeps intro!: keeps_intros)

lemma neutral_timestamp_now [neutral_rules]: "neutral valid rows clock \<Longrightarrow> neutral valid rows (timestamp_now clock)"
  by (auto simp: neutral_keeps intro!: keeps_intros)

lemma neutral_case_option [neutral_rules]: "neutral valid rows m \<Longrightarrow> (\<And>x. neutral valid rows (f x)) \<Longrightarrow>
    neutral valid rows (case z of None \<Rightarrow> m | Some x \<Rightarrow> f x)"
  by (cases z) simp_all

lemma neutral_case_prod [neutral_rules]:
  "(\<And>x y. neutral valid rows (g x y)) \<Longrightarrow> neutral valid rows (case p of (x, y) \<Rightarrow> g x y)"
  by (cases p) simp

lemma neutral_case_list [neutral_rules]: "neutral valid rows m \<Longrightarrow> (\<And>y ys. neutral valid rows (k y ys)) \<Longrightarrow>
    neutral valid rows (case xs of [] \<Rightarrow> m | y # ys \<Rightarrow> k y ys)"
  by (cases xs) simp_all

section \<open>Triples\<close>

text \<open>
  \<open>triple P m Q E\<close>: from a world with \<open>P\<close>, the program returns a value and a world with \<open>Q\<close>, or
  raises an exception and leaves a world with \<open>E\<close>. Programs are total, so this is total
  correctness.
\<close>

definition triple :: "('w \<Rightarrow> bool) \<Rightarrow> ('w, 'e, 'a) prog \<Rightarrow> ('a \<Rightarrow> 'w \<Rightarrow> bool) \<Rightarrow> ('e \<Rightarrow> 'w \<Rightarrow> bool) \<Rightarrow> bool" where
  "triple P m Q E \<longleftrightarrow> (\<forall>w. P w \<longrightarrow> (case m w of (Inr x, w') \<Rightarrow> Q x w' | (Inl e, w') \<Rightarrow> E e w'))"

lemma tripleI:
  assumes "\<And>w x w'. P w \<Longrightarrow> m w = (Inr x, w') \<Longrightarrow> Q x w'" "\<And>w e w'. P w \<Longrightarrow> m w = (Inl e, w') \<Longrightarrow> E e w'"
  shows "triple P m Q E"
  using assms by (auto simp: triple_def split: prod.split sum.split)

lemma tripleD:
  "triple P m Q E \<Longrightarrow> P w \<Longrightarrow> m w = (Inr x, w') \<Longrightarrow> Q x w'"
  "triple P m Q E \<Longrightarrow> P w \<Longrightarrow> m w = (Inl e, w') \<Longrightarrow> E e w'"
  by (auto simp: triple_def dest: spec [of _ w])

lemma triple_pre: "triple P m Q E \<Longrightarrow> (\<And>w. P' w \<Longrightarrow> P w) \<Longrightarrow> triple P' m Q E"
  by (simp add: triple_def)

lemma triple_post:
  "triple P m Q E \<Longrightarrow> (\<And>x w. Q x w \<Longrightarrow> Q' x w) \<Longrightarrow> (\<And>e w. E e w \<Longrightarrow> E' e w) \<Longrightarrow> triple P m Q' E'"
  by (auto simp: triple_def split: prod.splits sum.splits)

lemma triple_pret: "(\<And>w. P w \<Longrightarrow> Q x w) \<Longrightarrow> triple P (pret x) Q E"
  by (simp add: triple_def)

lemma triple_pthrow: "(\<And>w. P w \<Longrightarrow> E e w) \<Longrightarrow> triple P (pthrow e) Q E"
  by (simp add: triple_def)

lemma triple_plift:
  "(\<And>w x. P w \<Longrightarrow> r = Inr x \<Longrightarrow> Q x w) \<Longrightarrow> (\<And>w e. P w \<Longrightarrow> r = Inl e \<Longrightarrow> E e w) \<Longrightarrow> triple P (plift r) Q E"
  by (simp add: triple_def split: sum.split)

lemma triple_pbind: "triple P m Q E \<Longrightarrow> (\<And>x. triple (Q x) (f x) R E) \<Longrightarrow> triple P (pbind m f) R E"
  by (rule tripleI) (auto simp: pbind_Inr_iff pbind_Inl_iff dest: tripleD)

lemma triple_pcatch: "triple P m Q F \<Longrightarrow> (\<And>e. triple (F e) (h e) Q E) \<Longrightarrow> triple P (pcatch m h) Q E"
  by (rule tripleI) (auto simp: pcatch_Inr_iff pcatch_Inl_iff dest: tripleD)

lemma triple_pfinally:
  assumes "triple P m Q E" "\<And>x. triple (Q x) c (\<lambda>_. Q' x) E'" "\<And>e. triple (E e) c (\<lambda>_. E' e) E'"
  shows "triple P (pfinally m c) Q' E'"
proof (rule tripleI)
  fix w x w' assume "P w" "pfinally m c w = (Inr x, w')"
  then obtain w1 where w1: "m w = (Inr x, w1)" "c w1 = (Inr (), w')" by (auto simp: pfinally_Inr_iff)
  from tripleD(1) [OF assms(1) \<open>P w\<close> w1(1)] show "Q' x w'" by (rule tripleD(1) [OF assms(2) _ w1(2)])
next
  fix w e w' assume "P w" "pfinally m c w = (Inl e, w')"
  then obtain r w1 where w1: "m w = (r, w1)" "c w1 = (Inl e, w') \<or> r = Inl e \<and> c w1 = (Inr (), w')"
    by (auto simp: pfinally_Inl_iff)
  show "E' e w'"
  proof (cases r)
    case (Inl e1)
    from tripleD(2) [OF assms(1) \<open>P w\<close> w1(1) [unfolded Inl]] have "E e1 w1" .
    with w1(2) Inl tripleD [OF assms(3)] show ?thesis by auto
  next
    case (Inr x)
    from tripleD(1) [OF assms(1) \<open>P w\<close> w1(1) [unfolded Inr]] have "Q x w1" .
    with w1(2) Inr tripleD(2) [OF assms(2)] show ?thesis by auto
  qed
qed

lemma triple_if: "(b \<Longrightarrow> triple P m Q E) \<Longrightarrow> (\<not> b \<Longrightarrow> triple P n Q E) \<Longrightarrow> triple P (if b then m else n) Q E"
  by simp

lemma triple_case_option:
  "(z = None \<Longrightarrow> triple P m Q E) \<Longrightarrow> (\<And>x. z = Some x \<Longrightarrow> triple P (f x) Q E) \<Longrightarrow>
    triple P (case z of None \<Rightarrow> m | Some x \<Rightarrow> f x) Q E"
  by (cases z) simp_all

lemma triple_case_sum:
  "(\<And>x. z = Inl x \<Longrightarrow> triple P (f x) Q E) \<Longrightarrow> (\<And>y. z = Inr y \<Longrightarrow> triple P (g y) Q E) \<Longrightarrow>
    triple P (case z of Inl x \<Rightarrow> f x | Inr y \<Rightarrow> g y) Q E"
  by (cases z) simp_all

lemma triple_case_prod:
  "(\<And>x y. z = (x, y) \<Longrightarrow> triple P (f x y) Q E) \<Longrightarrow> triple P (case z of (x, y) \<Rightarrow> f x y) Q E"
  by (cases z) simp

text \<open>What a program returns, whatever world it starts from.\<close>

lemma triple_result:
  "triple P m Q E \<Longrightarrow> (\<And>w x w'. m w = (Inr x, w') \<Longrightarrow> B x) \<Longrightarrow> triple P m (\<lambda>x w. Q x w \<and> B x) E"
  by (rule tripleI) (auto dest: tripleD)

lemma triple_assume: "(\<And>w. P w \<Longrightarrow> A) \<Longrightarrow> (A \<Longrightarrow> triple P m Q E) \<Longrightarrow> triple P m Q E"
  by (auto simp: triple_def)

section \<open>Candidates\<close>

text \<open>The arguments of a publication are mappings with string keys and without NaN, and a provenance
  is one its constructor let through.\<close>

definition publication_ok :: "external \<Rightarrow> publication \<Rightarrow> bool" where
  "publication_ok x p \<longleftrightarrow> wf_py (pb_labels p) \<and> wf_py (pb_annotations p)
     \<and> (\<forall>q. pb_provenance p = Some q \<longrightarrow> provenance_ok (x_canonical_json_bytes x) q)"

context external_contract
begin

lemma canonical_wf:
  assumes "canonical_mapping (x_canonical_json_bytes x) v f me mb = Inr d" "wf_py v"
  shows "wf_py (PProxy d)"
proof -
  have "is_mapping v" using assms(1) by (rule canonical_mapping_Inr)
  with assms(2) have "str_items v \<noteq> None" by (rule wf_mapping_items)
  from canonical_mapping_wf [OF assms(1) this] show ?thesis by simp
qed

lemma make_candidate_ok:
  assumes "make_candidate x clock i profile p media dig len payload schema object w = (Inr c, w')"
    "publication_ok x p" "wf_py payload" "\<forall>s. schema = Some s \<longrightarrow> schema_ref_ok s"
  shows "resource_ok x c" "sr_state c = PUBLISHED" "sr_identity c = i" "sr_profile c = profile"
    "sr_resource_id c = identity_resource_id i" "sr_record_version c = PNone"
    "sr_digest c = dig" "sr_byte_length c = len" "sr_media_type c = media"
proof -
  from assms(1) obtain annotations at where
    an: "canonical_mapping (x_canonical_json_bytes x) (or_empty (pb_annotations p)) ''annotations'' (Some 64) (Some 262144) = Inr annotations"
    and mk: "mk_stored_resource x
       \<lparr>ra_resource_id = PStr (identity_resource_id i), ra_namespace = PStr (ri_namespace i),
        ra_kind = PStr (ri_kind i), ra_name = PStr (ri_name i), ra_version = PStr (ri_version i),
        ra_profile = profile, ra_state = PUBLISHED, ra_media_type = PStr media,
        ra_digest = PStr dig, ra_byte_length = PInt len, ra_created_by = pb_actor p,
        ra_created_at = PStr at, ra_object_ref = object, ra_payload = payload,
        ra_payload_schema = schema, ra_labels = or_empty (pb_labels p),
        ra_annotations = PProxy annotations, ra_provenance = pb_provenance p,
        ra_supersedes = pb_supersedes p, ra_immutable = PBool True,
        ra_version_order = pb_version_order p, ra_record_version = PNone,
        ra_format_version = PStr resource_format\<rparr> = Inr c"
    by (auto simp: make_candidate_def pbind_Inr_iff)
  have wf: "wf_py (or_empty (pb_annotations p))" "wf_py (or_empty (pb_labels p))"
    using assms(2) by (simp_all add: publication_ok_def or_empty_def)
  show "resource_ok x c"
    by (rule mk_stored_resource_ok [OF mk])
      (use assms(2-4) wf(2) canonical_wf [OF an wf(1)] in \<open>simp_all add: publication_ok_def del: wf_py.simps\<close>)
  note f = mk_stored_resource_fields [OF mk]
  show "sr_state c = PUBLISHED" "sr_profile c = profile" "sr_record_version c = PNone" using f(15,16,18) by simp_all
  show i: "sr_identity c = i" using f(1) by (cases i) (simp add: mk_identity_Inr_iff)
  show "sr_resource_id c = identity_resource_id i" using f(2) i by simp
  show "sr_digest c = dig" "sr_media_type c = media" "sr_byte_length c = len"
    using f(3-5) by (simp_all add: digest_Inr_iff media_type_Inr_iff byte_count_Inr_iff)
qed

end

section \<open>The operations\<close>

context metadata_catalog
begin

lemma neutral_run:
  assumes "\<And>w out w'. valid w \<Longrightarrow> rt_execute (mr_runtime repo) e w = (out, w') \<Longrightarrow> same_rows valid rows w w'"
  shows "neutral valid rows (run (mr_runtime repo) e)"
  using neutralI [of valid "rt_execute (mr_runtime repo) e" rows] assms by (auto simp: neutral_keeps intro!: keeps_intros)

lemma neutral_query: "res \<in> known \<Longrightarrow> neutral valid rows (run (mr_runtime repo) (SQuery res wh order limit cursor))"
  using query_reads by (intro neutral_run) (auto simp: same_rows_def)

lemma neutral_get_row: "res \<in> known \<Longrightarrow> neutral valid rows (get_row repo res f key b d parse)"
  by (rule neutralI) (rule get_row_reads)

lemma layout_known: "mr_metadata_resource repo \<in> known" "mr_channel_resource repo \<in> known"
  "mr_provenance_resource repo \<in> known" "mr_orphan_resource repo \<in> known"
  using layout by simp_all

lemma neutral_get_resource [neutral_rules]: "neutral valid rows (get_resource repo k b)"
  unfolding get_resource_def by (intro neutral_get_row layout_known)

lemma neutral_get_orphan [neutral_rules]: "neutral valid rows (get_orphan repo k b)"
  unfolding get_orphan_def by (intro neutral_get_row layout_known)

lemma neutral_latest_channel [neutral_rules]: "neutral valid rows (latest_channel repo ns k n ch b)"
  unfolding latest_channel_def by (intro neutral_rules neutral_query layout_known)

lemma neutral_list_resources [neutral_rules]: "neutral valid rows (list_resources repo a b c d e f g)"
  unfolding list_resources_def by (intro neutral_rules neutral_query layout_known)

lemma neutral_latest_resource [neutral_rules]: "neutral valid rows (latest_resource repo a b c d)"
  unfolding latest_resource_def by (intro neutral_rules)

lemma neutral_list_orphans [neutral_rules]: "neutral valid rows (list_orphans repo a b c)"
  unfolding list_orphans_def by (intro neutral_rules neutral_query layout_known)

lemma neutral_required_resource [neutral_rules]: "neutral valid rows (required_resource repo k)"
  unfolding required_resource_def by (intro neutral_rules)

lemma neutral_resolve_exact [neutral_rules]: "neutral valid rows (resolve_exact repo check i)"
  unfolding resolve_exact_def by (intro neutral_rules)

lemma neutral_resolve_latest [neutral_rules]: "neutral valid rows (resolve_latest repo check p ns k n)"
  unfolding resolve_latest_def by (intro neutral_rules)

lemma neutral_get_channel [neutral_rules]:
  "cr_metadata chs = repo \<Longrightarrow> neutral valid rows (get_channel chs ns k n ch b)"
  unfolding get_channel_def by (intro neutral_rules) (simp add: neutral_latest_channel)

lemma neutral_resolve_channel [neutral_rules]:
  "cr_metadata chs = repo \<Longrightarrow> neutral valid rows (resolve_channel repo chs check ns k n ch)"
  unfolding resolve_channel_def by (intro neutral_rules)

end

context transactional_catalog
begin

lemma ledger_ok_parts:
  assumes "ledger_ok repo valid rows w"
  shows "valid w" "metadata_ok (rt_ext (mr_runtime repo)) (rows (mr_metadata_resource repo) w)"
    "resource_at (rt_ext (mr_runtime repo)) (rows (mr_metadata_resource repo) w) k = Some r \<Longrightarrow> sr_state r \<noteq> DRAFT"
    "history_ok (rows (mr_channel_resource repo) w)"
  using assms by (auto simp: ledger_ok_def catalogue_def)

lemma layout_different: "mr_metadata_resource repo \<noteq> mr_channel_resource repo"
  "mr_metadata_resource repo \<noteq> mr_provenance_resource repo" "mr_channel_resource repo \<noteq> mr_provenance_resource repo"
  "mr_channel_resource repo \<noteq> mr_metadata_resource repo" "mr_orphan_resource repo \<noteq> mr_metadata_resource repo"
  "mr_orphan_resource repo \<noteq> mr_channel_resource repo"
  using layout_distinct by auto

text \<open>A write that leaves the metadata and the channels alone moves nothing.\<close>

lemma moves_elsewhere:
  assumes "ledger_ok repo valid rows w" "valid w'"
    "rows (mr_metadata_resource repo) w' = rows (mr_metadata_resource repo) w"
    "rows (mr_channel_resource repo) w' = rows (mr_channel_resource repo) w"
  shows "moves repo valid rows w w'" "catalogue repo rows w' = catalogue repo rows w"
  using assms by (simp_all add: moves_def ledger_ok_def catalogue_def evolves_refl)

lemma commit_moves:
  assumes "ledger_ok repo valid rows w" "resource_ok (rt_ext (mr_runtime repo)) c" "sr_state c = PUBLISHED"
    "commit same repo i c w = (out, w')"
  shows "moves repo valid rows w w'"
    "catalogue repo rows w' = catalogue repo rows w \<and> (\<exists>e. out = Inl e) \<or>
     (\<exists>v. v \<noteq> PNone \<and> catalogue repo rows w (sr_resource_id c) = None
        \<and> catalogue repo rows w' = (catalogue repo rows w)(sr_resource_id c \<mapsto> c\<lparr>sr_record_version := v\<rparr>)
        \<and> (\<forall>s. out = Inr s \<longrightarrow> s = c\<lparr>sr_record_version := v\<rparr> \<and> same c s))"
proof -
  note ok = ledger_ok_parts [OF assms(1)]
  have "moves repo valid rows w w' \<and> (catalogue repo rows w' = catalogue repo rows w \<and> (\<exists>e. out = Inl e) \<or>
     (\<exists>v. v \<noteq> PNone \<and> catalogue repo rows w (sr_resource_id c) = None
        \<and> catalogue repo rows w' = (catalogue repo rows w)(sr_resource_id c \<mapsto> c\<lparr>sr_record_version := v\<rparr>)
        \<and> (\<forall>s. out = Inr s \<longrightarrow> s = c\<lparr>sr_record_version := v\<rparr> \<and> same c s)))"
    using ok(1) assms(2,4) ok(2)
  proof (cases rule: commit_cases)
    case (unchanged e)
    with moves_elsewhere [OF assms(1) unchanged(2)] layout_different show ?thesis by simp
  next
    case (written s row v)
    have s: "sr_resource_id s = sr_resource_id c" using written(2) by simp
    note app = metadata_ok_append [OF ok(2) written(4)]
    have cat: "catalogue repo rows w' = (catalogue repo rows w)(sr_resource_id c \<mapsto> s)"
      "catalogue repo rows w (sr_resource_id c) = None"
      using app(2) written(6,7) s by (simp_all add: catalogue_def)
    have ch: "rows (mr_channel_resource repo) w' = rows (mr_channel_resource repo) w"
      using written(8) layout_different by simp
    have "ledger_ok repo valid rows w'"
      using app(1) written(2,5,6,7) s ok(4) assms(3) ch cat(1) assms(1) by (auto simp: ledger_ok_def)
    then have "moves repo valid rows w w'" using ch cat evolves_new by (simp add: moves_def)
    with cat written(1-3) show ?thesis by blast
  qed
  then show "moves repo valid rows w w'"
    "catalogue repo rows w' = catalogue repo rows w \<and> (\<exists>e. out = Inl e) \<or>
     (\<exists>v. v \<noteq> PNone \<and> catalogue repo rows w (sr_resource_id c) = None
        \<and> catalogue repo rows w' = (catalogue repo rows w)(sr_resource_id c \<mapsto> c\<lparr>sr_record_version := v\<rparr>)
        \<and> (\<forall>s. out = Inr s \<longrightarrow> s = c\<lparr>sr_record_version := v\<rparr> \<and> same c s))" by blast+
qed

lemma deprecate_resource_moves:
  assumes "ledger_ok repo valid rows w" "deprecate_resource repo r w = (out, w')"
  shows "moves repo valid rows w w'"
    "catalogue repo rows w' = catalogue repo rows w \<and> (\<exists>e. out = Inl e) \<or>
     (\<exists>s v. catalogue repo rows w (sr_resource_id r) = Some s \<and> py_eq (sr_record_version r) (sr_record_version s)
        \<and> catalogue repo rows w' = (catalogue repo rows w)(sr_resource_id r \<mapsto> s\<lparr>sr_state := DEPRECATED, sr_record_version := v\<rparr>)
        \<and> (\<forall>s'. out = Inr s' \<longrightarrow> s' = s\<lparr>sr_state := DEPRECATED, sr_record_version := v\<rparr>))"
proof -
  note ok = ledger_ok_parts [OF assms(1)]
  have "moves repo valid rows w w' \<and> (catalogue repo rows w' = catalogue repo rows w \<and> (\<exists>e. out = Inl e) \<or>
     (\<exists>s v. catalogue repo rows w (sr_resource_id r) = Some s \<and> py_eq (sr_record_version r) (sr_record_version s)
        \<and> catalogue repo rows w' = (catalogue repo rows w)(sr_resource_id r \<mapsto> s\<lparr>sr_state := DEPRECATED, sr_record_version := v\<rparr>)
        \<and> (\<forall>s'. out = Inr s' \<longrightarrow> s' = s\<lparr>sr_state := DEPRECATED, sr_record_version := v\<rparr>)))"
  proof (rule deprecate_resource_cases [OF ok(1) assms(2) ok(2)], goal_cases)
    case (1 k s)
    then show ?case by (rule ok(3))
  next
    case (2 e)
    with moves_same [OF assms(1) 2(2)] ledger_ok_same(2) [OF 2(2), of repo] show ?case by simp
  next
    case patched: (3 s v)
    let ?s = "s\<lparr>sr_state := DEPRECATED, sr_record_version := v\<rparr>"
    have at: "catalogue repo rows w (sr_resource_id r) = Some s"
      and cat: "catalogue repo rows w' = (catalogue repo rows w)(sr_resource_id r \<mapsto> ?s)"
      using patched(1,7) by (simp_all add: catalogue_def)
    have ch: "rows (mr_channel_resource repo) w' = rows (mr_channel_resource repo) w"
      using patched(8) layout_different by simp
    have "ledger_ok repo valid rows w'"
      using patched(5,6) ok(4) ch cat assms(1) by (auto simp: ledger_ok_def)
    then have "moves repo valid rows w w'" using ch cat evolves_deprecated [where m = "catalogue repo rows w", OF at] by (simp add: moves_def)
    with at cat patched(3,4) show ?case by blast
  qed
  then show "moves repo valid rows w w'"
    "catalogue repo rows w' = catalogue repo rows w \<and> (\<exists>e. out = Inl e) \<or>
     (\<exists>s v. catalogue repo rows w (sr_resource_id r) = Some s \<and> py_eq (sr_record_version r) (sr_record_version s)
        \<and> catalogue repo rows w' = (catalogue repo rows w)(sr_resource_id r \<mapsto> s\<lparr>sr_state := DEPRECATED, sr_record_version := v\<rparr>)
        \<and> (\<forall>s'. out = Inr s' \<longrightarrow> s' = s\<lparr>sr_state := DEPRECATED, sr_record_version := v\<rparr>))" by blast+
qed

lemma promote_moves:
  assumes "ledger_ok repo valid rows w" "cr_metadata chs = repo" "neutral valid rows (cr_clock chs)"
    "promote chs target channel expected actor profile w = (out, w')"
  shows "moves repo valid rows w w'" "catalogue repo rows w' = catalogue repo rows w"
proof -
  note ok = ledger_ok_parts [OF assms(1)]
  note h = promote_history [OF ok(1,4) assms(2-4)]
  have rows: "rows (mr_metadata_resource repo) w' = rows (mr_metadata_resource repo) w"
    and new: "\<exists>new. rows (mr_channel_resource repo) w' = rows (mr_channel_resource repo) w @ new"
    using promote_spec [OF ok(1,4) assms(2-4)] layout_different by (auto simp: same_rows_def)
  then show "catalogue repo rows w' = catalogue repo rows w" by (simp add: catalogue_def)
  with rows new h assms(1) show "moves repo valid rows w w'" by (simp add: moves_def ledger_ok_def evolves_refl)
qed

lemma keeps_promote [keeps_intros]:
  "cr_metadata chs = repo \<Longrightarrow> neutral valid rows (cr_clock chs) \<Longrightarrow>
    keeps (moves repo valid rows w0) (promote chs target channel expected actor profile)"
  by (rule keeps_movesI) (rule promote_moves(1))

lemma keeps_promote_optional [keeps_intros]:
  "cr_metadata chs = repo \<Longrightarrow> neutral valid rows (cr_clock chs) \<Longrightarrow>
    keeps (moves repo valid rows w0) (promote_optional chs profile r ch expected actor)"
  unfolding promote_optional_def by (intro keeps_intros)

lemma promote_optional_catalogue:
  assumes "ledger_ok repo valid rows w" "cr_metadata chs = repo" "neutral valid rows (cr_clock chs)"
    "promote_optional chs profile r ch expected actor w = (out, w')"
  shows "catalogue repo rows w' = catalogue repo rows w"
  using assms promote_moves(2) [OF assms(1-3)]
  by (auto simp: promote_optional_def pbind_def pret_def pthrow_def split: if_splits sum.splits prod.splits)

lemma keeps_deprecate [keeps_intros]: "keeps (moves repo valid rows w0) (deprecate repo check i)"
  unfolding deprecate_def
  by (intro keeps_intros keeps_moves_neutral [OF neutral_required_resource]
      keeps_moves_neutral [OF neutral_get_resource] keeps_movesI [OF deprecate_resource_moves(1)])

end

end
