(* ===== verification/Configuration.thy ===== *)
theory Configuration
  imports Publication
begin

text \<open>
  \<open>configuration/repository.py\<close>: publication of inline configuration versions, validated against
  their exact Schema, and their consumption.
\<close>

section \<open>Publisher\<close>

record 'w configuration_publisher =
  cp_metadata :: "'w metadata_repository"
  cp_validator :: "'w validator"
  cp_channels :: "'w channel_repository"
  cp_clock :: "'w clock"

definition mk_configuration_publisher ::
  "'w metadata_repository \<Rightarrow> 'w validator \<Rightarrow> 'w channel_repository \<Rightarrow> 'w clock option
    \<Rightarrow> 'w configuration_publisher" where
  "mk_configuration_publisher metadata validator channels clock =
     \<lparr>cp_metadata = metadata, cp_validator = validator, cp_channels = channels,
      cp_clock = (case clock of None \<Rightarrow> rt_now (mr_runtime metadata) | Some c \<Rightarrow> c)\<rparr>"

definition cp_promote ::
  "'w configuration_publisher \<Rightarrow> promotion_target \<Rightarrow> pyval \<Rightarrow> pyval \<Rightarrow> pyval
    \<Rightarrow> ('w, exn, channel_row) prog" where
  "cp_promote pub target channel expected actor =
     promote (cp_channels pub) target channel expected actor (Some CONFIGURATION_PROFILE)"

definition cp_existing_receipt ::
  "'w configuration_publisher \<Rightarrow> publication \<Rightarrow> stored_resource \<Rightarrow> stored_resource
    \<Rightarrow> ('w, exn, publication_receipt) prog" where
  "cp_existing_receipt pub p candidate existing =
     pbind (plift (ensure (same_configuration candidate existing)
       (IdentityConflict (about_ref (identity_canonical (sr_identity candidate)))))) (\<lambda>_.
     pbind (promote_optional (cp_channels pub) CONFIGURATION_PROFILE existing (pb_channel p)
       (pb_expected_pointer p) (pb_actor p)) (\<lambda>promoted.
     pret \<lparr>rc_resource = existing, rc_idempotent = True, rc_object_committed = False,
       rc_metadata_committed = True, rc_channel = promoted, rc_orphan_candidate = None\<rparr>))"

text \<open>Everything \<open>publish\<close> does before it looks at the Catalog.\<close>

definition cp_candidate ::
  "'w configuration_publisher \<Rightarrow> publication \<Rightarrow> pyval \<Rightarrow> schema_arg
    \<Rightarrow> ('w, exn, resource_identity \<times> stored_resource) prog" where
  "cp_candidate pub p payload schema =
     (let x = mr_ext (cp_metadata pub) in
      pbind (plift (mk_identity (pb_namespace p) (pb_kind p) (pb_name p) (pb_version p))) (\<lambda>i.
      pbind (plift (parse_schema_ref schema)) (\<lambda>payload_schema.
      pbind (cp_validator pub payload payload_schema) (\<lambda>validated.
      pbind (plift (canonical_mapping (x_canonical_json_bytes x) validated ''payload'' None None)) (\<lambda>normalized.
      pbind (plift (mapping_bytes (x_canonical_json_bytes x) normalized)) (\<lambda>encoded.
      pbind (plift (media_type (pb_media_type p))) (\<lambda>media.
      pbind (make_candidate x (cp_clock pub) i CONFIGURATION_PROFILE p media (sha256_digest encoded)
        (int (length encoded)) (PProxy normalized) (Some payload_schema) None) (\<lambda>candidate.
      pret (i, candidate)))))))))"

text \<open>The failure of the write: a lost race returns the winner's receipt.\<close>

definition cp_after_failure ::
  "'w configuration_publisher \<Rightarrow> resource_identity \<Rightarrow> publication \<Rightarrow> stored_resource \<Rightarrow> exn
    \<Rightarrow> ('w, exn, publication_receipt) prog" where
  "cp_after_failure pub i p candidate exc =
     (if is_conflict exc
      then pbind (get_resource (cp_metadata pub) (identity_resource_id i) False) (\<lambda>z. (case z of
          None \<Rightarrow> pthrow exc
        | Some winner \<Rightarrow> cp_existing_receipt pub p candidate winner))
      else pthrow exc)"

definition cp_publish_new ::
  "'w configuration_publisher \<Rightarrow> resource_identity \<Rightarrow> publication \<Rightarrow> stored_resource
    \<Rightarrow> ('w, exn, publication_receipt) prog" where
  "cp_publish_new pub i p candidate =
     pbind (pcatch
       (pbind (commit same_configuration (cp_metadata pub) i candidate) (\<lambda>stored. pret (Inl stored)))
       (\<lambda>exc. pbind (cp_after_failure pub i p candidate exc) (\<lambda>receipt. pret (Inr receipt)))) (\<lambda>z.
     (case z of
        Inr receipt \<Rightarrow> pret receipt
      | Inl stored \<Rightarrow>
          pbind (promote_optional (cp_channels pub) CONFIGURATION_PROFILE stored (pb_channel p)
            (pb_expected_pointer p) (pb_actor p)) (\<lambda>promoted.
          pret \<lparr>rc_resource = stored, rc_idempotent = False, rc_object_committed = False,
            rc_metadata_committed = True, rc_channel = promoted,
            rc_orphan_candidate = None\<rparr>)))"

definition cp_publish ::
  "'w configuration_publisher \<Rightarrow> publication \<Rightarrow> pyval \<Rightarrow> schema_arg
    \<Rightarrow> ('w, exn, publication_receipt) prog" where
  "cp_publish pub p payload schema =
     pbind (cp_candidate pub p payload schema) (\<lambda>(i, candidate).
     pbind (get_resource (cp_metadata pub) (identity_resource_id i) False) (\<lambda>found. (case found of
       Some existing \<Rightarrow> cp_existing_receipt pub p candidate existing
     | None \<Rightarrow> cp_publish_new pub i p candidate)))"

definition cp_check :: "resource_identity \<Rightarrow> stored_resource \<Rightarrow> (exn, unit) result" where
  "cp_check i r = ensure (sr_profile r = CONFIGURATION_PROFILE)
     (IncompatibleProfile ''resource is not a configuration'' (about_ref (identity_canonical i)))"

definition cp_deprecate ::
  "'w configuration_publisher \<Rightarrow> resource_identity \<Rightarrow> ('w, exn, stored_resource) prog" where
  "cp_deprecate pub i = deprecate (cp_metadata pub) (cp_check i) i"

definition cp_delete :: "resource_identity \<Rightarrow> ('w, exn, unit) prog" where
  "cp_delete i = forbid_delete i"

section \<open>Consumer\<close>

record 'w configuration_consumer =
  cc_metadata :: "'w metadata_repository"
  cc_channels :: "'w channel_repository"

definition require_configuration :: "stored_resource \<Rightarrow> (exn, unit) result" where
  "require_configuration r = ensure (sr_profile r = CONFIGURATION_PROFILE)
     (IncompatibleProfile ''resolved resource is not a configuration'' (about_ref (sr_resource_id r)))"

definition cc_exact ::
  "'w configuration_consumer \<Rightarrow> resource_identity \<Rightarrow> ('w, exn, resolved_resource) prog" where
  "cc_exact con i = resolve_exact (cc_metadata con) require_configuration i"

definition cc_latest ::
  "'w configuration_consumer \<Rightarrow> string \<Rightarrow> string \<Rightarrow> string \<Rightarrow> ('w, exn, resolved_resource) prog" where
  "cc_latest con namespace kind name =
     resolve_latest (cc_metadata con) require_configuration CONFIGURATION_PROFILE namespace kind name"

definition cc_channel ::
  "'w configuration_consumer \<Rightarrow> pyval \<Rightarrow> pyval \<Rightarrow> pyval \<Rightarrow> pyval \<Rightarrow> ('w, exn, resolved_resource) prog" where
  "cc_channel con namespace kind name channel =
     resolve_channel (cc_metadata con) (cc_channels con) require_configuration namespace kind name channel"

definition cc_list_resources ::
  "'w configuration_consumer \<Rightarrow> string option \<Rightarrow> string option \<Rightarrow> string option
    \<Rightarrow> resource_state option \<Rightarrow> int \<Rightarrow> string option \<Rightarrow> ('w, exn, resource_page) prog" where
  "cc_list_resources con namespace kind name state limit cursor =
     list_resources (cc_metadata con) namespace kind name
       (Some (profile_value CONFIGURATION_PROFILE)) state limit cursor"

definition cc_payload :: "resource_arg \<Rightarrow> (exn, pyval dict) result" where
  "cc_payload a = (let resource = selected a in
     rbind (require_configuration resource) (\<lambda>_.
     (case sr_payload resource of
        None \<Rightarrow> Inl (IncompatibleProfile ''configuration resource has no inline payload''
          (about_ref (sr_resource_id resource)))
      | Some d \<Rightarrow> Inr (thaw_items d))))"

end
