(* ===== verification/Artifact.thy ===== *)
theory Artifact
  imports Publication
begin

text \<open>
  The publisher of \<open>artifact/repository.py\<close>: bytes go to the object Catalog first, the metadata
  row follows in a transaction, and bytes whose row could not be written are recorded as an orphan
  candidate.
\<close>

record 'w artifact_publisher =
  ap_metadata :: "'w metadata_repository"
  ap_objects :: "'w object_repository"
  ap_channels :: "'w channel_repository"
  ap_payloads :: "'w runtime"
  ap_clock :: "'w clock"

definition mk_artifact_publisher ::
  "'w metadata_repository \<Rightarrow> 'w object_repository \<Rightarrow> 'w channel_repository \<Rightarrow> 'w runtime
    \<Rightarrow> 'w clock option \<Rightarrow> 'w artifact_publisher" where
  "mk_artifact_publisher metadata objects channels payloads clock =
     \<lparr>ap_metadata = metadata, ap_objects = objects, ap_channels = channels, ap_payloads = payloads,
      ap_clock = (case clock of None \<Rightarrow> rt_now (mr_runtime metadata) | Some c \<Rightarrow> c)\<rparr>"

definition ap_promote ::
  "'w artifact_publisher \<Rightarrow> promotion_target \<Rightarrow> pyval \<Rightarrow> pyval \<Rightarrow> pyval
    \<Rightarrow> ('w, exn, channel_row) prog" where
  "ap_promote pub target channel expected actor =
     promote (ap_channels pub) target channel expected actor (Some ARTIFACT_PROFILE)"

definition ap_existing_receipt ::
  "'w artifact_publisher \<Rightarrow> resource_identity \<Rightarrow> publication \<Rightarrow> stored_resource \<Rightarrow> stored_resource
    \<Rightarrow> ('w, exn, publication_receipt) prog" where
  "ap_existing_receipt pub i p candidate existing =
     pbind (plift (ensure (same_artifact candidate existing)
       (IdentityConflict (about_ref (identity_canonical i))))) (\<lambda>_.
     pbind (promote_optional (ap_channels pub) ARTIFACT_PROFILE existing (pb_channel p)
       (pb_expected_pointer p) (pb_actor p)) (\<lambda>promoted.
     pret \<lparr>rc_resource = existing, rc_idempotent = True, rc_object_committed = True,
       rc_metadata_committed = True, rc_channel = promoted, rc_orphan_candidate = None\<rparr>))"

definition verify_object_metadata ::
  "'w artifact_publisher \<Rightarrow> object_metadata \<Rightarrow> resource_identity \<Rightarrow> string \<Rightarrow> int \<Rightarrow> string
    \<Rightarrow> (exn, unit) result" where
  "verify_object_metadata pub metadata i expected_digest expected_length media =
     rbind (x_resource_reference (ob_ext (ap_objects pub)) (ob_resource (ap_objects pub))) (\<lambda>scope.
     ensure (or_resource (om_object_ref metadata) = scope
         \<and> or_object_id (om_object_ref metadata) = identity_object_id i
         \<and> om_digest metadata = expected_digest \<and> om_byte_length metadata = expected_length
         \<and> om_media_type metadata = media)
       (IdentityConflict_msg ''logical artifact Object already has incompatible content''
         (about_ref (identity_canonical i))))"

definition is_object_conflict :: "exn \<Rightarrow> bool" where
  "is_object_conflict e = (is_foreign ConditionalConflict e \<or> is_foreign ImmutableObjectConflict e)"

text \<open>\<open>_put_object\<close>: an Object that is already there is used if its content is the same.\<close>

definition ap_put_object ::
  "'w artifact_publisher \<Rightarrow> resource_identity \<Rightarrow> payload_ref \<Rightarrow> string \<Rightarrow> int \<Rightarrow> string \<Rightarrow> pyval
    \<Rightarrow> provenance option \<Rightarrow> ('w, exn, object_metadata \<times> bool) prog" where
  "ap_put_object pub i payload expected_digest expected_length media actor prov =
     pbind (pcatch
       (pbind (put_object (ap_objects pub) (identity_object_id i) payload media expected_digest
          expected_length
          [(''resourceId'', identity_resource_id i), (''namespace'', ri_namespace i),
           (''kind'', ri_kind i), (''name'', ri_name i), (''version'', ri_version i)]
          [(''actor'', actor), (''profile'', PStr (profile_value ARTIFACT_PROFILE))]
          (case prov of None \<Rightarrow> [] | Some p \<Rightarrow> provenance_to_dict p)) (\<lambda>m. pret (m, False)))
       (\<lambda>exc. if is_object_conflict exc
          then pbind (plift (x_resource_reference (ob_ext (ap_objects pub)) (ob_resource (ap_objects pub)))) (\<lambda>scope.
               pbind (plift (x_object_reference (ob_ext (ap_objects pub)) scope (identity_object_id i) None)) (\<lambda>reference.
               pbind (object_stat (ap_objects pub) reference) (\<lambda>m. pret (m, True))))
          else pthrow exc)) (\<lambda>(metadata, idempotent).
     pbind (plift (verify_object_metadata pub metadata i expected_digest expected_length media)) (\<lambda>_.
     pret (metadata, idempotent)))"

text \<open>\<open>_record_orphan\<close>: failing to persist the candidate does not hide the first failure.\<close>

definition record_orphan ::
  "'w artifact_publisher \<Rightarrow> stored_resource \<Rightarrow> string \<Rightarrow> ('w, exn, orphan_candidate) prog" where
  "record_orphan pub resource reason = (case sr_object_ref resource of
     None \<Rightarrow> pthrow (IncompatibleProfile ''artifact resource has no ObjectRef''
               (about_ref (sr_resource_id resource)))
   | Some object \<Rightarrow>
       pbind (timestamp_now (ap_clock pub)) (\<lambda>at.
       pbind (plift (mk_orphan_candidate (mr_ext (ap_metadata pub))
         \<lparr>oa_candidate_id = PStr (orphan_candidate_id (sr_resource_id resource)
            (or_object_id object) (sr_digest resource)),
          oa_resource_id = PStr (sr_resource_id resource), oa_object_ref = object,
          oa_digest = PStr (sr_digest resource), oa_byte_length = PInt (sr_byte_length resource),
          oa_reason = PStr reason, oa_discovered_at = PStr at, oa_state = RECORDED,
          oa_record_version = PNone, oa_format_version = PStr orphan_format\<rparr>)) (\<lambda>candidate.
       pcatch (put_orphan (ap_metadata pub) candidate) (\<lambda>_. pret candidate))))"

definition ap_candidate ::
  "'w artifact_publisher \<Rightarrow> resource_identity \<Rightarrow> publication \<Rightarrow> object_ref option \<Rightarrow> string \<Rightarrow> int
    \<Rightarrow> string \<Rightarrow> ('w, exn, stored_resource) prog" where
  "ap_candidate pub i p object dig len media = (case object of
     None \<Rightarrow> pthrow (IdentityConflict_msg ''stored artifact has no ObjectRef''
               (about_ref (identity_canonical i)))
   | Some r \<Rightarrow> make_candidate (mr_ext (ap_metadata pub)) (ap_clock pub) i ARTIFACT_PROFILE p media
       dig len PNone None (Some r))"

definition incomplete :: "resource_identity \<Rightarrow> exn \<Rightarrow> exn" where
  "incomplete i exc =
     IncompletePublication ''Object committed but structured metadata publication failed''
       (about (identity_canonical i) (safe_cause exc))"

text \<open>The failure of the metadata write: lost races are receipts, the rest leaves an orphan.\<close>

definition ap_after_failure ::
  "'w artifact_publisher \<Rightarrow> resource_identity \<Rightarrow> publication \<Rightarrow> stored_resource \<Rightarrow> exn
    \<Rightarrow> ('w, exn, publication_receipt) prog" where
  "ap_after_failure pub i p candidate exc =
     (let orphaned = pbind (record_orphan pub candidate ''metadata-publication-failed'')
            (\<lambda>_. pthrow (incomplete i exc)) in
      if has_code IDENTITY_CONFLICT exc then pthrow exc
      else if is_conflict exc
      then pbind (get_resource (ap_metadata pub) (identity_resource_id i) False) (\<lambda>z. (case z of
          Some winner \<Rightarrow> ap_existing_receipt pub i p candidate winner
        | None \<Rightarrow> orphaned))
      else orphaned)"

definition ap_publish_new ::
  "'w artifact_publisher \<Rightarrow> resource_identity \<Rightarrow> publication \<Rightarrow> registered_payload \<Rightarrow> string
    \<Rightarrow> ('w, exn, publication_receipt) prog" where
  "ap_publish_new pub i p registered media =
     pbind (ap_put_object pub i (rg_reference registered) (rg_digest registered)
       (rg_byte_length registered) media (pb_actor p) (pb_provenance p)) (\<lambda>(metadata, idempotent).
     pbind (ap_candidate pub i p (Some (om_object_ref metadata)) (rg_digest registered)
       (rg_byte_length registered) media) (\<lambda>candidate.
     pbind (pcatch
       (pbind (commit same_artifact (ap_metadata pub) i candidate) (\<lambda>stored. pret (Inl stored)))
       (\<lambda>exc. pbind (ap_after_failure pub i p candidate exc) (\<lambda>receipt. pret (Inr receipt)))) (\<lambda>z.
     (case z of
        Inr receipt \<Rightarrow> pret receipt
      | Inl stored \<Rightarrow>
          pbind (promote_optional (ap_channels pub) ARTIFACT_PROFILE stored (pb_channel p)
            (pb_expected_pointer p) (pb_actor p)) (\<lambda>promoted.
          pret \<lparr>rc_resource = stored, rc_idempotent = idempotent, rc_object_committed = True,
            rc_metadata_committed = True, rc_channel = promoted,
            rc_orphan_candidate = None\<rparr>)))))"

definition ap_publish_existing ::
  "'w artifact_publisher \<Rightarrow> resource_identity \<Rightarrow> publication \<Rightarrow> registered_payload \<Rightarrow> string
    \<Rightarrow> stored_resource \<Rightarrow> ('w, exn, publication_receipt) prog" where
  "ap_publish_existing pub i p registered media existing =
     pbind (plift (ensure (sr_profile existing = ARTIFACT_PROFILE
         \<and> sr_digest existing = rg_digest registered
         \<and> sr_byte_length existing = rg_byte_length registered \<and> sr_media_type existing = media)
       (IdentityConflict (about_ref (identity_canonical i))))) (\<lambda>_.
     pbind (ap_candidate pub i p (sr_object_ref existing) (rg_digest registered)
       (rg_byte_length registered) media) (\<lambda>candidate.
     ap_existing_receipt pub i p candidate existing))"

definition ap_publish ::
  "'w artifact_publisher \<Rightarrow> publication \<Rightarrow> artifact_payload \<Rightarrow> pyval \<Rightarrow> pyval
    \<Rightarrow> ('w, exn, publication_receipt) prog" where
  "ap_publish pub p payload expected_digest expected_length =
     pbind (plift (mk_identity (pb_namespace p) (pb_kind p) (pb_name p) (pb_version p))) (\<lambda>i.
     pbind (plift (media_type (pb_media_type p))) (\<lambda>media.
     pbind (register_payload (ap_payloads pub) payload expected_digest expected_length) (\<lambda>registered.
     pfinally
       (pbind (get_resource (ap_metadata pub) (identity_resource_id i) False) (\<lambda>found. (case found of
          Some existing \<Rightarrow> ap_publish_existing pub i p registered media existing
        | None \<Rightarrow> ap_publish_new pub i p registered media)))
       (pwhen (rg_owned registered) (rt_release (ap_payloads pub) (rg_reference registered))))))"

definition require_artifact :: "stored_resource \<Rightarrow> (exn, unit) result" where
  "require_artifact r = ensure (sr_profile r = ARTIFACT_PROFILE)
     (IncompatibleProfile ''resource is not an artifact'' (about_ref (sr_resource_id r)))"

definition ap_deprecate ::
  "'w artifact_publisher \<Rightarrow> resource_identity \<Rightarrow> ('w, exn, stored_resource) prog" where
  "ap_deprecate pub i = deprecate (ap_metadata pub) require_artifact i"

definition ap_delete :: "resource_identity \<Rightarrow> ('w, exn, unit) prog" where
  "ap_delete i = forbid_delete i"

end
