(* ===== verification/Consumer.thy ===== *)
theory Consumer
  imports Artifact
begin

text \<open>
  The consumer of \<open>artifact/repository.py\<close>: metadata lookups, verified streams and ranges, and
  orphan discovery. \<open>verify\<close> reads until the stream is exhausted, which a stream need not be, so
  what calls it is a \<open>dprog\<close>: a program that may also fail to return (\<open>None\<close>). The reader is an
  object the client of \<open>open\<close> shares; its state is threaded through the body of the \<open>with\<close>.
\<close>

section \<open>Programs that may not return\<close>

type_synonym ('w, 'a) dprog = "'w \<Rightarrow> ((exn, 'a) result \<times> 'w) option"

definition dlift :: "('w, exn, 'a) prog \<Rightarrow> ('w, 'a) dprog" where
  "dlift m = (\<lambda>w. Some (m w))"

definition dbind :: "('w, 'a) dprog \<Rightarrow> ('a \<Rightarrow> ('w, 'b) dprog) \<Rightarrow> ('w, 'b) dprog" where
  "dbind m f = (\<lambda>w. case m w of
     None \<Rightarrow> None
   | Some (Inl e, w') \<Rightarrow> Some (Inl e, w')
   | Some (Inr x, w') \<Rightarrow> f x w')"

definition dfinally :: "('w, 'a) dprog \<Rightarrow> ('w, exn, unit) prog \<Rightarrow> ('w, 'a) dprog" where
  "dfinally m c = (\<lambda>w. map_option (\<lambda>o1. pfinally (\<lambda>_. o1) c w) (m w))"

definition dguarded :: "('w, 'a) dprog \<Rightarrow> (exn option \<Rightarrow> ('w, exn, unit) prog) \<Rightarrow> ('w, 'a) dprog" where
  "dguarded m exit = (\<lambda>w. map_option (\<lambda>o1. guarded (\<lambda>_. o1) exit w) (m w))"

lemma dbind_Some_iff [flow]:
  "dbind m f w = Some (Inr y, w') \<longleftrightarrow> (\<exists>x w1. m w = Some (Inr x, w1) \<and> f x w1 = Some (Inr y, w'))"
  by (auto simp: dbind_def split: option.splits sum.splits)

lemma dbind_dlift_Inl: "m w = (Inl e, w') \<Longrightarrow> dbind (dlift m) f w = Some (Inl e, w')"
  by (simp add: dbind_def dlift_def)

lemma dbind_dlift_Inr: "m w = (Inr x, w') \<Longrightarrow> dbind (dlift m) f w = f x w'"
  by (simp add: dbind_def dlift_def)

lemma dlift_Some_iff [flow]: "dlift m w = Some o1 \<longleftrightarrow> m w = o1"
  by (simp add: dlift_def)

lemma dfinally_Inr_iff [flow]:
  "dfinally m c w = Some (Inr y, w') \<longleftrightarrow> (\<exists>w1. m w = Some (Inr y, w1) \<and> c w1 = (Inr (), w'))"
  by (auto simp: dfinally_def pfinally_Inr_iff)

lemma dguarded_Inr_iff [flow]:
  "dguarded m exit w = Some (Inr y, w') \<longleftrightarrow>
     (\<exists>w1. m w = Some (Inr y, w1) \<and> exit None w1 = (Inr (), w'))"
  by (auto simp: dguarded_def guarded_Inr_iff)

section \<open>The verifying reader\<close>

text \<open>The hash of the bytes read so far is the hash of \<open>vr_data\<close>, whose length is the count.\<close>

record reader =
  vr_stream :: string
  vr_expected_digest :: string
  vr_expected_length :: int
  vr_data :: string
  vr_done :: bool

definition mk_reader :: "string \<Rightarrow> string \<Rightarrow> int \<Rightarrow> reader" where
  "mk_reader stream expected_digest expected_length =
     \<lparr>vr_stream = stream, vr_expected_digest = expected_digest,
      vr_expected_length = expected_length, vr_data = [], vr_done = False\<rparr>"

definition reader_read :: "'w runtime \<Rightarrow> int \<Rightarrow> reader \<Rightarrow> ('w, exn, string \<times> reader) prog" where
  "reader_read rt n rd = pbind (rt_read rt (vr_stream rd) n) (\<lambda>raw. (case raw of
     PBytes b \<Rightarrow> pret (b, rd\<lparr>vr_data := vr_data rd @ b\<rparr>)
   | _ \<Rightarrow> pthrow (TypeError ''artifact stream returned non-binary data'')))"

text \<open>\<open>readinto\<close> a buffer of \<open>n\<close> bytes: the bytes written to its front.\<close>

definition reader_readinto :: "'w runtime \<Rightarrow> nat \<Rightarrow> reader \<Rightarrow> ('w, exn, string \<times> reader) prog" where
  "reader_readinto rt n rd = pbind (reader_read rt (int n) rd) (\<lambda>(b, rd').
     if n < length b
     then pthrow (ValueError ''memoryview assignment: lvalue and rvalue have different structures'')
     else pret (b, rd'))"

definition chunk_size :: int where
  "chunk_size = 1024 * 1024"

partial_function (option) drain ::
  "'w runtime \<Rightarrow> reader \<Rightarrow> 'w \<Rightarrow> ((exn, reader) result \<times> 'w) option" where
  "drain rt rd w = (case reader_read rt chunk_size rd w of
     (Inl e, w') \<Rightarrow> Some (Inl e, w')
   | (Inr (b, rd'), w') \<Rightarrow> if b = [] then Some (Inr rd', w') else drain rt rd' w')"

definition reader_verify :: "'w runtime \<Rightarrow> reader \<Rightarrow> ('w, reader) dprog" where
  "reader_verify rt rd =
     (if vr_done rd then dlift (pret rd)
      else dbind (drain rt rd) (\<lambda>rd'.
        dlift (if int (length (vr_data rd')) \<noteq> vr_expected_length rd'
            \<or> sha256_digest (vr_data rd') \<noteq> vr_expected_digest rd'
          then pthrow (ArtifactDigestMismatch no_details)
          else pret (rd'\<lparr>vr_done := True\<rparr>))))"

section \<open>Consumer\<close>

record 'w artifact_consumer =
  ac_metadata :: "'w metadata_repository"
  ac_objects :: "'w object_repository"
  ac_channels :: "'w channel_repository"
  ac_payloads :: "'w runtime"

definition ac_exact ::
  "'w artifact_consumer \<Rightarrow> resource_identity \<Rightarrow> ('w, exn, resolved_resource) prog" where
  "ac_exact con i = resolve_exact (ac_metadata con) require_artifact i"

definition ac_latest ::
  "'w artifact_consumer \<Rightarrow> string \<Rightarrow> string \<Rightarrow> string \<Rightarrow> ('w, exn, resolved_resource) prog" where
  "ac_latest con namespace kind name =
     resolve_latest (ac_metadata con) require_artifact ARTIFACT_PROFILE namespace kind name"

definition ac_channel ::
  "'w artifact_consumer \<Rightarrow> pyval \<Rightarrow> pyval \<Rightarrow> pyval \<Rightarrow> pyval \<Rightarrow> ('w, exn, resolved_resource) prog" where
  "ac_channel con namespace kind name channel =
     resolve_channel (ac_metadata con) (ac_channels con) require_artifact namespace kind name channel"

definition ac_list_resources ::
  "'w artifact_consumer \<Rightarrow> string option \<Rightarrow> string option \<Rightarrow> string option
    \<Rightarrow> resource_state option \<Rightarrow> int \<Rightarrow> string option \<Rightarrow> ('w, exn, resource_page) prog" where
  "ac_list_resources con namespace kind name state limit cursor =
     list_resources (ac_metadata con) namespace kind name
       (Some (profile_value ARTIFACT_PROFILE)) state limit cursor"

definition verify_consumed_metadata :: "object_metadata \<Rightarrow> stored_resource \<Rightarrow> (exn, unit) result" where
  "verify_consumed_metadata metadata resource =
     ensure (sr_object_ref resource = Some (om_object_ref metadata)
         \<and> om_digest metadata = sr_digest resource
         \<and> om_byte_length metadata = sr_byte_length resource
         \<and> om_media_type metadata = sr_media_type resource)
       (ArtifactDigestMismatch (about_ref (sr_resource_id resource)))"

text \<open>The guard and the translated call that \<open>stat\<close>, \<open>open\<close> and \<open>range_read\<close> begin with.\<close>

definition artifact_object :: "stored_resource \<Rightarrow> (exn, object_ref) result" where
  "artifact_object resource = rbind (require_artifact resource) (\<lambda>_.
     (case sr_object_ref resource of
        None \<Rightarrow> Inl (IncompatibleProfile ''artifact resource has no ObjectRef''
          (about_ref (sr_resource_id resource)))
      | Some r \<Rightarrow> Inr r))"

definition missing_object ::
  "stored_resource \<Rightarrow> ('w, exn, 'a) prog \<Rightarrow> ('w, exn, 'a) prog" where
  "missing_object resource m = pcatch m (\<lambda>exc.
     if is_foreign ObjectNotFound exc \<or> is_not_found exc
     then pthrow (MissingObject (about_ref (sr_resource_id resource))) else pthrow exc)"

definition ac_stat :: "'w artifact_consumer \<Rightarrow> resource_arg \<Rightarrow> ('w, exn, object_metadata) prog" where
  "ac_stat con a = (let resource = selected a in
     pbind (plift (artifact_object resource)) (\<lambda>object.
     pbind (missing_object resource (object_stat (ac_objects con) object)) (\<lambda>metadata.
     pbind (plift (verify_consumed_metadata metadata resource)) (\<lambda>_. pret metadata))))"

text \<open>The payload of an Object whose metadata does not match is released before the error is raised.\<close>

definition checked_read ::
  "'w artifact_consumer \<Rightarrow> stored_resource \<Rightarrow> ('w, exn, object_read) prog \<Rightarrow> ('w, exn, object_read) prog" where
  "checked_read con resource m =
     pbind (missing_object resource m) (\<lambda>result.
     pbind (pcatch (plift (verify_consumed_metadata (rd_metadata result) resource))
       (\<lambda>exc. if has_code DIGEST_MISMATCH exc
          then pbind (rt_release (ac_payloads con) (rd_payload result)) (\<lambda>_. pthrow exc)
          else pthrow exc)) (\<lambda>_.
     pret result))"

text \<open>\<open>open\<close>, as the \<open>with\<close> statement around a body that reads through the reader.\<close>

definition ac_open ::
  "'w artifact_consumer \<Rightarrow> resource_arg \<Rightarrow> (reader \<Rightarrow> ('w, exn, 'a \<times> reader) prog) \<Rightarrow> ('w, 'a) dprog" where
  "ac_open con a body = (let resource = selected a; rt = ac_payloads con in
     dbind (dlift (pbind (plift (artifact_object resource)) (\<lambda>object.
       checked_read con resource (object_get (ac_objects con) object)))) (\<lambda>result.
     dfinally
       (dbind (dlift (rt_open rt (rd_payload result))) (\<lambda>stream.
        dguarded
          (dbind (dlift (body (mk_reader stream (sr_digest resource) (sr_byte_length resource)))) (\<lambda>(v, rd).
           dbind (reader_verify rt rd) (\<lambda>_. dlift (pret v))))
          (rt_close rt stream)))
       (rt_release rt (rd_payload result))))"

definition ac_read :: "'w artifact_consumer \<Rightarrow> resource_arg \<Rightarrow> ('w, string) dprog" where
  "ac_read con a = ac_open con a (reader_read (ac_payloads con) (- 1))"

definition ac_range_read ::
  "'w artifact_consumer \<Rightarrow> resource_arg \<Rightarrow> byte_range \<Rightarrow> ('w, exn, string) prog" where
  "ac_range_read con a rng = (let resource = selected a; rt = ac_payloads con in
     pbind (plift (artifact_object resource)) (\<lambda>object.
     pbind (checked_read con resource (object_read_range (ac_objects con) object rng)) (\<lambda>result.
     pbind (plift (x_range_length (ob_ext (ac_objects con)) rng (sr_byte_length resource))) (\<lambda>resolved_length.
     pbind (pfinally
       (pbind (rt_open rt (rd_payload result)) (\<lambda>stream.
        guarded (pbind (rt_chunks rt stream) (\<lambda>chunks. pret (concat chunks))) (rt_close rt stream)))
       (rt_release rt (rd_payload result))) (\<lambda>value.
     if int (length value) \<noteq> resolved_length
     then pthrow (ArtifactDigestMismatch_msg ''artifact range length verification failed'' no_details)
     else pret value)))))"

section \<open>Orphan discovery\<close>

text \<open>The identity an Object claims, if its metadata and its name agree on one.\<close>

definition claimed_resource :: "object_metadata \<Rightarrow> string option" where
  "claimed_resource m = (case validate_resource_id (get_or (om_user_metadata m) ''resourceId'' PNone) of
     Inl _ \<Rightarrow> None
   | Inr rid \<Rightarrow> if or_object_id (om_object_ref m) = ''artifacts/'' @ rid then Some rid else None)"

definition discover_item ::
  "'w artifact_consumer \<Rightarrow> bool \<Rightarrow> object_metadata \<Rightarrow> ('w, exn, orphan_candidate option) prog" where
  "discover_item con record_it m = (case claimed_resource m of
     None \<Rightarrow> pret None
   | Some rid \<Rightarrow>
       pbind (get_resource (ac_metadata con) rid False) (\<lambda>found.
       if \<not> Option.is_none found then pret None
       else
         pbind (plift (x_object_reference (ob_ext (ac_objects con)) (or_resource (om_object_ref m))
           (or_object_id (om_object_ref m)) (Some (om_digest m)))) (\<lambda>reference.
         pbind (timestamp_now (rt_now (ob_runtime (ac_objects con)))) (\<lambda>at.
         pbind (plift (mk_orphan_candidate (mr_ext (ac_metadata con))
           \<lparr>oa_candidate_id = PStr (orphan_candidate_id rid (or_object_id reference) (om_digest m)),
            oa_resource_id = PStr rid, oa_object_ref = reference, oa_digest = PStr (om_digest m),
            oa_byte_length = PInt (om_byte_length m),
            oa_reason = PStr ''object-without-structured-metadata'', oa_discovered_at = PStr at,
            oa_state = DISCOVERED, oa_record_version = PNone,
            oa_format_version = PStr orphan_format\<rparr>)) (\<lambda>candidate.
         if record_it then pbind (put_orphan (ac_metadata con) candidate) (\<lambda>c. pret (Some c))
         else pret (Some candidate))))))"

definition discover_orphans ::
  "'w artifact_consumer \<Rightarrow> int \<Rightarrow> string option \<Rightarrow> bool \<Rightarrow> ('w, exn, orphan_page) prog" where
  "discover_orphans con limit cursor record_it =
     pbind (object_list (ac_objects con) ''artifacts/'' limit cursor) (\<lambda>page.
     pbind (pmap (discover_item con record_it) (pg_items page)) (\<lambda>found.
     pret \<lparr>op_items = List.map_filter id found, op_cursor = pg_cursor page\<rparr>))"

end
