(* ===== verification/Schemas.thy ===== *)
theory Schemas
  imports Pointers
begin

text \<open>
  \<open>schemas/provider.py\<close>: the Resource layout, the four structured Schemas and the bundle the
  provider loads. The definition classes belong to Core and Semantics, so a definition is the data
  the source passes to them. \<open>conforms\<close> reads a Schema as the logical types and constraints say,
  and the lemmas show that every record the plugin writes conforms to the Schema it declares.
\<close>

section \<open>Resources\<close>

definition resource_namespace :: string where
  "resource_namespace = ''resources''"

definition layout_ref :: "string \<Rightarrow> string \<Rightarrow> resource_ref" where
  "layout_ref catalog name =
     \<lparr>rf_catalog = catalog, rf_namespace = resource_namespace, rf_name = name\<rparr>"

definition METADATA_RESOURCE :: resource_ref where
  "METADATA_RESOURCE = layout_ref ''structured'' ''metadata''"

definition CHANNEL_RESOURCE :: resource_ref where
  "CHANNEL_RESOURCE = layout_ref ''structured'' ''channels''"

definition PROVENANCE_RESOURCE :: resource_ref where
  "PROVENANCE_RESOURCE = layout_ref ''structured'' ''provenance''"

definition ORPHAN_RESOURCE :: resource_ref where
  "ORPHAN_RESOURCE = layout_ref ''structured'' ''orphan-candidates''"

definition OBJECT_RESOURCE :: resource_ref where
  "OBJECT_RESOURCE = layout_ref ''object'' ''objects''"

lemmas layout_defs = METADATA_RESOURCE_def CHANNEL_RESOURCE_def PROVENANCE_RESOURCE_def
  ORPHAN_RESOURCE_def OBJECT_RESOURCE_def layout_ref_def resource_namespace_def

section \<open>Fields and Schemas\<close>

datatype logical_type =
    TString | TEnum "string list" | TInt64 | TObjectRef | TJson | TUtcTimestamp | TBoolean

datatype field_constraint = MaxLength int | MinValue int | Pattern string

record field_definition =
  fd_name :: string
  fd_type :: logical_type
  fd_nullable :: bool
  fd_mutable :: bool
  fd_constraints :: "field_constraint list"

definition schema_field :: "string \<Rightarrow> logical_type \<Rightarrow> field_constraint list \<Rightarrow> field_definition" where
  "schema_field name t constraints = \<lparr>fd_name = name, fd_type = t, fd_nullable = False,
     fd_mutable = False, fd_constraints = constraints\<rparr>"

definition nullable :: "field_definition \<Rightarrow> field_definition" where
  "nullable f = f\<lparr>fd_nullable := True\<rparr>"

definition mutable :: "field_definition \<Rightarrow> field_definition" where
  "mutable f = f\<lparr>fd_mutable := True\<rparr>"

record index_definition =
  ix_name :: string
  ix_method :: string
  ix_fields :: "string list"
  ix_unique :: bool

record schema_document =
  sd_name :: string
  sd_fields :: "field_definition list"
  sd_identity :: "string list"
  sd_indexes :: "index_definition list"
  sd_alternate_keys :: "string list list"
  sd_consistency :: string
  sd_retention_label :: string
  sd_compatibility :: string

definition schema_doc ::
  "string \<Rightarrow> field_definition list \<Rightarrow> string list \<Rightarrow> index_definition list \<Rightarrow> string list list
    \<Rightarrow> schema_document" where
  "schema_doc name flds identity indexes alternate_keys =
     \<lparr>sd_name = name, sd_fields = flds, sd_identity = identity, sd_indexes = indexes,
      sd_alternate_keys = alternate_keys, sd_consistency = ''strong'',
      sd_retention_label = ''config-artifact-metadata'', sd_compatibility = ''backward''\<rparr>"

definition btree_index :: "string \<Rightarrow> string list \<Rightarrow> bool \<Rightarrow> index_definition" where
  "btree_index name flds unique =
     \<lparr>ix_name = name, ix_method = ''btree'', ix_fields = flds, ix_unique = unique\<rparr>"

definition digest_pattern :: string where
  "digest_pattern = ''^sha256:[0-9a-f]{64}$''"

definition stored_resource_schema :: schema_document where
  "stored_resource_schema = schema_doc ''stored-resource''
     [schema_field ''formatVersion'' TString [MaxLength 128],
      schema_field ''resourceId'' TString [MaxLength 256],
      schema_field ''namespace'' TString [MaxLength 256],
      schema_field ''kind'' TString [MaxLength 256],
      schema_field ''name'' TString [MaxLength 256],
      schema_field ''version'' TString [MaxLength 256],
      schema_field ''profile'' (TEnum [''configuration'', ''artifact'']) [],
      mutable (schema_field ''state'' (TEnum [''DRAFT'', ''PUBLISHED'', ''DEPRECATED'']) []),
      schema_field ''mediaType'' TString [MaxLength 255],
      schema_field ''digest'' TString [Pattern digest_pattern],
      schema_field ''byteLength'' TInt64 [MinValue 0],
      nullable (schema_field ''objectRef'' TObjectRef []),
      nullable (schema_field ''payload'' TJson []),
      nullable (schema_field ''payloadSchema'' TJson []),
      schema_field ''labels'' TJson [],
      schema_field ''annotations'' TJson [],
      nullable (schema_field ''provenance'' TJson []),
      schema_field ''createdBy'' TString [MaxLength 512],
      schema_field ''createdAt'' TUtcTimestamp [],
      nullable (schema_field ''supersedes'' TString [MaxLength 256]),
      schema_field ''immutable'' TBoolean [],
      nullable (schema_field ''versionOrder'' TInt64 [MinValue 0])]
     [''resourceId'']
     [btree_index ''identity_lookup'' [''namespace'', ''kind'', ''name'', ''version''] True,
      btree_index ''published_versions'' [''namespace'', ''kind'', ''name'', ''state'', ''versionOrder''] False]
     [[''namespace'', ''kind'', ''name'', ''version'']]"

definition resource_channel_schema :: schema_document where
  "resource_channel_schema = schema_doc ''resource-channel''
     [schema_field ''formatVersion'' TString [MaxLength 128],
      schema_field ''channelVersionId'' TString [MaxLength 256],
      schema_field ''namespace'' TString [MaxLength 256],
      schema_field ''kind'' TString [MaxLength 256],
      schema_field ''name'' TString [MaxLength 256],
      schema_field ''channel'' TString [MaxLength 128],
      schema_field ''targetResourceId'' TString [MaxLength 256],
      schema_field ''pointerVersion'' TInt64 [MinValue 1],
      schema_field ''actor'' TString [MaxLength 512],
      schema_field ''updatedAt'' TUtcTimestamp []]
     [''channelVersionId'']
     [btree_index ''channel_latest'' [''namespace'', ''kind'', ''name'', ''channel'', ''pointerVersion''] True]
     [[''namespace'', ''kind'', ''name'', ''channel'', ''pointerVersion'']]"

definition provenance_schema :: schema_document where
  "provenance_schema = schema_doc ''provenance''
     [schema_field ''formatVersion'' TString [MaxLength 128],
      schema_field ''provenanceId'' TString [MaxLength 256],
      schema_field ''resourceId'' TString [MaxLength 256],
      schema_field ''document'' TJson [],
      schema_field ''createdAt'' TUtcTimestamp []]
     [''provenanceId'']
     [btree_index ''resource_lookup'' [''resourceId''] True]
     [[''resourceId'']]"

definition orphan_candidate_schema :: schema_document where
  "orphan_candidate_schema = schema_doc ''orphan-candidate''
     [schema_field ''formatVersion'' TString [MaxLength 128],
      schema_field ''candidateId'' TString [MaxLength 256],
      schema_field ''resourceId'' TString [MaxLength 256],
      schema_field ''objectRef'' TObjectRef [],
      schema_field ''digest'' TString [Pattern digest_pattern],
      schema_field ''byteLength'' TInt64 [MinValue 0],
      schema_field ''reason'' TString [MaxLength 512],
      schema_field ''discoveredAt'' TUtcTimestamp [],
      mutable (schema_field ''state'' (TEnum [''DISCOVERED'', ''RECORDED'', ''RESOLVED'']) [])]
     [''candidateId'']
     [btree_index ''orphan_queue'' [''state'', ''discoveredAt'', ''candidateId''] False]
     []"

definition schema_documents :: "schema_document list" where
  "schema_documents = [stored_resource_schema, resource_channel_schema, provenance_schema,
     orphan_candidate_schema]"

section \<open>The bundle\<close>

record capability_requirement =
  cq_capability :: string
  cq_version :: string
  cq_guarantees :: "string list"

definition structured_requirements :: "string list \<Rightarrow> bool \<Rightarrow> capability_requirement list" where
  "structured_requirements methods transactional =
     map (\<lambda>m. \<lparr>cq_capability = ''meridian.structured.'' @ m,
        cq_version = (if m = ''put'' then ''2.0.0'' else ''1.0.0''), cq_guarantees = []\<rparr>) methods
     @ (if transactional then [\<lparr>cq_capability = ''meridian.transaction'', cq_version = ''1.0.0'',
          cq_guarantees = [''atomic'', ''no-dirty-reads'']\<rparr>] else [])"

text \<open>An object requirement names its method and its guarantees, constants of Object Common.\<close>

datatype requirement =
    Structured capability_requirement | ObjectRequirement string "string list"

record resource_definition =
  rd_ref :: resource_ref
  rd_profile :: string
  rd_schema :: "string option"
  rd_requirements :: "requirement list"
  rd_required_scope :: "string list"
  rd_related :: "resource_ref list"

definition structured_resource ::
  "resource_ref \<Rightarrow> string \<Rightarrow> string list \<Rightarrow> resource_ref list \<Rightarrow> resource_definition" where
  "structured_resource ref schema_name methods related =
     \<lparr>rd_ref = ref, rd_profile = ''relational'', rd_schema = Some schema_name,
      rd_requirements = map Structured (structured_requirements methods True),
      rd_required_scope = [''tenant''], rd_related = related\<rparr>"

definition bundle_resources :: "resource_definition list" where
  "bundle_resources =
     [structured_resource METADATA_RESOURCE ''stored-resource'' [''get'', ''patch'', ''put'', ''query'']
        [CHANNEL_RESOURCE, PROVENANCE_RESOURCE, OBJECT_RESOURCE],
      structured_resource CHANNEL_RESOURCE ''resource-channel'' [''get'', ''put'', ''query'']
        [METADATA_RESOURCE],
      structured_resource PROVENANCE_RESOURCE ''provenance'' [''get'', ''put'', ''query'']
        [METADATA_RESOURCE],
      structured_resource ORPHAN_RESOURCE ''orphan-candidate'' [''get'', ''patch'', ''put'', ''query'']
        [METADATA_RESOURCE, OBJECT_RESOURCE],
      \<lparr>rd_ref = OBJECT_RESOURCE, rd_profile = ''artifact'', rd_schema = None,
       rd_requirements =
         [ObjectRequirement ''put'' [''CONDITIONAL_CREATE'', ''DIGEST_SHA256'',
            ''METADATA_AFTER_COMMIT'', ''STREAMING''],
          ObjectRequirement ''get'' [''DIGEST_VERIFICATION'', ''STREAMING''],
          ObjectRequirement ''stat'' [],
          ObjectRequirement ''read_range'' [''DIGEST_VERIFICATION'', ''RANGE_READ''],
          ObjectRequirement ''list'' [''BOUNDED_PREFIX_LIST'']],
       rd_required_scope = [''tenant''], rd_related = [METADATA_RESOURCE, ORPHAN_RESOURCE]\<rparr>]"

section \<open>What a Schema asks of a row\<close>

definition type_holds :: "logical_type \<Rightarrow> pyval \<Rightarrow> bool" where
  "type_holds t v = (case t of
     TString \<Rightarrow> (case v of PStr _ \<Rightarrow> True | _ \<Rightarrow> False)
   | TEnum values \<Rightarrow> (case v of PStr s \<Rightarrow> s \<in> set values | _ \<Rightarrow> False)
   | TInt64 \<Rightarrow> (case as_int v of Some n \<Rightarrow> - (2 ^ 63) \<le> n \<and> n < 2 ^ 63 | None \<Rightarrow> False)
   | TObjectRef \<Rightarrow> is_mapping v
   | TJson \<Rightarrow> True
   | TUtcTimestamp \<Rightarrow> (case utc_of_value v of Inr t1 \<Rightarrow> v = PStr t1 | Inl _ \<Rightarrow> False)
   | TBoolean \<Rightarrow> as_bool v \<noteq> None)"

definition constraint_holds :: "field_constraint \<Rightarrow> pyval \<Rightarrow> bool" where
  "constraint_holds c v = (case c of
     MaxLength n \<Rightarrow> (case v of PStr s \<Rightarrow> int (length s) \<le> n | _ \<Rightarrow> False)
   | MinValue n \<Rightarrow> (case as_int v of Some i \<Rightarrow> n \<le> i | None \<Rightarrow> False)
   | Pattern p \<Rightarrow> (case v of PStr s \<Rightarrow> p = digest_pattern \<and> digest_re s | _ \<Rightarrow> False))"

definition field_holds :: "pyval dict \<Rightarrow> field_definition \<Rightarrow> bool" where
  "field_holds d f = (case map_of d (fd_name f) of
     None \<Rightarrow> False
   | Some v \<Rightarrow> fd_nullable f \<and> v = PNone
       \<or> type_holds (fd_type f) v \<and> list_all (\<lambda>c. constraint_holds c v) (fd_constraints f))"

definition conforms :: "schema_document \<Rightarrow> pyval dict \<Rightarrow> bool" where
  "conforms s d = (keys d = set (map fd_name (sd_fields s)) \<and> list_all (field_holds d) (sd_fields s))"

definition int64_ok :: "int \<Rightarrow> bool" where
  "int64_ok n = (n < 2 ^ 63)"

lemma bounded_ok_length: "bounded_ok n s \<Longrightarrow> length s \<le> n"
  by (simp add: bounded_ok_def)

lemma identity_resource_id_length [simp]: "length (identity_resource_id i) = 35"
  using resource_id_re_identity [of i] by (auto simp: resource_id_re_def)

lemmas schema_defs = schema_doc_def schema_field_def nullable_def mutable_def

lemmas holds_defs = conforms_def field_holds_def type_holds_def constraint_holds_def

lemma field_holds_simps:
  "field_holds d (schema_field k TString [MaxLength n]) \<longleftrightarrow>
     (\<exists>s. map_of d k = Some (PStr s) \<and> int (length s) \<le> n)"
  "field_holds d (nullable (schema_field k TString [MaxLength n])) \<longleftrightarrow>
     map_of d k = Some PNone \<or> (\<exists>s. map_of d k = Some (PStr s) \<and> int (length s) \<le> n)"
  "field_holds d (schema_field k (TEnum vs) []) \<longleftrightarrow> (\<exists>s. map_of d k = Some (PStr s) \<and> s \<in> set vs)"
  "field_holds d (mutable (schema_field k (TEnum vs) [])) \<longleftrightarrow> (\<exists>s. map_of d k = Some (PStr s) \<and> s \<in> set vs)"
  "field_holds d (schema_field k TString [Pattern digest_pattern]) \<longleftrightarrow>
     (\<exists>s. map_of d k = Some (PStr s) \<and> digest_re s)"
  "field_holds d (schema_field k TInt64 [MinValue m]) \<longleftrightarrow>
     (\<exists>i. map_of d k = Some (PInt i) \<and> - (2 ^ 63) \<le> i \<and> i < 2 ^ 63 \<and> m \<le> i)"
  "field_holds d (nullable (schema_field k TInt64 [MinValue m])) \<longleftrightarrow> map_of d k = Some PNone \<or>
     (\<exists>i. map_of d k = Some (PInt i) \<and> - (2 ^ 63) \<le> i \<and> i < 2 ^ 63 \<and> m \<le> i)"
  "field_holds d (schema_field k TObjectRef []) \<longleftrightarrow> (\<exists>v. map_of d k = Some v \<and> is_mapping v)"
  "field_holds d (nullable (schema_field k TObjectRef [])) \<longleftrightarrow>
     (\<exists>v. map_of d k = Some v \<and> (v = PNone \<or> is_mapping v))"
  "field_holds d (schema_field k TJson []) \<longleftrightarrow> (\<exists>v. map_of d k = Some v)"
  "field_holds d (nullable (schema_field k TJson [])) \<longleftrightarrow> (\<exists>v. map_of d k = Some v)"
  "field_holds d (schema_field k TUtcTimestamp []) \<longleftrightarrow>
     (\<exists>t. map_of d k = Some (PStr t) \<and> utc_of_value (PStr t) = Inr t)"
  "field_holds d (schema_field k TBoolean []) \<longleftrightarrow> (\<exists>b. map_of d k = Some (PBool b))"
  by (auto simp: field_holds_def type_holds_def constraint_holds_def schema_field_def nullable_def
      mutable_def split: option.splits pyval.splits sum.splits)

section \<open>Every record that is written conforms\<close>

lemma schema_field_names:
  "map fd_name (sd_fields stored_resource_schema) = resource_fields"
  "map fd_name (sd_fields resource_channel_schema) = channel_fields"
  "map fd_name (sd_fields orphan_candidate_schema) = orphan_fields"
  "map fd_name (sd_fields provenance_schema) =
     [''formatVersion'', ''provenanceId'', ''resourceId'', ''document'', ''createdAt'']"
  by (simp_all add: stored_resource_schema_def resource_channel_schema_def provenance_schema_def
      orphan_candidate_schema_def schema_defs resource_fields_def channel_fields_def orphan_fields_def)

lemma conformsI:
  "keys d = set (map fd_name (sd_fields s)) \<Longrightarrow> list_all (field_holds d) (sd_fields s) \<Longrightarrow> conforms s d"
  by (simp add: conforms_def)

lemma uuid_text_length [simp]:
  "length (channel_version_id ns k n c p) = 35" "length (orphan_candidate_id r o1 d) = 35"
  by (simp_all add: channel_version_id_def orphan_candidate_id_def uuid5_hex_format)

lemma resource_id_re_length: "resource_id_re s \<Longrightarrow> length s = 35"
  by (auto simp: resource_id_re_def)

lemma channel_conforms_lemma:
  assumes "channel_row_ok c" "int64_ok (ch_pointer_version c)"
  shows "conforms resource_channel_schema (channel_to_record c)"
proof (rule conformsI)
  show "keys (channel_to_record c) = set (map fd_name (sd_fields resource_channel_schema))"
    unfolding schema_field_names by (simp add: channel_to_record_def channel_fields_def)
  show "list_all (field_holds (channel_to_record c)) (sd_fields resource_channel_schema)"
    unfolding resource_channel_schema_def schema_doc_def schema_document.select_convs list.pred_inject
      field_holds_simps
    using assms
    by (simp add: channel_to_record_def channel_row_ok_def logical_ok_def channel_ok_def
        bounded_ok_length int64_ok_def resource_id_re_length channel_format_def)
qed

lemma orphan_conforms_lemma:
  assumes "orphan_ok c" "is_mapping (x_object_reference_dict x (oc_object_ref c))"
    "int64_ok (oc_byte_length c)"
  shows "conforms orphan_candidate_schema (orphan_to_record x c)"
proof (rule conformsI)
  show "keys (orphan_to_record x c) = set (map fd_name (sd_fields orphan_candidate_schema))"
    unfolding schema_field_names by (simp add: orphan_to_record_def orphan_fields_def)
  have "orphan_state_value s \<in> {''DISCOVERED'', ''RECORDED'', ''RESOLVED''}" for s
    by (cases s) (simp_all add: orphan_state_value_def)
  then show "list_all (field_holds (orphan_to_record x c)) (sd_fields orphan_candidate_schema)"
    unfolding orphan_candidate_schema_def schema_doc_def schema_document.select_convs list.pred_inject
      field_holds_simps
    using assms
    by (simp add: orphan_to_record_def orphan_ok_def bounded_ok_length int64_ok_def
        resource_id_re_length orphan_format_def)
qed

context external_contract
begin

lemma resource_conforms:
  assumes ok: "resource_ok x r" and "int64_ok (sr_byte_length r)"
    "\<forall>n. sr_version_order r = Some n \<longrightarrow> int64_ok n"
  shows "conforms stored_resource_schema (resource_to_record x r)"
proof (rule conformsI)
  show "keys (resource_to_record x r) = set (map fd_name (sd_fields stored_resource_schema))"
    unfolding schema_field_names by (simp add: resource_to_record_def resource_fields_def)
  have enums: "profile_value p = ''configuration'' \<or> profile_value p = ''artifact''"
    "state_value s = ''DRAFT'' \<or> state_value s = ''PUBLISHED'' \<or> state_value s = ''DEPRECATED''" for p s
    by (cases p; cases s; simp add: profile_value_def state_value_def)+
  have opts: "of_opt PStr z = PNone \<or> (\<exists>s. of_opt PStr z = PStr s \<and> int (length s) \<le> 256)"
    if "\<forall>s. z = Some s \<longrightarrow> bounded_ok 256 s" for z
    using that by (cases z) (auto dest: bounded_ok_length)
  have ints: "of_opt PInt z = PNone \<or>
      (\<exists>i. of_opt PInt z = PInt i \<and> - 9223372036854775808 \<le> i \<and> i < 9223372036854775808 \<and> 0 \<le> i)"
    if "\<forall>n. z = Some n \<longrightarrow> 0 \<le> n" "\<forall>n. z = Some n \<longrightarrow> int64_ok n" for z
    using that by (cases z) (auto simp: int64_ok_def)
  have "of_opt (x_object_reference_dict x) z = PNone \<or> is_mapping (of_opt (x_object_reference_dict x) z)" for z
    using printed_mapping by (cases z) simp_all
  moreover have "\<forall>s. sr_supersedes r = Some s \<longrightarrow> bounded_ok 256 s"
    "\<forall>n. sr_version_order r = Some n \<longrightarrow> 0 \<le> n"
    using ok by (simp_all add: resource_ok_def)
  moreover have "identity_ok (sr_identity r)" using ok by (simp add: resource_ok_def)
  ultimately show "list_all (field_holds (resource_to_record x r)) (sd_fields stored_resource_schema)"
    unfolding stored_resource_schema_def schema_doc_def schema_document.select_convs list.pred_inject
      field_holds_simps
    using assms enums opts ints
    by (simp add: resource_to_record_def resource_ok_def logical_ok_def identity_ok_def media_ok_def
        sr_identity_def bounded_ok_length int64_ok_def resource_format_def)
qed

end

lemma provenance_conforms_lemma:
  assumes "resource_ok x r" "provenance_record r = Some d"
  shows "conforms provenance_schema d"
proof (rule conformsI)
  from assms(2) obtain p where p: "sr_provenance r = Some p"
    by (auto simp: provenance_record_def split: option.splits)
  show "keys d = set (map fd_name (sd_fields provenance_schema))"
    unfolding schema_field_names using assms(2) p by (auto simp: provenance_record_def)
  show "list_all (field_holds d) (sd_fields provenance_schema)"
    unfolding provenance_schema_def schema_doc_def schema_document.select_convs list.pred_inject
      field_holds_simps
    using assms p by (auto simp: provenance_record_def resource_ok_def)
qed

end
