(* ===== verification/Store.thy ===== *)
theory Store
  imports Configuration Consumer Schemas
begin

text \<open>
  \<open>store.py\<close>, \<open>publisher.py\<close> and \<open>consumer.py\<close>: the composition root and its two facades. The
  \<open>**options\<close> of the facade are the optional fields of \<open>publication\<close>, passed on unchanged.
\<close>

record 'w resource_publisher =
  sp_configuration :: "'w configuration_publisher"
  sp_artifacts :: "'w artifact_publisher"
  sp_channels :: "'w channel_repository"

definition publish_configuration ::
  "'w resource_publisher \<Rightarrow> publication \<Rightarrow> pyval \<Rightarrow> schema_arg \<Rightarrow> ('w, exn, publication_receipt) prog" where
  "publish_configuration pub p payload schema = cp_publish (sp_configuration pub) p payload schema"

definition publish_artifact ::
  "'w resource_publisher \<Rightarrow> publication \<Rightarrow> artifact_payload \<Rightarrow> pyval \<Rightarrow> pyval
    \<Rightarrow> ('w, exn, publication_receipt) prog" where
  "publish_artifact pub p payload expected_digest expected_length =
     ap_publish (sp_artifacts pub) p payload expected_digest expected_length"

definition publisher_promote ::
  "'w resource_publisher \<Rightarrow> promotion_target \<Rightarrow> pyval \<Rightarrow> pyval \<Rightarrow> pyval
    \<Rightarrow> ('w, exn, channel_row) prog" where
  "publisher_promote pub target channel expected actor =
     promote (sp_channels pub) target channel expected actor None"

record 'w resource_consumer =
  sc_configurations :: "'w configuration_consumer"
  sc_artifacts :: "'w artifact_consumer"

record collections =
  co_metadata :: resource_ref
  co_channel :: resource_ref
  co_provenance :: resource_ref
  co_orphan :: resource_ref
  co_object :: resource_ref

definition default_collections :: collections where
  "default_collections = \<lparr>co_metadata = METADATA_RESOURCE, co_channel = CHANNEL_RESOURCE,
     co_provenance = PROVENANCE_RESOURCE, co_orphan = ORPHAN_RESOURCE,
     co_object = OBJECT_RESOURCE\<rparr>"

record 'w resource_store =
  st_metadata :: "'w metadata_repository"
  st_objects :: "'w object_repository"
  st_channels :: "'w channel_repository"
  st_publisher :: "'w resource_publisher"
  st_consumer :: "'w resource_consumer"

text \<open>
  \<open>ResourceStore.__init__\<close>: \<open>rt\<close> carries the runtime and the payload registry. The combined
  repositories \<open>configurations\<close> and \<open>artifacts\<close> share the parts of the publisher and the consumer.
\<close>

definition mk_resource_store ::
  "'w runtime \<Rightarrow> collections \<Rightarrow> 'w validator option \<Rightarrow> 'w clock option
    \<Rightarrow> ('w, exn, 'w resource_store) prog" where
  "mk_resource_store rt co validator clock =
     (let structured = (\<lambda>r. plift (x_resource_ref (rt_ext rt) ''structured'' r)) in
      pbind (structured (co_metadata co)) (\<lambda>metadata_ref.
      pbind (structured (co_channel co)) (\<lambda>channel_ref.
      pbind (structured (co_provenance co)) (\<lambda>provenance_ref.
      pbind (structured (co_orphan co)) (\<lambda>orphan_ref.
      pbind (plift (x_resource_ref (rt_ext rt) ''object'' (co_object co))) (\<lambda>object_ref.
      pbind (mk_metadata_repository rt metadata_ref channel_ref provenance_ref orphan_ref) (\<lambda>metadata.
      pbind (mk_object_repository rt object_ref) (\<lambda>objects.
      let channels = mk_channel_repository metadata clock;
          selected_validator = (case validator of None \<Rightarrow> validate_payload rt | Some v \<Rightarrow> v) in
      pret
        \<lparr>st_metadata = metadata, st_objects = objects, st_channels = channels,
         st_publisher =
           \<lparr>sp_configuration = mk_configuration_publisher metadata selected_validator channels clock,
            sp_artifacts = mk_artifact_publisher metadata objects channels rt clock,
            sp_channels = channels\<rparr>,
         st_consumer =
           \<lparr>sc_configurations = \<lparr>cc_metadata = metadata, cc_channels = channels\<rparr>,
            sc_artifacts = \<lparr>ac_metadata = metadata, ac_objects = objects, ac_channels = channels,
              ac_payloads = rt\<rparr>\<rparr>\<rparr>))))))))"

end
