(* ===== verification/Publishing.thy ===== *)
theory Publishing
  imports Guarantees Store
begin

text \<open>
  The publishers over a Catalog that keeps its contract, as triples over the worlds that evolve
  from a first one. A publication adds at most one entry to the metadata map; what it returns is
  the entry, which is the one that was there if there was one; an exception never costs an entry.
\<close>

text \<open>Worlds reached from \<open>w0\<close> by guaranteed moves whose metadata map satisfies \<open>F\<close>.\<close>

definition reached ::
  "'w metadata_repository \<Rightarrow> ('w \<Rightarrow> bool) \<Rightarrow> (resource_ref \<Rightarrow> 'w \<Rightarrow> pyval dict list) \<Rightarrow> 'w
    \<Rightarrow> ((string \<Rightarrow> stored_resource option) \<Rightarrow> bool) \<Rightarrow> 'w \<Rightarrow> bool" where
  "reached repo valid rows w0 F w \<longleftrightarrow> moves repo valid rows w0 w \<and> F (catalogue repo rows w)"

text \<open>The parts a publisher is built from, and what its validator and clock may do.\<close>

definition configuration_wired ::
  "'w metadata_repository \<Rightarrow> ('w \<Rightarrow> bool) \<Rightarrow> (resource_ref \<Rightarrow> 'w \<Rightarrow> pyval dict list)
    \<Rightarrow> 'w configuration_publisher \<Rightarrow> bool" where
  "configuration_wired repo valid rows pub \<longleftrightarrow> cp_metadata pub = repo \<and> cr_metadata (cp_channels pub) = repo
     \<and> neutral valid rows (cr_clock (cp_channels pub)) \<and> neutral valid rows (cp_clock pub)
     \<and> (\<forall>v s. neutral valid rows (cp_validator pub v s))
     \<and> (\<forall>v s w u w'. wf_py v \<longrightarrow> cp_validator pub v s w = (Inr u, w') \<longrightarrow> wf_py u)"

definition schema_arg_ok :: "schema_arg \<Rightarrow> bool" where
  "schema_arg_ok a = (case a of SchemaRefArg s \<Rightarrow> schema_ref_ok s | SchemaValueArg v \<Rightarrow> True)"

definition configuration_candidate ::
  "'w metadata_repository \<Rightarrow> publication \<Rightarrow> resource_identity \<Rightarrow> stored_resource \<Rightarrow> bool" where
  "configuration_candidate repo p i c \<longleftrightarrow>
     mk_identity (pb_namespace p) (pb_kind p) (pb_name p) (pb_version p) = Inr i
     \<and> resource_ok (rt_ext (mr_runtime repo)) c \<and> sr_state c = PUBLISHED \<and> sr_identity c = i
     \<and> sr_resource_id c = identity_resource_id i \<and> sr_profile c = CONFIGURATION_PROFILE"

text \<open>What a publication does to the metadata map: the entry of the identity is the resource it returns,
  as it was before, or new and the same as the candidate \<open>c\<close>.\<close>

definition published ::
  "(stored_resource \<Rightarrow> stored_resource \<Rightarrow> bool) \<Rightarrow> stored_resource \<Rightarrow> (string \<Rightarrow> stored_resource option)
    \<Rightarrow> publication_receipt \<Rightarrow> (string \<Rightarrow> stored_resource option) \<Rightarrow> bool" where
  "published same c M rc X \<longleftrightarrow> same c (rc_resource rc) \<and> X = M(sr_resource_id c \<mapsto> rc_resource rc)
     \<and> (\<forall>r. M (sr_resource_id c) = Some r \<longrightarrow> rc_resource rc = r \<and> rc_idempotent rc)"

definition no_entry_lost :: "(string \<Rightarrow> stored_resource option) \<Rightarrow> (string \<Rightarrow> stored_resource option) \<Rightarrow> bool" where
  "no_entry_lost M X \<longleftrightarrow> (\<forall>k r. M k = Some r \<longrightarrow> X k = Some r)"

lemma no_entry_lost_simps [simp]: "no_entry_lost M M" "M k = None \<Longrightarrow> no_entry_lost M (M(k \<mapsto> r))"
  "M k = Some r \<Longrightarrow> no_entry_lost M (M(k \<mapsto> r))"
  by (auto simp: no_entry_lost_def)

lemma published_no_entry_lost: "published same c M rc X \<Longrightarrow> no_entry_lost M X"
  by (auto simp: published_def no_entry_lost_def)

lemma written_no_entry_lost: "X = M \<or> (\<exists>v. M k = None \<and> X = M(k \<mapsto> f v)) \<Longrightarrow> no_entry_lost M X"
  by auto

lemma parse_schema_arg_ok: "schema_arg_ok a \<Longrightarrow> parse_schema_ref a = Inr s \<Longrightarrow> schema_ref_ok s"
  by (cases a) (auto simp: schema_arg_ok_def parse_schema_ref_def intro: parse_schema_ref_ok)

context transactional_catalog
begin

lemma reached_weaken: "reached repo valid rows w0 F w \<Longrightarrow> (\<And>X. F X \<Longrightarrow> G X) \<Longrightarrow> reached repo valid rows w0 G w"
  by (simp add: reached_def)

lemma reached_pthrow: "(\<And>X. F X \<Longrightarrow> H X) \<Longrightarrow>
    triple (reached repo valid rows w0 F) (pthrow e) Q (\<lambda>_. reached repo valid rows w0 H)"
  by (rule triple_pthrow) (simp add: reached_def)

lemma reached_neutral:
  assumes "neutral valid rows m"
  shows "triple (reached repo valid rows w0 F) m (\<lambda>_. reached repo valid rows w0 F) (\<lambda>_. reached repo valid rows w0 F)"
proof -
  have "reached repo valid rows w0 F w'" if "reached repo valid rows w0 F w" "m w = (r, w')" for w r w'
  proof -
    from that(1) have ok: "ledger_ok repo valid rows w" "moves repo valid rows w0 w" "F (catalogue repo rows w)"
      by (auto simp: reached_def dest: moves_ok)
    then have "same_rows valid rows w w'" using neutralD [OF assms _ that(2)] by (simp add: ledger_ok_def)
    with ok show ?thesis using moves_same moves_trans by (metis ledger_ok_same(2) reached_def)
  qed
  then show ?thesis by (intro tripleI)
qed

lemma reached_get_resource:
  "triple (reached repo valid rows w0 F) (get_resource repo k b)
     (\<lambda>z. reached repo valid rows w0 (\<lambda>X. F X \<and> z = X k)) (\<lambda>_. reached repo valid rows w0 F)"
proof (rule tripleI)
  fix w z w' assume w: "reached repo valid rows w0 F w" "get_resource repo k b w = (Inr z, w')"
  from tripleD(1) [OF reached_neutral [OF neutral_get_resource] w] have "reached repo valid rows w0 F w'" .
  moreover have ok: "ledger_ok repo valid rows w" using w(1) by (auto simp: reached_def dest: moves_ok)
  then have "catalogue repo rows w' = catalogue repo rows w"
    using get_resource_reads [OF _ w(2)] ledger_ok_same(2) by (metis ledger_ok_def)
  moreover have "z = catalogue repo rows w k"
    using get_resource_spec(1) [OF _ _ w(2)] ok by (simp add: ledger_ok_def catalogue_def)
  ultimately show "reached repo valid rows w0 (\<lambda>X. F X \<and> z = X k) w'" by (simp add: reached_def)
next
  fix w e w' assume "reached repo valid rows w0 F w" "get_resource repo k b w = (Inl e, w')"
  then show "reached repo valid rows w0 F w'" by (rule tripleD(2) [OF reached_neutral [OF neutral_get_resource]])
qed

lemma reached_lookup:
  assumes "triple (reached repo valid rows w0 (\<lambda>X. F X \<and> None = X k)) m Q (\<lambda>_. reached repo valid rows w0 H)"
    "\<And>r. triple (reached repo valid rows w0 (\<lambda>X. F X \<and> Some r = X k)) (f r) Q (\<lambda>_. reached repo valid rows w0 H)"
    "\<And>X. F X \<Longrightarrow> H X"
  shows "triple (reached repo valid rows w0 F)
    (pbind (get_resource repo k b) (\<lambda>z. (case z of None \<Rightarrow> m | Some r \<Rightarrow> f r))) Q (\<lambda>_. reached repo valid rows w0 H)"
proof (rule triple_pbind)
  show "triple (reached repo valid rows w0 F) (get_resource repo k b)
      (\<lambda>z. reached repo valid rows w0 (\<lambda>X. F X \<and> z = X k)) (\<lambda>_. reached repo valid rows w0 H)"
    by (rule triple_post [OF reached_get_resource]) (use assms(3) in \<open>auto simp: reached_def\<close>)
  show "triple (reached repo valid rows w0 (\<lambda>X. F X \<and> z = X k)) (case z of None \<Rightarrow> m | Some r \<Rightarrow> f r) Q
      (\<lambda>_. reached repo valid rows w0 H)" for z
    using assms(1,2) by (cases z) simp_all
qed

lemma reached_promote_optional:
  assumes "cr_metadata chs = repo" "neutral valid rows (cr_clock chs)"
  shows "triple (reached repo valid rows w0 F) (promote_optional chs profile r ch expected actor)
    (\<lambda>_. reached repo valid rows w0 F) (\<lambda>_. reached repo valid rows w0 F)"
proof -
  have "reached repo valid rows w0 F w'"
    if "reached repo valid rows w0 F w" "promote_optional chs profile r ch expected actor w = (out, w')" for w out w'
  proof -
    from that(1) have ok: "ledger_ok repo valid rows w" "moves repo valid rows w0 w" "F (catalogue repo rows w)"
      by (auto simp: reached_def dest: moves_ok)
    have "moves repo valid rows w0 w'"
      using keeps_promote_optional [OF assms] ok(2) that(2) by (rule keepsD)
    with ok(3) promote_optional_catalogue [OF ok(1) assms that(2)] show ?thesis by (simp add: reached_def)
  qed
  then show ?thesis by (intro tripleI)
qed

lemma reached_guard:
  "triple (reached repo valid rows w0 F) (plift (ensure b e))
    (\<lambda>_. reached repo valid rows w0 (\<lambda>X. F X \<and> b)) (\<lambda>_. reached repo valid rows w0 F)"
  by (rule triple_plift) (auto simp: ensure_def reached_def split: if_splits)

text \<open>The end of every publication: the optional promotion, and the receipt \<open>g\<close> makes of it.\<close>

lemma reached_receipt:
  assumes "cr_metadata chs = repo" "neutral valid rows (cr_clock chs)"
    "\<And>X promoted. F X \<Longrightarrow> G (g promoted) X" "\<And>X. F X \<Longrightarrow> H X"
  shows "triple (reached repo valid rows w0 F)
    (pbind (promote_optional chs profile r ch expected actor) (\<lambda>promoted. pret (g promoted)))
    (\<lambda>rc. reached repo valid rows w0 (G rc)) (\<lambda>_. reached repo valid rows w0 H)"
proof (rule triple_pbind)
  show "triple (reached repo valid rows w0 F) (promote_optional chs profile r ch expected actor)
      (\<lambda>_. reached repo valid rows w0 F) (\<lambda>_. reached repo valid rows w0 H)"
    by (rule triple_post [OF reached_promote_optional [OF assms(1,2)]]) (use assms(4) in \<open>auto simp: reached_def\<close>)
  show "triple (reached repo valid rows w0 F) (pret (g promoted))
      (\<lambda>rc. reached repo valid rows w0 (G rc)) (\<lambda>_. reached repo valid rows w0 H)" for promoted
    by (rule triple_pret) (use assms(3) in \<open>auto simp: reached_def\<close>)
qed

lemma reached_commit:
  assumes "resource_ok (rt_ext (mr_runtime repo)) c" "sr_state c = PUBLISHED"
  shows "triple (reached repo valid rows w0 (\<lambda>X. X = M)) (commit same repo i c)
    (\<lambda>s. reached repo valid rows w0 (\<lambda>X. M (sr_resource_id c) = None \<and> X = M(sr_resource_id c \<mapsto> s)
       \<and> same c s \<and> (\<exists>v. s = c\<lparr>sr_record_version := v\<rparr>)))
    (\<lambda>_. reached repo valid rows w0 (\<lambda>X. X = M \<or>
       (\<exists>v. M (sr_resource_id c) = None \<and> X = M(sr_resource_id c \<mapsto> c\<lparr>sr_record_version := v\<rparr>))))"
proof (rule tripleI)
  fix w s w' assume w: "reached repo valid rows w0 (\<lambda>X. X = M) w" "commit same repo i c w = (Inr s, w')"
  then have ok: "ledger_ok repo valid rows w" "moves repo valid rows w0 w" "catalogue repo rows w = M"
    by (auto simp: reached_def dest: moves_ok)
  from commit_moves [OF ok(1) assms w(2)] moves_trans [OF ok(2)] ok(3)
  show "reached repo valid rows w0 (\<lambda>X. M (sr_resource_id c) = None \<and> X = M(sr_resource_id c \<mapsto> s)
       \<and> same c s \<and> (\<exists>v. s = c\<lparr>sr_record_version := v\<rparr>)) w'"
    by (auto simp: reached_def)
next
  fix w e w' assume w: "reached repo valid rows w0 (\<lambda>X. X = M) w" "commit same repo i c w = (Inl e, w')"
  then have ok: "ledger_ok repo valid rows w" "moves repo valid rows w0 w" "catalogue repo rows w = M"
    by (auto simp: reached_def dest: moves_ok)
  from commit_moves [OF ok(1) assms w(2)] moves_trans [OF ok(2)] ok(3)
  show "reached repo valid rows w0 (\<lambda>X. X = M \<or>
       (\<exists>v. M (sr_resource_id c) = None \<and> X = M(sr_resource_id c \<mapsto> c\<lparr>sr_record_version := v\<rparr>))) w'"
    by (auto simp: reached_def)
qed

lemma neutral_cp_candidate:
  assumes "configuration_wired repo valid rows pub"
  shows "neutral valid rows (cp_candidate pub p payload schema)"
proof -
  have wired: "neutral valid rows (cp_clock pub)" "\<And>v s. neutral valid rows (cp_validator pub v s)"
    using assms unfolding configuration_wired_def by blast+
  have "neutral valid rows (make_candidate x (cp_clock pub) i pr p media dig len pl sch ob)" for x i pr media dig len pl sch ob
    unfolding make_candidate_def by (intro neutral_rules wired(1))
  then show ?thesis unfolding cp_candidate_def Let_def by (intro neutral_rules wired(2))
qed

text \<open>The candidate of a configuration: a valid published resource of the identity of the arguments,
  with the digest of the validated payload.\<close>

lemma reached_cp_candidate:
  assumes "configuration_wired repo valid rows pub" "publication_ok (rt_ext (mr_runtime repo)) p" "schema_arg_ok schema" "wf_py payload"
  shows "triple (reached repo valid rows w0 F) (cp_candidate pub p payload schema)
    (\<lambda>(i, c) w. reached repo valid rows w0 F w \<and> configuration_candidate repo p i c) (\<lambda>_. reached repo valid rows w0 F)"
proof -
  let ?R = "reached repo valid rows w0 F" and ?x = "rt_ext (mr_runtime repo)"
  have wired: "cp_metadata pub = repo"
    "\<And>v s w u w'. wf_py v \<Longrightarrow> cp_validator pub v s w = (Inr u, w') \<Longrightarrow> wf_py u"
    using assms(1) unfolding configuration_wired_def by blast+
  note keep = reached_neutral [OF neutral_cp_candidate [OF assms(1)], of w0 F]
  have "configuration_candidate repo p i c" if r: "cp_candidate pub p payload schema w = (Inr (i, c), w')" for w i c w'
  proof -
    from r obtain ps v w1 n b media w2 where c: "mk_identity (pb_namespace p) (pb_kind p) (pb_name p) (pb_version p) = Inr i"
      "parse_schema_ref schema = Inr ps" "cp_validator pub payload ps w = (Inr v, w1)"
      "canonical_mapping (x_canonical_json_bytes ?x) v ''payload'' None None = Inr n"
      "mapping_bytes (x_canonical_json_bytes ?x) n = Inr b"
      "make_candidate ?x (cp_clock pub) i CONFIGURATION_PROFILE p media (sha256_digest b)
        (int (length b)) (PProxy n) (Some ps) None w2 = (Inr c, w')"
      by (auto simp: cp_candidate_def Let_def pbind_Inr_iff wired(1))
    have "wf_py (PProxy n)" using canonical_wf [OF c(4) wired(2) [OF assms(4) c(3)]] .
    from make_candidate_ok [OF c(6) assms(2) this] parse_schema_arg_ok [OF assms(3) c(2)] c(1)
    show ?thesis by (simp add: configuration_candidate_def del: wf_py.simps)
  qed
  then have "triple (reached repo valid rows w0 F) (cp_candidate pub p payload schema)
      (\<lambda>z w. reached repo valid rows w0 F w \<and> configuration_candidate repo p (fst z) (snd z)) (\<lambda>_. reached repo valid rows w0 F)"
    by (intro triple_result [OF keep]) simp
  then show ?thesis by (rule triple_post) auto
qed

text \<open>The write of a new publication, its recovery \<open>h\<close>, and the receipt \<open>g\<close> of what was stored.\<close>

lemma reached_publish_new:
  assumes "cr_metadata chs = repo" "neutral valid rows (cr_clock chs)"
    "resource_ok (rt_ext (mr_runtime repo)) c" "sr_state c = PUBLISHED"
    and handler: "\<And>exc. triple (reached repo valid rows w0 (\<lambda>X. X = M \<or>
         (\<exists>v. M (sr_resource_id c) = None \<and> X = M(sr_resource_id c \<mapsto> c\<lparr>sr_record_version := v\<rparr>))))
       (h exc) (\<lambda>rc. reached repo valid rows w0 (published same c M rc)) (\<lambda>_. reached repo valid rows w0 (no_entry_lost M))"
    and receipt: "\<And>s promoted. rc_resource (g s promoted) = s"
  shows "triple (reached repo valid rows w0 (\<lambda>X. X = M \<and> None = X (sr_resource_id c)))
    (pbind (pcatch
       (pbind (commit same repo i c) (\<lambda>stored. pret (Inl stored)))
       (\<lambda>exc. pbind (h exc) (\<lambda>receipt. pret (Inr receipt)))) (\<lambda>z.
     (case z of
        Inr receipt \<Rightarrow> pret receipt
      | Inl stored \<Rightarrow> pbind (promote_optional chs profile stored ch expected actor)
          (\<lambda>promoted. pret (g stored promoted)))))
    (\<lambda>rc. reached repo valid rows w0 (published same c M rc)) (\<lambda>_. reached repo valid rows w0 (no_entry_lost M))"
  (is "triple _ _ ?Q ?E")
proof -
  let ?R = "reached repo valid rows w0" and ?k = "sr_resource_id c"
  let ?S = "\<lambda>s. ?R (\<lambda>X. M ?k = None \<and> X = M(?k \<mapsto> s) \<and> same c s)"
  let ?C = "\<lambda>z w. case z of Inr rc \<Rightarrow> ?Q rc w | Inl s \<Rightarrow> ?S s w"
  let ?G = "\<lambda>X. X = M \<or> (\<exists>v. M ?k = None \<and> X = M(?k \<mapsto> c\<lparr>sr_record_version := v\<rparr>))"
  have "triple (?R (\<lambda>X. X = M \<and> None = X ?k)) (commit same repo i c)
      (\<lambda>s. ?R (\<lambda>X. M ?k = None \<and> X = M(?k \<mapsto> s) \<and> same c s \<and> (\<exists>v. s = c\<lparr>sr_record_version := v\<rparr>))) (\<lambda>_. ?R ?G)"
    by (rule triple_pre [OF reached_commit [OF assms(3,4)]]) (simp add: reached_def)
  then have committed: "triple (?R (\<lambda>X. X = M \<and> None = X ?k))
      (pbind (commit same repo i c) (\<lambda>stored. pret (Inl stored))) ?C (\<lambda>_. ?R ?G)"
    by (rule triple_pbind, intro triple_pret) (simp add: reached_def)
  have recovered: "triple (?R ?G) (pbind (h exc) (\<lambda>receipt. pret (Inr receipt))) ?C ?E" for exc
    by (rule triple_pbind [OF handler], rule triple_pret) simp
  have new: "triple (?S s) (pbind (promote_optional chs profile s ch expected actor) (\<lambda>promoted. pret (g s promoted))) ?Q ?E" for s
    by (rule triple_post [OF reached_receipt [OF assms(1,2),
          where G = "\<lambda>rc X. M ?k = None \<and> X = M(?k \<mapsto> rc_resource rc) \<and> same c (rc_resource rc)"
            and H = "\<lambda>X. M ?k = None \<and> X = M(?k \<mapsto> s)"]])
      (auto simp: reached_def receipt published_def)
  show ?thesis
    by (rule triple_pbind [OF triple_pcatch [OF committed recovered]])
      (auto intro: triple_pret new split: sum.split)
qed

lemma reached_cp_existing_receipt:
  assumes "configuration_wired repo valid rows pub"
  shows "triple (reached repo valid rows w0 F) (cp_existing_receipt pub p c r)
    (\<lambda>rc. reached repo valid rows w0 (\<lambda>X. F X \<and> rc_resource rc = r \<and> rc_idempotent rc \<and> same_configuration c r))
    (\<lambda>_. reached repo valid rows w0 F)"
proof -
  have wired: "cr_metadata (cp_channels pub) = repo" "neutral valid rows (cr_clock (cp_channels pub))"
    using assms by (simp_all add: configuration_wired_def)
  show ?thesis unfolding cp_existing_receipt_def
    by (rule triple_pbind [OF reached_guard], rule reached_receipt [OF wired]) simp_all
qed

lemma reached_cp_published:
  assumes "configuration_wired repo valid rows pub"
  shows "triple (reached repo valid rows w0 (\<lambda>X. X = M(sr_resource_id c \<mapsto> r)
       \<and> (M (sr_resource_id c) = None \<or> M (sr_resource_id c) = Some r)))
    (cp_existing_receipt pub p c r)
    (\<lambda>rc. reached repo valid rows w0 (published same_configuration c M rc)) (\<lambda>_. reached repo valid rows w0 (no_entry_lost M))"
  by (rule triple_post [OF reached_cp_existing_receipt [OF assms]]) (auto simp: reached_def published_def)

lemma reached_cp_after_failure:
  assumes "configuration_wired repo valid rows pub" "configuration_candidate repo p i c"
  shows "triple (reached repo valid rows w0 (\<lambda>X. X = M \<or>
         (\<exists>v. M (sr_resource_id c) = None \<and> X = M(sr_resource_id c \<mapsto> c\<lparr>sr_record_version := v\<rparr>))))
    (cp_after_failure pub i p c exc)
    (\<lambda>rc. reached repo valid rows w0 (published same_configuration c M rc)) (\<lambda>_. reached repo valid rows w0 (no_entry_lost M))"
    (is "triple (reached _ _ _ _ ?G) _ ?Q ?E")
proof -
  let ?R = "reached repo valid rows w0"
  let ?k = "sr_resource_id c"
  have wired: "cp_metadata pub = repo" "identity_resource_id i = ?k"
    using assms by (simp_all add: configuration_wired_def configuration_candidate_def)
  have rethrow: "triple (?R F) (pthrow exc) ?Q ?E" if "\<And>X. F X \<Longrightarrow> ?G X" for F
    by (rule reached_pthrow, drule that, rule written_no_entry_lost)
  have winner: "triple (?R (\<lambda>X. ?G X \<and> Some r = X ?k)) (cp_existing_receipt pub p c r) ?Q ?E" for r
    by (rule triple_pre [OF reached_cp_published [OF assms(1)]]) (auto simp: reached_def)
  have "triple (?R ?G) (pbind (get_resource repo ?k False) (\<lambda>z. (case z of
      None \<Rightarrow> pthrow exc | Some winner \<Rightarrow> cp_existing_receipt pub p c winner))) ?Q ?E"
    by (rule reached_lookup [OF rethrow winner]) (erule conjunct1, rule written_no_entry_lost)
  then show ?thesis unfolding cp_after_failure_def wired by (intro triple_if rethrow)
qed

lemma reached_cp_publish:
  assumes "configuration_wired repo valid rows pub" "publication_ok (rt_ext (mr_runtime repo)) p" "schema_arg_ok schema" "wf_py payload"
  shows "triple (reached repo valid rows w0 (\<lambda>X. X = M)) (cp_publish pub p payload schema)
    (\<lambda>rc. reached repo valid rows w0 (\<lambda>X. \<exists>i c. configuration_candidate repo p i c \<and> published same_configuration c M rc X))
    (\<lambda>_. reached repo valid rows w0 (no_entry_lost M))"
  (is "triple _ _ ?Q ?E")
proof -
  have wired: "cp_metadata pub = repo" "cr_metadata (cp_channels pub) = repo" "neutral valid rows (cr_clock (cp_channels pub))"
    using assms(1) by (simp_all add: configuration_wired_def)
  let ?R = "reached repo valid rows w0"
  have rest: "triple (?R (\<lambda>X. X = M))
      (pbind (get_resource repo (identity_resource_id i) False) (\<lambda>found. (case found of
         Some existing \<Rightarrow> cp_existing_receipt pub p c existing | None \<Rightarrow> cp_publish_new pub i p c))) ?Q ?E"
    if c: "configuration_candidate repo p i c" for i c
  proof -
    from c have ok: "resource_ok (rt_ext (mr_runtime repo)) c" "sr_state c = PUBLISHED"
      "identity_resource_id i = sr_resource_id c" by (simp_all add: configuration_candidate_def)
    have weaken: "triple P m ?Q ?E" if "triple P m (\<lambda>rc. ?R (published same_configuration c M rc)) ?E" for P m
      by (rule triple_post [OF that]) (use c in \<open>auto simp: reached_def\<close>)
    have "triple (?R (\<lambda>X. X = M \<and> None = X (sr_resource_id c))) (cp_publish_new pub i p c) ?Q ?E"
      unfolding cp_publish_new_def wired(1)
      by (intro weaken reached_publish_new wired(2,3) ok(1,2) reached_cp_after_failure assms(1) c) simp
    moreover have "triple (?R (\<lambda>X. X = M \<and> Some r = X (sr_resource_id c))) (cp_existing_receipt pub p c r) ?Q ?E" for r
      by (intro weaken triple_pre [OF reached_cp_published [OF assms(1)]]) (auto simp: reached_def)
    ultimately show ?thesis unfolding ok(3) by (intro reached_lookup) simp_all
  qed
  have "triple (\<lambda>w. ?R (\<lambda>X. X = M) w \<and> configuration_candidate repo p i c)
      (pbind (get_resource repo (identity_resource_id i) False) (\<lambda>found. (case found of
         Some existing \<Rightarrow> cp_existing_receipt pub p c existing | None \<Rightarrow> cp_publish_new pub i p c))) ?Q ?E" for i c
    by (rule triple_assume [of _ "configuration_candidate repo p i c"], simp, rule triple_pre [OF rest]) simp_all
  then have tail: "triple ((\<lambda>(i, c) w. ?R (\<lambda>X. X = M) w \<and> configuration_candidate repo p i c) z)
      (case z of (i, c) \<Rightarrow> pbind (get_resource repo (identity_resource_id i) False) (\<lambda>found. (case found of
         Some existing \<Rightarrow> cp_existing_receipt pub p c existing | None \<Rightarrow> cp_publish_new pub i p c))) ?Q ?E" for z
    by (cases z) simp
  have "triple (?R (\<lambda>X. X = M)) (cp_candidate pub p payload schema)
      (\<lambda>(i, c) w. ?R (\<lambda>X. X = M) w \<and> configuration_candidate repo p i c) ?E"
    by (rule triple_post [OF reached_cp_candidate [OF assms]]) (auto simp: reached_def)
  then show ?thesis unfolding cp_publish_def wired(1) by (rule triple_pbind) (rule tail)
qed

end

end
