(* ===== verification/Plugin.thy ===== *)
theory Plugin
  imports Publishing
begin

text \<open>
  The whole plugin over one runtime: besides the structured Catalog, whose contract is that of
  \<open>transactional_catalog\<close>, it calls the object Catalog, the payload registry, the Schema registry
  and a clock, none of which writes a structured collection. The publisher of artifacts and the
  lookups of both consumers are placed under the guarantees of \<open>Guarantees\<close>.
\<close>

text \<open>The expressions of the object Catalog.\<close>

fun object_call :: "expr \<Rightarrow> bool" where
  "object_call (OPut r a) = True"
| "object_call (OStat r o1) = True"
| "object_call (OGet r o1) = True"
| "object_call (ORange r o1 rng) = True"
| "object_call (OList r pre limit cursor purpose) = True"
| "object_call _ = False"

locale plugin_catalog = transactional_catalog repo rows key_field known valid
  for repo :: "'w metadata_repository" and rows key_field known valid +
  assumes object_reads: "object_call e \<Longrightarrow> neutral valid rows (rt_execute (mr_runtime repo) e)"
    and schema_reads: "neutral valid rows (rt_schema (mr_runtime repo) s)"
    and now_reads: "neutral valid rows (rt_now (mr_runtime repo))"
    and register_reads: "neutral valid rows (rt_register (mr_runtime repo) src dg n)"
    and release_reads: "neutral valid rows (rt_release (mr_runtime repo) p)"
    and open_reads: "neutral valid rows (rt_open (mr_runtime repo) p)"
    and stream_reads: "neutral valid rows (rt_read (mr_runtime repo) stream m)"
    and chunks_reads: "neutral valid rows (rt_chunks (mr_runtime repo) stream)"
    and close_reads: "neutral valid rows (rt_close (mr_runtime repo) stream z)"
    and validated_wf: "wf_py v \<Longrightarrow> x_validate_record (rt_ext (mr_runtime repo)) document v = Inr u \<Longrightarrow> wf_py u"

section \<open>Orphan candidates\<close>

context transactional_catalog
begin

text \<open>Recording an orphan candidate writes its own collection only.\<close>

lemma put_orphan_elsewhere:
  assumes "valid w" "put_orphan repo orphan w = (out, w')"
  shows "valid w' \<and> (\<forall>res. res \<noteq> mr_orphan_resource repo \<longrightarrow> rows res w' = rows res w)"
proof -
  let ?O = "mr_orphan_resource repo" and ?d = "orphan_to_record (rt_ext (mr_runtime repo)) orphan"
  obtain o1 w1 where p: "put_row repo ?O ?d w = (o1, w1)" by fastforce
  have d: "map_of ?d ''recordVersion'' = None" "map_of ?d (key_field ?O) = Some (PStr (oc_candidate_id orphan))"
    using layout_keys by (simp_all add: orphan_to_record_def)
  have one: "valid w1 \<and> (\<forall>res. res \<noteq> ?O \<longrightarrow> rows res w1 = rows res w)"
    by (rule put_row_cases [OF assms(1) layout_known(4) d p]) (auto simp: same_rows_def)
  obtain z w2 where g: "get_orphan repo (oc_candidate_id orphan) False w1 = (z, w2)" by fastforce
  have "same_rows valid rows w1 w2" using neutralD [OF neutral_get_orphan _ g] one by blast
  with one p g assms(2) show ?thesis
    by (auto simp: put_orphan_def pbind_def pcatch_def plift_def pret_def pthrow_def same_rows_def
        split: sum.splits option.splits if_splits)
qed

lemma put_orphan_moves:
  assumes "ledger_ok repo valid rows w" "put_orphan repo orphan w = (out, w')"
  shows "moves repo valid rows w w'" "catalogue repo rows w' = catalogue repo rows w"
proof -
  have "valid w' \<and> (\<forall>res. res \<noteq> mr_orphan_resource repo \<longrightarrow> rows res w' = rows res w)"
    using put_orphan_elsewhere [OF ledger_ok_parts(1) [OF assms(1)] assms(2)] .
  then show "moves repo valid rows w w'" "catalogue repo rows w' = catalogue repo rows w"
    using moves_elsewhere [OF assms(1)] layout_different by simp_all
qed

lemma reached_put_orphan:
  "triple (reached repo valid rows w0 F) (put_orphan repo orphan)
     (\<lambda>_. reached repo valid rows w0 F) (\<lambda>_. reached repo valid rows w0 F)"
proof -
  have "reached repo valid rows w0 F w'" if "reached repo valid rows w0 F w" "put_orphan repo orphan w = (out, w')" for w out w'
    using that put_orphan_moves [OF moves_ok that(2)] by (auto simp: reached_def intro: moves_trans)
  then show ?thesis by (intro tripleI)
qed

end

section \<open>Calls that write no structured collection\<close>

context plugin_catalog
begin

lemma neutral_object_run [neutral_rules]: "object_call e \<Longrightarrow> neutral valid rows (run (mr_runtime repo) e)"
  by (rule neutral_run) (rule neutralD [OF object_reads])

lemmas plugin_reads [neutral_rules] = schema_reads now_reads register_reads release_reads open_reads
  stream_reads chunks_reads close_reads

lemma neutral_objects [neutral_rules]:
  assumes "ob_runtime objects = mr_runtime repo"
  shows "neutral valid rows (put_object objects i p m dg n um cc pv)"
    "neutral valid rows (object_stat objects r)"
    "neutral valid rows (object_get objects r)"
    "neutral valid rows (object_read_range objects r rng)"
    "neutral valid rows (object_list objects pre limit cursor)"
  unfolding put_object_def object_stat_def object_get_def object_read_range_def object_list_def assms
  by (intro neutral_pbind neutral_plift neutral_object_run object_call.simps TrueI | simp add: neutral_object_run)+

lemma neutral_register_payload [neutral_rules]:
  "neutral valid rows (register_payload (mr_runtime repo) payload dg n)"
  unfolding register_payload_def Let_def
  by (cases payload) (auto intro!: neutral_pbind neutral_plift neutral_pret neutral_pthrow register_reads)

lemma neutral_validate_payload [neutral_rules]:
  "neutral valid rows (validate_payload (mr_runtime repo) payload s)"
  unfolding validate_payload_def by (intro neutral_rules)

lemma neutral_make_candidate [neutral_rules]:
  "neutral valid rows clk \<Longrightarrow> neutral valid rows (make_candidate x clk i pr p media dig len pl sch ob)"
  unfolding make_candidate_def by (intro neutral_rules)

lemma neutral_ap_put_object [neutral_rules]:
  "ob_runtime (ap_objects pub) = mr_runtime repo \<Longrightarrow>
    neutral valid rows (ap_put_object pub i p dg n media actor prov)"
  unfolding ap_put_object_def by (intro neutral_rules)

lemma neutral_ap_candidate [neutral_rules]:
  "neutral valid rows (ap_clock pub) \<Longrightarrow> neutral valid rows (ap_candidate pub i p ob dg n media)"
  unfolding ap_candidate_def by (intro neutral_rules)

end

section \<open>Publication of artifacts\<close>

definition artifact_wired ::
  "'w metadata_repository \<Rightarrow> ('w \<Rightarrow> bool) \<Rightarrow> (resource_ref \<Rightarrow> 'w \<Rightarrow> pyval dict list) \<Rightarrow> 'w artifact_publisher \<Rightarrow> bool" where
  "artifact_wired repo valid rows pub \<longleftrightarrow> ap_metadata pub = repo \<and> ob_runtime (ap_objects pub) = mr_runtime repo
     \<and> ap_payloads pub = mr_runtime repo \<and> cr_metadata (ap_channels pub) = repo
     \<and> neutral valid rows (cr_clock (ap_channels pub)) \<and> neutral valid rows (ap_clock pub)"

definition artifact_candidate ::
  "'w metadata_repository \<Rightarrow> publication \<Rightarrow> resource_identity \<Rightarrow> stored_resource \<Rightarrow> bool" where
  "artifact_candidate repo p i c \<longleftrightarrow>
     mk_identity (pb_namespace p) (pb_kind p) (pb_name p) (pb_version p) = Inr i
     \<and> resource_ok (rt_ext (mr_runtime repo)) c \<and> sr_state c = PUBLISHED \<and> sr_identity c = i
     \<and> sr_resource_id c = identity_resource_id i \<and> sr_profile c = ARTIFACT_PROFILE"

context plugin_catalog
begin

lemma reached_record_orphan:
  assumes "artifact_wired repo valid rows pub"
  shows "triple (reached repo valid rows w0 F) (record_orphan pub c reason)
    (\<lambda>_. reached repo valid rows w0 F) (\<lambda>_. reached repo valid rows w0 F)"
proof -
  have clk: "neutral valid rows (timestamp_now (ap_clock pub))" and repo: "ap_metadata pub = repo"
    using assms by (simp_all add: artifact_wired_def neutral_timestamp_now)
  show ?thesis unfolding record_orphan_def repo
    by (intro triple_case_option reached_pthrow triple_pbind [OF reached_neutral [OF clk]]
        triple_pbind [OF reached_neutral [OF neutral_plift]] triple_pcatch [OF reached_put_orphan]
        reached_neutral [OF neutral_pret])
qed

lemma reached_ap_candidate:
  assumes "artifact_wired repo valid rows pub" "publication_ok (rt_ext (mr_runtime repo)) p"
    "mk_identity (pb_namespace p) (pb_kind p) (pb_name p) (pb_version p) = Inr i"
  shows "triple (reached repo valid rows w0 F) (ap_candidate pub i p object dig len media)
    (\<lambda>c w. reached repo valid rows w0 F w \<and> artifact_candidate repo p i c) (\<lambda>_. reached repo valid rows w0 F)"
proof -
  have wired: "ap_metadata pub = repo" "neutral valid rows (ap_clock pub)"
    using assms(1) by (simp_all add: artifact_wired_def)
  note keep = reached_neutral [OF neutral_ap_candidate [OF wired(2)]]
  have "artifact_candidate repo p i c" if r: "ap_candidate pub i p object dig len media w = (Inr c, w')" for w c w'
  proof -
    from r obtain ob where "make_candidate (rt_ext (mr_runtime repo)) (ap_clock pub) i ARTIFACT_PROFILE p media
        dig len PNone None (Some ob) w = (Inr c, w')"
      by (auto simp: ap_candidate_def wired(1) split: option.splits)
    from make_candidate_ok [OF this assms(2)] assms(3) show ?thesis by (simp add: artifact_candidate_def)
  qed
  with keep show ?thesis by (rule triple_result)
qed

lemma reached_ap_existing_receipt:
  assumes "artifact_wired repo valid rows pub"
  shows "triple (reached repo valid rows w0 F) (ap_existing_receipt pub i p c r)
    (\<lambda>rc. reached repo valid rows w0 (\<lambda>X. F X \<and> rc_resource rc = r \<and> rc_idempotent rc \<and> same_artifact c r))
    (\<lambda>_. reached repo valid rows w0 F)"
proof -
  have wired: "cr_metadata (ap_channels pub) = repo" "neutral valid rows (cr_clock (ap_channels pub))"
    using assms by (simp_all add: artifact_wired_def)
  show ?thesis unfolding ap_existing_receipt_def
    by (rule triple_pbind [OF reached_guard], rule reached_receipt [OF wired]) simp_all
qed

lemma reached_ap_published:
  assumes "artifact_wired repo valid rows pub"
  shows "triple (reached repo valid rows w0 (\<lambda>X. X = M(sr_resource_id c \<mapsto> r)
       \<and> (M (sr_resource_id c) = None \<or> M (sr_resource_id c) = Some r)))
    (ap_existing_receipt pub i p c r)
    (\<lambda>rc. reached repo valid rows w0 (published same_artifact c M rc)) (\<lambda>_. reached repo valid rows w0 (no_entry_lost M))"
  by (rule triple_post [OF reached_ap_existing_receipt [OF assms]]) (auto simp: reached_def published_def)

lemma reached_ap_after_failure:
  assumes "artifact_wired repo valid rows pub" "artifact_candidate repo p i c"
  shows "triple (reached repo valid rows w0 (\<lambda>X. X = M \<or>
         (\<exists>v. M (sr_resource_id c) = None \<and> X = M(sr_resource_id c \<mapsto> c\<lparr>sr_record_version := v\<rparr>))))
    (ap_after_failure pub i p c exc)
    (\<lambda>rc. reached repo valid rows w0 (published same_artifact c M rc)) (\<lambda>_. reached repo valid rows w0 (no_entry_lost M))"
    (is "triple (reached _ _ _ _ ?G) _ ?Q ?E")
proof -
  let ?R = "reached repo valid rows w0"
  let ?k = "sr_resource_id c"
  have wired: "ap_metadata pub = repo" "identity_resource_id i = ?k"
    using assms by (simp_all add: artifact_wired_def artifact_candidate_def)
  have rethrow: "triple (?R F) (pthrow e) ?Q ?E" if "\<And>X. F X \<Longrightarrow> ?G X" for F e
    by (rule reached_pthrow, drule that, rule written_no_entry_lost)
  have orphaned: "triple (?R F) (pbind (record_orphan pub c reason) (\<lambda>_. pthrow e)) ?Q ?E" if "\<And>X. F X \<Longrightarrow> ?G X" for F reason e
  proof (rule triple_pbind)
    show "triple (?R F) (record_orphan pub c reason) (\<lambda>_. ?R F) ?E"
      by (rule triple_post [OF reached_record_orphan [OF assms(1)]], assumption,
          erule reached_weaken, drule that, rule written_no_entry_lost)
    show "triple (?R F) (pthrow e) ?Q ?E" by (rule rethrow) (rule that)
  qed
  have winner: "triple (?R (\<lambda>X. ?G X \<and> Some r = X ?k)) (ap_existing_receipt pub i p c r) ?Q ?E" for r
    by (rule triple_pre [OF reached_ap_published [OF assms(1)]]) (auto simp: reached_def)
  have "triple (?R ?G) (pbind (get_resource repo ?k False) (\<lambda>z. (case z of
      None \<Rightarrow> pbind (record_orphan pub c reason) (\<lambda>_. pthrow e)
    | Some winner \<Rightarrow> ap_existing_receipt pub i p c winner))) ?Q ?E" for reason e
    by (rule reached_lookup [OF orphaned winner]) (erule conjunct1, rule written_no_entry_lost)
  then have looked: "triple (?R ?G) (pbind (get_resource repo ?k False) (\<lambda>z. (case z of
      Some winner \<Rightarrow> ap_existing_receipt pub i p c winner
    | None \<Rightarrow> pbind (record_orphan pub c reason) (\<lambda>_. pthrow e)))) ?Q ?E" for reason e .
  show ?thesis unfolding ap_after_failure_def Let_def wired
    by (intro triple_if rethrow looked orphaned)
qed

text \<open>What a publication of an artifact leaves: the resource it returns, under its identity.\<close>

lemma reached_ap_publish_new:
  assumes "artifact_wired repo valid rows pub" "publication_ok (rt_ext (mr_runtime repo)) p"
    "mk_identity (pb_namespace p) (pb_kind p) (pb_name p) (pb_version p) = Inr i"
  shows "triple (reached repo valid rows w0 (\<lambda>X. X = M \<and> None = X (identity_resource_id i)))
    (ap_publish_new pub i p registered media)
    (\<lambda>rc. reached repo valid rows w0 (\<lambda>X. \<exists>i c. artifact_candidate repo p i c \<and> published same_artifact c M rc X))
    (\<lambda>_. reached repo valid rows w0 (no_entry_lost M))"
  (is "triple ?P _ ?Q ?E")
proof -
  let ?R = "reached repo valid rows w0"
  have wired: "ap_metadata pub = repo" "cr_metadata (ap_channels pub) = repo"
    "neutral valid rows (cr_clock (ap_channels pub))" "ob_runtime (ap_objects pub) = mr_runtime repo"
    using assms(1) by (simp_all add: artifact_wired_def)
  have lost: "?R (\<lambda>X. X = M \<and> None = X k) w \<Longrightarrow> ?E e w" for k e w by (auto simp: reached_def)
  have tail: "triple (\<lambda>w. ?P w \<and> artifact_candidate repo p i c)
      (pbind (pcatch (pbind (commit same_artifact repo i c) (\<lambda>stored. pret (Inl stored)))
        (\<lambda>exc. pbind (ap_after_failure pub i p c exc) (\<lambda>receipt. pret (Inr receipt)))) (\<lambda>z.
      (case z of
         Inr receipt \<Rightarrow> pret receipt
       | Inl stored \<Rightarrow> pbind (promote_optional (ap_channels pub) ARTIFACT_PROFILE stored (pb_channel p)
             (pb_expected_pointer p) (pb_actor p)) (\<lambda>promoted.
           pret \<lparr>rc_resource = stored, rc_idempotent = idempotent, rc_object_committed = True,
             rc_metadata_committed = True, rc_channel = promoted, rc_orphan_candidate = None\<rparr>)))) ?Q ?E" for c idempotent
  proof (rule triple_assume [of _ "artifact_candidate repo p i c"], simp)
    assume c: "artifact_candidate repo p i c"
    then have ok: "resource_ok (rt_ext (mr_runtime repo)) c" "sr_state c = PUBLISHED"
      "sr_resource_id c = identity_resource_id i" by (simp_all add: artifact_candidate_def)
    show ?thesis
      by (rule triple_post [OF triple_pre [OF reached_publish_new [OF wired(2,3) ok(1,2) reached_ap_after_failure [OF assms(1) c]]]])
        (use c in \<open>auto simp: reached_def ok(3)\<close>)
  qed
  have candidate: "triple ?P (ap_candidate pub i p ob dig len m) (\<lambda>c w. ?P w \<and> artifact_candidate repo p i c) ?E" for ob dig len m
    by (rule triple_post [OF reached_ap_candidate [OF assms]]) (simp_all add: lost)
  have put: "triple ?P (ap_put_object pub i r d n m a v) (\<lambda>_. ?P) ?E" for r d n m a v
    by (rule triple_post [OF reached_neutral [OF neutral_ap_put_object [OF wired(4)]]]) (simp_all add: lost)
  show ?thesis unfolding ap_publish_new_def wired(1)
    by (intro triple_pbind [OF put] triple_case_prod triple_pbind [OF candidate] tail)
qed

lemma reached_ap_publish_existing:
  assumes "artifact_wired repo valid rows pub" "publication_ok (rt_ext (mr_runtime repo)) p"
    "mk_identity (pb_namespace p) (pb_kind p) (pb_name p) (pb_version p) = Inr i"
  shows "triple (reached repo valid rows w0 (\<lambda>X. X = M \<and> Some r = X (identity_resource_id i)))
    (ap_publish_existing pub i p registered media r)
    (\<lambda>rc. reached repo valid rows w0 (\<lambda>X. \<exists>i c. artifact_candidate repo p i c \<and> published same_artifact c M rc X))
    (\<lambda>_. reached repo valid rows w0 (no_entry_lost M))"
  (is "triple ?P _ ?Q ?E")
proof -
  let ?R = "reached repo valid rows w0"
  have lost: "?P w \<Longrightarrow> ?E e w" for e w by (auto simp: reached_def)
  have receipt: "triple (\<lambda>w. ?P w \<and> artifact_candidate repo p i c) (ap_existing_receipt pub i p c r) ?Q ?E" for c
  proof (rule triple_assume [of _ "artifact_candidate repo p i c"], simp)
    assume c: "artifact_candidate repo p i c"
    then have "sr_resource_id c = identity_resource_id i" by (simp add: artifact_candidate_def)
    then show "triple (\<lambda>w. ?P w \<and> artifact_candidate repo p i c) (ap_existing_receipt pub i p c r) ?Q ?E"
      by (intro triple_post [OF triple_pre [OF reached_ap_published [OF assms(1), where c = c and M = M and r = r]]])
        (use c in \<open>auto simp: reached_def\<close>)
  qed
  have candidate: "triple ?P (ap_candidate pub i p ob dig len m) (\<lambda>c w. ?P w \<and> artifact_candidate repo p i c) ?E" for ob dig len m
    by (rule triple_post [OF reached_ap_candidate [OF assms]]) (simp_all add: lost)
  have guard: "triple ?P (plift (ensure b e)) (\<lambda>_. ?P) ?E" for b e
    by (rule triple_post [OF reached_neutral [OF neutral_plift]]) (simp_all add: lost)
  show ?thesis unfolding ap_publish_existing_def
    by (intro triple_pbind [OF guard] triple_pbind [OF candidate] receipt)
qed

lemma reached_ap_publish:
  assumes "artifact_wired repo valid rows pub" "publication_ok (rt_ext (mr_runtime repo)) p"
  shows "triple (reached repo valid rows w0 (\<lambda>X. X = M)) (ap_publish pub p payload dg n)
    (\<lambda>rc. reached repo valid rows w0 (\<lambda>X. \<exists>i c. artifact_candidate repo p i c \<and> published same_artifact c M rc X))
    (\<lambda>_. reached repo valid rows w0 (no_entry_lost M))"
  (is "triple ?P _ ?Q ?E")
proof -
  let ?R = "reached repo valid rows w0" and ?i = "mk_identity (pb_namespace p) (pb_kind p) (pb_name p) (pb_version p)"
  have wired: "ap_metadata pub = repo" "ap_payloads pub = mr_runtime repo"
    using assms(1) by (simp_all add: artifact_wired_def)
  have keep: "triple ?P m (\<lambda>_. ?P) ?E" if "neutral valid rows m" for m :: "('w, exn, 'b) prog"
    by (rule triple_post [OF reached_neutral [OF that]]) (auto simp: reached_def)
  have release: "triple (?R F) (pwhen b (rt_release (mr_runtime repo) r)) (\<lambda>_. ?R F) (\<lambda>_. ?R H)"
    if "\<And>X. F X \<Longrightarrow> H X" for F H b r
    by (rule triple_post [OF reached_neutral [OF neutral_pwhen [OF release_reads]]])
      (auto elim: reached_weaken intro: that)
  have body: "triple ?P (pfinally
      (pbind (get_resource repo (identity_resource_id i) False) (\<lambda>found. (case found of
         Some existing \<Rightarrow> ap_publish_existing pub i p registered media existing
       | None \<Rightarrow> ap_publish_new pub i p registered media)))
      (pwhen b (rt_release (mr_runtime repo) r))) ?Q ?E" if i: "?i = Inr i" for i registered media b r
    by (rule triple_pfinally [OF reached_lookup [OF reached_ap_publish_new [OF assms i] reached_ap_publish_existing [OF assms i]]
          release release]) (auto dest: published_no_entry_lost)
  have parsed: "triple ?P (plift ?i) (\<lambda>i w. ?P w \<and> ?i = Inr i) ?E"
    by (rule triple_plift) (auto simp: reached_def)
  have rest: "triple (\<lambda>w. ?P w \<and> ?i = Inr i)
      (pbind (plift (media_type (pb_media_type p))) (\<lambda>media.
       pbind (register_payload (mr_runtime repo) payload dg n) (\<lambda>registered.
       pfinally
         (pbind (get_resource repo (identity_resource_id i) False) (\<lambda>found. (case found of
            Some existing \<Rightarrow> ap_publish_existing pub i p registered media existing
          | None \<Rightarrow> ap_publish_new pub i p registered media)))
         (pwhen (rg_owned registered) (rt_release (mr_runtime repo) (rg_reference registered)))))) ?Q ?E" for i
  proof (rule triple_assume [of _ "?i = Inr i"], simp)
    assume i: "?i = Inr i"
    show ?thesis
      by (rule triple_pre [OF triple_pbind [OF keep [OF neutral_plift]
            triple_pbind [OF keep [OF neutral_register_payload] body [OF i]]]]) simp
  qed
  show ?thesis unfolding ap_publish_def wired by (rule triple_pbind [OF parsed rest])
qed

end

end
