(* ===== verification/Serving.thy ===== *)
theory Serving
  imports Plugin
begin

text \<open>
  The operations of a store as one step relation: whichever operation a client calls, with
  whatever outcome, the collections only move as \<open>moves\<close> allows. Reachability by any number of
  operations gives what holds over the life of a store.
\<close>

section \<open>Programs that may not return\<close>

definition dkeeps :: "('w \<Rightarrow> bool) \<Rightarrow> ('w, 'a) dprog \<Rightarrow> bool" where
  "dkeeps P m \<longleftrightarrow> (\<forall>w r w'. P w \<longrightarrow> m w = Some (r, w') \<longrightarrow> P w')"

lemma dkeepsD: "dkeeps P m \<Longrightarrow> P w \<Longrightarrow> m w = Some (r, w') \<Longrightarrow> P w'"
  unfolding dkeeps_def by blast

lemma dkeeps_dlift: "keeps P m \<Longrightarrow> dkeeps P (dlift m)"
  unfolding dkeeps_def dlift_def by (auto dest: keepsD)

lemma dkeeps_dbind:
  assumes "dkeeps P m" "\<And>x. dkeeps P (f x)"
  shows "dkeeps P (dbind m f)"
  unfolding dkeeps_def
proof (intro allI impI)
  fix w r w' assume w: "P w" "dbind m f w = Some (r, w')"
  then obtain o1 w1 where m: "m w = Some (o1, w1)" by (auto simp: dbind_def split: option.splits)
  then have "P w1" by (rule dkeepsD [OF assms(1) w(1)])
  with w(2) m dkeepsD [OF assms(2)] show "P w'" by (auto simp: dbind_def split: sum.splits)
qed

lemma keeps_const: "P w1 \<Longrightarrow> keeps P (\<lambda>_. (r, w1))"
  by (simp add: keeps_def)

lemma dkeeps_dfinally:
  assumes "dkeeps P m" "keeps P c"
  shows "dkeeps P (dfinally m c)"
  unfolding dkeeps_def
proof (intro allI impI)
  fix w r w' assume w: "P w" "dfinally m c w = Some (r, w')"
  then obtain o1 w1 where m: "m w = Some (o1, w1)" "pfinally (\<lambda>_. (o1, w1)) c w = (r, w')" by (auto simp: dfinally_def)
  from dkeepsD [OF assms(1) w(1) m(1)] show "P w'"
    by (intro keepsD [OF keeps_pfinally [OF keeps_const assms(2)] w(1) m(2)])
qed

lemma dkeeps_dguarded:
  assumes "dkeeps P m" "\<And>z. keeps P (exit z)"
  shows "dkeeps P (dguarded m exit)"
  unfolding dkeeps_def
proof (intro allI impI)
  fix w r w' assume w: "P w" "dguarded m exit w = Some (r, w')"
  then obtain o1 w1 where m: "m w = Some (o1, w1)" "guarded (\<lambda>_. (o1, w1)) exit w = (r, w')" by (auto simp: dguarded_def)
  from dkeepsD [OF assms(1) w(1) m(1)] show "P w'"
    by (intro keepsD [OF keeps_guarded [OF keeps_const assms(2)] w(1) m(2)])
qed

lemma keeps_reader_read: "(\<And>s n. keeps P (rt_read rt s n)) \<Longrightarrow> keeps P (reader_read rt n rd)"
  unfolding reader_read_def by (intro keeps_intros) (auto split: pyval.split intro: keeps_intros)

lemma dkeeps_drain:
  assumes "\<And>s n. keeps P (rt_read rt s n)"
  shows "dkeeps P (drain rt rd)"
proof -
  have "(\<forall>s n. keeps P (rt_read rt s n)) \<longrightarrow> P w \<longrightarrow> P (snd y)" if "drain rt rd w = Some y" for rd w y
  proof (rule drain.raw_induct [where P = "\<lambda>rt rd w y. (\<forall>s n. keeps P (rt_read rt s n)) \<longrightarrow> P w \<longrightarrow> P (snd y)", OF _ that])
    fix d and rt :: "'a runtime" and rd w y
    assume ih: "\<And>rt rd w y. d rt rd w = Some y \<Longrightarrow> (\<forall>s n. keeps P (rt_read rt s n)) \<longrightarrow> P w \<longrightarrow> P (snd y)"
      and step: "(case reader_read rt chunk_size rd w of (Inl e, w') \<Rightarrow> Some (Inl e, w')
        | (Inr (b, rd'), w') \<Rightarrow> if b = [] then Some (Inr rd', w') else d rt rd' w') = Some y"
    obtain r w1 where r: "reader_read rt chunk_size rd w = (r, w1)" by fastforce
    have "\<forall>s n. keeps P (rt_read rt s n) \<Longrightarrow> P w \<Longrightarrow> P w1"
      using keepsD [OF keeps_reader_read _ r] by blast
    with ih step r show "(\<forall>s n. keeps P (rt_read rt s n)) \<longrightarrow> P w \<longrightarrow> P (snd y)"
      by (cases y) (auto split: sum.splits if_splits)
  qed
  with assms show ?thesis unfolding dkeeps_def by fastforce
qed


section \<open>The consumers\<close>

definition consumer_wired :: "'w metadata_repository \<Rightarrow> 'w artifact_consumer \<Rightarrow> bool" where
  "consumer_wired repo con \<longleftrightarrow> ac_metadata con = repo \<and> ob_runtime (ac_objects con) = mr_runtime repo
     \<and> ac_payloads con = mr_runtime repo \<and> cr_metadata (ac_channels con) = repo"

lemma consumer_wiredD:
  assumes "consumer_wired repo con"
  shows "ac_metadata con = repo" "ob_runtime (ac_objects con) = mr_runtime repo"
    "ac_payloads con = mr_runtime repo" "cr_metadata (ac_channels con) = repo"
  using assms by (simp_all add: consumer_wired_def)

context plugin_catalog
begin

lemma neutral_missing_object [neutral_rules]: "neutral valid rows m \<Longrightarrow> neutral valid rows (missing_object r m)"
  unfolding missing_object_def by (intro neutral_rules)

lemma neutral_ac_stat [neutral_rules]: "consumer_wired repo con \<Longrightarrow> neutral valid rows (ac_stat con a)"
  unfolding ac_stat_def Let_def by (intro neutral_rules) (simp add: consumer_wiredD)

lemma neutral_checked_read [neutral_rules]:
  "consumer_wired repo con \<Longrightarrow> neutral valid rows m \<Longrightarrow> neutral valid rows (checked_read con r m)"
  unfolding checked_read_def by (simp only: consumer_wiredD) (intro neutral_rules)

lemma neutral_ac_range_read [neutral_rules]:
  "consumer_wired repo con \<Longrightarrow> neutral valid rows (ac_range_read con a rng)"
  unfolding ac_range_read_def Let_def
  by (simp only: consumer_wiredD(3)) (intro neutral_rules, simp_all add: consumer_wiredD)

lemma neutral_reader_read [neutral_rules]: "neutral valid rows (reader_read (mr_runtime repo) n rd)"
  unfolding neutral_keeps using keeps_reader_read [of _ "mr_runtime repo"] stream_reads
  by (simp add: neutral_keeps)

lemma keeps_discover_orphans:
  assumes "consumer_wired repo con"
  shows "keeps (moves repo valid rows w0) (discover_orphans con limit cursor record_it)"
proof -
  have put: "keeps (moves repo valid rows w0) (put_orphan repo orphan)" for orphan
    by (rule keeps_movesI) (rule put_orphan_moves(1))
  have "keeps (moves repo valid rows w0) (discover_item con record_it m)" for m
    unfolding discover_item_def consumer_wiredD [OF assms]
    by (intro keeps_intros put keeps_moves_neutral [OF neutral_get_resource] keeps_moves_neutral [OF neutral_timestamp_now]
        now_reads)
  then show ?thesis unfolding discover_orphans_def
    by (intro keeps_intros keeps_moves_neutral [OF neutral_objects(5)] consumer_wiredD(2) [OF assms])
qed

text \<open>Reading through \<open>open\<close> writes no structured collection, if the client's body does not.\<close>

lemma keeps_ac_open:
  assumes "consumer_wired repo con" "\<And>rd. keeps (moves repo valid rows w0) (body rd)"
  shows "dkeeps (moves repo valid rows w0) (ac_open con a body)"
proof -
  have r: "keeps (moves repo valid rows w0) m" if "neutral valid rows m" for m :: "('w, exn, 'b) prog"
    using keeps_moves_neutral [OF that] .
  have v: "dkeeps (moves repo valid rows w0) (reader_verify (mr_runtime repo) rd)" for rd
    unfolding reader_verify_def
    by (simp add: keeps_pret keeps_pthrow) (intro conjI impI dkeeps_dlift dkeeps_dbind dkeeps_drain keeps_intros r stream_reads)
  have p: "(\<And>x y. dkeeps Q (g x y)) \<Longrightarrow> dkeeps Q (case z of (x, y) \<Rightarrow> g x y)" for z Q and g :: "'c \<Rightarrow> 'd \<Rightarrow> ('w, 'e) dprog"
    by (cases z) simp
  show ?thesis unfolding ac_open_def Let_def consumer_wiredD [OF assms(1)]
    by (intro dkeeps_dbind dkeeps_dfinally dkeeps_dguarded dkeeps_dlift p v assms(2) keeps_pret r
        neutral_pbind neutral_plift neutral_checked_read assms(1) neutral_objects(3) plugin_reads
        consumer_wiredD(2) [OF assms(1)])
qed

end


section \<open>The store\<close>

text \<open>The parts of a store share the repository, the runtime and clocks that write nothing.\<close>

definition store_wired ::
  "'w metadata_repository \<Rightarrow> ('w \<Rightarrow> bool) \<Rightarrow> (resource_ref \<Rightarrow> 'w \<Rightarrow> pyval dict list) \<Rightarrow> 'w resource_store \<Rightarrow> bool" where
  "store_wired repo valid rows st \<longleftrightarrow>
     configuration_wired repo valid rows (sp_configuration (st_publisher st))
     \<and> artifact_wired repo valid rows (sp_artifacts (st_publisher st))
     \<and> cr_metadata (sp_channels (st_publisher st)) = repo
     \<and> neutral valid rows (cr_clock (sp_channels (st_publisher st)))
     \<and> cc_metadata (sc_configurations (st_consumer st)) = repo
     \<and> cr_metadata (cc_channels (sc_configurations (st_consumer st))) = repo
     \<and> consumer_wired repo (sc_artifacts (st_consumer st))"

text \<open>What an application may supply to a store: a validator and a clock of its own.\<close>

definition options_ok ::
  "('w \<Rightarrow> bool) \<Rightarrow> (resource_ref \<Rightarrow> 'w \<Rightarrow> pyval dict list) \<Rightarrow> 'w validator option \<Rightarrow> 'w clock option \<Rightarrow> bool" where
  "options_ok valid rows validator clk \<longleftrightarrow>
     (\<forall>f. validator = Some f \<longrightarrow> (\<forall>v s. neutral valid rows (f v s))
        \<and> (\<forall>v s w u w'. wf_py v \<longrightarrow> f v s w = (Inr u, w') \<longrightarrow> wf_py u))
     \<and> (\<forall>c. clk = Some c \<longrightarrow> neutral valid rows c)"

text \<open>One operation of a client, whatever it returns. The arguments are well-formed Python values.\<close>

fun read_sizes :: "'w runtime \<Rightarrow> int list \<Rightarrow> reader \<Rightarrow> ('w, exn, string list \<times> reader) prog" where
  "read_sizes rt [] rd = pret ([], rd)"
| "read_sizes rt (n # ns) rd = pbind (reader_read rt n rd) (\<lambda>(b, rd').
     pbind (read_sizes rt ns rd') (\<lambda>(bs, rd''). pret (b # bs, rd'')))"

inductive store_step :: "'w resource_store \<Rightarrow> 'w \<Rightarrow> 'w \<Rightarrow> bool" for st where
  publish_configuration: "publication_ok (mr_ext (st_metadata st)) p \<Longrightarrow> schema_arg_ok s \<Longrightarrow> wf_py payload \<Longrightarrow>
     store_step st w (snd (publish_configuration (st_publisher st) p payload s w))"
| publish_artifact: "publication_ok (mr_ext (st_metadata st)) p \<Longrightarrow>
     store_step st w (snd (publish_artifact (st_publisher st) p payload dg n w))"
| promote: "store_step st w (snd (publisher_promote (st_publisher st) target channel expected actor w))"
| promote_configuration: "store_step st w (snd (cp_promote (sp_configuration (st_publisher st)) target channel expected actor w))"
| promote_artifact: "store_step st w (snd (ap_promote (sp_artifacts (st_publisher st)) target channel expected actor w))"
| deprecate_configuration: "store_step st w (snd (cp_deprecate (sp_configuration (st_publisher st)) i w))"
| deprecate_artifact: "store_step st w (snd (ap_deprecate (sp_artifacts (st_publisher st)) i w))"
| delete_configuration: "store_step st w (snd (cp_delete i w))"
| delete_artifact: "store_step st w (snd (ap_delete i w))"
| exact_configuration: "store_step st w (snd (cc_exact (sc_configurations (st_consumer st)) i w))"
| latest_configuration: "store_step st w (snd (cc_latest (sc_configurations (st_consumer st)) ns k nm w))"
| channel_configuration: "store_step st w (snd (cc_channel (sc_configurations (st_consumer st)) ns' k' nm' ch w))"
| list_configurations: "store_step st w (snd (cc_list_resources (sc_configurations (st_consumer st)) a b c d limit cursor w))"
| exact_artifact: "store_step st w (snd (ac_exact (sc_artifacts (st_consumer st)) i w))"
| latest_artifact: "store_step st w (snd (ac_latest (sc_artifacts (st_consumer st)) ns k nm w))"
| channel_artifact: "store_step st w (snd (ac_channel (sc_artifacts (st_consumer st)) ns' k' nm' ch w))"
| list_artifacts: "store_step st w (snd (ac_list_resources (sc_artifacts (st_consumer st)) a b c d limit cursor w))"
| stat_artifact: "store_step st w (snd (ac_stat (sc_artifacts (st_consumer st)) a' w))"
| open_artifact: "ac_open (sc_artifacts (st_consumer st)) a' (read_sizes (mr_runtime (st_metadata st)) ns) w = Some (out, w') \<Longrightarrow>
     store_step st w w'"
| read_artifact: "ac_read (sc_artifacts (st_consumer st)) a' w = Some (out, w') \<Longrightarrow> store_step st w w'"
| range_read: "store_step st w (snd (ac_range_read (sc_artifacts (st_consumer st)) a' rng w))"
| discover_orphans: "store_step st w (snd (discover_orphans (sc_artifacts (st_consumer st)) limit cursor record_it w))"


context plugin_catalog
begin

lemma triple_reached_moves:
  assumes "ledger_ok repo valid rows w"
    "triple (reached repo valid rows w (\<lambda>X. X = catalogue repo rows w)) m (\<lambda>x. reached repo valid rows w (F x)) (\<lambda>_. reached repo valid rows w G)"
  shows "moves repo valid rows w (snd (m w))"
proof -
  have "reached repo valid rows w (\<lambda>X. X = catalogue repo rows w) w" using moves_refl [OF assms(1)] by (simp add: reached_def)
  with tripleD [OF assms(2) this, of _ "snd (m w)"] show ?thesis
    by (cases "m w"; cases "fst (m w)") (auto simp: reached_def)
qed

lemma keeps_moves_from: "ledger_ok repo valid rows w \<Longrightarrow> keeps (moves repo valid rows w) m \<Longrightarrow> moves repo valid rows w (snd (m w))"
  unfolding keeps_def by (drule spec [of _ w], erule mp, rule moves_refl)

lemma neutral_moves_from: "ledger_ok repo valid rows w \<Longrightarrow> neutral valid rows m \<Longrightarrow> moves repo valid rows w (snd (m w))"
  by (intro keeps_moves_from keeps_moves_neutral)

lemma keeps_read_sizes: "(\<And>s n. keeps P (rt_read rt s n)) \<Longrightarrow> keeps P (read_sizes rt ns rd)"
  by (induction ns arbitrary: rd) (auto intro!: keeps_intros keeps_reader_read)

text \<open>The operations that are not publications, reads through \<open>open\<close> or reconciliation.\<close>

lemma store_wiredD:
  assumes "store_wired repo valid rows st"
  shows "configuration_wired repo valid rows (sp_configuration (st_publisher st))"
    "artifact_wired repo valid rows (sp_artifacts (st_publisher st))"
    "consumer_wired repo (sc_artifacts (st_consumer st))"
    "cp_metadata (sp_configuration (st_publisher st)) = repo" "ap_metadata (sp_artifacts (st_publisher st)) = repo"
    "cr_metadata (sp_channels (st_publisher st)) = repo" "neutral valid rows (cr_clock (sp_channels (st_publisher st)))"
    "cr_metadata (cp_channels (sp_configuration (st_publisher st))) = repo"
    "neutral valid rows (cr_clock (cp_channels (sp_configuration (st_publisher st))))"
    "cr_metadata (ap_channels (sp_artifacts (st_publisher st))) = repo"
    "neutral valid rows (cr_clock (ap_channels (sp_artifacts (st_publisher st))))"
    "cc_metadata (sc_configurations (st_consumer st)) = repo"
    "cr_metadata (cc_channels (sc_configurations (st_consumer st))) = repo"
  using assms by (simp_all add: store_wired_def configuration_wired_def artifact_wired_def)

lemma store_pointer_operations:
  assumes "store_wired repo valid rows st"
  shows "keeps (moves repo valid rows w0) (publisher_promote (st_publisher st) t ch ex ac)"
    "keeps (moves repo valid rows w0) (cp_promote (sp_configuration (st_publisher st)) t ch ex ac)"
    "keeps (moves repo valid rows w0) (ap_promote (sp_artifacts (st_publisher st)) t ch ex ac)"
    "keeps (moves repo valid rows w0) (cp_deprecate (sp_configuration (st_publisher st)) i)"
    "keeps (moves repo valid rows w0) (ap_deprecate (sp_artifacts (st_publisher st)) i)"
    "keeps (moves repo valid rows w0) (cp_delete i)" "keeps (moves repo valid rows w0) (ap_delete i)"
  unfolding publisher_promote_def cp_promote_def ap_promote_def cp_deprecate_def ap_deprecate_def cp_delete_def
    ap_delete_def forbid_delete_def store_wiredD(4,5) [OF assms]
  by (intro keeps_promote keeps_deprecate keeps_pthrow store_wiredD [OF assms])+

lemma store_read_operations:
  assumes "store_wired repo valid rows st"
  shows "neutral valid rows (cc_exact (sc_configurations (st_consumer st)) i)"
    "neutral valid rows (cc_latest (sc_configurations (st_consumer st)) ns k nm)"
    "neutral valid rows (cc_channel (sc_configurations (st_consumer st)) ns' k' nm' ch)"
    "neutral valid rows (cc_list_resources (sc_configurations (st_consumer st)) a b c d limit cursor)"
    "neutral valid rows (ac_exact (sc_artifacts (st_consumer st)) i)"
    "neutral valid rows (ac_latest (sc_artifacts (st_consumer st)) ns k nm)"
    "neutral valid rows (ac_channel (sc_artifacts (st_consumer st)) ns' k' nm' ch)"
    "neutral valid rows (ac_list_resources (sc_artifacts (st_consumer st)) a b c d limit cursor)"
    "neutral valid rows (ac_stat (sc_artifacts (st_consumer st)) arg)"
    "neutral valid rows (ac_range_read (sc_artifacts (st_consumer st)) arg rng)"
  unfolding cc_exact_def cc_latest_def cc_channel_def cc_list_resources_def
    ac_exact_def ac_latest_def ac_channel_def ac_list_resources_def store_wiredD(12) [OF assms]
    consumer_wiredD(1) [OF store_wiredD(3) [OF assms]]
  by (intro neutral_resolve_exact neutral_resolve_latest neutral_resolve_channel neutral_list_resources
      neutral_ac_stat neutral_ac_range_read store_wiredD [OF assms] consumer_wiredD(4) [OF store_wiredD(3) [OF assms]])+

lemma store_step_moves:
  assumes "store_step st w w'" "st_metadata st = repo" "store_wired repo valid rows st" "ledger_ok repo valid rows w"
  shows "moves repo valid rows w w'"
proof -
  note con = store_wiredD(3) [OF assms(3)]
  note kept = keeps_moves_from [OF assms(4)] and read = neutral_moves_from [OF assms(4)]
  have stream: "keeps (moves repo valid rows w) (rt_read (mr_runtime repo) s n)" for s n
    by (rule keeps_moves_neutral [OF stream_reads])
  have start: "moves repo valid rows w w" using assms(4) by (rule moves_refl)
  from assms(1) show ?thesis
  proof cases
    case (publish_configuration p s payload)
    from triple_reached_moves [OF assms(4) reached_cp_publish [OF store_wiredD(1) [OF assms(3)]]] publish_configuration assms(2)
    show ?thesis by (simp add: publish_configuration_def)
  next
    case (publish_artifact p payload dg n)
    from triple_reached_moves [OF assms(4) reached_ap_publish [OF store_wiredD(2) [OF assms(3)]]] publish_artifact assms(2)
    show ?thesis by (simp add: publish_artifact_def)
  next
    case (open_artifact a' ns out)
    then show ?thesis
      using dkeepsD [OF keeps_ac_open [OF con keeps_read_sizes [OF stream]] start] assms(2) by simp
  next
    case (read_artifact a' out)
    then show ?thesis unfolding ac_read_def consumer_wiredD [OF con]
      using dkeepsD [OF keeps_ac_open [OF con keeps_reader_read [OF stream]] start] by simp
  next
    case (discover_orphans limit cursor record_it)
    then show ?thesis using kept [OF keeps_discover_orphans [OF con]] by simp
  qed (simp_all only: kept [OF store_pointer_operations(1) [OF assms(3)]] kept [OF store_pointer_operations(2) [OF assms(3)]]
      kept [OF store_pointer_operations(3) [OF assms(3)]] kept [OF store_pointer_operations(4) [OF assms(3)]]
      kept [OF store_pointer_operations(5) [OF assms(3)]] kept [OF store_pointer_operations(6)[OF assms(3)]]
      kept [OF store_pointer_operations(7) [OF assms(3)]] read [OF store_read_operations(1) [OF assms(3)]]
      read [OF store_read_operations(2) [OF assms(3)]] read [OF store_read_operations(3) [OF assms(3)]]
      read [OF store_read_operations(4) [OF assms(3)]] read [OF store_read_operations(5) [OF assms(3)]]
      read [OF store_read_operations(6) [OF assms(3)]] read [OF store_read_operations(7) [OF assms(3)]]
      read [OF store_read_operations(8) [OF assms(3)]] read [OF store_read_operations(9) [OF assms(3)]]
      read [OF store_read_operations(10) [OF assms(3)]])
qed

lemma store_steps_moves:
  assumes "(store_step st)\<^sup>*\<^sup>* w w'" "st_metadata st = repo" "store_wired repo valid rows st" "ledger_ok repo valid rows w"
  shows "moves repo valid rows w w'"
  using assms(1)
proof induction
  case base
  show ?case using assms(4) by (rule moves_refl)
next
  case (step u v)
  show ?case using step(3) store_step_moves [OF step(2) assms(2,3) moves_ok [OF step(3)]] by (rule moves_trans)
qed

text \<open>What the composition root builds is wired, over whatever runtime and options it is given.\<close>

lemma validate_payload_wf:
  "wf_py v \<Longrightarrow> validate_payload (mr_runtime repo) v s w = (Inr u, w') \<Longrightarrow> wf_py u"
  unfolding validate_payload_def by (auto simp: flow dest: validated_wf)

lemma mk_resource_store_wired:
  assumes "mk_resource_store rt co validator clk w = (Inr st, w')" "st_metadata st = repo"
    "options_ok valid rows validator clk"
  shows "store_wired repo valid rows st"
proof -
  from assms(1) obtain m o1 where st: "mr_runtime m = rt" "ob_runtime o1 = rt"
    "st = \<lparr>st_metadata = m, st_objects = o1, st_channels = mk_channel_repository m clk,
       st_publisher =
         \<lparr>sp_configuration = mk_configuration_publisher m
            (case validator of None \<Rightarrow> validate_payload rt | Some v \<Rightarrow> v) (mk_channel_repository m clk) clk,
          sp_artifacts = mk_artifact_publisher m o1 (mk_channel_repository m clk) rt clk,
          sp_channels = mk_channel_repository m clk\<rparr>,
       st_consumer =
         \<lparr>sc_configurations = \<lparr>cc_metadata = m, cc_channels = mk_channel_repository m clk\<rparr>,
          sc_artifacts = \<lparr>ac_metadata = m, ac_objects = o1, ac_channels = mk_channel_repository m clk,
            ac_payloads = rt\<rparr>\<rparr>\<rparr>"
    by (auto simp: mk_resource_store_def mk_metadata_repository_def mk_object_repository_def Let_def pbind_Inr_iff)
  with assms(2) have m: "m = repo" "rt = mr_runtime repo" by simp_all
  have clk: "neutral valid rows (case clk of None \<Rightarrow> rt_now (mr_runtime repo) | Some c \<Rightarrow> c)"
    using assms(3) now_reads by (simp add: options_ok_def split: option.split)
  let ?v = "case validator of None \<Rightarrow> validate_payload (mr_runtime repo) | Some f \<Rightarrow> f"
  have v1: "neutral valid rows (?v p s)" for p s
    using assms(3) neutral_validate_payload by (cases validator) (simp_all add: options_ok_def)
  have v2: "wf_py u" if "wf_py p" "?v p s w1 = (Inr u, w2)" for p s w1 u w2
  proof (cases validator)
    case None
    with that show ?thesis by (auto intro: validate_payload_wf)
  next
    case (Some f)
    with that assms(3) show ?thesis unfolding options_ok_def by (metis option.case(2))
  qed
  have "configuration_wired repo valid rows (mk_configuration_publisher repo
      (case validator of None \<Rightarrow> validate_payload (mr_runtime repo) | Some f \<Rightarrow> f) (mk_channel_repository repo clk) clk)"
    unfolding configuration_wired_def
    by (intro conjI allI impI) (simp_all add: mk_configuration_publisher_def mk_channel_repository_def clk v1, rule v2)
  then show ?thesis
    using st(2) clk unfolding st(3) m
    by (simp add: store_wired_def artifact_wired_def consumer_wired_def
        mk_channel_repository_def mk_artifact_publisher_def)
qed

section \<open>Publications of a store\<close>

lemma store_publish_configuration:
  assumes "st_metadata st = repo" "store_wired repo valid rows st"
    "publication_ok (rt_ext (mr_runtime repo)) p" "schema_arg_ok s" "wf_py payload" "ledger_ok repo valid rows w"
    "publish_configuration (st_publisher st) p payload s w = (out, w')"
  shows "moves repo valid rows w w'
    \<and> (case out of
        Inr rc \<Rightarrow> \<exists>i c. configuration_candidate repo p i c
          \<and> published same_configuration c (catalogue repo rows w) rc (catalogue repo rows w')
      | Inl e \<Rightarrow> no_entry_lost (catalogue repo rows w) (catalogue repo rows w'))"
proof -
  note t = reached_cp_publish [OF store_wiredD(1) [OF assms(2)] assms(3-5), of w "catalogue repo rows w"]
  have start: "reached repo valid rows w (\<lambda>X. X = catalogue repo rows w) w"
    using moves_refl [OF assms(6)] by (simp add: reached_def)
  from assms(7) have "cp_publish (sp_configuration (st_publisher st)) p payload s w = (out, w')"
    by (simp add: publish_configuration_def)
  with tripleD [OF t start] show ?thesis by (cases out) (auto simp: reached_def)
qed

lemma store_publish_artifact:
  assumes "st_metadata st = repo" "store_wired repo valid rows st"
    "publication_ok (rt_ext (mr_runtime repo)) p" "ledger_ok repo valid rows w"
    "publish_artifact (st_publisher st) p payload dg n w = (out, w')"
  shows "moves repo valid rows w w'
    \<and> (case out of
        Inr rc \<Rightarrow> \<exists>i c. artifact_candidate repo p i c
          \<and> published same_artifact c (catalogue repo rows w) rc (catalogue repo rows w')
      | Inl e \<Rightarrow> no_entry_lost (catalogue repo rows w) (catalogue repo rows w'))"
proof -
  note t = reached_ap_publish [OF store_wiredD(2) [OF assms(2)] assms(3), of w "catalogue repo rows w"]
  have start: "reached repo valid rows w (\<lambda>X. X = catalogue repo rows w) w"
    using moves_refl [OF assms(4)] by (simp add: reached_def)
  from assms(5) have "ap_publish (sp_artifacts (st_publisher st)) p payload dg n w = (out, w')"
    by (simp add: publish_artifact_def)
  with tripleD [OF t start] show ?thesis by (cases out) (auto simp: reached_def)
qed

text \<open>An exact lookup that returns reads the entry of its identity.\<close>

lemma resolve_exact_reads:
  assumes "ledger_ok repo valid rows w" "resolve_exact repo check i w = (Inr rs, w')"
  shows "catalogue repo rows w (identity_resource_id i) = Some (rs_resource rs)" "check (rs_resource rs) = Inr ()"
proof -
  from assms(2) obtain r where r: "get_resource repo (identity_resource_id i) True w = (Inr (Some r), w')"
    "check r = Inr ()" "rs_resource rs = r"
    by (auto simp: resolve_exact_def required_resource_def flow split: option.splits)
  from get_resource_spec(1) [OF ledger_ok_parts(1,2) [OF assms(1)] r(1)] r(2,3)
  show "catalogue repo rows w (identity_resource_id i) = Some (rs_resource rs)" "check (rs_resource rs) = Inr ()"
    by (simp_all add: catalogue_def)
qed

end

end
