(* ===== verification/Reference.thy ===== *)
theory Reference
  imports Ledger
begin

text \<open>
  Concrete functions for the imported packages, so that the contracts the plugin relies on have an
  instance and concrete runs evaluate: a canonical JSON printer (sorted keys, no white space) that
  checks its own output by decoding it, and parsers and printers for references and metadata. They
  are one choice among many; nothing about the plugin is proved from them except that the
  contracts can be met.
\<close>

section \<open>A canonical encoder\<close>

definition json_char :: "char \<Rightarrow> string" where
  "json_char c =
     (if c = CHR 0x22 then [CHR 0x5C, CHR 0x22]
      else if c = CHR 0x5C then [CHR 0x5C, CHR 0x5C]
      else if of_char c < (32 :: nat)
      then [CHR 0x5C, CHR ''u'', CHR ''0'', CHR ''0'',
            ''0123456789abcdef'' ! (of_char c div 16), ''0123456789abcdef'' ! (of_char c mod 16)]
      else [c])"

definition json_string :: "string \<Rightarrow> string" where
  "json_string s = CHR 0x22 # concat (map json_char s) @ [CHR 0x22]"

fun commas :: "string list \<Rightarrow> string" where
  "commas [] = []"
| "commas [s] = s"
| "commas (s # ss) = s @ CHR '','' # commas ss"

text \<open>Plain data only; a float is refused, since its shortest decimal is not modelled.\<close>

fun json_print :: "pyval \<Rightarrow> string option"
  and json_print_list :: "pyval list \<Rightarrow> string list option"
  and json_print_items :: "pyval dict \<Rightarrow> string list option" where
  "json_print PNone = Some ''null''"
| "json_print (PBool b) = Some (if b then ''true'' else ''false'')"
| "json_print (PInt i) = Some (int_str i)"
| "json_print (PStr s) = Some (json_string s)"
| "json_print (PList xs) = map_option (\<lambda>ss. ''['' @ commas ss @ '']'') (json_print_list xs)"
| "json_print (PDict d) = map_option (\<lambda>ss. ''{'' @ commas ss @ ''}'') (json_print_items d)"
| "json_print _ = None"
| "json_print_list [] = Some []"
| "json_print_list (x # xs) = (case (json_print x, json_print_list xs) of
     (Some s, Some ss) \<Rightarrow> Some (s # ss) | _ \<Rightarrow> None)"
| "json_print_items [] = Some []"
| "json_print_items (p # d) = (case (json_print (snd p), json_print_items d) of
     (Some s, Some ss) \<Rightarrow> Some ((json_string (fst p) @ CHR '':'' # s) # ss) | _ \<Rightarrow> None)"

definition normalize :: "pyval \<Rightarrow> pyval" where
  "normalize v = thaw_json (freeze_json (thaw_json v))"

definition reference_encode :: encoder where
  "reference_encode v = (let n = normalize v in
     (case json_print n of
        None \<Rightarrow> Inl (TypeError ''value is not canonical JSON'')
      | Some b \<Rightarrow> if json_loads b = Some n \<and> wf_py n \<and> normalize n = n then Inr b
          else Inl (ValueError ''value is not canonical JSON'')))"

lemma thaw_thaw [simp]: "thaw_json (thaw_json v) = thaw_json v"
  by (induction v rule: thaw_json.induct) (auto simp: o_def)

lemma thaw_json_data: "json_data v \<Longrightarrow> thaw_json v = v"
  by (induction v rule: json_data.induct) (auto simp: list_all_iff intro!: map_idI)

lemma normalize_thaw: "normalize (thaw_json v) = normalize v"
  by (simp add: normalize_def)

lemma normalize_freeze: "json_data v \<Longrightarrow> normalize (freeze_json v) = normalize v"
  by (simp add: normalize_def freeze_idem thaw_json_data)

lemma normalize_PDict: "\<exists>d'. normalize (PDict d) = PDict d' \<and> length d' = length d"
  by (simp add: normalize_def)

lemma reference_encode_Inr:
  "reference_encode v = Inr b \<longleftrightarrow> json_print (normalize v) = Some b
     \<and> json_loads b = Some (normalize v) \<and> wf_py (normalize v) \<and> normalize (normalize v) = normalize v"
  by (auto simp: reference_encode_def Let_def split: option.splits if_splits)

lemma reference_encode_cong: "normalize v = normalize v' \<Longrightarrow> reference_encode v = reference_encode v'"
  by (simp add: reference_encode_def)

section \<open>References and metadata\<close>

definition resource_ref_dict :: "resource_ref \<Rightarrow> pyval dict" where
  "resource_ref_dict r = [(''catalog'', PStr (rf_catalog r)), (''namespace'', PStr (rf_namespace r)),
     (''name'', PStr (rf_name r))]"

definition str_at :: "pyval dict \<Rightarrow> string \<Rightarrow> (exn, string) result" where
  "str_at d k = (case map_of d k of Some (PStr s) \<Rightarrow> Inr s | _ \<Rightarrow> Inl (ValueError k))"

definition int_at :: "pyval dict \<Rightarrow> string \<Rightarrow> (exn, int) result" where
  "int_at d k = (case map_of d k of Some (PInt i) \<Rightarrow> Inr i | _ \<Rightarrow> Inl (ValueError k))"

definition dict_at :: "pyval dict \<Rightarrow> string \<Rightarrow> (exn, pyval dict) result" where
  "dict_at d k = (case str_items (get_or d k PNone) of Some m \<Rightarrow> Inr m | None \<Rightarrow> Inl (ValueError k))"

definition parse_resource_ref :: "pyval dict \<Rightarrow> (exn, resource_ref) result" where
  "parse_resource_ref d = rbind (str_at d ''catalog'') (\<lambda>c. rbind (str_at d ''namespace'') (\<lambda>ns.
     rbind (str_at d ''name'') (\<lambda>n.
     Inr \<lparr>rf_catalog = c, rf_namespace = ns, rf_name = n\<rparr>)))"

definition object_ref_dict :: "object_ref \<Rightarrow> pyval dict" where
  "object_ref_dict r = [(''resourceRef'', PDict (resource_ref_dict (or_resource r))),
     (''objectId'', PStr (or_object_id r)), (''digest'', of_opt PStr (or_digest r))]"

definition parse_object_ref_dict :: "pyval dict \<Rightarrow> (exn, object_ref) result" where
  "parse_object_ref_dict d = rbind (dict_at d ''resourceRef'') (\<lambda>rd.
     rbind (parse_resource_ref rd) (\<lambda>r. rbind (str_at d ''objectId'') (\<lambda>oid.
     rbind (str_at d ''digest'') (\<lambda>dg.
     Inr \<lparr>or_resource = r, or_object_id = oid, or_digest = Some dg\<rparr>))))"

definition parse_object_ref :: "object_ref_arg \<Rightarrow> (exn, object_ref) result" where
  "parse_object_ref a = (case a of
     RefObject r \<Rightarrow> (case or_digest r of
         None \<Rightarrow> Inl (ValueError ''object reference has no digest'') | Some _ \<Rightarrow> Inr r)
   | RefMapping v \<Rightarrow> (case str_items v of
         None \<Rightarrow> Inl (TypeError ''object reference must be a mapping'')
       | Some d \<Rightarrow> parse_object_ref_dict d))"

definition object_metadata_dict :: "object_metadata \<Rightarrow> pyval dict" where
  "object_metadata_dict m =
     [(''objectRef'', PDict (object_ref_dict (om_object_ref m))), (''digest'', PStr (om_digest m)),
      (''byteLength'', PInt (om_byte_length m)), (''mediaType'', PStr (om_media_type m)),
      (''userMetadata'', PDict (om_user_metadata m))]"

definition parse_object_metadata :: "pyval dict \<Rightarrow> (exn, object_metadata) result" where
  "parse_object_metadata d = rbind (dict_at d ''objectRef'') (\<lambda>rd.
     rbind (parse_object_ref_dict rd) (\<lambda>r. rbind (str_at d ''digest'') (\<lambda>dg.
     rbind (int_at d ''byteLength'') (\<lambda>n. rbind (str_at d ''mediaType'') (\<lambda>m.
     rbind (dict_at d ''userMetadata'') (\<lambda>u.
     Inr \<lparr>om_object_ref = r, om_digest = dg, om_byte_length = n, om_media_type = m,
       om_user_metadata = u\<rparr>))))))"

definition payload_ref_dict :: "payload_ref \<Rightarrow> pyval dict" where
  "payload_ref_dict p = [(''handle'', PStr (pr_handle p)),
     (''expectedDigest'', of_opt PStr (pr_expected_digest p)),
     (''expectedLength'', of_opt PInt (pr_expected_length p))]"

definition parse_payload_ref :: "pyval dict \<Rightarrow> (exn, payload_ref) result" where
  "parse_payload_ref d = rbind (str_at d ''handle'') (\<lambda>h.
     Inr \<lparr>pr_handle = h,
       pr_expected_digest = (case map_of d ''expectedDigest'' of Some (PStr s) \<Rightarrow> Some s | _ \<Rightarrow> None),
       pr_expected_length = (case map_of d ''expectedLength'' of Some (PInt n) \<Rightarrow> Some n | _ \<Rightarrow> None)\<rparr>)"

text \<open>An inclusive range \<open>(start, end)\<close> within the bytes it is resolved against.\<close>

definition resolve_range :: "byte_range \<Rightarrow> int \<Rightarrow> (exn, int \<times> int) result" where
  "resolve_range v len = (case v of
     PTuple [PInt a, PInt b] \<Rightarrow> if 0 \<le> a \<and> a \<le> b \<and> a < len then Inr (a, min b (len - 1))
       else Inl (ValueError ''range is not satisfiable'')
   | _ \<Rightarrow> Inl (TypeError ''not a byte range''))"

definition reference_external :: external where
  "reference_external =
     \<lparr>x_canonical_json_bytes = reference_encode,
      x_parse_object_reference = parse_object_ref,
      x_object_reference_dict = (\<lambda>r. PDict (object_ref_dict r)),
      x_object_reference = (\<lambda>r oid dg. Inr \<lparr>or_resource = r, or_object_id = oid, or_digest = dg\<rparr>),
      x_parse_object_metadata = parse_object_metadata,
      x_parse_payload_reference = parse_payload_ref,
      x_parse_resource_ref = parse_resource_ref,
      x_resource_ref = (\<lambda>catalog r. if rf_catalog r = catalog then Inr r
         else Inl (ValueError ''resource belongs to another Catalog'')),
      x_resource_reference = Inr,
      x_range_length = (\<lambda>v len. rbind (resolve_range v len) (\<lambda>(a, b). Inr (b - a + 1))),
      x_schema_document = (\<lambda>s v. Inr v),
      x_validate_record = (\<lambda>document v. if is_mapping v then Inr (freeze_json v)
         else Inl (TypeError ''record must be a mapping''))\<rparr>"

lemma parse_object_ref_printed:
  "or_digest r \<noteq> None \<Longrightarrow> parse_object_ref (RefMapping (PDict (object_ref_dict r))) = Inr r"
  by (cases r; cases "or_resource r")
    (auto simp: parse_object_ref_def object_ref_dict_def parse_object_ref_dict_def dict_at_def
      str_at_def parse_resource_ref_def resource_ref_dict_def)

interpretation encoder: canonical_codec reference_encode
proof
  fix d b assume b: "reference_encode (PDict d) = Inr b"
  obtain d' where d': "normalize (PDict d) = PDict d'" "length d' = length d"
    using normalize_PDict by blast
  with b show "\<exists>d'. json_loads b = Some (PDict d') \<and> wf_dict d' \<and> length d' = length d
      \<and> reference_encode (PDict d') = Inr b"
    by (auto simp: reference_encode_Inr simp del: wf_py.simps)
next
  show "reference_encode (thaw_json v) = reference_encode v" for v
    by (rule reference_encode_cong) (rule normalize_thaw)
next
  show "json_data v \<Longrightarrow> reference_encode (freeze_json v) = reference_encode v" for v
    by (rule reference_encode_cong) (rule normalize_freeze)
qed

interpretation reference: external_contract reference_external
proof (unfold_locales, unfold reference_external_def external.select_convs)
  show "reference_encode (PDict d) = Inr b \<Longrightarrow> \<exists>d'. json_loads b = Some (PDict d') \<and> wf_dict d'
      \<and> length d' = length d \<and> reference_encode (PDict d') = Inr b" for d b
    by (rule encoder.decodes)
  show "reference_encode (thaw_json v) = reference_encode v" for v by (rule encoder.thawed)
  show "json_data v \<Longrightarrow> reference_encode (freeze_json v) = reference_encode v" for v
    by (rule encoder.reordered)
  show "parse_object_ref a = Inr r \<Longrightarrow> or_digest r \<noteq> None" for a r
    by (auto simp: parse_object_ref_def parse_object_ref_dict_def flow
        split: object_ref_arg.splits option.splits)
  show "or_digest r \<noteq> None \<Longrightarrow> parse_object_ref (RefObject r) = Inr r" for r
    by (auto simp: parse_object_ref_def)
  show "or_digest r \<noteq> None \<Longrightarrow> parse_object_ref (RefMapping (PDict (object_ref_dict r))) = Inr r" for r
    by (rule parse_object_ref_printed)
  show "is_mapping (PDict (object_ref_dict r)) \<and> wf_dict (object_ref_dict r)" for r
    by (auto simp: object_ref_dict_def resource_ref_dict_def of_opt_def split: option.split)
qed

lemma reference_encode_example:
  "reference_encode (PDict [(''b'', PInt (-12)), (''a'', PTuple [PBool True, PNone, PStr ''x'']) ])
     = Inr ''{\"a\":[true,null,\"x\"],\"b\":-12}''"
  by code_simp

end
