(* ===== verification/FakeRuntime.thy ===== *)
theory FakeRuntime
  imports Serving Reference "HOL-Library.Product_Lexorder"
begin

text \<open>
  The in-memory harness of \<open>tests/conftest.py\<close>, the repository's own provider of the runtime: four
  tables of rows keyed by their identity, a table of Objects, and the payload registry. Its rows
  are stored as written with a record version, conflicts and missing rows are errors, and a
  transaction is a \<open>nullcontext\<close> that counts itself. It provides the Catalog contract of the next
  theory, and concrete runs of the plugin evaluate on it.
\<close>

section \<open>The world\<close>

type_synonym table = "pyval dict dict"

record fake =
  fk_metadata :: table
  fk_channels :: table
  fk_provenance :: table
  fk_orphans :: table
  fk_objects :: "(object_metadata \<times> string) dict"
  fk_payloads :: "string dict"
  fk_streams :: "string dict"
  fk_handles :: int
  fk_fail_next_metadata_put :: bool
  fk_transactions :: int

definition empty_fake :: fake where
  "empty_fake = \<lparr>fk_metadata = [], fk_channels = [], fk_provenance = [], fk_orphans = [],
     fk_objects = [], fk_payloads = [], fk_streams = [], fk_handles = 0,
     fk_fail_next_metadata_put = False, fk_transactions = 0\<rparr>"

datatype fake_table = MetadataTable | ChannelTable | ProvenanceTable | OrphanTable

definition table_named :: "string \<Rightarrow> fake_table option" where
  "table_named n =
     (if n = ''metadata'' then Some MetadataTable
      else if n = ''channels'' then Some ChannelTable
      else if n = ''provenance'' then Some ProvenanceTable
      else if n = ''orphan-candidates'' then Some OrphanTable else None)"

definition key_name :: "fake_table \<Rightarrow> string" where
  "key_name t = (case t of MetadataTable \<Rightarrow> ''resourceId'' | ChannelTable \<Rightarrow> ''channelVersionId''
     | ProvenanceTable \<Rightarrow> ''provenanceId'' | OrphanTable \<Rightarrow> ''candidateId'')"

definition get_table :: "fake_table \<Rightarrow> fake \<Rightarrow> table" where
  "get_table t w = (case t of MetadataTable \<Rightarrow> fk_metadata w | ChannelTable \<Rightarrow> fk_channels w
     | ProvenanceTable \<Rightarrow> fk_provenance w | OrphanTable \<Rightarrow> fk_orphans w)"

definition set_table :: "fake_table \<Rightarrow> table \<Rightarrow> fake \<Rightarrow> fake" where
  "set_table t rows w = (case t of MetadataTable \<Rightarrow> w\<lparr>fk_metadata := rows\<rparr>
     | ChannelTable \<Rightarrow> w\<lparr>fk_channels := rows\<rparr> | ProvenanceTable \<Rightarrow> w\<lparr>fk_provenance := rows\<rparr>
     | OrphanTable \<Rightarrow> w\<lparr>fk_orphans := rows\<rparr>)"

section \<open>Structured Catalog\<close>

definition conditional_conflict :: exn where
  "conditional_conflict = ForeignError ConditionalConflict ''CONDITIONAL_CONFLICT'' CONFLICT"

definition record_not_found :: exn where
  "record_not_found = ForeignError (OtherMeridian ''ResourceNotFound'') ''RESOURCE_NOT_FOUND'' NOT_FOUND"

definition object_not_found :: exn where
  "object_not_found = ForeignError ObjectNotFound ''OBJECT_NOT_FOUND'' NOT_FOUND"

definition result_of :: "resource_ref \<Rightarrow> pyval \<Rightarrow> op_result" where
  "result_of res data = \<lparr>res_data = data, res_resources = [res]\<rparr>"

definition versioned :: "pyval dict \<Rightarrow> int \<Rightarrow> pyval dict" where
  "versioned d n = AList.update ''recordVersion'' (PInt n) d"

definition fake_put :: "resource_ref \<Rightarrow> fake_table \<Rightarrow> pyval dict \<Rightarrow> (fake, exn, op_result) prog" where
  "fake_put res t d w =
     (if t = MetadataTable \<and> fk_fail_next_metadata_put w
      then (Inl (RuntimeError ''injected metadata failure''), w\<lparr>fk_fail_next_metadata_put := False\<rparr>)
      else (case map_of d (key_name t) of
          Some (PStr key) \<Rightarrow>
            (case map_of (get_table t w) key of
               Some _ \<Rightarrow> (Inl conditional_conflict, w)
             | None \<Rightarrow> (let stored = versioned d 1 in
                 (Inr (result_of res (PDict stored)),
                  set_table t (get_table t w @ [(key, stored)]) w)))
        | _ \<Rightarrow> (Inl (KeyError (key_name t)), w)))"

definition fake_get :: "resource_ref \<Rightarrow> fake_table \<Rightarrow> pyval dict \<Rightarrow> (fake, exn, op_result) prog" where
  "fake_get res t wh w = (case filter (matches wh) (map snd (get_table t w)) of
     [] \<Rightarrow> (Inl record_not_found, w)
   | row # _ \<Rightarrow> (Inr (result_of res (PDict row)), w))"

definition row_version :: "pyval dict \<Rightarrow> int" where
  "row_version row = (case map_of row ''recordVersion'' of Some (PInt n) \<Rightarrow> n | _ \<Rightarrow> 0)"

definition patched :: "pyval dict \<Rightarrow> pyval dict \<Rightarrow> pyval dict" where
  "patched changes row = versioned (foldl (\<lambda>r p. AList.update (fst p) (snd p) r) row changes)
     (row_version row + 1)"

definition fake_patch ::
  "resource_ref \<Rightarrow> fake_table \<Rightarrow> pyval dict \<Rightarrow> pyval dict \<Rightarrow> pyval \<Rightarrow> (fake, exn, op_result) prog" where
  "fake_patch res t wh changes expected w =
     (let found = filter (matches wh) (map snd (get_table t w)) in
      if found = [] then (Inl record_not_found, w)
      else if expected \<noteq> PNone
        \<and> \<not> list_all (\<lambda>row. py_eq expected (get_or row ''recordVersion'' PNone)) found
      then (Inl conditional_conflict, w)
      else (Inr (result_of res (PList (map (\<lambda>row. PDict (patched changes row)) found))),
            set_table t (map (\<lambda>p. (fst p, if matches wh (snd p) then patched changes (snd p) else snd p))
              (get_table t w)) w))"

text \<open>The key of the harness's sort: a missing value sorts lowest; integers and strings by value.\<close>

definition sort_value :: "string \<Rightarrow> pyval dict \<Rightarrow> nat \<times> int \<times> string" where
  "sort_value f row = (case get_or row f PNone of
     PInt n \<Rightarrow> (1, n, []) | PStr s \<Rightarrow> (1, 0, s) | _ \<Rightarrow> (0, 0, []))"

definition sort_rows :: "sort_order \<Rightarrow> pyval dict list \<Rightarrow> pyval dict list" where
  "sort_rows o1 rows =
     (if so_direction o1 = ''desc''
      then rev (sort_key (sort_value (so_field o1)) (rev rows))
      else sort_key (sort_value (so_field o1)) rows)"

definition fake_query ::
  "resource_ref \<Rightarrow> fake_table \<Rightarrow> pyval dict \<Rightarrow> sort_order list \<Rightarrow> int \<Rightarrow> string option
    \<Rightarrow> (fake, exn, op_result) prog" where
  "fake_query res t wh order limit cursor w =
     (let rows = foldr sort_rows order (filter (matches wh) (map snd (get_table t w)));
          start = nat (case cursor of None \<Rightarrow> 0 | Some c \<Rightarrow> digits_val c);
          stop = start + nat limit in
      (Inr (result_of res (PDict
         [(''items'', PList (map PDict (take (nat limit) (drop start rows)))),
          (''cursor'', if stop < length rows then PStr (nat_digits stop) else PNone)])), w))"

definition with_table ::
  "resource_ref \<Rightarrow> (fake_table \<Rightarrow> (fake, exn, op_result) prog) \<Rightarrow> (fake, exn, op_result) prog" where
  "with_table res f = (case table_named (rf_name res) of
     None \<Rightarrow> pthrow (KeyError (rf_name res)) | Some t \<Rightarrow> f t)"

section \<open>Object Catalog and payloads\<close>

definition fake_register :: "payload_source \<Rightarrow> string \<Rightarrow> int \<Rightarrow> (fake, exn, payload_ref) prog" where
  "fake_register src dg n w =
     (let content = (case src of BytesSource s \<Rightarrow> s | GivenSource s \<Rightarrow> s | FactorySource s \<Rightarrow> s
            | StreamSource s \<Rightarrow> s);
          h = ''payload-'' @ int_str (fk_handles w) in
      (Inr \<lparr>pr_handle = h, pr_expected_digest = Some dg, pr_expected_length = Some n\<rparr>,
       w\<lparr>fk_payloads := (h, content) # fk_payloads w, fk_handles := fk_handles w + 1\<rparr>))"

definition fake_release :: "payload_ref \<Rightarrow> (fake, exn, unit) prog" where
  "fake_release p w = (Inr (), w\<lparr>fk_payloads := without [pr_handle p] (fk_payloads w)\<rparr>)"

definition fake_open :: "payload_ref \<Rightarrow> (fake, exn, string) prog" where
  "fake_open p w = (case map_of (fk_payloads w) (pr_handle p) of
     None \<Rightarrow> (Inl (KeyError ''payload reference''), w)
   | Some content \<Rightarrow> (Inr (pr_handle p),
       w\<lparr>fk_streams := AList.update (pr_handle p) content (fk_streams w)\<rparr>))"

text \<open>\<open>BytesIO.read\<close>: a negative size reads to the end.\<close>

definition fake_read :: "string \<Rightarrow> int \<Rightarrow> (fake, exn, pyval) prog" where
  "fake_read h n w = (case map_of (fk_streams w) h of
     None \<Rightarrow> (Inl (ValueError ''I/O operation on closed file''), w)
   | Some rest \<Rightarrow> (let k = (if n < 0 \<or> int (length rest) \<le> n then length rest else nat n) in
       (Inr (PBytes (take k rest)), w\<lparr>fk_streams := AList.update h (drop k rest) (fk_streams w)\<rparr>)))"

definition fake_chunks :: "string \<Rightarrow> (fake, exn, string list) prog" where
  "fake_chunks h = pbind (fake_read h (- 1)) (\<lambda>v. pret (case v of PBytes b \<Rightarrow> [b] | _ \<Rightarrow> []))"

definition fake_close :: "string \<Rightarrow> exn option \<Rightarrow> (fake, exn, unit) prog" where
  "fake_close h z w = (Inr (), w\<lparr>fk_streams := without [h] (fk_streams w)\<rparr>)"

definition metadata_result :: "resource_ref \<Rightarrow> object_metadata \<Rightarrow> op_result" where
  "metadata_result res m = result_of res (PDict [(''metadata'', PDict (object_metadata_dict m))])"

definition fake_object_put :: "resource_ref \<Rightarrow> object_put \<Rightarrow> (fake, exn, op_result) prog" where
  "fake_object_put res a =
     (\<lambda>w. if map_of (fk_objects w) (op_object_id a) \<noteq> None then (Inl conditional_conflict, w)
      else pbind (fake_open (op_payload a)) (\<lambda>h. pbind (guarded (fake_chunks h) (fake_close h)) (\<lambda>chunks w.
        (let payload = concat chunks; observed = sha256_digest payload;
             m = \<lparr>om_object_ref = \<lparr>or_resource = res, or_object_id = op_object_id a,
                    or_digest = Some observed\<rparr>,
                  om_digest = observed, om_byte_length = int (length payload),
                  om_media_type = op_media_type a,
                  om_user_metadata = str_dict (op_user_metadata a)\<rparr> in
         if observed \<noteq> op_expected_digest a \<or> int (length payload) \<noteq> op_expected_length a
         then (Inl (ValueError ''payload identity mismatch''), w)
         else (Inr (metadata_result res m),
               w\<lparr>fk_objects := (op_object_id a, (m, payload)) # fk_objects w\<rparr>)))) w)"

definition fake_stored_object ::
  "object_ref \<Rightarrow> (fake, exn, object_metadata \<times> string) prog" where
  "fake_stored_object r w = (case map_of (fk_objects w) (or_object_id r) of
     None \<Rightarrow> (Inl object_not_found, w)
   | Some (m, payload) \<Rightarrow>
       if or_digest r = None \<or> or_digest r = Some (om_digest m) then (Inr (m, payload), w)
       else (Inl object_not_found, w))"

definition fake_object_get ::
  "resource_ref \<Rightarrow> object_ref \<Rightarrow> byte_range option \<Rightarrow> (fake, exn, op_result) prog" where
  "fake_object_get res r rng =
     pbind (fake_stored_object r) (\<lambda>(m, payload).
     pbind (case rng of
         None \<Rightarrow> pret (payload, [])
       | Some v \<Rightarrow> pbind (plift (resolve_range v (int (length payload)))) (\<lambda>(a, b).
           pret (take (nat (b + 1 - a)) (drop (nat a) payload),
             [(''range'', PDict [(''start'', PInt a), (''end'', PInt b)])]))) (\<lambda>(part, extra).
     pbind (fake_register (BytesSource part) (om_digest m) (int (length part))) (\<lambda>p.
     pret (result_of res (PDict
       ([(''metadata'', PDict (object_metadata_dict m)),
         (''payload'', PDict (payload_ref_dict
            (if rng = None then p else p\<lparr>pr_expected_digest := None\<rparr>)))] @ extra))))))"

definition starts_with :: "string \<Rightarrow> string \<Rightarrow> bool" where
  "starts_with p s = (take (length p) s = p)"

definition fake_object_list :: "resource_ref \<Rightarrow> string \<Rightarrow> int \<Rightarrow> (fake, exn, op_result) prog" where
  "fake_object_list res pre limit w =
     (Inr (result_of res (PDict
       [(''items'', PList (take (nat limit) (map (\<lambda>p. PDict (object_metadata_dict (fst (snd p))))
          (filter (\<lambda>p. starts_with pre (fst p)) (sort_dict (fk_objects w)))))),
        (''cursor'', PNone)])), w)"

section \<open>The runtime\<close>

definition fake_execute :: "expr \<Rightarrow> (fake, exn, op_result) prog" where
  "fake_execute e = (case e of
     SGet res wh \<Rightarrow> with_table res (\<lambda>t. fake_get res t wh)
   | SPut res d mode \<Rightarrow> with_table res (\<lambda>t. fake_put res t d)
   | SPatch res wh changes expected \<Rightarrow> with_table res (\<lambda>t. fake_patch res t wh changes expected)
   | SQuery res wh order limit cursor \<Rightarrow> with_table res (\<lambda>t. fake_query res t wh order limit cursor)
   | OPut res a \<Rightarrow> fake_object_put res a
   | OStat res r \<Rightarrow> pbind (fake_stored_object r) (\<lambda>(m, _). pret (metadata_result res m))
   | OGet res r \<Rightarrow> fake_object_get res r None
   | ORange res r v \<Rightarrow> fake_object_get res r (Some v)
   | OList res pre limit cursor purpose \<Rightarrow> fake_object_list res pre limit)"

definition fake_now :: "(fake, exn, datetime) prog" where
  "fake_now = pret \<lparr>dt_civil = \<lparr>c_year = 2026, c_month = 1, c_day = 2, c_hour = 3, c_minute = 4,
     c_second = 5, c_micro = 123456\<rparr>, dt_offset = Some 0\<rparr>"

definition fake_schema_ref :: schema_ref where
  "fake_schema_ref = \<lparr>ps_namespace = ''application'', ps_name = ''service-config'',
     ps_version = ''1.0.0'', ps_catalog = ''structured''\<rparr>"

definition fake_schema :: "schema_ref \<Rightarrow> (fake, exn, pyval) prog" where
  "fake_schema s = (if s = fake_schema_ref
     then pret (PDict [(''fields'', PList [PStr ''endpoint'', PStr ''replicas''])])
     else pthrow (KeyError ''schema not found''))"

definition fake_runtime :: "fake runtime" where
  "fake_runtime =
     \<lparr>rt_ext = reference_external,
      rt_surface = (\<lambda>catalog. pret (catalog = ''structured'' \<or> catalog = ''object'')),
      rt_build = (\<lambda>e. Inr ()),
      rt_execute = fake_execute,
      rt_tx_enter = (\<lambda>res w. (Inr (), w\<lparr>fk_transactions := fk_transactions w + 1\<rparr>)),
      rt_tx_exit = (\<lambda>res z. pret ()),
      rt_schema = fake_schema,
      rt_now = fake_now,
      rt_register = fake_register,
      rt_release = fake_release,
      rt_open = fake_open,
      rt_read = fake_read,
      rt_chunks = fake_chunks,
      rt_close = fake_close\<rparr>"

text \<open>The store of the fixtures, on the default layout: what \<open>mk_resource_store\<close> builds.\<close>

definition fake_metadata :: "fake metadata_repository" where
  "fake_metadata = \<lparr>mr_runtime = fake_runtime, mr_metadata_resource = METADATA_RESOURCE,
     mr_channel_resource = CHANNEL_RESOURCE, mr_provenance_resource = PROVENANCE_RESOURCE,
     mr_orphan_resource = ORPHAN_RESOURCE\<rparr>"

definition fake_objects :: "fake object_repository" where
  "fake_objects = \<lparr>ob_runtime = fake_runtime, ob_resource = OBJECT_RESOURCE\<rparr>"

definition fake_channels :: "fake channel_repository" where
  "fake_channels = mk_channel_repository fake_metadata (Some fake_now)"

definition fake_store :: "fake resource_store" where
  "fake_store =
     \<lparr>st_metadata = fake_metadata, st_objects = fake_objects, st_channels = fake_channels,
      st_publisher =
        \<lparr>sp_configuration = mk_configuration_publisher fake_metadata (validate_payload fake_runtime)
           fake_channels (Some fake_now),
         sp_artifacts = mk_artifact_publisher fake_metadata fake_objects fake_channels fake_runtime
           (Some fake_now),
         sp_channels = fake_channels\<rparr>,
      st_consumer =
        \<lparr>sc_configurations = \<lparr>cc_metadata = fake_metadata, cc_channels = fake_channels\<rparr>,
         sc_artifacts = \<lparr>ac_metadata = fake_metadata, ac_objects = fake_objects,
           ac_channels = fake_channels, ac_payloads = fake_runtime\<rparr>\<rparr>\<rparr>"

lemma runtime_simps [simp]:
  "rt_ext fake_runtime = reference_external" "rt_build fake_runtime e = Inr ()"
  "rt_execute fake_runtime = fake_execute" "rt_tx_exit fake_runtime res z = pret ()"
  "rt_schema fake_runtime = fake_schema" "rt_now fake_runtime = fake_now"
  "rt_register fake_runtime = fake_register" "rt_release fake_runtime = fake_release"
  "rt_open fake_runtime = fake_open" "rt_read fake_runtime = fake_read"
  "rt_chunks fake_runtime = fake_chunks" "rt_close fake_runtime = fake_close"
  "rt_surface fake_runtime c = pret (c = ''structured'' \<or> c = ''object'')"
  "rt_tx_enter fake_runtime res w = (Inr (), w\<lparr>fk_transactions := fk_transactions w + 1\<rparr>)"
  by (simp_all add: fake_runtime_def)

lemma reference_simps [simp]:
  "x_canonical_json_bytes reference_external = reference_encode"
  "x_parse_object_reference reference_external = parse_object_ref"
  "x_object_reference_dict reference_external r = PDict (object_ref_dict r)"
  "x_object_reference reference_external res oid dg =
     Inr \<lparr>or_resource = res, or_object_id = oid, or_digest = dg\<rparr>"
  "x_parse_object_metadata reference_external = parse_object_metadata"
  "x_parse_payload_reference reference_external = parse_payload_ref"
  "x_parse_resource_ref reference_external = parse_resource_ref"
  "x_resource_ref reference_external c res = (if rf_catalog res = c then Inr res
     else Inl (ValueError ''resource belongs to another Catalog''))"
  "x_resource_reference reference_external = Inr"
  by (simp_all add: reference_external_def)

lemma fake_store_built:
  "mk_resource_store fake_runtime default_collections None (Some fake_now) w = (Inr fake_store, w)"
  by (simp add: mk_resource_store_def default_collections_def mk_metadata_repository_def
      mk_object_repository_def layout_defs fake_store_def fake_metadata_def
      fake_objects_def fake_channels_def Let_def pbind_def)

section \<open>The Catalog contract\<close>

definition fake_known :: "resource_ref set" where
  "fake_known = {METADATA_RESOURCE, CHANNEL_RESOURCE, PROVENANCE_RESOURCE, ORPHAN_RESOURCE}"

definition fake_table_of :: "resource_ref \<Rightarrow> fake_table option" where
  "fake_table_of res = (if res \<in> fake_known then table_named (rf_name res) else None)"

definition fake_rows :: "resource_ref \<Rightarrow> fake \<Rightarrow> pyval dict list" where
  "fake_rows res w = (case fake_table_of res of None \<Rightarrow> [] | Some t \<Rightarrow> map snd (get_table t w))"

definition fake_key :: "resource_ref \<Rightarrow> string" where
  "fake_key res = (case table_named (rf_name res) of None \<Rightarrow> [] | Some t \<Rightarrow> key_name t)"

definition table_ok :: "fake_table \<Rightarrow> table \<Rightarrow> bool" where
  "table_ok t rows = list_all (\<lambda>p. map_of (snd p) (key_name t) = Some (PStr (fst p))) rows"

definition fake_valid :: "fake \<Rightarrow> bool" where
  "fake_valid w = (table_ok MetadataTable (fk_metadata w) \<and> table_ok ChannelTable (fk_channels w)
     \<and> table_ok ProvenanceTable (fk_provenance w) \<and> table_ok OrphanTable (fk_orphans w))"

lemma tables_named [simp]:
  "table_named (rf_name METADATA_RESOURCE) = Some MetadataTable"
  "table_named (rf_name CHANNEL_RESOURCE) = Some ChannelTable"
  "table_named (rf_name PROVENANCE_RESOURCE) = Some ProvenanceTable"
  "table_named (rf_name ORPHAN_RESOURCE) = Some OrphanTable"
  by (simp_all add: layout_defs table_named_def)

lemma known_table:
  assumes "res \<in> fake_known"
  obtains t where "table_named (rf_name res) = Some t" "fake_table_of res = Some t"
    "fake_key res = key_name t" "\<And>f. with_table res f = f t"
    "\<And>res'. res' \<in> fake_known \<Longrightarrow> table_named (rf_name res') = Some t \<Longrightarrow> res' = res"
proof -
  from assms consider "res = METADATA_RESOURCE" | "res = CHANNEL_RESOURCE"
    | "res = PROVENANCE_RESOURCE" | "res = ORPHAN_RESOURCE"
    unfolding fake_known_def by blast
  then have "\<exists>t. table_named (rf_name res) = Some t \<and>
      (\<forall>res' \<in> fake_known. table_named (rf_name res') = Some t \<longrightarrow> res' = res)"
    by cases (simp_all add: fake_known_def)
  then obtain t where n: "table_named (rf_name res) = Some t"
    and u: "\<forall>res' \<in> fake_known. table_named (rf_name res') = Some t \<longrightarrow> res' = res" by blast
  show ?thesis
  proof (rule that [of t])
    show "table_named (rf_name res) = Some t" by (rule n)
    show "fake_table_of res = Some t" "fake_key res = key_name t" "with_table res f = f t" for f
      using n assms by (simp_all add: fake_table_of_def fake_key_def with_table_def)
    show "res' = res" if "res' \<in> fake_known" "table_named (rf_name res') = Some t" for res'
      using u that by blast
  qed
qed

lemma get_set_table [simp]:
  "get_table t (set_table t rows w) = rows"
  "t' \<noteq> t \<Longrightarrow> get_table t' (set_table t rows w) = get_table t' w"
  by (cases t; cases t'; simp add: get_table_def set_table_def)+

lemma fake_valid_table: "fake_valid w \<longleftrightarrow> (\<forall>t. table_ok t (get_table t w))"
proof
  assume "fake_valid w"
  then show "\<forall>t. table_ok t (get_table t w)"
    by (intro allI, rename_tac t, case_tac t) (simp_all add: fake_valid_def get_table_def)
next
  assume *: "\<forall>t. table_ok t (get_table t w)"
  from *[rule_format, of MetadataTable] *[rule_format, of ChannelTable]
    *[rule_format, of ProvenanceTable] *[rule_format, of OrphanTable]
  show "fake_valid w" by (simp add: fake_valid_def get_table_def)
qed

lemma table_ok_key:
  assumes "table_ok t rows" "map_of rows k = None" "row \<in> set (map snd rows)"
  shows "map_of row (key_name t) \<noteq> Some (PStr k)"
proof
  assume k: "map_of row (key_name t) = Some (PStr k)"
  from assms(3) obtain k' where p: "(k', row) \<in> set rows" by auto
  with assms(1) have "map_of row (key_name t) = Some (PStr k')"
    by (auto simp: table_ok_def list_all_iff)
  with k p assms(2) show False by (force simp: map_of_eq_None_iff)
qed

lemma key_name_not_version [simp]: "key_name t \<noteq> ''recordVersion''"
  by (cases t) (simp_all add: key_name_def)

lemma versioned_append: "map_of d ''recordVersion'' = None \<Longrightarrow> versioned d n = d @ [(''recordVersion'', PInt n)]"
  unfolding versioned_def by (induction d) (auto split: if_splits)

lemma matches_key: "matches [(k, PStr s)] row \<longleftrightarrow> map_of row k = Some (PStr s)"
  by (auto simp: matches_def get_or_def split: option.split)

lemma sort_rows_set [simp]: "set (sort_rows o1 rows) = set rows"
  by (simp add: sort_rows_def)

lemma set_foldr_sort [simp]: "set (foldr sort_rows os rows) = set rows"
  by (induction os) simp_all

text \<open>The first row of a descending sort has the largest value.\<close>

lemma sort_rows_top:
  assumes "\<forall>row \<in> set rows. \<exists>n. map_of row f = Some (PInt n)" "sort_rows (descending f) rows = row # rest"
  shows "\<exists>n. map_of row f = Some (PInt n) \<and>
    (\<forall>row' \<in> set rows. \<exists>n'. map_of row' f = Some (PInt n') \<and> n' \<le> n)"
proof -
  let ?s = "sort_key (sort_value f) (rev rows)"
  have s: "?s = rev rest @ [row]"
    using assms(2) by (simp add: sort_rows_def descending_def rev_swap)
  have "row \<in> set (sort_rows (descending f) rows)" unfolding assms(2) by simp
  then have row: "row \<in> set rows" by simp
  have v: "sort_value f r = (1, n, [])" if "map_of r f = Some (PInt n)" for r n
    using that by (simp add: sort_value_def get_or_def)
  from row assms(1) obtain n where n: "map_of row f = Some (PInt n)" by blast
  have "sorted (map (sort_value f) ?s)" by simp
  then have "\<forall>r \<in> set ?s. sort_value f r \<le> sort_value f row"
    unfolding s by (auto simp: sorted_append)
  then have "\<forall>r \<in> set rows. sort_value f r \<le> sort_value f row" by simp
  with assms(1) n v show ?thesis by (fastforce simp: less_eq_prod_def)
qed

lemma fake_execute_structured:
  assumes "res \<in> fake_known" "fake_table_of res = Some t"
  shows "fake_execute (SGet res wh) = fake_get res t wh"
    "fake_execute (SPut res d m) = fake_put res t d"
    "fake_execute (SQuery res wh os l c) = fake_query res t wh os l c"
proof -
  have "with_table res f = f t" for f
    using assms by (auto elim!: known_table)
  then show "fake_execute (SGet res wh) = fake_get res t wh"
    "fake_execute (SPut res d m) = fake_put res t d"
    "fake_execute (SQuery res wh os l c) = fake_query res t wh os l c"
    by (simp_all add: fake_execute_def)
qed

lemma fake_put_cases:
  assumes "fake_put res t d w = (out, w')" "map_of d (key_name t) = Some (PStr k)"
    "map_of d ''recordVersion'' = None" "fake_valid w"
  shows "(\<exists>e. out = Inl e \<and> (\<forall>t. get_table t w' = get_table t w)) \<or>
    (\<exists>row. out = Inr (result_of res (PDict row)) \<and> stored_as d row \<and> map_of (get_table t w) k = None
      \<and> w' = set_table t (get_table t w @ [(k, row)]) w)"
proof (cases "t = MetadataTable \<and> fk_fail_next_metadata_put w")
  case True
  with assms have "out = Inl (RuntimeError ''injected metadata failure'')"
    "w' = w\<lparr>fk_fail_next_metadata_put := False\<rparr>" by (simp_all add: fake_put_def)
  then show ?thesis by (auto simp: get_table_def split: fake_table.split)
next
  case False
  have "stored_as d (versioned d 1)" by (auto simp: stored_as_def versioned_append [OF assms(3)])
  with False assms show ?thesis
    by (auto simp: fake_put_def Let_def split: option.splits)
qed

lemma fake_valid_put:
  assumes "fake_valid w" "map_of d (key_name t) = Some (PStr k)" "stored_as d row"
  shows "fake_valid (set_table t (get_table t w @ [(k, row)]) w)"
proof -
  have "map_of row (key_name t) = Some (PStr k)" using assms(2,3) by (auto simp: stored_as_def)
  then have "table_ok t' (get_table t' (set_table t (get_table t w @ [(k, row)]) w))" for t'
    using assms(1) by (cases "t' = t") (auto simp: fake_valid_table table_ok_def)
  then show ?thesis by (simp add: fake_valid_table)
qed

lemma set_table_other_rows:
  assumes "res \<in> fake_known" "fake_table_of res = Some t" "c \<noteq> res"
  shows "fake_rows c (set_table t rows w) = fake_rows c w"
proof (cases "fake_table_of c")
  case None
  then show ?thesis by (simp add: fake_rows_def)
next
  case (Some t')
  then have "c \<in> fake_known" "table_named (rf_name c) = Some t'"
    by (simp_all add: fake_table_of_def split: if_splits)
  moreover have "table_named (rf_name res) = Some t" using assms(2) by (simp add: fake_table_of_def split: if_splits)
  ultimately have "t' \<noteq> t" using assms(1,3) by (metis known_table option.inject)
  with Some show ?thesis by (simp add: fake_rows_def)
qed

interpretation fake: structured_catalog fake_runtime fake_rows fake_key fake_known fake_valid
proof (unfold_locales, unfold runtime_simps)
  fix w res wh out w' assume a: "fake_valid w" "res \<in> fake_known" "fake_execute (SGet res wh) w = (out, w')"
  then obtain t where "fake_table_of res = Some t" by (auto elim: known_table)
  with a show "fake_valid w' \<and> (\<forall>c. fake_rows c w' = fake_rows c w)"
    by (auto simp: fake_execute_structured fake_get_def split: list.splits)
next
  fix w res wh os l c out w'
  assume a: "fake_valid w" "res \<in> fake_known" "fake_execute (SQuery res wh os l c) w = (out, w')"
  then obtain t where "fake_table_of res = Some t" by (auto elim: known_table)
  with a show "fake_valid w' \<and> (\<forall>c. fake_rows c w' = fake_rows c w)"
    by (auto simp: fake_execute_structured fake_query_def Let_def)
next
  fix w res k r w'
  assume a: "fake_valid w" "res \<in> fake_known"
    "fake_execute (SGet res [(fake_key res, PStr k)]) w = (Inr r, w')"
  then obtain t where t: "fake_table_of res = Some t" by (auto elim: known_table)
  with a have *: "fake_get res t [(fake_key res, PStr k)] w = (Inr r, w')"
    by (simp add: fake_execute_structured)
  then obtain row rest where row: "filter (matches [(fake_key res, PStr k)]) (map snd (get_table t w)) = row # rest"
    "r = result_of res (PDict row)"
    by (auto simp: fake_get_def split: list.splits)
  then have "row \<in> set (filter (matches [(fake_key res, PStr k)]) (map snd (get_table t w)))" by simp
  with row(2) t show "\<exists>row \<in> set (fake_rows res w). map_of row (fake_key res) = Some (PStr k) \<and> res_data r = PDict row"
    by (auto simp: fake_rows_def matches_key result_of_def)
next
  fix w res k e w' row
  assume a: "fake_valid w" "res \<in> fake_known"
    "fake_execute (SGet res [(fake_key res, PStr k)]) w = (Inl e, w')" "row \<in> set (fake_rows res w)"
  then obtain t where t: "fake_table_of res = Some t" by (auto elim: known_table)
  with a have "filter (matches [(fake_key res, PStr k)]) (map snd (get_table t w)) = []"
    by (auto simp: fake_execute_structured fake_get_def split: list.splits)
  with t a(4) show "map_of row (fake_key res) \<noteq> Some (PStr k)"
    by (auto simp: fake_rows_def filter_empty_conv matches_key)
next
  fix w res wh os l c r w'
  assume a: "fake_valid w" "res \<in> fake_known" "fake_execute (SQuery res wh os l c) w = (Inr r, w')"
  then obtain t where t: "fake_table_of res = Some t" by (auto elim: known_table)
  show "\<exists>items c. res_data r = page_data items c \<and> is_cursor c
      \<and> (\<forall>row \<in> set items. row \<in> set (fake_rows res w) \<and> matches wh row)"
    using a t
    by (fastforce simp: fake_execute_structured fake_query_def Let_def page_data_def result_of_def
        is_cursor_def fake_rows_def dest!: in_set_takeD in_set_dropD)
next
  fix w res wh f r w'
  assume a: "fake_valid w" "res \<in> fake_known" "fake_execute (SQuery res wh [descending f] 1 None) w = (Inr r, w')"
    "\<forall>row \<in> set (fake_rows res w). matches wh row \<longrightarrow> (\<exists>n. map_of row f = Some (PInt n))"
  then obtain t where t: "fake_table_of res = Some t" by (auto elim: known_table)
  let ?found = "filter (matches wh) (map snd (get_table t w))"
  obtain c where r: "res_data r = page_data (take 1 (sort_rows (descending f) ?found)) c" "is_cursor c"
    using a t by (auto simp: fake_execute_structured fake_query_def Let_def page_data_def result_of_def
        is_cursor_def)
  show "(\<exists>c. res_data r = page_data [] c \<and> is_cursor c) \<and> (\<forall>row \<in> set (fake_rows res w). \<not> matches wh row)
      \<or> (\<exists>row c n. res_data r = page_data [row] c \<and> is_cursor c \<and> row \<in> set (fake_rows res w)
          \<and> matches wh row \<and> map_of row f = Some (PInt n)
          \<and> (\<forall>row' \<in> set (fake_rows res w). matches wh row' \<longrightarrow>
               (\<exists>n'. map_of row' f = Some (PInt n') \<and> n' \<le> n)))"
  proof (cases "sort_rows (descending f) ?found")
    case Nil
    then have "set ?found = {}" by (metis sort_rows_set set_empty)
    with r t Nil show ?thesis by (auto simp: fake_rows_def filter_empty_conv)
  next
    case (Cons row rest)
    have "\<forall>row \<in> set ?found. \<exists>n. map_of row f = Some (PInt n)" using a(4) t by (auto simp: fake_rows_def)
    from sort_rows_top [OF this Cons] obtain n where "map_of row f = Some (PInt n)"
      "\<forall>row' \<in> set ?found. \<exists>n'. map_of row' f = Some (PInt n') \<and> n' \<le> n" by blast
    moreover have "row \<in> set ?found" using Cons by (metis list.set_intros(1) sort_rows_set)
    moreover have "x \<in> set ?found \<longleftrightarrow> x \<in> set (fake_rows res w) \<and> matches wh x" for x
      using t by (auto simp: fake_rows_def)
    moreover have "res_data r = page_data [row] c" using r(1) Cons by simp
    ultimately show ?thesis using r(2) by blast
  qed
next
  fix w res d k r w'
  assume a: "fake_valid w" "res \<in> fake_known" "map_of d ''recordVersion'' = None"
    "map_of d (fake_key res) = Some (PStr k)" "fake_execute (SPut res d ''if_absent'') w = (Inr r, w')"
  obtain t where t: "fake_table_of res = Some t" "fake_key res = key_name t"
    "\<And>res'. res' \<in> fake_known \<Longrightarrow> table_named (rf_name res') = Some t \<Longrightarrow> res' = res"
    using a(2) by (auto elim: known_table)
  from fake_put_cases [of res t d w "Inr r" w' k] a t obtain row where row:
    "r = result_of res (PDict row)" "stored_as d row" "map_of (get_table t w) k = None"
    "w' = set_table t (get_table t w @ [(k, row)]) w"
    by (auto simp: fake_execute_structured)
  have others: "fake_rows c w' = fake_rows c w" if "c \<noteq> res" for c
    using set_table_other_rows [OF a(2) t(1) that] row(4) by simp
  have "fake_valid w'" using fake_valid_put [OF a(1) _ row(2)] a(4) t(2) row(4) by simp
  moreover have "\<forall>row \<in> set (fake_rows res w). map_of row (fake_key res) \<noteq> Some (PStr k)"
    using table_ok_key [OF _ row(3)] a(1) t(1,2) by (auto simp: fake_rows_def fake_valid_table)
  moreover have "fake_rows res w' = fake_rows res w @ [row]" using t(1) row(4) by (simp add: fake_rows_def)
  ultimately show "fake_valid w' \<and> (\<forall>row \<in> set (fake_rows res w). map_of row (fake_key res) \<noteq> Some (PStr k))
      \<and> (\<exists>row. stored_as d row \<and> fake_rows res w' = fake_rows res w @ [row] \<and> res_data r = PDict row)
      \<and> (\<forall>c. c \<noteq> res \<longrightarrow> fake_rows c w' = fake_rows c w)"
    using row(1,2) others by (auto simp: result_of_def)
next
  fix w res d e w'
  assume a: "fake_valid w" "res \<in> fake_known" "fake_execute (SPut res d ''if_absent'') w = (Inl e, w')"
  then obtain t where t: "fake_table_of res = Some t" by (auto elim: known_table)
  with a have "\<forall>t. get_table t w' = get_table t w"
    by (auto simp: fake_execute_structured fake_put_def Let_def get_table_def
        split: if_splits option.splits pyval.splits fake_table.splits)
  then show "fake_valid w' \<and> (\<forall>c. fake_rows c w' = fake_rows c w)"
    using a(1) by (simp add: fake_valid_table fake_rows_def split: option.split)
qed

interpretation fake_repo: metadata_catalog fake_metadata fake_rows fake_key fake_known fake_valid
proof (rule metadata_catalog.intro)
  show "structured_catalog (mr_runtime fake_metadata) fake_rows fake_key fake_known fake_valid"
    using fake.structured_catalog_axioms by (simp add: fake_metadata_def)
  show "metadata_catalog_axioms fake_metadata fake_key fake_known"
    by (rule metadata_catalog_axioms.intro)
      (simp_all add: fake_metadata_def fake_known_def fake_key_def key_name_def layout_defs
        table_named_def)
qed

text \<open>A \<open>nullcontext\<close> transaction leaves the rows of its body, and a patch by key one new row.\<close>

lemma fake_rows_transactions [simp]: "fake_rows res (w\<lparr>fk_transactions := n\<rparr>) = fake_rows res w"
  by (simp add: fake_rows_def get_table_def split: option.split fake_table.split)

lemma fake_valid_transactions [simp]: "fake_valid (w\<lparr>fk_transactions := n\<rparr>) = fake_valid w"
  by (simp add: fake_valid_def)

lemma distinct_filter_unique:
  assumes "distinct (map f xs)" "\<And>x. x \<in> set xs \<Longrightarrow> P x \<longleftrightarrow> f x = k" "filter P xs \<noteq> []"
  shows "\<exists>i < length xs. f (xs ! i) = k \<and> filter P xs = [xs ! i]
    \<and> map (\<lambda>x. if P x then g x else x) xs = xs[i := g (xs ! i)]"
  using assms
proof (induction xs)
  case (Cons x xs)
  show ?case
  proof (cases "P x")
    case True
    then have "\<forall>y \<in> set xs. \<not> P y" using Cons.prems(1,2) by (metis distinct.simps(2) image_eqI list.set_intros list.set_map list.simps(9))
    then have "filter P xs = []" "map (\<lambda>x. if P x then g x else x) xs = xs"
      by (simp_all add: filter_empty_conv map_idI)
    with True Cons.prems(2) show ?thesis by (intro exI [of _ 0]) simp
  next
    case False
    with Cons.prems have "distinct (map f xs)" "\<And>y. y \<in> set xs \<Longrightarrow> P y \<longleftrightarrow> f y = k" "filter P xs \<noteq> []"
      by simp_all
    from Cons.IH [OF this] obtain i where "i < length xs" "f (xs ! i) = k" "filter P xs = [xs ! i]"
      "map (\<lambda>x. if P x then g x else x) xs = xs[i := g (xs ! i)]" by blast
    with False show ?thesis by (intro exI [of _ "Suc i"]) simp
  qed
qed simp

lemma patched_one: "patched [(f, c)] row = AList.update ''recordVersion'' (PInt (row_version row + 1)) (AList.update f c row)"
  by (simp add: patched_def versioned_def)

lemma fake_patch_done:
  assumes "fake_valid w" "f \<noteq> ''recordVersion''" "f \<noteq> key_name t"
    "distinct (map (\<lambda>row. map_of row (key_name t)) (map snd (get_table t w)))"
    "fake_patch res t [(key_name t, PStr k)] [(f, c)] v w = (Inr r, w')"
  shows "\<exists>i v'. i < length (get_table t w) \<and> map_of (snd (get_table t w ! i)) (key_name t) = Some (PStr k)
    \<and> (v \<noteq> PNone \<longrightarrow> py_eq v (get_or (snd (get_table t w ! i)) ''recordVersion'' PNone))
    \<and> v' \<noteq> PNone \<and> record_version_ok v'
    \<and> (let row = AList.update ''recordVersion'' v' (AList.update f c (snd (get_table t w ! i))) in
         fake_valid w' \<and> w' = set_table t ((get_table t w)[i := (fst (get_table t w ! i), row)]) w
         \<and> res_data r = PList [PDict row])"
proof -
  let ?T = "get_table t w" and ?P = "\<lambda>p. matches [(key_name t, PStr k)] (snd p)"
  let ?g = "\<lambda>p. (fst p, patched [(f, c)] (snd p))"
  have ok: "filter (matches [(key_name t, PStr k)]) (map snd ?T) \<noteq> []"
    "v \<noteq> PNone \<longrightarrow> list_all (\<lambda>row. py_eq v (get_or row ''recordVersion'' PNone)) (filter (matches [(key_name t, PStr k)]) (map snd ?T))"
    "r = result_of res (PList (map (\<lambda>row. PDict (patched [(f, c)] row)) (filter (matches [(key_name t, PStr k)]) (map snd ?T))))"
    "w' = set_table t (map (\<lambda>p. (fst p, if ?P p then patched [(f, c)] (snd p) else snd p)) ?T) w"
    using assms(5) by (auto simp: fake_patch_def Let_def split: if_splits)
  have "\<exists>i < length ?T. map_of (snd (?T ! i)) (key_name t) = Some (PStr k) \<and> filter ?P ?T = [?T ! i]
    \<and> map (\<lambda>p. if ?P p then ?g p else p) ?T = ?T[i := ?g (?T ! i)]"
    using assms(4) ok(1) by (intro distinct_filter_unique) (simp_all add: matches_key comp_def filter_map)
  then obtain i where i: "i < length ?T" "map_of (snd (?T ! i)) (key_name t) = Some (PStr k)" "filter ?P ?T = [?T ! i]"
    "map (\<lambda>p. if ?P p then ?g p else p) ?T = ?T[i := ?g (?T ! i)]" by blast
  have "map (\<lambda>p. (fst p, if ?P p then patched [(f, c)] (snd p) else snd p)) ?T = map (\<lambda>p. if ?P p then ?g p else p) ?T"
    by (rule map_cong) simp_all
  then have w': "w' = set_table t (?T[i := ?g (?T ! i)]) w" using ok(4) i(4) by (simp only:)
  have found: "filter (matches [(key_name t, PStr k)]) (map snd ?T) = [snd (?T ! i)]"
    using i(3) by (simp add: filter_map comp_def)
  have "map_of (patched [(f, c)] (snd (?T ! i))) (key_name t) = map_of (snd (?T ! i)) (key_name t)"
    using assms(3) by (simp add: patched_one update_conv')
  then have "table_ok t (?T[i := ?g (?T ! i)])"
    using assms(1) i(1) set_update_subset_insert [of ?T i] by (fastforce simp: fake_valid_table table_ok_def list_all_iff)
  then have "table_ok t' (get_table t' w')" for t'
    using assms(1) unfolding w' by (cases "t' = t") (simp_all add: fake_valid_table)
  then have "fake_valid w'" by (simp add: fake_valid_table)
  with i w' found ok(2,3) show ?thesis
    by (intro exI [of _ i] exI [of _ "PInt (row_version (snd (?T ! i)) + 1)"])
      (simp add: patched_one result_of_def Let_def)
qed

interpretation fake_ledger: transactional_catalog fake_metadata fake_rows fake_key fake_known fake_valid
proof (rule transactional_catalog.intro)
  have ext: "external_contract (rt_ext (mr_runtime fake_metadata))"
    using reference.external_contract_axioms by (simp add: fake_metadata_def)
  show "resource_catalog fake_metadata fake_rows fake_key fake_known fake_valid"
    by (rule resource_catalog.intro [OF fake_repo.metadata_catalog_axioms ext])
  show "transactional_catalog_axioms fake_metadata fake_rows fake_key fake_known fake_valid"
  proof (rule transactional_catalog_axioms.intro, goal_cases)
    case (1 w res body out w')
    let ?w1 = "w\<lparr>fk_transactions := fk_transactions w + 1\<rparr>"
    obtain r w2 where b: "body ?w1 = (r, w2)" by fastforce
    with 1(2) have "out = r" "w' = w2"
      by (auto simp: fake_metadata_def with_transaction_def guarded_def pbind_def split: sum.splits)
    moreover have "same_rows fake_valid fake_rows w ?w1" using 1(1) by (simp add: same_rows_def)
    moreover have "fake_valid w2" by (rule 1(3)) fact+
    ultimately show ?case using b by (intro disjI2 exI [of _ ?w1] exI [of _ r] exI [of _ w2])
      (simp add: same_rows_def)
  next
    case (2 w res f k c v r w')
    then obtain t where t: "fake_table_of res = Some t" "fake_key res = key_name t"
      "\<And>f. with_table res f = f t" "\<And>res'. res' \<in> fake_known \<Longrightarrow> table_named (rf_name res') = Some t \<Longrightarrow> res' = res"
      by (auto elim: known_table)
    have "\<exists>i v'. i < length (get_table t w) \<and> map_of (snd (get_table t w ! i)) (key_name t) = Some (PStr k)
      \<and> (v \<noteq> PNone \<longrightarrow> py_eq v (get_or (snd (get_table t w ! i)) ''recordVersion'' PNone))
      \<and> v' \<noteq> PNone \<and> record_version_ok v'
      \<and> (let row = AList.update ''recordVersion'' v' (AList.update f c (snd (get_table t w ! i))) in
           fake_valid w' \<and> w' = set_table t ((get_table t w)[i := (fst (get_table t w ! i), row)]) w
           \<and> res_data r = PList [PDict row])"
      using 2 t by (intro fake_patch_done) (simp_all add: fake_metadata_def fake_execute_def fake_rows_def)
    then obtain i v' where i: "i < length (get_table t w)" "map_of (snd (get_table t w ! i)) (key_name t) = Some (PStr k)"
      "v \<noteq> PNone \<longrightarrow> py_eq v (get_or (snd (get_table t w ! i)) ''recordVersion'' PNone)"
      "v' \<noteq> PNone" "record_version_ok v'" "fake_valid w'"
      "w' = set_table t ((get_table t w)[i := (fst (get_table t w ! i),
         AList.update ''recordVersion'' v' (AList.update f c (snd (get_table t w ! i))))]) w"
      "res_data r = PList [PDict (AList.update ''recordVersion'' v' (AList.update f c (snd (get_table t w ! i))))]"
      unfolding Let_def by blast
    have "fake_rows c' w' = fake_rows c' w" if "c' \<noteq> res" for c'
      using set_table_other_rows [OF 2(2) t(1) that] i(7) by simp
    moreover have "fake_rows res w = map snd (get_table t w)" "fake_rows res w' = map snd (get_table t w')"
      using t(1) by (simp_all add: fake_rows_def)
    ultimately show ?case using i t(2)
      by (intro conjI exI [of _ i] exI [of _ v']) (simp_all add: map_update Let_def)
  next
    case (3 w res wh changes v e w')
    then obtain t where "fake_table_of res = Some t" "\<And>f. with_table res f = f t"
      by (auto elim: known_table)
    with 3 have "w' = w"
      by (auto simp: fake_metadata_def fake_execute_def fake_patch_def Let_def split: if_splits)
    with 3 show ?case by simp
  qed
qed

section \<open>The other calls\<close>

text \<open>Objects, payloads, streams, Schemas and the clock touch none of the four tables.\<close>

lemma same_rows_tables: "fake_valid w \<Longrightarrow> (\<And>t. get_table t w' = get_table t w) \<Longrightarrow> same_rows fake_valid fake_rows w w'"
  by (simp add: same_rows_def fake_valid_table fake_rows_def split: option.split)

lemma neutral_tables:
  assumes "\<And>w t. get_table t (snd (m w)) = get_table t w"
  shows "neutral fake_valid fake_rows m"
  unfolding neutral_def using assms by (auto intro: same_rows_tables)

lemma get_table_other [simp]:
  "get_table t (w\<lparr>fk_objects := x1\<rparr>) = get_table t w" "get_table t (w\<lparr>fk_payloads := x2\<rparr>) = get_table t w"
  "get_table t (w\<lparr>fk_streams := x3\<rparr>) = get_table t w" "get_table t (w\<lparr>fk_handles := x4\<rparr>) = get_table t w"
  by (simp_all add: get_table_def split: fake_table.split)

lemma neutral_fake_calls:
  "neutral fake_valid fake_rows (fake_register src dg n)" "neutral fake_valid fake_rows (fake_release p)"
  "neutral fake_valid fake_rows (fake_open p)" "neutral fake_valid fake_rows (fake_read h m)"
  "neutral fake_valid fake_rows (fake_close h z)" "neutral fake_valid fake_rows fake_now"
  "neutral fake_valid fake_rows (fake_stored_object r)" "neutral fake_valid fake_rows (fake_object_list res pre limit)"
  by (rule neutral_tables, simp add: fake_register_def fake_release_def fake_open_def fake_read_def fake_close_def
      fake_now_def fake_stored_object_def fake_object_list_def Let_def split: option.split)+

lemma neutral_fake_chunks: "neutral fake_valid fake_rows (fake_chunks h)"
  unfolding fake_chunks_def by (intro neutral_rules neutral_fake_calls)

lemma neutral_fake_object_put: "neutral fake_valid fake_rows (fake_object_put res a)"
proof -
  have store: "neutral fake_valid fake_rows (\<lambda>w. let payload = concat chunks; observed = sha256_digest payload;
             m = \<lparr>om_object_ref = \<lparr>or_resource = res, or_object_id = op_object_id a, or_digest = Some observed\<rparr>,
                  om_digest = observed, om_byte_length = int (length payload), om_media_type = op_media_type a,
                  om_user_metadata = str_dict (op_user_metadata a)\<rparr> in
         if observed \<noteq> op_expected_digest a \<or> int (length payload) \<noteq> op_expected_length a
         then (Inl (ValueError ''payload identity mismatch''), w)
         else (Inr (metadata_result res m), w\<lparr>fk_objects := (op_object_id a, (m, payload)) # fk_objects w\<rparr>))" for chunks
    by (rule neutral_tables) (simp add: Let_def)
  have "neutral fake_valid fake_rows (pbind (fake_open (op_payload a)) (\<lambda>h. pbind (guarded (fake_chunks h) (fake_close h)) f))"
    if "\<And>chunks. neutral fake_valid fake_rows (f chunks)" for f :: "string list \<Rightarrow> (fake, exn, op_result) prog"
    by (intro neutral_rules neutral_fake_calls neutral_fake_chunks that)
  note put = this [OF store, unfolded neutral_def]
  show ?thesis unfolding fake_object_put_def neutral_def
  proof (intro allI impI, goal_cases)
    case (1 w)
    with put show ?case by (simp add: same_rows_refl)
  qed
qed

lemma neutral_fake_object_get: "neutral fake_valid fake_rows (fake_object_get res r rng)"
  unfolding fake_object_get_def by (intro neutral_rules neutral_fake_calls)

interpretation fake_plugin: plugin_catalog fake_metadata fake_rows fake_key fake_known fake_valid
proof (rule plugin_catalog.intro [OF fake_ledger.transactional_catalog_axioms], rule plugin_catalog_axioms.intro, goal_cases)
  case (1 e)
  have stat: "neutral fake_valid fake_rows (pbind (fake_stored_object r) (\<lambda>(m, _). pret (metadata_result res m)))" for r res
    by (intro neutral_rules neutral_fake_calls)
  from 1 show ?case
    by (cases e) (simp_all add: fake_metadata_def fake_execute_def neutral_fake_object_put neutral_fake_object_get neutral_fake_calls stat)
next
  case (10 v document u)
  then show ?case by (auto simp: fake_metadata_def reference_external_def split: if_splits intro: wf_freeze)
qed (simp_all add: fake_metadata_def neutral_fake_calls neutral_fake_chunks fake_schema_def neutral_pret neutral_pthrow)

end
