(* ===== verification/Examples.thy ===== *)
theory Examples
  imports FakeRuntime
begin

text \<open>
  Concrete values the witnesses share: an identity, a provenance, a configuration and an artifact
  with their records, a channel row and an orphan candidate. Digests and identifiers stay the
  values of the hash functions, which need not be computed to check the records.
\<close>

definition ex_identity :: resource_identity where
  "ex_identity = \<lparr>ri_namespace = ''app'', ri_kind = ''config'', ri_name = ''svc'', ri_version = ''1''\<rparr>"

definition ex_time :: string where
  "ex_time = ''2026-01-02T03:04:05.123456Z''"

definition ex_bytes :: string where
  "ex_bytes = ''{\"endpoint\":\"x\"}''"

definition ex_payload :: "pyval dict" where
  "ex_payload = [(''endpoint'', PStr ''x'')]"

definition ex_provenance :: provenance where
  "ex_provenance = \<lparr>pv_producer = ''ci'', pv_producer_version = ''1'', pv_source_digests = [],
     pv_build_id = Some ''42'', pv_validation_version = None, pv_attributes = [],
     pv_format_version = provenance_format\<rparr>"

definition ex_resource :: stored_resource where
  "ex_resource = \<lparr>sr_resource_id = identity_resource_id ex_identity, sr_namespace = ''app'',
     sr_kind = ''config'', sr_name = ''svc'', sr_version = ''1'',
     sr_profile = CONFIGURATION_PROFILE, sr_state = PUBLISHED, sr_media_type = ''application/json'',
     sr_digest = sha256_digest ex_bytes, sr_byte_length = 16, sr_created_by = ''ci'',
     sr_created_at = ex_time, sr_object_ref = None, sr_payload = Some ex_payload,
     sr_payload_schema = Some fake_schema_ref, sr_labels = [(''tier'', ''gold'')],
     sr_annotations = [], sr_provenance = Some ex_provenance, sr_supersedes = None,
     sr_immutable = True, sr_version_order = Some 1, sr_record_version = PInt 1,
     sr_format_version = resource_format\<rparr>"

definition ex_provenance_args :: provenance_args where
  "ex_provenance_args = \<lparr>pa_producer = PStr ''ci'', pa_producer_version = PStr ''1'',
     pa_source_digests = PDict [], pa_build_id = PStr ''42'', pa_validation_version = PNone,
     pa_attributes = PDict [], pa_format_version = PStr provenance_format\<rparr>"

definition ex_resource_args :: resource_args where
  "ex_resource_args = \<lparr>ra_resource_id = PStr (identity_resource_id ex_identity),
     ra_namespace = PStr ''app'', ra_kind = PStr ''config'', ra_name = PStr ''svc'',
     ra_version = PStr ''1'', ra_profile = CONFIGURATION_PROFILE, ra_state = PUBLISHED,
     ra_media_type = PStr ''application/json'', ra_digest = PStr (sha256_digest ex_bytes),
     ra_byte_length = PInt 16, ra_created_by = PStr ''ci'', ra_created_at = PStr ex_time,
     ra_object_ref = None, ra_payload = PDict (thaw_items ex_payload),
     ra_payload_schema = Some fake_schema_ref, ra_labels = PDict (str_dict [(''tier'', ''gold'')]),
     ra_annotations = PDict (thaw_items []), ra_provenance = Some ex_provenance,
     ra_supersedes = PNone, ra_immutable = PBool True, ra_version_order = PInt 1,
     ra_record_version = PInt 1, ra_format_version = PStr resource_format\<rparr>"

definition ex_row :: "pyval dict" where
  "ex_row = resource_to_record reference_external ex_resource @ [(''recordVersion'', PInt 1)]"

definition ex_object_ref :: object_ref where
  "ex_object_ref = \<lparr>or_resource = OBJECT_RESOURCE, or_object_id = identity_object_id ex_identity,
     or_digest = Some (sha256_digest ''abc'')\<rparr>"

definition ex_artifact :: stored_resource where
  "ex_artifact = ex_resource\<lparr>sr_profile := ARTIFACT_PROFILE, sr_digest := sha256_digest ''abc'',
     sr_byte_length := 3, sr_object_ref := Some ex_object_ref, sr_payload := None,
     sr_payload_schema := None, sr_media_type := ''application/octet-stream''\<rparr>"

definition ex_channel :: channel_row where
  "ex_channel = \<lparr>ch_channel_version_id = channel_version_id ''app'' ''config'' ''svc'' ''stable'' 1,
     ch_namespace = ''app'', ch_kind = ''config'', ch_name = ''svc'', ch_channel = ''stable'',
     ch_target_resource_id = identity_resource_id ex_identity, ch_pointer_version = 1,
     ch_actor = ''ci'', ch_updated_at = ex_time, ch_record_version = PInt 1,
     ch_format_version = channel_format\<rparr>"

definition ex_orphan :: orphan_candidate where
  "ex_orphan = \<lparr>oc_candidate_id = orphan_candidate_id (identity_resource_id ex_identity)
       (identity_object_id ex_identity) (sha256_digest ''abc''),
     oc_resource_id = identity_resource_id ex_identity, oc_object_ref = ex_object_ref,
     oc_digest = sha256_digest ''abc'', oc_byte_length = 3, oc_reason = ''upload failed'',
     oc_discovered_at = ex_time, oc_state = RECORDED, oc_record_version = PNone,
     oc_format_version = orphan_format\<rparr>"

definition ex_deprecated :: stored_resource where
  "ex_deprecated = ex_resource\<lparr>sr_state := DEPRECATED, sr_record_version := PInt 2\<rparr>"

definition ex_world :: fake where
  "ex_world = empty_fake\<lparr>fk_metadata := [(sr_resource_id ex_resource, ex_row)]\<rparr>"

definition ex_promoted :: fake where
  "ex_promoted = ex_world\<lparr>fk_channels := [(ch_channel_version_id ex_channel,
     channel_to_record ex_channel @ [(''recordVersion'', PInt 1)])]\<rparr>"

lemma ex_names_ok:
  "logical_ok ''app''" "logical_ok ''config''" "logical_ok ''svc''" "channel_ok ''stable''"
  "bounded_ok 256 ''1''" "bounded_ok 512 ''ci''" "media_ok ''application/json''"
  "media_ok ''application/octet-stream''" "bounded_ok 512 ''upload failed''"
  "labels_ok 64 [(''tier'', ''gold'')]" "labels_ok 64 []" "bounded_ok 256 ''42''"
  "bounded_ok 128 ''1''" "bounded_ok 256 ''ci''"
  by code_simp+

lemma ex_time_ok: "utc_of_value (PStr ex_time) = Inr ex_time"
  by code_simp

lemma ex_identity_ok: "identity_ok ex_identity"
  by (simp add: identity_ok_def ex_identity_def ex_names_ok)

lemma ex_encodings:
  "canonical_mapping reference_encode (PDict []) f (Some 64) (Some 262144) = Inr []"
  "canonical_mapping reference_encode (PProxy []) f (Some 64) (Some 262144) = Inr []"
  "canonical_mapping reference_encode (PDict ex_payload) f None None = Inr ex_payload"
  "canonical_mapping reference_encode (PProxy ex_payload) f None None = Inr ex_payload"
  "mapping_bytes reference_encode ex_payload = Inr ex_bytes"
proof -
  have e: "reference_encode (PDict []) = Inr ''{}''" "json_loads ''{}'' = Some (PDict [])"
    "reference_encode (PDict ex_payload) = Inr ex_bytes" "json_loads ex_bytes = Some (PDict ex_payload)"
    "freeze_json (PDict ex_payload) = PProxy ex_payload" "thaw_items ex_payload = ex_payload"
    by code_simp+
  show "canonical_mapping reference_encode (PDict []) f (Some 64) (Some 262144) = Inr []"
    "canonical_mapping reference_encode (PProxy []) f (Some 64) (Some 262144) = Inr []"
    using e by (simp_all add: canonical_mapping_def canonical_value_def shallow_dict_def sort_dict_def)
  show "canonical_mapping reference_encode (PDict ex_payload) f None None = Inr ex_payload"
    "canonical_mapping reference_encode (PProxy ex_payload) f None None = Inr ex_payload"
    using e by (simp_all add: canonical_mapping_def canonical_value_def shallow_dict_def)
  show "mapping_bytes reference_encode ex_payload = Inr ex_bytes" using e by (simp add: mapping_bytes_def)
qed

lemma ex_normal:
  "normal reference_encode (Some 64) (Some 262144) []"
  "normal reference_encode None None ex_payload"
proof -
  have "thaw_items ex_payload = ex_payload" "frozen_dict ex_payload" "wf_dict ex_payload"
    by code_simp+
  then show "normal reference_encode (Some 64) (Some 262144) []"
    "normal reference_encode None None ex_payload"
    using ex_encodings by (simp_all add: normal_def)
qed

lemma ex_provenance_ok: "provenance_ok reference_encode ex_provenance"
  by (simp add: provenance_ok_def ex_provenance_def ex_names_ok ex_normal)

lemma fake_schema_ref_ok: "schema_ref_ok fake_schema_ref"
  by code_simp

lemma ex_resource_ok: "resource_ok reference_external ex_resource"
proof -
  have id: "sr_identity ex_resource = ex_identity"
    by (simp add: sr_identity_def ex_resource_def ex_identity_def)
  have "length ex_bytes = 16" by (simp add: ex_bytes_def)
  then have "profile_part_ok reference_external ex_resource"
    using fake_schema_ref_ok ex_normal ex_encodings by (simp add: profile_part_ok_def ex_resource_def)
  with id show ?thesis
    by (simp add: resource_ok_def ex_identity_ok)
      (simp add: ex_resource_def ex_names_ok ex_time_ok ex_normal ex_provenance_ok)
qed

lemma ex_artifact_ok: "resource_ok reference_external ex_artifact"
proof -
  have id: "sr_identity ex_artifact = ex_identity"
    by (simp add: sr_identity_def ex_artifact_def ex_resource_def ex_identity_def)
  have "profile_part_ok reference_external ex_artifact"
    by (simp add: profile_part_ok_def ex_artifact_def ex_resource_def ex_object_ref_def)
  with id show ?thesis
    by (simp add: resource_ok_def ex_identity_ok)
      (simp add: ex_artifact_def ex_resource_def ex_names_ok ex_time_ok ex_normal ex_provenance_ok)
qed

lemma ex_channel_ok: "channel_row_ok ex_channel"
  by (simp add: channel_row_ok_def ex_channel_def ex_names_ok ex_time_ok)

lemma ex_orphan_ok: "orphan_ok ex_orphan"
  by (simp add: orphan_ok_def ex_orphan_def ex_object_ref_def ex_names_ok ex_time_ok)

lemma ex_row_parses: "resource_from_record reference_external ex_row = Inr ex_resource" "wf_dict ex_row"
proof -
  have "ex_resource\<lparr>sr_record_version := PInt 1\<rparr> = ex_resource" by (simp add: ex_resource_def)
  then show "resource_from_record reference_external ex_row = Inr ex_resource"
    using reference.resource_from_printed(2) [OF ex_resource_ok, of "PInt 1"] by (simp add: ex_row_def)
  show "wf_dict ex_row"
    by (simp add: ex_row_def resource_to_record_def ex_resource_def ex_payload_def str_dict_def
        schema_ref_to_dict_def provenance_to_dict_def ex_provenance_def)
qed

lemma ex_deprecated_ok: "resource_ok reference_external ex_deprecated"
proof -
  have "profile_part_ok reference_external ex_deprecated \<longleftrightarrow> profile_part_ok reference_external ex_resource"
    by (simp add: profile_part_ok_def ex_deprecated_def cong: resource_profile.case_cong)
  then show ?thesis using ex_resource_ok
    by (simp add: resource_ok_def sr_identity_def) (simp add: ex_deprecated_def ex_resource_def)
qed

lemma ex_deprecated_row:
  "patched [(''state'', PStr ''DEPRECATED'')] ex_row
     = resource_to_record reference_external ex_deprecated @ [(''recordVersion'', PInt 2)]"
  by (simp add: patched_def versioned_def row_version_def ex_row_def ex_deprecated_def
      resource_to_record_def state_value_def ex_resource_def)

lemma ex_deprecation_of:
  assumes "fk_metadata w = [(sr_resource_id ex_resource, ex_row)]"
  shows "deprecate_resource fake_metadata ex_resource w
     = (Inr ex_deprecated, w\<lparr>fk_metadata := [(sr_resource_id ex_resource,
          resource_to_record reference_external ex_deprecated @ [(''recordVersion'', PInt 2)])],
        fk_transactions := fk_transactions w + 1\<rparr>)"
proof -
  let ?row = "resource_to_record reference_external ex_deprecated @ [(''recordVersion'', PInt 2)]"
  have of: "resource_of reference_external ex_deprecated ?row"
    using ex_deprecated_ok by (simp add: resource_of_def ex_deprecated_def)
  note parse = reference.parse_resource_row [OF of]
  have m: "matches [(''resourceId'', PStr (sr_resource_id ex_resource))] ex_row"
    by (simp add: matches_key ex_row_def resource_row_keys map_add_def)
  have v: "map_of ex_row ''recordVersion'' = Some (PInt 1)"
    by (simp add: ex_row_def resource_row_keys map_add_def)
  have run: "run fake_runtime (SPatch METADATA_RESOURCE [(''resourceId'', PStr (sr_resource_id ex_resource))]
      [(''state'', PStr ''DEPRECATED'')] (PInt 1)) (w\<lparr>fk_transactions := fk_transactions w + 1\<rparr>)
    = (Inr (result_of METADATA_RESOURCE (PList [PDict ?row])),
       w\<lparr>fk_metadata := [(sr_resource_id ex_resource, ?row)], fk_transactions := fk_transactions w + 1\<rparr>)"
    using m v assms by (simp add: run_def build_def execute_def fake_execute_def with_table_def fake_patch_def
        get_table_def set_table_def ex_deprecated_row get_or_def)
  have "with_state DEPRECATED (resource_to_record reference_external ex_resource)
      = resource_to_record reference_external ex_deprecated"
    by (simp add: with_state_def ex_deprecated_def resource_to_record_def state_value_def ex_resource_def)
  moreover have "wf_dict (resource_to_record reference_external ex_deprecated)"
    using ex_row_parses(2) by (simp add: ex_row_def resource_to_record_def ex_deprecated_def)
  ultimately have "dict_eq (resource_to_record reference_external ex_deprecated)
      (with_state DEPRECATED (resource_to_record reference_external ex_resource))"
    by (simp only: dict_eq_refl)
  moreover have "sr_record_version ex_deprecated = PInt 2" "sr_record_version ex_resource = PInt 1"
    by (simp_all add: ex_deprecated_def ex_resource_def)
  moreover have "''values'' \<notin> keys ?row" using parse(2) unfolding map_of_eq_None_iff by simp
  moreover have "logical_record s ?row = Inr ?row" for s
    using parse(2) by (simp only: logical_record_def option.case)
  ultimately have "deprecation_result fake_metadata (result_of METADATA_RESOURCE (PList [PDict ?row])) ex_resource
      = Inr ex_deprecated"
    using parse(1) by (simp add: deprecation_result_def result_of_def result_mapping_def
        fake_metadata_def del: py_eq.simps)
  then show ?thesis
    using run by (simp add: deprecate_resource_def transaction_def with_transaction_def guarded_def
        fake_metadata_def pbind_def state_value_def)
      (simp add: ex_resource_def)
qed

lemma ex_deprecation:
  "deprecate_resource fake_metadata ex_resource ex_world
     = (Inr ex_deprecated, ex_world\<lparr>fk_metadata := [(sr_resource_id ex_resource,
          resource_to_record reference_external ex_deprecated @ [(''recordVersion'', PInt 2)])],
        fk_transactions := 1\<rparr>)"
  using ex_deprecation_of [of ex_world] by (simp add: ex_world_def empty_fake_def)

text \<open>The first promotion of the published resource, and the world it leaves.\<close>

lemma ex_now: "timestamp_now fake_now w = (Inr ex_time, w)"
proof -
  have "utc_of_datetime \<lparr>dt_civil = \<lparr>c_year = 2026, c_month = 1, c_day = 2, c_hour = 3, c_minute = 4,
     c_second = 5, c_micro = 123456\<rparr>, dt_offset = Some 0\<rparr> = Inr ex_time" by code_simp
  then show ?thesis by (simp add: timestamp_now_def fake_now_def pbind_def)
qed

lemma ex_row_of: "resource_of reference_external ex_resource ex_row"
  using ex_resource_ok by (simp add: resource_of_def ex_row_def) (simp add: ex_resource_def)

lemma ex_channel_of: "channel_of ex_channel (channel_to_record ex_channel @ [(''recordVersion'', PInt 1)])"
  using ex_channel_ok by (simp add: channel_of_def ex_channel_def)

lemma ex_resource_fields [simp]:
  "sr_profile ex_resource = CONFIGURATION_PROFILE" "sr_state ex_resource = PUBLISHED"
  "sr_namespace ex_resource = ''app''" "sr_kind ex_resource = ''config''"
  "sr_name ex_resource = ''svc''" "sr_version ex_resource = ''1''"
  "sr_resource_id ex_resource = identity_resource_id ex_identity"
  by (simp_all add: ex_resource_def)

lemma ex_put_channel:
  "put_channel fake_metadata (ex_channel\<lparr>ch_record_version := PNone\<rparr>) ex_world = (Inr ex_channel, ex_promoted)"
proof -
  let ?req = "ex_channel\<lparr>ch_record_version := PNone\<rparr>"
  have row: "versioned (channel_to_record ?req) 1 = channel_to_record ex_channel @ [(''recordVersion'', PInt 1)]"
    and key: "map_of (channel_to_record ?req) ''channelVersionId'' = Some (PStr (ch_channel_version_id ex_channel))"
    by (simp_all add: versioned_def channel_to_record_def)
  then show ?thesis
    using parse_channel_row [OF ex_channel_of]
    by (simp add: put_channel_def put_row_def run_def build_def execute_def pbind_def fake_metadata_def
        fake_execute_def with_table_def fake_put_def key_name_def get_table_def set_table_def
        ex_world_def empty_fake_def ex_promoted_def result_of_def Let_def)
qed

lemma ex_promotion:
  "promote fake_channels (TargetResource ex_resource) (PStr ''stable'') (PInt 0) (PStr ''ci'')
     (Some CONFIGURATION_PROFILE) ex_world = (Inr ex_channel, ex_promoted)"
proof -
  let ?req = "ex_channel\<lparr>ch_record_version := PNone\<rparr>"
  have get: "get_channel fake_channels (PStr ''app'') (PStr ''config'') (PStr ''svc'') (PStr ''stable'') False ex_world
      = (Inr None, ex_world)"
    by (simp add: get_channel_def fake_channels_def mk_channel_repository_def latest_channel_def
        logical_name_PStr channel_name_PStr ex_names_ok run_def build_def execute_def pbind_def
        fake_metadata_def fake_execute_def with_table_def fake_query_def get_table_def ex_world_def
        empty_fake_def result_page_def result_of_def result_mapping_def get_or_def sort_rows_def)
  have req: "requested_row ex_resource ''stable'' 1 (PStr ''ci'') ex_time = Inr ?req"
    using ex_channel_ok by (simp add: requested_row_def mk_channel_row_Inr_iff channel_row_ok_def)
      (simp add: ex_channel_def)
  from get req ex_now ex_put_channel show ?thesis
    by (simp add: promote_def nat_value_def target_resource_def check_target_def channel_name_PStr
        ex_names_ok advance_pointer_def fake_channels_def mk_channel_repository_def pbind_def
        next_pointer_def put_pointer_def pcatch_def Let_def)
qed

lemma history_ok_Nil: "history_ok []" "newest i [] 0"
proof -
  have n: "newest i [] 0" for i by (simp add: newest_def pointers_def)
  then show "newest i [] 0" .
  have "\<exists>n. newest i [] n" for i using n [of i] by (rule exI)
  then show "history_ok []" unfolding history_ok_def by simp
qed

section \<open>A publication\<close>

definition ex_publication :: publication where
  "ex_publication = \<lparr>pb_namespace = PStr ''app'', pb_kind = PStr ''config'', pb_name = PStr ''svc'',
     pb_version = PStr ''1'', pb_actor = PStr ''ci'', pb_media_type = PStr ''application/json'',
     pb_labels = PDict (str_dict [(''tier'', ''gold'')]), pb_annotations = PNone,
     pb_provenance = Some ex_provenance, pb_supersedes = PNone, pb_version_order = PInt 1,
     pb_channel = PNone, pb_expected_pointer = PNone\<rparr>"

abbreviation fake_configuration :: "fake configuration_publisher" where
  "fake_configuration \<equiv> sp_configuration (st_publisher fake_store)"

lemma ex_publication_fields [simp]:
  "pb_namespace ex_publication = PStr ''app''" "pb_kind ex_publication = PStr ''config''"
  "pb_name ex_publication = PStr ''svc''" "pb_version ex_publication = PStr ''1''"
  "pb_media_type ex_publication = PStr ''application/json''" "pb_channel ex_publication = PNone"
  "pb_expected_pointer ex_publication = PNone"
  by (simp_all add: ex_publication_def)

lemma ex_publication_ok: "publication_ok reference_external ex_publication"
  using ex_provenance_ok by (simp add: publication_ok_def ex_publication_def str_dict_def)

lemma mk_stored_resource_annotations:
  "canonical_mapping (x_canonical_json_bytes x) v ''annotations'' (Some 64) (Some 262144)
      = canonical_mapping (x_canonical_json_bytes x) (ra_annotations a) ''annotations'' (Some 64) (Some 262144) \<Longrightarrow>
    mk_stored_resource x (a\<lparr>ra_annotations := v\<rparr>) = mk_stored_resource x a"
proof -
  have "check_profile x (a\<lparr>ra_annotations := v\<rparr>) = check_profile x a"
    by (intro ext) (cases "ra_profile a"; cases "ra_object_ref a"; simp add: check_profile_def)
  then show "canonical_mapping (x_canonical_json_bytes x) v ''annotations'' (Some 64) (Some 262144)
      = canonical_mapping (x_canonical_json_bytes x) (ra_annotations a) ''annotations'' (Some 64) (Some 262144) \<Longrightarrow>
    mk_stored_resource x (a\<lparr>ra_annotations := v\<rparr>) = mk_stored_resource x a"
    by (simp add: mk_stored_resource_def)
qed

lemma ex_make_candidate:
  "make_candidate reference_external fake_now ex_identity CONFIGURATION_PROFILE ex_publication ''application/json''
     (sha256_digest ex_bytes) 16 (PProxy ex_payload) (Some fake_schema_ref) None w
   = (Inr (ex_resource\<lparr>sr_record_version := PNone\<rparr>), w)"
proof -
  let ?r = "ex_resource\<lparr>sr_record_version := PNone\<rparr>"
  let ?a = "ex_resource_args\<lparr>ra_payload := PProxy ex_payload, ra_record_version := PNone\<rparr>"
  have ok: "resource_ok reference_external ?r"
    using ex_resource_ok by (simp add: resource_ok_def sr_identity_def profile_part_ok_def cong: resource_profile.case_cong)
  have "length ex_bytes = 16" by (simp add: ex_bytes_def)
  then have "check_profile reference_external ?a (sr_digest ?r) (sr_byte_length ?r)
      = Inr (sr_payload ?r, sr_payload_schema ?r, sr_object_ref ?r)"
    using fake_schema_ref_ok ex_encodings
    by (simp add: check_profile_def ex_resource_args_def ex_resource_def parse_schema_ref_def)
  then have "mk_stored_resource reference_external ?a = Inr ?r"
    by (intro mk_stored_resource_Inr ok) (simp_all add: ex_resource_args_def ex_resource_def)
  then have "mk_stored_resource reference_external (?a\<lparr>ra_annotations := PProxy []\<rparr>) = Inr ?r"
    by (subst mk_stored_resource_annotations) (simp_all add: ex_resource_args_def ex_encodings)
  then show ?thesis
    using ex_now ex_encodings
    by (simp add: make_candidate_def pbind_def ex_publication_def or_empty_def ex_resource_args_def ex_identity_def)
qed

lemma ex_candidate:
  "cp_candidate fake_configuration ex_publication (PDict ex_payload) (SchemaRefArg fake_schema_ref) w
     = (Inr (ex_identity, ex_resource\<lparr>sr_record_version := PNone\<rparr>), w)"
proof -
  have i: "mk_identity (PStr ''app'') (PStr ''config'') (PStr ''svc'') (PStr ''1'') = Inr ex_identity"
    using ex_identity_ok by (simp add: mk_identity_Inr_iff) (simp add: ex_identity_def)
  have "freeze_json (PDict ex_payload) = PProxy ex_payload" by code_simp
  then have v: "validate_payload fake_runtime (PDict ex_payload) fake_schema_ref w = (Inr (PProxy ex_payload), w)"
    by (simp add: validate_payload_def fake_schema_def pbind_def pcatch_def reference_external_def)
  have m: "media_type (PStr ''application/json'') = Inr ''application/json''"
    by (simp add: media_type_Inr_iff ex_names_ok)
  have "length ex_bytes = 16" by (simp add: ex_bytes_def)
  with m show ?thesis
    using i v ex_make_candidate ex_encodings
    by (simp add: cp_candidate_def Let_def fake_store_def mk_configuration_publisher_def fake_metadata_def
        pbind_def parse_schema_ref_def)
qed

text \<open>Publishing it first writes the row and its provenance; publishing it again finds the row.\<close>

definition ex_provenance_row :: "pyval dict" where
  "ex_provenance_row = the (provenance_record ex_resource)"

definition ex_published :: fake where
  "ex_published = empty_fake\<lparr>fk_metadata := [(sr_resource_id ex_resource, ex_row)],
     fk_provenance := [(sr_resource_id ex_resource, ex_provenance_row @ [(''recordVersion'', PInt 1)])],
     fk_transactions := 1\<rparr>"

definition ex_receipt :: "bool \<Rightarrow> publication_receipt" where
  "ex_receipt again = \<lparr>rc_resource = ex_resource, rc_idempotent = again, rc_object_committed = False,
     rc_metadata_committed = True, rc_channel = None, rc_orphan_candidate = None\<rparr>"

lemma ex_result_data [simp]: "res_data (result_of res v) = v"
  by (simp add: result_of_def)

lemma ex_get_resource_of:
  assumes "fk_metadata w = [(sr_resource_id r, row)]" "resource_of reference_external r row"
  shows "get_resource fake_metadata (sr_resource_id r) b w = (Inr (Some r), w)"
proof -
  note parse = reference.parse_resource_row [OF assms(2)]
  have m: "matches [(''resourceId'', PStr (sr_resource_id r))] row"
    using parse(3) by (simp add: matches_key)
  have "result_record s (result_of METADATA_RESOURCE (PDict row)) = Inr row" for s
    using parse(2) by (simp add: result_record_def result_of_def result_mapping_def logical_record_def)
  with m parse(1) assms(1) show ?thesis
    by (simp add: get_resource_def get_row_def fake_metadata_def build_def execute_def pbind_def pcatch_def
        fake_execute_def with_table_def fake_get_def get_table_def Let_def)
qed

lemma ex_get_resource:
  "fk_metadata w = [(sr_resource_id ex_resource, ex_row)] \<Longrightarrow>
    get_resource fake_metadata (identity_resource_id ex_identity) b w = (Inr (Some ex_resource), w)"
  using ex_get_resource_of [OF _ ex_row_of] by simp

lemma ex_get_no_resource:
  "fk_metadata w = [] \<Longrightarrow> get_resource fake_metadata k False w = (Inr None, w)"
  by (simp add: get_resource_def get_row_def fake_metadata_def build_def execute_def pbind_def pcatch_def
      fake_execute_def with_table_def fake_get_def get_table_def result_of_def record_not_found_def is_not_found_def category_of_def Let_def)

lemma ex_same: "same_configuration (ex_resource\<lparr>sr_record_version := PNone\<rparr>) ex_resource"
proof -
  have "provenance_eq ex_provenance ex_provenance"
    using ex_provenance_ok by (rule provenance_eq_refl)
  moreover have "dict_eq ex_payload ex_payload" by code_simp
  moreover have "dict_eq [] []" by code_simp
  ultimately show ?thesis
    by (simp add: same_configuration_def same_artifact_def opt_eq_def ex_resource_def smap_eq_refl)
qed

lemma ex_put_resource_of:
  assumes "fk_metadata w = []" "\<not> fk_fail_next_metadata_put w" "resource_of reference_external r row"
    "sr_record_version r = PInt 1"
  shows "put_resource fake_metadata (r\<lparr>sr_record_version := PNone\<rparr>) w
    = (Inr r, w\<lparr>fk_metadata := [(sr_resource_id r, row)]\<rparr>)"
proof -
  let ?c = "r\<lparr>sr_record_version := PNone\<rparr>"
  have "resource_to_record reference_external ?c = resource_to_record reference_external r"
    by (simp add: resource_to_record_def cong: resource_profile.case_cong)
  moreover have "row = resource_to_record reference_external r @ [(''recordVersion'', PInt 1)]"
    using assms(3,4) by (simp add: resource_of_def)
  moreover have "AList.update k v d = d @ [(k, v)]" if "map_of d k = None" for k :: string and v :: pyval and d
    using that by (induction d) auto
  note this [OF resource_row_keys(3)]
  ultimately have row: "versioned (resource_to_record reference_external ?c) 1 = row"
    by (simp add: versioned_def)
  have key: "map_of (resource_to_record reference_external ?c) ''resourceId'' = Some (PStr (sr_resource_id r))"
    by (simp add: resource_to_record_def)
  note parse = reference.parse_resource_row [OF assms(3)]
  have "result_record s (result_of METADATA_RESOURCE (PDict row)) = Inr row" for s
    using parse(2) by (simp add: result_record_def result_of_def result_mapping_def logical_record_def)
  with row key parse(1) assms(1,2) show ?thesis
    by (simp add: put_resource_def put_row_def run_def fake_metadata_def build_def execute_def pbind_def
        fake_execute_def with_table_def fake_put_def get_table_def set_table_def key_name_def Let_def)
qed

lemma ex_put_resource:
  "fk_metadata w = [] \<Longrightarrow> \<not> fk_fail_next_metadata_put w \<Longrightarrow>
    put_resource fake_metadata (ex_resource\<lparr>sr_record_version := PNone\<rparr>) w
      = (Inr ex_resource, w\<lparr>fk_metadata := [(sr_resource_id ex_resource, ex_row)]\<rparr>)"
  using ex_put_resource_of [OF _ _ ex_row_of] by (simp add: ex_resource_def)

lemma ex_put_provenance:
  assumes "fk_provenance w = []"
  shows "put_provenance fake_metadata ex_provenance_row w
    = (Inr (ex_provenance_row @ [(''recordVersion'', PInt 1)]),
       w\<lparr>fk_provenance := [(sr_resource_id ex_resource, ex_provenance_row @ [(''recordVersion'', PInt 1)])]\<rparr>)"
proof -
  let ?row = "ex_provenance_row @ [(''recordVersion'', PInt 1)]"
  have d: "ex_provenance_row = [(''formatVersion'', PStr ''meridian.config-artifact.provenance-record.v1''),
        (''provenanceId'', PStr (identity_resource_id ex_identity)),
        (''resourceId'', PStr (identity_resource_id ex_identity)),
        (''document'', PDict (provenance_to_dict ex_provenance)), (''createdAt'', PStr ex_time)]"
    by (simp add: ex_provenance_row_def provenance_record_def) (simp add: ex_resource_def)
  have eq: "dict_eq ex_provenance_row ex_provenance_row"
    by (rule dict_eq_refl) (simp add: d provenance_to_dict_def ex_provenance_def)
  have "result_record s (result_of PROVENANCE_RESOURCE (PDict ?row)) = Inr ?row" for s
    by (simp add: result_record_def result_of_def result_mapping_def logical_record_def d)
  moreover have "without_record_timestamps [''updatedAt''] ?row = Inr ?row"
    by (simp add: without_record_timestamps_def check_timestamp_def d without_def)
  moreover have "normalise_created_at ?row = Inr ?row" using ex_time_ok by (simp add: normalise_created_at_def d)
  moreover have "without [''recordVersion''] ?row = ex_provenance_row" "versioned ex_provenance_row 1 = ?row"
    "map_of ex_provenance_row ''provenanceId'' = Some (PStr (identity_resource_id ex_identity))"
    by (simp_all add: d versioned_def without_def)
  ultimately show ?thesis
    using assms eq
    by (simp add: put_provenance_def put_row_def run_def fake_metadata_def build_def execute_def pbind_def
        fake_execute_def with_table_def fake_put_def get_table_def set_table_def key_name_def Let_def)
qed

lemma ex_publication_again:
  "cp_publish fake_configuration ex_publication (PDict ex_payload) (SchemaRefArg fake_schema_ref) ex_published
     = (Inr (ex_receipt True), ex_published)"
  using ex_candidate [of ex_published] ex_get_resource [of ex_published] ex_same
  by (simp add: cp_publish_def ex_published_def fake_store_def mk_configuration_publisher_def pbind_def
      cp_existing_receipt_def promote_optional_def ex_receipt_def)

lemma ex_publication_first:
  "cp_publish fake_configuration ex_publication (PDict ex_payload) (SchemaRefArg fake_schema_ref) empty_fake
     = (Inr (ex_receipt False), ex_published)"
proof -
  let ?w = "empty_fake\<lparr>fk_transactions := 1\<rparr>"
  have "provenance_record ex_resource = Some ex_provenance_row"
    by (simp add: ex_provenance_row_def provenance_record_def ex_resource_def)
  then have "commit same_configuration fake_metadata ex_identity (ex_resource\<lparr>sr_record_version := PNone\<rparr>) empty_fake
      = (Inr ex_resource, ex_published)"
    using ex_put_resource [of ?w] ex_put_provenance [of "?w\<lparr>fk_metadata := [(sr_resource_id ex_resource, ex_row)]\<rparr>"] ex_same
    by (simp add: commit_def transaction_def with_transaction_def guarded_def fake_metadata_def pbind_def
        empty_fake_def ex_published_def)
  then show ?thesis
    using ex_candidate [of empty_fake] ex_get_no_resource [of empty_fake]
    by (simp add: cp_publish_def fake_store_def mk_configuration_publisher_def pbind_def cp_publish_new_def pcatch_def
      promote_optional_def ex_receipt_def empty_fake_def)
qed

text \<open>Its deprecation, and the exact lookup before and after.\<close>

definition ex_retired :: fake where
  "ex_retired = ex_published\<lparr>fk_metadata := [(sr_resource_id ex_resource,
     resource_to_record reference_external ex_deprecated @ [(''recordVersion'', PInt 2)])], fk_transactions := 2\<rparr>"

lemma ex_deprecated_of: "resource_of reference_external ex_deprecated
    (resource_to_record reference_external ex_deprecated @ [(''recordVersion'', PInt 2)])"
  using ex_deprecated_ok by (simp add: resource_of_def ex_deprecated_def)

lemma ex_retirement: "cp_deprecate fake_configuration ex_identity ex_published = (Inr ex_deprecated, ex_retired)"
proof -
  have md: "fk_metadata ex_published = [(sr_resource_id ex_resource, ex_row)]" "fk_transactions ex_published = 1"
    by (simp_all add: ex_published_def)
  then show ?thesis
    using ex_get_resource [OF md(1), of True] ex_deprecation_of [OF md(1)]
    by (simp add: cp_deprecate_def deprecate_def required_resource_def cp_check_def fake_store_def
        mk_configuration_publisher_def pbind_def pcatch_def ex_retired_def)
qed

lemma ex_exact:
  "cc_exact (sc_configurations (st_consumer fake_store)) ex_identity ex_published
     = (Inr \<lparr>rs_resource = ex_resource, rs_channel = None\<rparr>, ex_published)"
  "cc_exact (sc_configurations (st_consumer fake_store)) ex_identity ex_retired
     = (Inr \<lparr>rs_resource = ex_deprecated, rs_channel = None\<rparr>, ex_retired)"
proof -
  have "fk_metadata ex_published = [(sr_resource_id ex_resource, ex_row)]" by (simp add: ex_published_def)
  with ex_get_resource [of ex_published True]
  show "cc_exact (sc_configurations (st_consumer fake_store)) ex_identity ex_published
     = (Inr \<lparr>rs_resource = ex_resource, rs_channel = None\<rparr>, ex_published)"
    by (simp add: cc_exact_def resolve_exact_def required_resource_def require_configuration_def fake_store_def pbind_def)
  have d: "sr_resource_id ex_deprecated = identity_resource_id ex_identity" "sr_profile ex_deprecated = CONFIGURATION_PROFILE"
    by (simp_all add: ex_deprecated_def)
  then have "fk_metadata ex_retired = [(sr_resource_id ex_deprecated,
      resource_to_record reference_external ex_deprecated @ [(''recordVersion'', PInt 2)])]"
    by (simp add: ex_retired_def)
  from ex_get_resource_of [OF this ex_deprecated_of, of True] d
  show "cc_exact (sc_configurations (st_consumer fake_store)) ex_identity ex_retired
     = (Inr \<lparr>rs_resource = ex_deprecated, rs_channel = None\<rparr>, ex_retired)"
    by (simp add: cc_exact_def resolve_exact_def required_resource_def require_configuration_def fake_store_def pbind_def)
qed

end
