(* ===== verification/ArtifactExamples.thy ===== *)
theory ArtifactExamples
  imports Examples
begin

text \<open>
  A publication of an artifact on the in-memory store: the bytes are registered, stored as an Object
  and released, and the metadata row and its provenance are written.
\<close>

definition ex_blob :: string where
  "ex_blob = ''abc''"

definition ex_artifact_publication :: publication where
  "ex_artifact_publication = ex_publication\<lparr>pb_media_type := PStr ''application/octet-stream''\<rparr>"

definition ex_object_metadata :: object_metadata where
  "ex_object_metadata = \<lparr>om_object_ref = ex_object_ref, om_digest = sha256_digest ''abc'', om_byte_length = 3,
     om_media_type = ''application/octet-stream'',
     om_user_metadata = str_dict [(''resourceId'', identity_resource_id ex_identity), (''namespace'', ''app''),
       (''kind'', ''config''), (''name'', ''svc''), (''version'', ''1'')]\<rparr>"

definition ex_artifact_row :: "pyval dict" where
  "ex_artifact_row = resource_to_record reference_external ex_artifact @ [(''recordVersion'', PInt 1)]"

definition ex_handle :: payload_ref where
  "ex_handle = \<lparr>pr_handle = ''payload-0'', pr_expected_digest = Some (sha256_digest ''abc''), pr_expected_length = Some 3\<rparr>"

definition ex_registered :: fake where
  "ex_registered = empty_fake\<lparr>fk_payloads := [(''payload-0'', ''abc'')], fk_handles := 1\<rparr>"

definition ex_stored :: fake where
  "ex_stored = ex_registered\<lparr>fk_objects := [(identity_object_id ex_identity, (ex_object_metadata, ''abc''))]\<rparr>"

text \<open>The steps of a publication up to its Object, whether or not the next metadata write is to fail.\<close>

lemma ex_register_any:
  "register_payload fake_runtime (PayloadBytes ''abc'') PNone PNone (empty_fake\<lparr>fk_fail_next_metadata_put := f\<rparr>)
    = (Inr \<lparr>rg_reference = ex_handle, rg_digest = sha256_digest ''abc'', rg_byte_length = 3, rg_owned = True\<rparr>,
       ex_registered\<lparr>fk_fail_next_metadata_put := f\<rparr>)"
proof -
  have "int_str 0 = ''0''" by code_simp
  then show ?thesis
    by (simp add: register_payload_def Let_def match_declared_def pbind_def fake_register_def empty_fake_def ex_handle_def
        ex_registered_def)
qed

lemma ex_not_failing:
  "empty_fake\<lparr>fk_fail_next_metadata_put := False\<rparr> = empty_fake"
  "ex_registered\<lparr>fk_fail_next_metadata_put := False\<rparr> = ex_registered"
  "ex_stored\<lparr>fk_fail_next_metadata_put := False\<rparr> = ex_stored"
  by (simp_all add: empty_fake_def ex_registered_def ex_stored_def)

lemmas ex_register = ex_register_any [of False, unfolded ex_not_failing]

lemma ex_parse_object_metadata:
  "object_metadata_of reference_external s (metadata_result OBJECT_RESOURCE ex_object_metadata) = Inr ex_object_metadata"
  by (simp add: object_metadata_of_def metadata_result_def object_mapping_def get_or_def object_metadata_dict_def
      parse_object_metadata_def dict_at_def str_at_def int_at_def parse_object_ref_dict_def object_ref_dict_def
      parse_resource_ref_def resource_ref_dict_def ex_object_metadata_def ex_object_ref_def)

lemma ex_object_put_any:
  "ap_put_object (sp_artifacts (st_publisher fake_store)) ex_identity ex_handle (sha256_digest ''abc'') 3
     ''application/octet-stream'' (PStr ''ci'') (Some ex_provenance) (ex_registered\<lparr>fk_fail_next_metadata_put := f\<rparr>)
     = (Inr (ex_object_metadata, False), ex_stored\<lparr>fk_fail_next_metadata_put := f\<rparr>)"
proof -
  have i: "ri_namespace ex_identity = ''app''" "ri_kind ex_identity = ''config''" "ri_name ex_identity = ''svc''"
    "ri_version ex_identity = ''1''" by (simp_all add: ex_identity_def)
  have put: "fake_object_put OBJECT_RESOURCE
      \<lparr>op_object_id = identity_object_id ex_identity, op_payload = ex_handle, op_media_type = ''application/octet-stream'',
       op_expected_digest = sha256_digest ''abc'', op_expected_length = 3,
       op_user_metadata = [(''resourceId'', identity_resource_id ex_identity), (''namespace'', ''app''),
         (''kind'', ''config''), (''name'', ''svc''), (''version'', ''1'')],
       op_creation_context = c, op_provenance = p, op_retention = r, op_publish_once = b, op_create_only = b'\<rparr>
      (ex_registered\<lparr>fk_fail_next_metadata_put := f\<rparr>)
      = (Inr (metadata_result OBJECT_RESOURCE ex_object_metadata), ex_stored\<lparr>fk_fail_next_metadata_put := f\<rparr>)" for c p r b b'
    by (simp add: fake_object_put_def ex_registered_def empty_fake_def pbind_def fake_open_def ex_handle_def
        fake_chunks_def fake_read_def guarded_def fake_close_def Let_def without_def ex_stored_def ex_object_metadata_def
        ex_object_ref_def)
  show ?thesis
    using put ex_parse_object_metadata i
    by (simp add: ap_put_object_def put_object_def fake_store_def mk_artifact_publisher_def fake_objects_def run_def
        build_def execute_def fake_execute_def pbind_def pcatch_def verify_object_metadata_def)
      (simp add: ex_object_metadata_def ex_object_ref_def)
qed

lemmas ex_object_put = ex_object_put_any [of False, unfolded ex_not_failing]

text \<open>The candidate, the metadata rows, and the world the publication leaves.\<close>

lemma ex_artifact_of: "resource_of reference_external ex_artifact ex_artifact_row"
  using ex_artifact_ok by (simp add: resource_of_def ex_artifact_row_def) (simp add: ex_artifact_def ex_resource_def)

lemma ex_artifact_fields [simp]:
  "sr_resource_id ex_artifact = identity_resource_id ex_identity" "sr_profile ex_artifact = ARTIFACT_PROFILE"
  "sr_state ex_artifact = PUBLISHED" "sr_object_ref ex_artifact = Some ex_object_ref"
  "sr_digest ex_artifact = sha256_digest ''abc''" "sr_byte_length ex_artifact = 3"
  "sr_media_type ex_artifact = ''application/octet-stream''" "sr_record_version ex_artifact = PInt 1"
  by (simp_all add: ex_artifact_def) (simp add: ex_resource_def)

lemma ex_artifact_candidate:
  "ap_candidate (sp_artifacts (st_publisher fake_store)) ex_identity ex_artifact_publication (Some ex_object_ref)
     (sha256_digest ''abc'') 3 ''application/octet-stream'' w = (Inr (ex_artifact\<lparr>sr_record_version := PNone\<rparr>), w)"
proof -
  let ?r = "ex_artifact\<lparr>sr_record_version := PNone\<rparr>"
  let ?a = "ex_resource_args\<lparr>ra_profile := ARTIFACT_PROFILE, ra_media_type := PStr ''application/octet-stream'',
    ra_digest := PStr (sha256_digest ''abc''), ra_byte_length := PInt 3, ra_object_ref := Some ex_object_ref,
    ra_payload := PNone, ra_payload_schema := None, ra_record_version := PNone\<rparr>"
  have ok: "resource_ok reference_external ?r"
    using ex_artifact_ok by (simp add: resource_ok_def sr_identity_def profile_part_ok_def cong: resource_profile.case_cong)
  have "check_profile reference_external ?a (sr_digest ?r) (sr_byte_length ?r)
      = Inr (sr_payload ?r, sr_payload_schema ?r, sr_object_ref ?r)"
    by (simp add: check_profile_def ex_resource_args_def parse_object_ref_def ex_artifact_def) (simp add: ex_object_ref_def)
  then have "mk_stored_resource reference_external ?a = Inr ?r"
    by (intro mk_stored_resource_Inr ok) (simp_all add: ex_resource_args_def ex_artifact_def ex_resource_def)
  then have "mk_stored_resource reference_external (?a\<lparr>ra_annotations := PProxy []\<rparr>) = Inr ?r"
    by (subst mk_stored_resource_annotations) (simp_all add: ex_resource_args_def ex_encodings)
  then show ?thesis
    using ex_now ex_encodings
    by (simp add: ap_candidate_def make_candidate_def pbind_def ex_artifact_publication_def ex_publication_def or_empty_def
        ex_resource_args_def ex_identity_def fake_store_def mk_artifact_publisher_def fake_metadata_def)
qed

lemma ex_same_artifact: "same_artifact (ex_artifact\<lparr>sr_record_version := PNone\<rparr>) ex_artifact"
proof -
  have "provenance_eq ex_provenance ex_provenance"
    using ex_provenance_ok by (rule provenance_eq_refl)
  moreover have "dict_eq [] []" by code_simp
  ultimately show ?thesis
    by (simp add: same_artifact_def opt_eq_def ex_artifact_def ex_resource_def smap_eq_refl)
qed

definition ex_artifact_world :: fake where
  "ex_artifact_world = ex_stored\<lparr>fk_payloads := [],
     fk_metadata := [(identity_resource_id ex_identity, ex_artifact_row)],
     fk_provenance := [(identity_resource_id ex_identity, ex_provenance_row @ [(''recordVersion'', PInt 1)])],
     fk_transactions := 1\<rparr>"

definition ex_artifact_receipt :: publication_receipt where
  "ex_artifact_receipt = \<lparr>rc_resource = ex_artifact, rc_idempotent = False, rc_object_committed = True,
     rc_metadata_committed = True, rc_channel = None, rc_orphan_candidate = None\<rparr>"

lemma ex_artifact_args:
  "pb_namespace ex_artifact_publication = PStr ''app''" "pb_kind ex_artifact_publication = PStr ''config''"
  "pb_name ex_artifact_publication = PStr ''svc''" "pb_version ex_artifact_publication = PStr ''1''"
  "pb_media_type ex_artifact_publication = PStr ''application/octet-stream''"
  "pb_channel ex_artifact_publication = PNone" "pb_expected_pointer ex_artifact_publication = PNone"
  "pb_actor ex_artifact_publication = PStr ''ci''" "pb_provenance ex_artifact_publication = Some ex_provenance"
  by (simp_all add: ex_artifact_publication_def ex_publication_def)

lemma ex_artifact_parts:
  "mk_identity (PStr ''app'') (PStr ''config'') (PStr ''svc'') (PStr ''1'') = Inr ex_identity"
  "media_type (PStr ''application/octet-stream'') = Inr ''application/octet-stream''"
  using ex_identity_ok by (simp_all add: mk_identity_Inr_iff media_type_Inr_iff ex_names_ok) (simp add: ex_identity_def)

lemma ex_artifact_run:
  "publish_artifact (st_publisher fake_store) ex_artifact_publication (PayloadBytes ''abc'') PNone PNone empty_fake
     = (Inr ex_artifact_receipt, ex_artifact_world)"
proof -
  let ?c = "ex_artifact\<lparr>sr_record_version := PNone\<rparr>" and ?w = "ex_stored\<lparr>fk_transactions := 1\<rparr>"
  have "sr_provenance ex_resource = Some ex_provenance" "sr_created_at ex_resource = ex_time"
    "sr_provenance ex_artifact = Some ex_provenance" "sr_created_at ex_artifact = ex_time"
    by (simp_all add: ex_artifact_def ex_resource_def)
  then have prov: "provenance_record ex_artifact = Some ex_provenance_row"
    by (simp add: ex_provenance_row_def provenance_record_def)
  have md: "fk_metadata ex_stored = []" "fk_provenance ex_stored = []" "\<not> fk_fail_next_metadata_put ex_stored"
    "fk_transactions ex_stored = 0" "fk_metadata ex_registered = []"
    by (simp_all add: ex_stored_def ex_registered_def empty_fake_def)
  have commit: "commit same_artifact fake_metadata ex_identity ?c ex_stored
      = (Inr ex_artifact, ex_artifact_world\<lparr>fk_payloads := fk_payloads ex_stored\<rparr>)"
    using ex_put_resource_of [of ?w, OF _ _ ex_artifact_of]
      ex_put_provenance [of "?w\<lparr>fk_metadata := [(identity_resource_id ex_identity, ex_artifact_row)]\<rparr>"] ex_same_artifact prov md
    by (simp add: commit_def transaction_def with_transaction_def guarded_def fake_metadata_def pbind_def
        ex_artifact_world_def)
  note parts = ex_artifact_parts and pub = ex_artifact_args
  have release: "fake_release ex_handle (ex_artifact_world\<lparr>fk_payloads := fk_payloads ex_stored\<rparr>) = (Inr (), ex_artifact_world)"
    by (simp add: fake_release_def ex_handle_def ex_stored_def ex_registered_def without_def ex_artifact_world_def)
  have store: "ap_metadata (sp_artifacts (st_publisher fake_store)) = fake_metadata"
    "ap_payloads (sp_artifacts (st_publisher fake_store)) = fake_runtime"
    by (simp_all add: fake_store_def mk_artifact_publisher_def)
  have ref: "om_object_ref ex_object_metadata = ex_object_ref" by (simp add: ex_object_metadata_def)
  have new: "ap_publish_new (sp_artifacts (st_publisher fake_store)) ex_identity ex_artifact_publication
      \<lparr>rg_reference = ex_handle, rg_digest = sha256_digest ''abc'', rg_byte_length = 3, rg_owned = True\<rparr>
      ''application/octet-stream'' ex_registered = (Inr ex_artifact_receipt, ex_artifact_world\<lparr>fk_payloads := fk_payloads ex_stored\<rparr>)"
    using ex_object_put ex_artifact_candidate commit
    by (simp add: ap_publish_new_def pbind_def pcatch_def pub store ref promote_optional_def ex_artifact_receipt_def)
  show ?thesis
    using parts ex_register ex_get_no_resource [OF md(5)] new release
    by (simp add: publish_artifact_def ap_publish_def pub store pbind_def pfinally_def pwhen_def)
qed

text \<open>Reading it back: the Object is registered as a payload, opened, read, verified and released.\<close>

abbreviation fake_consumer :: "fake artifact_consumer" where
  "fake_consumer \<equiv> sc_artifacts (st_consumer fake_store)"

definition ex_read_handle :: payload_ref where
  "ex_read_handle = \<lparr>pr_handle = ''payload-1'', pr_expected_digest = Some (sha256_digest ''abc''), pr_expected_length = Some 3\<rparr>"

definition ex_reading :: fake where
  "ex_reading = ex_artifact_world\<lparr>fk_payloads := [(''payload-1'', ''abc'')], fk_handles := 2\<rparr>"

lemma ex_got_object:
  "missing_object r (object_get fake_objects ex_object_ref) ex_artifact_world
     = (Inr \<lparr>rd_metadata = ex_object_metadata, rd_payload = ex_read_handle, rd_byte_range = None\<rparr>, ex_reading)"
proof -
  have h: "''payload-'' @ int_str 1 = ''payload-1''" by code_simp
  have w: "fk_objects ex_artifact_world = [(identity_object_id ex_identity, (ex_object_metadata, ''abc''))]"
    "fk_handles ex_artifact_world = 1" "fk_payloads ex_artifact_world = []"
    by (simp_all add: ex_artifact_world_def ex_stored_def ex_registered_def)
  have get: "fake_object_get OBJECT_RESOURCE ex_object_ref None ex_artifact_world
      = (Inr (result_of OBJECT_RESOURCE (PDict [(''metadata'', PDict (object_metadata_dict ex_object_metadata)),
           (''payload'', PDict (payload_ref_dict ex_read_handle))])), ex_reading)"
    using h by (simp add: fake_object_get_def fake_stored_object_def pbind_def w fake_register_def Let_def
        ex_object_ref_def ex_object_metadata_def ex_reading_def ex_read_handle_def)
  have "object_metadata_of reference_external s (result_of OBJECT_RESOURCE (PDict [(''metadata'', PDict (object_metadata_dict ex_object_metadata)),
           (''payload'', PDict (payload_ref_dict ex_read_handle))])) = Inr ex_object_metadata" for s
    using ex_parse_object_metadata [of s] by (simp add: object_metadata_of_def metadata_result_def object_mapping_def get_or_def)
  then have "object_read_of reference_external s (result_of OBJECT_RESOURCE (PDict [(''metadata'', PDict (object_metadata_dict ex_object_metadata)),
           (''payload'', PDict (payload_ref_dict ex_read_handle))]))
      = Inr \<lparr>rd_metadata = ex_object_metadata, rd_payload = ex_read_handle, rd_byte_range = None\<rparr>" for s
    by (simp add: object_read_of_def object_mapping_def get_or_def payload_ref_dict_def parse_payload_ref_def str_at_def
        ex_read_handle_def)
  with get show ?thesis
    by (simp add: missing_object_def object_get_def fake_objects_def run_def build_def execute_def
        fake_execute_def pbind_def pcatch_def)
qed

lemma ex_checked_read:
  "checked_read fake_consumer ex_artifact (object_get fake_objects ex_object_ref) ex_artifact_world
     = (Inr \<lparr>rd_metadata = ex_object_metadata, rd_payload = ex_read_handle, rd_byte_range = None\<rparr>, ex_reading)"
proof -
  have "verify_consumed_metadata ex_object_metadata ex_artifact = Inr ()"
    by (simp add: verify_consumed_metadata_def) (simp add: ex_object_metadata_def)
  with ex_got_object show ?thesis by (simp add: checked_read_def pbind_def pcatch_def)
qed

definition ex_read_back :: fake where
  "ex_read_back = ex_artifact_world\<lparr>fk_handles := 2\<rparr>"

text \<open>A resource whose media type is not the Object's is refused, and the payload is released.\<close>

definition ex_mismatch :: stored_resource where
  "ex_mismatch = ex_artifact\<lparr>sr_media_type := ''text/plain''\<rparr>"

lemma ex_open_mismatch:
  "ac_open fake_consumer (Stored ex_mismatch) body ex_artifact_world
     = Some (Inl (ArtifactDigestMismatch (about_ref (identity_resource_id ex_identity))), ex_read_back)"
proof -
  have "artifact_object ex_mismatch = Inr ex_object_ref"
    by (simp add: artifact_object_def require_artifact_def ex_mismatch_def)
  moreover have bad: "verify_consumed_metadata ex_object_metadata ex_mismatch
      = Inl (ArtifactDigestMismatch (about_ref (identity_resource_id ex_identity)))"
    by (simp add: verify_consumed_metadata_def ex_mismatch_def) (simp add: ex_object_metadata_def)
  moreover have "has_code DIGEST_MISMATCH (ArtifactDigestMismatch d)" for d
    by (simp add: ArtifactDigestMismatch_def ArtifactDigestMismatch_msg_def)
  moreover have "fake_release ex_read_handle ex_reading = (Inr (), ex_read_back)"
    by (simp add: fake_release_def ex_read_handle_def ex_reading_def without_def ex_read_back_def ex_artifact_world_def)
  moreover have "ac_payloads fake_consumer = fake_runtime" "ac_objects fake_consumer = fake_objects"
    by (simp_all add: fake_store_def)
  ultimately show ?thesis
    using ex_got_object [of ex_mismatch]
    by (simp add: ac_open_def Let_def selected_def checked_read_def dbind_def dlift_def pbind_def pcatch_def)
qed

lemma ex_fake_read:
  assumes "fk_streams w = [(h, rest)]"
  shows "fake_read h n w = (if n < 0 \<or> int (length rest) \<le> n
    then (Inr (PBytes rest), w\<lparr>fk_streams := [(h, [])]\<rparr>)
    else (Inr (PBytes (take (nat n) rest)), w\<lparr>fk_streams := [(h, drop (nat n) rest)]\<rparr>))"
  using assms by (simp add: fake_read_def Let_def)

lemma ex_drain:
  assumes "vr_stream rd = h" "fk_streams w = [(h, rest)]" "int (length rest) \<le> chunk_size"
  shows "drain fake_runtime rd w = Some (Inr (rd\<lparr>vr_data := vr_data rd @ rest\<rparr>), w\<lparr>fk_streams := [(h, [])]\<rparr>)"
proof -
  have c: "0 \<le> chunk_size" by (simp add: chunk_size_def)
  have last: "drain fake_runtime rd w = Some (Inr rd, w)" if "vr_stream rd = h" "fk_streams w = [(h, [])]" for rd w
  proof -
    have w: "w\<lparr>fk_streams := [(h, [])]\<rparr> = w" using that(2) by simp
    from that c show ?thesis
      by (subst drain.simps) (simp add: reader_read_def pbind_def ex_fake_read w)
  qed
  show ?thesis
  proof (cases "rest = []")
    case True
    with last assms show ?thesis by simp
  next
    case False
    with assms last [of "rd\<lparr>vr_data := vr_data rd @ rest\<rparr>" "w\<lparr>fk_streams := [(h, [])]\<rparr>"] show ?thesis
      by (subst drain.simps) (simp add: reader_read_def pbind_def ex_fake_read)
  qed
qed

lemma ex_open:
  assumes "body (mk_reader ''payload-1'' (sha256_digest ''abc'') 3) (ex_reading\<lparr>fk_streams := [(''payload-1'', ''abc'')]\<rparr>)
      = (Inr (v, (mk_reader ''payload-1'' (sha256_digest ''abc'') 3)\<lparr>vr_data := d\<rparr>), ex_reading\<lparr>fk_streams := [(''payload-1'', rest)]\<rparr>)"
    "d @ rest = ''abc''"
  shows "ac_open fake_consumer (Stored ex_artifact) body ex_artifact_world = Some (Inr v, ex_read_back)"
proof -
  let ?rd = "(mk_reader ''payload-1'' (sha256_digest ''abc'') 3)\<lparr>vr_data := d\<rparr>"
  have obj: "artifact_object ex_artifact = Inr ex_object_ref"
    by (simp add: artifact_object_def require_artifact_def)
  have "fk_streams ex_reading = []" "fk_payloads ex_reading = [(''payload-1'', ''abc'')]"
    by (simp_all add: ex_reading_def ex_artifact_world_def ex_stored_def ex_registered_def empty_fake_def)
  then have open1: "fake_open ex_read_handle ex_reading = (Inr ''payload-1'', ex_reading\<lparr>fk_streams := [(''payload-1'', ''abc'')]\<rparr>)"
    by (simp add: fake_open_def ex_read_handle_def)
  have "length rest \<le> 3" using arg_cong [OF assms(2), of length] by simp
  then have verify: "reader_verify fake_runtime ?rd (ex_reading\<lparr>fk_streams := [(''payload-1'', rest)]\<rparr>)
      = Some (Inr (?rd\<lparr>vr_data := ''abc'', vr_done := True\<rparr>), ex_reading\<lparr>fk_streams := [(''payload-1'', [])]\<rparr>)"
    using ex_drain [of ?rd "''payload-1''" "ex_reading\<lparr>fk_streams := [(''payload-1'', rest)]\<rparr>" rest] assms(2)
    by (simp add: reader_verify_def dbind_def dlift_def mk_reader_def chunk_size_def)
  have close: "fake_close ''payload-1'' None (ex_reading\<lparr>fk_streams := [(''payload-1'', [])]\<rparr>) = (Inr (), ex_reading\<lparr>fk_streams := []\<rparr>)"
    by (simp add: fake_close_def without_def)
  have "fk_streams ex_artifact_world = []"
    by (simp add: ex_artifact_world_def ex_stored_def ex_registered_def empty_fake_def)
  moreover have "fk_payloads ex_artifact_world = []" by (simp add: ex_artifact_world_def)
  ultimately have release: "fake_release ex_read_handle (ex_reading\<lparr>fk_streams := []\<rparr>) = (Inr (), ex_read_back)"
    by (simp add: fake_release_def ex_read_handle_def ex_reading_def ex_read_back_def without_def)
  have store: "ac_payloads fake_consumer = fake_runtime" "ac_objects fake_consumer = fake_objects"
    by (simp_all add: fake_store_def)
  show ?thesis
    using obj ex_checked_read open1 assms(1) verify close release
    by (simp add: ac_open_def Let_def selected_def store dbind_def dlift_def pbind_def dfinally_def dguarded_def
        guarded_def pfinally_def)
qed

lemma ex_read_artifact:
  "ac_read fake_consumer (Stored ex_artifact) ex_artifact_world = Some (Inr ''abc'', ex_read_back)"
proof -
  have "ac_payloads fake_consumer = fake_runtime" by (simp add: fake_store_def)
  then show ?thesis unfolding ac_read_def
    by (simp, intro ex_open [where d = "''abc''" and rest = "[]"])
      (simp_all add: reader_read_def pbind_def ex_fake_read mk_reader_def)
qed

lemma ex_open_pieces:
  "ac_open fake_consumer (Stored ex_artifact) (read_sizes fake_runtime [1, 1]) ex_artifact_world
     = Some (Inr [''a'', ''b''], ex_read_back)"
  by (rule ex_open [where d = "''ab''" and rest = "''c''"])
    (simp_all add: reader_read_def pbind_def ex_fake_read mk_reader_def)

text \<open>A range of it.\<close>

definition ex_range :: byte_range where
  "ex_range = PTuple [PInt 1, PInt 2]"

definition ex_range_handle :: payload_ref where
  "ex_range_handle = \<lparr>pr_handle = ''payload-1'', pr_expected_digest = None, pr_expected_length = Some 2\<rparr>"

lemma ex_range_read:
  "ac_range_read fake_consumer (Stored ex_artifact) ex_range ex_artifact_world = (Inr ''bc'', ex_read_back)"
proof -
  let ?w = "ex_artifact_world\<lparr>fk_payloads := [(''payload-1'', ''bc'')], fk_handles := 2\<rparr>"
  let ?d = "[(''metadata'', PDict (object_metadata_dict ex_object_metadata)), (''payload'', PDict (payload_ref_dict ex_range_handle)),
           (''range'', PDict [(''start'', PInt 1), (''end'', PInt 2)])]"
  have h: "''payload-'' @ int_str 1 = ''payload-1''" by code_simp
  have w: "fk_objects ex_artifact_world = [(identity_object_id ex_identity, (ex_object_metadata, ''abc''))]"
    "fk_handles ex_artifact_world = 1" "fk_payloads ex_artifact_world = []" "fk_streams ex_artifact_world = []"
    by (simp_all add: ex_artifact_world_def ex_stored_def ex_registered_def empty_fake_def)
  have res: "resolve_range ex_range 3 = Inr (1, 2)" by (simp add: resolve_range_def ex_range_def)
  have get: "fake_object_get OBJECT_RESOURCE ex_object_ref (Some ex_range) ex_artifact_world
      = (Inr (result_of OBJECT_RESOURCE (PDict ?d)), ?w)"
    using h res by (simp add: fake_object_get_def fake_stored_object_def pbind_def w fake_register_def Let_def
        ex_object_ref_def ex_object_metadata_def ex_range_handle_def)
  have "object_metadata_of reference_external s (result_of OBJECT_RESOURCE (PDict ?d)) = Inr ex_object_metadata" for s
    using ex_parse_object_metadata [of s] by (simp add: object_metadata_of_def metadata_result_def object_mapping_def get_or_def)
  then have "object_read_of reference_external s (result_of OBJECT_RESOURCE (PDict ?d))
      = Inr \<lparr>rd_metadata = ex_object_metadata, rd_payload = ex_range_handle,
             rd_byte_range = Some [(''start'', PInt 1), (''end'', PInt 2)]\<rparr>" for s
    by (simp add: object_read_of_def object_mapping_def get_or_def payload_ref_dict_def parse_payload_ref_def str_at_def
        ex_range_handle_def is_mapping_def)
  with get have "checked_read fake_consumer ex_artifact (object_read_range fake_objects ex_object_ref ex_range) ex_artifact_world
     = (Inr \<lparr>rd_metadata = ex_object_metadata, rd_payload = ex_range_handle,
             rd_byte_range = Some [(''start'', PInt 1), (''end'', PInt 2)]\<rparr>, ?w)"
    by (simp add: checked_read_def missing_object_def object_read_range_def fake_objects_def run_def build_def execute_def
        fake_execute_def pbind_def pcatch_def verify_consumed_metadata_def)
      (simp add: ex_object_metadata_def)
  moreover have "artifact_object ex_artifact = Inr ex_object_ref"
    by (simp add: artifact_object_def require_artifact_def)
  moreover have "x_range_length reference_external ex_range 3 = Inr 2"
    using res by (simp add: reference_external_def)
  moreover have "ac_payloads fake_consumer = fake_runtime" "ac_objects fake_consumer = fake_objects"
    "ob_ext fake_objects = reference_external"
    by (simp_all add: fake_store_def fake_objects_def)
  moreover have "pfinally (pbind (rt_open fake_runtime ex_range_handle) (\<lambda>stream.
        guarded (pbind (rt_chunks fake_runtime stream) (\<lambda>chunks. pret (concat chunks))) (rt_close fake_runtime stream)))
       (rt_release fake_runtime ex_range_handle) ?w = (Inr ''bc'', ex_read_back)"
    by (simp add: pfinally_def pbind_def fake_open_def ex_range_handle_def w guarded_def fake_chunks_def ex_fake_read
        fake_close_def fake_release_def without_def ex_read_back_def)
  ultimately show ?thesis by (simp add: ac_range_read_def Let_def selected_def pbind_step)
qed

end
