(* ===== verification/StoreProperties.thy ===== *)
theory StoreProperties
  imports ArtifactExamples
begin

text \<open>
  What a store promises its clients, over any runtime that keeps the contract \<open>plugin_catalog\<close> and
  whatever validator and clock the application supplies, as long as they write no collection. The
  witnesses run the store of the fixtures on the in-memory runtime.
\<close>

lemma fake_store_ok:
  "plugin_catalog (st_metadata fake_store) fake_rows fake_key fake_known fake_valid"
  "options_ok fake_valid fake_rows None (Some fake_now)" "st_metadata fake_store = fake_metadata"
  "mr_ext fake_metadata = reference_external"
  using fake_plugin.plugin_catalog_axioms neutral_fake_calls(6)
  by (simp_all add: fake_store_def fake_metadata_def options_ok_def)

lemma ex_rows [simp]:
  "fake_rows METADATA_RESOURCE ex_published = [ex_row]" "fake_rows CHANNEL_RESOURCE ex_published = []"
  "fake_rows METADATA_RESOURCE empty_fake = []" "fake_rows CHANNEL_RESOURCE empty_fake = []"
  "mr_metadata_resource fake_metadata = METADATA_RESOURCE" "mr_channel_resource fake_metadata = CHANNEL_RESOURCE"
  by (simp_all add: fake_rows_def fake_table_of_def fake_known_def get_table_def ex_published_def
      empty_fake_def fake_metadata_def)

lemma ex_catalogue:
  "metadata_ok reference_external [ex_row]"
  "resource_at reference_external [ex_row] = [identity_resource_id ex_identity \<mapsto> ex_resource]"
  "metadata_ok reference_external []" "resource_at reference_external [] = Map.empty"
proof -
  show "metadata_ok reference_external []" "resource_at reference_external [] = Map.empty"
    by (auto simp: metadata_ok_def resource_at_def)
  with reference.metadata_ok_append [of "[]" ex_resource ex_row] ex_row_of
  show "metadata_ok reference_external [ex_row]"
    "resource_at reference_external [ex_row] = [identity_resource_id ex_identity \<mapsto> ex_resource]"
    by simp_all
qed

lemma ex_published_ok: "ledger_ok fake_metadata fake_valid fake_rows ex_published"
proof -
  have "fake_valid ex_published"
    by (simp add: fake_valid_def table_ok_def ex_published_def empty_fake_def key_name_def ex_row_def
      resource_to_record_def ex_provenance_row_def provenance_record_def ex_resource_def)
  then show ?thesis
    by (simp add: ledger_ok_def catalogue_def ex_catalogue history_ok_Nil fake_store_ok)
qed

lemma empty_fake_ok: "ledger_ok fake_metadata fake_valid fake_rows empty_fake"
proof -
  have "fake_valid empty_fake" by (simp add: fake_valid_def table_ok_def empty_fake_def)
  then show ?thesis
    by (simp add: ledger_ok_def catalogue_def ex_catalogue history_ok_Nil fake_store_ok)
qed

lemma ex_publish:
  "publication_ok (mr_ext (st_metadata fake_store)) ex_publication" "schema_arg_ok (SchemaRefArg fake_schema_ref)"
  "wf_py (PDict ex_payload)" "ledger_ok (st_metadata fake_store) fake_valid fake_rows empty_fake"
  "publish_configuration (st_publisher fake_store) ex_publication (PDict ex_payload) (SchemaRefArg fake_schema_ref) empty_fake
    = (Inr (ex_receipt False), ex_published)"
  using ex_publication_ok fake_schema_ref_ok ex_normal(2) empty_fake_ok ex_publication_first
  by (simp_all add: fake_store_ok schema_arg_ok_def normal_def publish_configuration_def)

lemma ex_republish:
  "publish_configuration (st_publisher fake_store) ex_publication (PDict ex_payload) (SchemaRefArg fake_schema_ref) ex_published
    = (Inr (ex_receipt True), ex_published)"
  using ex_publication_again by (simp add: publish_configuration_def)

lemma ex_retire_step: "(store_step fake_store)\<^sup>*\<^sup>* ex_published ex_retired"
  using store_step.deprecate_configuration [of fake_store ex_published ex_identity] ex_retirement by auto

lemma ex_identity_parsed: "mk_identity (pb_namespace ex_publication) (pb_kind ex_publication) (pb_name ex_publication)
    (pb_version ex_publication) = Inr ex_identity"
  using ex_identity_ok by (simp add: mk_identity_Inr_iff) (simp add: ex_identity_def)

text \<open>A configuration publication that returns has compared the candidate \<open>cp_candidate\<close> builds from its
  arguments with the resource it returns, on every path.\<close>

lemma commit_same: "commit same repo i c w = (Inr s, w') \<Longrightarrow> same c s"
  by (auto simp: commit_def transaction_def with_transaction_Inr_iff pbind_Inr_iff ensure_Inr_iff split: option.splits)

lemma cp_existing_receipt_same:
  "cp_existing_receipt pub p c r w = (Inr rc, w') \<Longrightarrow> rc_resource rc = r \<and> same_configuration c r"
  by (auto simp: cp_existing_receipt_def pbind_Inr_iff ensure_Inr_iff)

lemma cp_publish_same:
  assumes "cp_publish pub p payload schema w = (Inr rc, w')"
  shows "\<exists>i c u. cp_candidate pub p payload schema w = (Inr (i, c), u) \<and> same_configuration c (rc_resource rc)"
proof -
  from assms obtain i c u z u1 where c: "cp_candidate pub p payload schema w = (Inr (i, c), u)"
    "get_resource (cp_metadata pub) (identity_resource_id i) False u = (Inr z, u1)"
    "(case z of Some r \<Rightarrow> cp_existing_receipt pub p c r | None \<Rightarrow> cp_publish_new pub i p c) u1 = (Inr rc, w')"
    by (auto simp: cp_publish_def pbind_Inr_iff)
  have "same_configuration c (rc_resource rc)"
  proof (cases z)
    case (Some r)
    with c(3) show ?thesis by (auto dest: cp_existing_receipt_same)
  next
    case None
    with c(3) show ?thesis
      by (auto simp: cp_publish_new_def cp_after_failure_def pbind_Inr_iff pcatch_Inr_iff
          dest: cp_existing_receipt_same split: if_splits option.splits) (drule commit_same, assumption)
  qed
  with c(1) show ?thesis by blast
qed

context plugin_catalog
begin

lemma publish_configuration_candidate:
  assumes "st_metadata st = repo" "store_wired repo valid rows st"
    "publication_ok (rt_ext (mr_runtime repo)) p" "schema_arg_ok s" "wf_py payload" "ledger_ok repo valid rows w"
    "publish_configuration (st_publisher st) p payload s w = (Inr rc, w')"
  shows "\<exists>i c u. cp_candidate (sp_configuration (st_publisher st)) p payload s w = (Inr (i, c), u)
    \<and> configuration_candidate repo p i c
    \<and> published same_configuration c (catalogue repo rows w) rc (catalogue repo rows w')"
proof -
  from store_publish_configuration [OF assms] obtain i c'
    where p: "configuration_candidate repo p i c'" "published same_configuration c' (catalogue repo rows w) rc (catalogue repo rows w')"
    by auto
  from assms(7) cp_publish_same obtain j c u
    where c: "cp_candidate (sp_configuration (st_publisher st)) p payload s w = (Inr (j, c), u)" "same_configuration c (rc_resource rc)"
    by (force simp: publish_configuration_def)
  have "reached repo valid rows w (\<lambda>_. True) w" using assms(6) by (simp add: reached_def moves_refl)
  from tripleD(1) [OF reached_cp_candidate [OF store_wiredD(1) [OF assms(2)] assms(3-5)] this c(1)]
  have "configuration_candidate repo p j c" by simp
  moreover from this p(1) have "sr_resource_id c = sr_resource_id c'" by (simp add: configuration_candidate_def)
  ultimately show ?thesis using c p(2) by (auto simp: published_def)
qed

end

text \<open>C4. Publishing a configuration is write-once. If it returns, the metadata map has gained at most
  the entry of the publication's identity: the returned resource, equal in content to the valid
  PUBLISHED candidate that \<open>cp_candidate\<close> builds from the arguments, and an entry that was there before is returned as it
  was, with an idempotent receipt. If it raises, no entry of the map is lost or changed. Either way
  the histories of the channels only grow and stay well formed.\<close>
theorem publish_configuration_write_once:
  assumes "plugin_catalog (st_metadata st) rows key_field known valid"
    "mk_resource_store rt co validator clk w0 = (Inr st, w1)" "options_ok valid rows validator clk"
    "publication_ok (mr_ext (st_metadata st)) p" "schema_arg_ok s" "wf_py payload"
    "ledger_ok (st_metadata st) valid rows w"
    "publish_configuration (st_publisher st) p payload s w = (out, w')"
  shows "moves (st_metadata st) valid rows w w'
    \<and> (case out of
        Inr rc \<Rightarrow> \<exists>i c u. cp_candidate (sp_configuration (st_publisher st)) p payload s w = (Inr (i, c), u)
          \<and> configuration_candidate (st_metadata st) p i c
          \<and> published same_configuration c (catalogue (st_metadata st) rows w) rc (catalogue (st_metadata st) rows w')
      | Inl e \<Rightarrow> no_entry_lost (catalogue (st_metadata st) rows w) (catalogue (st_metadata st) rows w'))"
proof -
  note wired = plugin_catalog.mk_resource_store_wired [OF assms(1,2) refl assms(3)]
  from plugin_catalog.store_publish_configuration [OF assms(1) refl wired assms(4-8)] show ?thesis
    using plugin_catalog.publish_configuration_candidate [OF assms(1) refl wired assms(4-7)] assms(8)
    by (cases out) auto
qed

theorem publish_configuration_write_once_witness:
  "catalogue fake_metadata fake_rows empty_fake = Map.empty
    \<and> catalogue fake_metadata fake_rows ex_published = [identity_resource_id ex_identity \<mapsto> ex_resource]
    \<and> (\<exists>i c u. cp_candidate fake_configuration ex_publication (PDict ex_payload) (SchemaRefArg fake_schema_ref) empty_fake
            = (Inr (i, c), u)
        \<and> configuration_candidate fake_metadata ex_publication i c
        \<and> published same_configuration c Map.empty (ex_receipt False) [identity_resource_id ex_identity \<mapsto> ex_resource])"
proof -
  have cat: "catalogue fake_metadata fake_rows empty_fake = Map.empty"
    "catalogue fake_metadata fake_rows ex_published = [identity_resource_id ex_identity \<mapsto> ex_resource]"
    by (simp_all add: catalogue_def ex_catalogue fake_store_ok)
  from publish_configuration_write_once [OF fake_store_ok(1) fake_store_built [of empty_fake] fake_store_ok(2) ex_publish] cat
  show ?thesis by (simp add: fake_store_ok)
qed

text \<open>C5. Publishing an artifact is write-once in the same sense, whatever the payload source, the object
  Catalog and the payload registry do.\<close>
theorem publish_artifact_write_once:
  assumes "plugin_catalog (st_metadata st) rows key_field known valid"
    "mk_resource_store rt co validator clk w0 = (Inr st, w1)" "options_ok valid rows validator clk"
    "publication_ok (mr_ext (st_metadata st)) p" "ledger_ok (st_metadata st) valid rows w"
    "publish_artifact (st_publisher st) p payload dg n w = (out, w')"
  shows "moves (st_metadata st) valid rows w w'
    \<and> (case out of
        Inr rc \<Rightarrow> \<exists>i c. artifact_candidate (st_metadata st) p i c
          \<and> published same_artifact c (catalogue (st_metadata st) rows w) rc (catalogue (st_metadata st) rows w')
      | Inl e \<Rightarrow> no_entry_lost (catalogue (st_metadata st) rows w) (catalogue (st_metadata st) rows w'))"
  using plugin_catalog.store_publish_artifact [OF assms(1) refl plugin_catalog.mk_resource_store_wired
      [OF assms(1,2) refl assms(3)] assms(4-6)] .

theorem publish_artifact_write_once_witness:
  "\<exists>i c. artifact_candidate fake_metadata ex_artifact_publication i c
    \<and> published same_artifact c Map.empty ex_artifact_receipt (catalogue fake_metadata fake_rows ex_artifact_world)"
proof -
  have "publication_ok (mr_ext (st_metadata fake_store)) ex_artifact_publication"
    "ledger_ok (st_metadata fake_store) fake_valid fake_rows empty_fake"
    using ex_publication_ok empty_fake_ok
    by (simp_all add: fake_store_ok publication_ok_def ex_artifact_publication_def)
  from publish_artifact_write_once [OF fake_store_ok(1) fake_store_built [of empty_fake] fake_store_ok(2) this ex_artifact_run]
  show ?thesis by (simp add: fake_store_ok catalogue_def ex_catalogue)
qed

text \<open>C1. Over the life of a store, by any number of its operations, the metadata stays well formed, an
  entry stays what it is but for becoming DEPRECATED once, no entry is lost, and the channel rows are
  only appended to, with every channel's pointer versions 1, 2, 3, ... without a gap.\<close>
theorem store_invariant:
  assumes "plugin_catalog (st_metadata st) rows key_field known valid"
    "mk_resource_store rt co validator clk w0 = (Inr st, w1)" "options_ok valid rows validator clk"
    "ledger_ok (st_metadata st) valid rows w" "(store_step st)\<^sup>*\<^sup>* w w'"
  shows "ledger_ok (st_metadata st) valid rows w'
    \<and> evolves (catalogue (st_metadata st) rows w) (catalogue (st_metadata st) rows w')
    \<and> (\<exists>new. rows (mr_channel_resource (st_metadata st)) w' = rows (mr_channel_resource (st_metadata st)) w @ new)"
  using plugin_catalog.store_steps_moves [OF assms(1) assms(5) refl plugin_catalog.mk_resource_store_wired
      [OF assms(1,2) refl assms(3)] assms(4)] by (simp add: moves_def)

text \<open>C2. A published version is immutable: whatever operations follow its publication, an exact lookup
  that returns gives the resource that publication returned, or its deprecation.\<close>
theorem published_version_immutable:
  assumes "plugin_catalog (st_metadata st) rows key_field known valid"
    "mk_resource_store rt co validator clk w0 = (Inr st, w1)" "options_ok valid rows validator clk"
    "publication_ok (mr_ext (st_metadata st)) p" "schema_arg_ok s" "wf_py payload"
    "ledger_ok (st_metadata st) valid rows w"
    "publish_configuration (st_publisher st) p payload s w = (Inr rc, w')"
    "mk_identity (pb_namespace p) (pb_kind p) (pb_name p) (pb_version p) = Inr i"
    "(store_step st)\<^sup>*\<^sup>* w' v" "cc_exact (sc_configurations (st_consumer st)) i v = (Inr rs, v')"
  shows "rs_resource rs = rc_resource rc \<or> deprecated_of (rc_resource rc) (rs_resource rs)"
proof -
  let ?repo = "st_metadata st" and ?k = "identity_resource_id i"
  note wired = plugin_catalog.mk_resource_store_wired [OF assms(1,2) refl assms(3)]
  from plugin_catalog.store_publish_configuration [OF assms(1) refl wired assms(4-8)] assms(9)
  have ok: "ledger_ok ?repo valid rows w'" "catalogue ?repo rows w' ?k = Some (rc_resource rc)"
    by (auto simp: moves_ok configuration_candidate_def published_def)
  from plugin_catalog.store_steps_moves [OF assms(1,10) refl wired ok(1)]
  have v: "ledger_ok ?repo valid rows v" "evolves (catalogue ?repo rows w') (catalogue ?repo rows v)"
    by (simp_all add: moves_def)
  from assms(11) have "resolve_exact ?repo require_configuration i v = (Inr rs, v')"
    by (simp add: cc_exact_def plugin_catalog.store_wiredD(12) [OF assms(1) wired])
  then have "catalogue ?repo rows v ?k = Some (rs_resource rs)"
    by (rule plugin_catalog.resolve_exact_reads(1) [OF assms(1) v(1)])
  with v(2) ok(2) show ?thesis unfolding evolves_def by fastforce
qed

theorem published_version_immutable_witness:
  "ex_deprecated = ex_resource \<or> deprecated_of ex_resource ex_deprecated"
  using published_version_immutable [OF fake_store_ok(1) fake_store_built [of empty_fake] fake_store_ok(2) ex_publish
      ex_identity_parsed ex_retire_step ex_exact(2)] by (simp add: ex_receipt_def)

theorem store_invariant_witness:
  "ledger_ok fake_metadata fake_valid fake_rows ex_retired
    \<and> evolves (catalogue fake_metadata fake_rows ex_published) (catalogue fake_metadata fake_rows ex_retired)"
  using store_invariant [OF fake_store_ok(1) fake_store_built [of empty_fake] fake_store_ok(2) _ ex_retire_step]
    ex_published_ok by (simp add: fake_store_ok)

text \<open>The content of a publication, field by field and apart from the comparison of the code: all that the
  arguments of \<open>publish\<close> determine, but for the author and the time.\<close>

definition content_agrees :: "stored_resource \<Rightarrow> stored_resource \<Rightarrow> bool" where
  "content_agrees c r \<longleftrightarrow> sr_resource_id c = sr_resource_id r \<and> sr_profile c = sr_profile r
     \<and> sr_media_type c = sr_media_type r \<and> sr_digest c = sr_digest r \<and> sr_byte_length c = sr_byte_length r
     \<and> opt_eq dict_eq (sr_payload c) (sr_payload r) \<and> sr_payload_schema c = sr_payload_schema r
     \<and> sr_object_ref c = sr_object_ref r \<and> smap_eq (sr_labels c) (sr_labels r)
     \<and> dict_eq (sr_annotations c) (sr_annotations r) \<and> opt_eq provenance_eq (sr_provenance c) (sr_provenance r)
     \<and> sr_supersedes c = sr_supersedes r \<and> sr_version_order c = sr_version_order r"

lemma same_configuration_agrees: "same_configuration c r \<Longrightarrow> content_agrees c r"
  by (simp add: same_configuration_def same_artifact_def content_agrees_def)

lemma content_agrees_deprecated: "deprecated_of r r' \<Longrightarrow> content_agrees c r' \<longleftrightarrow> content_agrees c r"
  by (auto simp: deprecated_of_def content_agrees_def)

text \<open>C3. An identity is published once: whatever operations follow a publication, a second publication of
  its identity returns only if the resource its arguments describe has the content of the first one's,
  field by field, which is the content the first one's arguments describe; and then it returns the first
  one's resource or its deprecation, with an idempotent receipt, and leaves the metadata as it was.\<close>
theorem identity_published_once:
  assumes "plugin_catalog (st_metadata st) rows key_field known valid"
    "mk_resource_store rt co validator clk w0 = (Inr st, w1)" "options_ok valid rows validator clk"
    "publication_ok (mr_ext (st_metadata st)) p" "schema_arg_ok s" "wf_py payload"
    "publication_ok (mr_ext (st_metadata st)) p'" "schema_arg_ok s'" "wf_py payload'"
    "ledger_ok (st_metadata st) valid rows w"
    "publish_configuration (st_publisher st) p payload s w = (Inr rc, w')"
    "mk_identity (pb_namespace p) (pb_kind p) (pb_name p) (pb_version p) = Inr i"
    "mk_identity (pb_namespace p') (pb_kind p') (pb_name p') (pb_version p') = Inr i"
    "(store_step st)\<^sup>*\<^sup>* w' v" "publish_configuration (st_publisher st) p' payload' s' v = (Inr rc', v')"
  shows "(rc_resource rc' = rc_resource rc \<or> deprecated_of (rc_resource rc) (rc_resource rc')) \<and> rc_idempotent rc'
    \<and> (\<exists>c u. cp_candidate (sp_configuration (st_publisher st)) p payload s w = (Inr (i, c), u)
         \<and> content_agrees c (rc_resource rc))
    \<and> (\<exists>c' u. cp_candidate (sp_configuration (st_publisher st)) p' payload' s' v = (Inr (i, c'), u)
         \<and> content_agrees c' (rc_resource rc))
    \<and> catalogue (st_metadata st) rows v' = catalogue (st_metadata st) rows v"
proof -
  let ?repo = "st_metadata st" and ?k = "identity_resource_id i"
  note wired = plugin_catalog.mk_resource_store_wired [OF assms(1,2) refl assms(3)]
  from plugin_catalog.publish_configuration_candidate [OF assms(1) refl wired assms(4-6,10,11)] assms(12)
  obtain c u where c: "cp_candidate (sp_configuration (st_publisher st)) p payload s w = (Inr (i, c), u)"
    "same_configuration c (rc_resource rc)" "catalogue ?repo rows w' ?k = Some (rc_resource rc)"
    by (auto simp: configuration_candidate_def published_def)
  from plugin_catalog.store_publish_configuration [OF assms(1) refl wired assms(4-6,10,11)]
  have ok: "ledger_ok ?repo valid rows w'" by (auto simp: moves_ok)
  from plugin_catalog.store_steps_moves [OF assms(1,14) refl wired ok]
  have v: "ledger_ok ?repo valid rows v" "evolves (catalogue ?repo rows w') (catalogue ?repo rows v)"
    by (simp_all add: moves_def)
  from v(2) c(3) obtain r where r: "catalogue ?repo rows v ?k = Some r" "r = rc_resource rc \<or> deprecated_of (rc_resource rc) r"
    unfolding evolves_def by blast
  from plugin_catalog.publish_configuration_candidate [OF assms(1) refl wired assms(7-9) v(1) assms(15)] assms(13)
  obtain c' u' where c': "cp_candidate (sp_configuration (st_publisher st)) p' payload' s' v = (Inr (i, c'), u')"
    "same_configuration c' (rc_resource rc')" "catalogue ?repo rows v' = (catalogue ?repo rows v)(?k \<mapsto> rc_resource rc')"
    "rc_resource rc' = r" "rc_idempotent rc'"
    using r(1) by (auto simp: configuration_candidate_def published_def)
  have "content_agrees c' (rc_resource rc)"
    using same_configuration_agrees [OF c'(2)] c'(4) r(2) content_agrees_deprecated by auto
  moreover have "catalogue ?repo rows v' = catalogue ?repo rows v" using c'(3,4) r(1) by (simp add: map_upd_triv)
  ultimately show ?thesis using c(1) same_configuration_agrees [OF c(2)] c'(1,4,5) r(2) by auto
qed

theorem identity_published_once_witness:
  "rc_resource (ex_receipt True) = ex_resource \<and> rc_idempotent (ex_receipt True)
    \<and> (\<exists>c u. cp_candidate fake_configuration ex_publication (PDict ex_payload) (SchemaRefArg fake_schema_ref) ex_published
          = (Inr (ex_identity, c), u) \<and> content_agrees c ex_resource)"
  using identity_published_once [OF fake_store_ok(1) fake_store_built [of empty_fake] fake_store_ok(2) ex_publish(1-3)
      ex_publish(1-5) ex_identity_parsed ex_identity_parsed rtranclp.rtrancl_refl ex_republish]
  by (simp add: ex_receipt_def fake_store_ok)

end
