(* ===== verification/Calendar.thy ===== *)
theory Calendar
  imports Timestamps
begin

text \<open>
  The calendar behind \<open>utc_timestamp\<close>: \<open>ord2ymd\<close> inverts \<open>ymd2ord\<close>, so the conversion of an aware
  timestamp to UTC names the same instant, in a valid date of the years 1 to 9999.
\<close>

lemma days_in_months:
  "days_in_month y 1 = 31" "days_in_month y 2 = (if is_leap y then 29 else 28)" "days_in_month y 3 = 31"
  "days_in_month y 4 = 30" "days_in_month y 5 = 31" "days_in_month y 6 = 30" "days_in_month y 7 = 31"
  "days_in_month y 8 = 31" "days_in_month y 9 = 30" "days_in_month y 10 = 31" "days_in_month y 11 = 30"
  "days_in_month y 12 = 31"
  by (simp_all add: days_in_month_def)

lemma months: "[1..12] = [1, 2, 3, 4, 5, 6, 7, 8, 9, 10, 11, 12 :: int]"
  by code_simp

lemma upto_to_11:
  "[1..1 - 1] = ([] :: int list)" "[1..2 - 1] = [1 :: int]" "[1..3 - 1] = [1, 2 :: int]" "[1..4 - 1] = [1, 2, 3 :: int]"
  "[1..5 - 1] = [1, 2, 3, 4 :: int]" "[1..6 - 1] = [1, 2, 3, 4, 5 :: int]" "[1..7 - 1] = [1, 2, 3, 4, 5, 6 :: int]"
  "[1..8 - 1] = [1, 2, 3, 4, 5, 6, 7 :: int]" "[1..9 - 1] = [1, 2, 3, 4, 5, 6, 7, 8 :: int]"
  "[1..10 - 1] = [1, 2, 3, 4, 5, 6, 7, 8, 9 :: int]" "[1..11 - 1] = [1, 2, 3, 4, 5, 6, 7, 8, 9, 10 :: int]"
  "[1..12 - 1] = [1, 2, 3, 4, 5, 6, 7, 8, 9, 10, 11 :: int]"
  by code_simp+

lemma days_before_months:
  "days_before_month y 1 = 0" "days_before_month y 2 = 31"
  "days_before_month y 3 = (if is_leap y then 60 else 59)" "days_before_month y 4 = (if is_leap y then 91 else 90)"
  "days_before_month y 5 = (if is_leap y then 121 else 120)" "days_before_month y 6 = (if is_leap y then 152 else 151)"
  "days_before_month y 7 = (if is_leap y then 182 else 181)" "days_before_month y 8 = (if is_leap y then 213 else 212)"
  "days_before_month y 9 = (if is_leap y then 244 else 243)" "days_before_month y 10 = (if is_leap y then 274 else 273)"
  "days_before_month y 11 = (if is_leap y then 305 else 304)" "days_before_month y 12 = (if is_leap y then 335 else 334)"
  by (simp_all only: days_before_month_def upto_to_11 list.map sum_list.Cons sum_list.Nil days_in_months)
    simp_all

text \<open>The month that contains a day of the year.\<close>

lemma find_month_day:
  assumes "find_month y [1..12] n = (m, d)" "0 \<le> n" "n < (if is_leap y then 366 else 365)"
  shows "1 \<le> m \<and> m \<le> 12 \<and> 1 \<le> d \<and> d \<le> days_in_month y m \<and> days_before_month y m + d = n + 1"
proof (cases "is_leap y")
  case True
  then show ?thesis
    using assms unfolding months
    by (simp add: days_in_months split: if_splits) (auto simp: days_before_months days_in_months)
next
  case False
  then show ?thesis
    using assms unfolding months
    by (simp add: days_in_months split: if_splits) (auto simp: days_before_months days_in_months)
qed

lemma year_blocks:
  fixes a b c d :: int
  assumes "0 \<le> b" "b \<le> 3" "0 \<le> c" "c \<le> 24" "0 \<le> d" "d \<le> 3"
  shows "days_before_year (a * 400 + 1 + b * 100 + c * 4 + d) = 146097 * a + 36524 * b + 1461 * c + 365 * d"
proof -
  let ?y = "400 * a + 100 * b + 4 * c + d"
  have "?y div 4 = 100 * a + 25 * b + c" "?y div 100 = 4 * a + b" "?y div 400 = a" using assms by linarith+
  then show ?thesis by (simp add: days_before_year_def algebra_simps)
qed

lemma ord2ymd_inverse:
  assumes "ord2ymd ord = (y, m, d)" "1 \<le> ord"
  shows "ymd2ord y m d = ord" "1 \<le> y" "1 \<le> m" "m \<le> 12" "1 \<le> d" "d \<le> days_in_month y m"
proof -
  define a where "a = (ord - 1) div 146097"
  define r where "r = (ord - 1) mod 146097"
  define b where "b = r div 36524"
  define r2 where "r2 = r mod 36524"
  define c where "c = r2 div 1461"
  define r3 where "r3 = r2 mod 1461"
  define k where "k = r3 div 365"
  define n where "n = r3 mod 365"
  note parts = a_def r_def b_def r2_def c_def r3_def k_def n_def
  have ord: "ord - 1 = 146097 * a + r" "r = 36524 * b + r2" "r2 = 1461 * c + r3" "r3 = 365 * k + n"
    by (simp_all add: parts)
  have bounds: "0 \<le> a" "0 \<le> r" "r < 146097" "0 \<le> r2" "r2 < 36524" "0 \<le> r3" "r3 < 1461" "0 \<le> n" "n < 365"
    using assms(2) by (simp_all add: parts)
  then have small: "0 \<le> b" "b \<le> 4" "0 \<le> c" "c \<le> 24" "0 \<le> k" "k \<le> 4" using ord by linarith+
  let ?y = "a * 400 + 1 + b * 100 + c * 4 + k"
  have result: "(y, m, d) = (if k = 4 \<or> b = 4 then (?y - 1, 12, 31)
      else (case find_month ?y [1..12] n of (m, d) \<Rightarrow> (?y, m, d)))"
    using assms(1) unfolding ord2ymd_def Let_def by (simp only: parts [symmetric])
  have "ymd2ord y m d = ord \<and> 1 \<le> y \<and> 1 \<le> m \<and> m \<le> 12 \<and> 1 \<le> d \<and> d \<le> days_in_month y m"
  proof (cases "k = 4 \<or> b = 4")
    case True
    then have y: "y = ?y - 1" "m = 12" "d = 31" using result by simp_all
    have last: "1 \<le> y \<and> is_leap y \<and> days_before_year y = ord - 366"
    proof (cases "b = 4")
      case True
      with ord bounds have "r2 = 0" by linarith
      then have "c = 0" "r3 = 0" by (simp_all add: c_def r3_def)
      then have "k = 0" by (simp add: k_def)
      note z = \<open>r2 = 0\<close> \<open>c = 0\<close> \<open>k = 0\<close>
      have "ord = 146097 * a + 146097" using ord True \<open>r2 = 0\<close> by simp
      have "y = a * 400 + 1 + 3 * 100 + 24 * 4 + 3" using y z True by simp
      with year_blocks [of 3 24 3 a] \<open>ord = 146097 * a + 146097\<close> z True y bounds(1) show ?thesis
        by (simp add: is_leap_def algebra_simps)
    next
      case False
      with True have k: "k = 4" by simp
      with ord bounds have z: "c \<le> 23" "n = 0" "b \<le> 3" using False small by linarith+
      have y': "y = a * 400 + 1 + b * 100 + c * 4 + 3" using y k by simp
      have "y = 4 * (a * 100 + b * 25 + c + 1)" "y = 100 * (a * 4 + b) + (4 * c + 4)" unfolding y' by simp_all
      then have "y mod 4 = 0" "y mod 100 = (4 * c + 4) mod 100" by (metis mod_mult_self1_is_0, metis mod_mult_self4)
      moreover have "(4 * c + 4) mod 100 = 4 * c + 4" using z(1) small(3) by simp
      ultimately have "is_leap y" using small(3) by (simp add: is_leap_def)
      moreover have "days_before_year y = ord - 366"
        using year_blocks [of b c 3 a] z small k ord unfolding y' by simp
      ultimately show ?thesis using y' bounds(1) small by simp
    qed
    then show ?thesis unfolding y ymd2ord_def by (simp add: days_before_months days_in_months)
  next
    case False
    with small have le: "b \<le> 3" "k \<le> 3" by simp_all
    from False result obtain f where f: "find_month ?y [1..12] n = (m, d)" "y = ?y" by (auto split: prod.splits)
    from find_month_day [OF f(1)] bounds have month: "1 \<le> m" "m \<le> 12" "1 \<le> d" "d \<le> days_in_month ?y m"
      "days_before_month ?y m + d = n + 1" by (auto split: if_splits)
    have "days_before_year ?y = 146097 * a + 36524 * b + 1461 * c + 365 * k"
      by (rule year_blocks) (use le small in simp_all)
    with month(5) ord have "ymd2ord ?y m d = ord" unfolding ymd2ord_def by linarith
    with month f(2) bounds(1) small show ?thesis by simp
  qed
  then show "ymd2ord y m d = ord" "1 \<le> y" "1 \<le> m" "m \<le> 12" "1 \<le> d" "d \<le> days_in_month y m" by simp_all
qed

text \<open>The last day is 9999-12-31.\<close>

lemma ord2ymd_last:
  assumes "ord2ymd ord = (y, m, d)" "1 \<le> ord" "ord \<le> 3652059"
  shows "y \<le> 9999"
proof (rule ccontr)
  assume "\<not> y \<le> 9999"
  note inv = ord2ymd_inverse [OF assms(1,2)]
  have "0 \<le> days_before_month y m"
    unfolding days_before_month_def by (rule sum_list_nonneg) (auto simp: days_in_month_def)
  moreover have "3652059 \<le> days_before_year y"
  proof (cases "y = 10000")
    case False
    define z where "z = y - 1"
    have "10000 \<le> z" using False \<open>\<not> y \<le> 9999\<close> by (simp add: z_def)
    moreover have "z \<le> 4 * (z div 4) + 3" "100 * (z div 100) \<le> z" "z \<le> 400 * (z div 400) + 399" by presburger+
    ultimately show ?thesis unfolding days_before_year_def z_def [symmetric] by linarith
  qed (simp add: days_before_year_def)
  ultimately show False using inv(1,5) assms(3) by (simp add: ymd2ord_def)
qed

section \<open>Conversion to UTC\<close>

lemma mixed_radix:
  fixes t S M H D u v x z :: int
  assumes "t = 1000000 * S + u" "S = 60 * M + v" "M = 60 * H + x" "H = 24 * D + z"
  shows "(((D * 24 + z) * 60 + x) * 60 + v) * 1000000 + u = t"
  using assms by simp

lemma clock_parts:
  "x mod 24 \<le> (23 :: int)" "x mod 60 \<le> (59 :: int)" "x mod 1000000 \<le> (999999 :: int)"
proof -
  have "x mod n \<le> n - 1" if "0 < n" for x n :: int using that by simp
  from this [of 24 x] this [of 60 x] this [of 1000000 x]
  show "x mod 24 \<le> (23 :: int)" "x mod 60 \<le> (59 :: int)" "x mod 1000000 \<le> (999999 :: int)" by simp_all
qed

lemma civil_of_micros:
  assumes "86400000000 \<le> t" "t div 86400000000 \<le> 3652059"
  shows "civil_ok (civil_of_micros t)" "micros_of (civil_of_micros t) = t"
proof -
  let ?d = "t div 86400000000"
  obtain y m d where ymd: "ord2ymd ?d = (y, m, d)" by (metis prod_cases3)
  have "1 \<le> ?d" using assms(1) by linarith
  note inv = ord2ymd_inverse [OF ymd this] ord2ymd_last [OF ymd this assms(2)]
  show "civil_ok (civil_of_micros t)"
    using inv clock_parts by (simp add: civil_ok_def civil_of_micros_def ymd)
  define S M H where "S = t div 1000000" and "M = S div 60" and "H = M div 60"
  have "t div (1000000 * 60) = M" "t div (60000000 * 60) = t div 60000000 div 60"
    "t div (3600000000 * 24) = t div 3600000000 div 24"
    unfolding S_def M_def by (simp_all only: zdiv_zmult2_eq zero_le_numeral)
  then have div: "t div 60000000 = M" "t div 3600000000 = H" "?d = H div 24" unfolding H_def by simp_all
  have "t = 1000000 * S + t mod 1000000" "S = 60 * M + S mod 60" "M = 60 * H + M mod 60" "H = 24 * ?d + H mod 24"
    unfolding div by (simp_all add: S_def M_def H_def)
  from mixed_radix [OF this] show "micros_of (civil_of_micros t) = t"
    using inv(1) ymd
    by (simp only: micros_of_def civil_of_micros_def div S_def [symmetric] prod.case civil.simps)
qed

lemma to_utc_instant:
  assumes "civil_ok c" "to_utc c off = Inr u"
  shows "civil_ok u" "micros_of u = micros_of c - off"
proof -
  consider "off = 0" "u = c"
    | "u = civil_of_micros (micros_of c - off)" "1 \<le> (micros_of c - off) div 86400000000"
      "(micros_of c - off) div 86400000000 \<le> 3652059"
    using assms(2) by (auto simp: to_utc_def Let_def split: if_splits)
  then have "civil_ok u \<and> micros_of u = micros_of c - off"
  proof cases
    case 1
    with assms(1) show ?thesis by simp
  next
    case 2
    from 2(2) have "86400000000 \<le> micros_of c - off" by linarith
    from civil_of_micros [OF this 2(3)] 2(1) show ?thesis by simp
  qed
  then show "civil_ok u" "micros_of u = micros_of c - off" by simp_all
qed

lemma utc_of_datetime_instant:
  assumes "civil_ok (dt_civil v)" "utc_of_datetime v = Inr s"
  obtains c off where "dt_offset v = Some off" "civil_ok c" "s = format_utc c" "micros_of c = micros_of (dt_civil v) - off"
    "utc_of_value (PStr s) = Inr s"
proof -
  from assms(2) obtain off c where c: "dt_offset v = Some off" "to_utc (dt_civil v) off = Inr c" "s = format_utc c"
    by (auto simp: utc_of_datetime_def flow split: option.splits)
  from to_utc_instant [OF assms(1) c(2)] c that utc_of_value_format show thesis by blast
qed

end
