(* ===== verification/Orphans.thy ===== *)
theory Orphans
  imports Serving Calendar
begin

text \<open>
  Reconciliation: what recording an orphan candidate leaves in its collection, and what
  \<open>discover_orphans\<close> reports. \<open>reported\<close> is the specification of one listed Object: it is reported
  exactly if its name and metadata claim a resource that has no entry in the metadata map, with
  the digest and length the Object has.
\<close>

definition recorded ::
  "'w metadata_repository \<Rightarrow> (resource_ref \<Rightarrow> 'w \<Rightarrow> pyval dict list) \<Rightarrow> orphan_candidate \<Rightarrow> 'w \<Rightarrow> bool" where
  "recorded repo rows c w \<longleftrightarrow> (\<exists>row \<in> set (rows (mr_orphan_resource repo) w).
     map_of row ''candidateId'' = Some (PStr (oc_candidate_id c)))"

definition reported ::
  "(string \<Rightarrow> stored_resource option) \<Rightarrow> object_metadata \<Rightarrow> orphan_candidate option \<Rightarrow> bool" where
  "reported M m z \<longleftrightarrow> (case z of
     None \<Rightarrow> \<forall>rid. claimed_resource m = Some rid \<longrightarrow> M rid \<noteq> None
   | Some c \<Rightarrow> claimed_resource m = Some (oc_resource_id c) \<and> M (oc_resource_id c) = None
       \<and> oc_digest c = om_digest m \<and> oc_byte_length c = om_byte_length m)"

lemma same_orphan_identity_version [simp]: "same_orphan_identity (c\<lparr>oc_record_version := v\<rparr>) c"
  by (simp add: same_orphan_identity_def)

section \<open>Recording\<close>

context external_contract
begin

lemma parse_orphan_row:
  assumes "orphan_ok c" "stored_as (orphan_to_record x c) row"
  obtains v where "parse_orphan x row = Inr (c\<lparr>oc_record_version := v\<rparr>)" "map_of row ''values'' = None"
    "map_of row ''candidateId'' = Some (PStr (oc_candidate_id c))"
proof -
  from assms(2) obtain v where v: "record_version_ok v" "row = orphan_to_record x c @ [(''recordVersion'', v)]"
    by (auto simp: stored_as_def)
  have no: "map_of row ''createdAt'' = None" "map_of row ''updatedAt'' = None" "map_of row ''values'' = None"
    "map_of row ''candidateId'' = Some (PStr (oc_candidate_id c))"
    using v(2) by (simp_all add: orphan_to_record_def)
  then have "without [''createdAt'', ''updatedAt''] row = row"
    by (intro without_id) (force simp: map_of_eq_None_iff)
  then have "parse_orphan x row = Inr (c\<lparr>oc_record_version := v\<rparr>)"
    using orphan_from_printed(2) [OF assms(1) v(1)] no unfolding v(2)
    by (simp only: parse_orphan_def without_record_timestamps_def check_timestamp_def rmap.simps
        option.case rbind_simps reraise_Inr)
  with no that show thesis by blast
qed

end

context transactional_catalog
begin

lemma get_orphan_recorded:
  assumes "valid w" "get_orphan repo (oc_candidate_id c) False w = (Inr (Some s), w')"
  shows "recorded repo rows c w'"
proof -
  let ?O = "mr_orphan_resource repo" and ?e = "SGet (mr_orphan_resource repo) [(''candidateId'', PStr (oc_candidate_id c))]"
  obtain r w1 where x: "rt_execute (mr_runtime repo) ?e w = (r, w1)" by fastforce
  have "\<exists>r1. r = Inr r1 \<and> w' = w1"
    using assms(2) x by (cases r)
      (auto simp: get_orphan_def get_row_def Let_def build_def execute_def pbind_def pcatch_def plift_def pthrow_def
        split: sum.splits if_splits)
  then obtain r1 where r1: "r = Inr r1" "w' = w1" by blast
  have "rows ?O w' = rows ?O w" using get_reads [OF assms(1) layout_known(4) x] r1 by simp
  then show ?thesis
    using get_found [OF assms(1) layout_known(4), of "oc_candidate_id c" r1 w1] x r1
    by (auto simp: recorded_def layout_keys)
qed

lemma put_orphan_records:
  assumes "valid w" "orphan_ok c" "put_orphan repo c w = (Inr s, w')"
  shows "same_orphan_identity s c \<and> recorded repo rows c w'"
proof -
  let ?O = "mr_orphan_resource repo" and ?d = "orphan_to_record (rt_ext (mr_runtime repo)) c"
  obtain o1 w1 where p: "put_row repo ?O ?d w = (o1, w1)" by fastforce
  have d: "map_of ?d ''recordVersion'' = None" "map_of ?d (key_field ?O) = Some (PStr (oc_candidate_id c))"
    using layout_keys by (simp_all add: orphan_to_record_def)
  show ?thesis
  proof (cases rule: put_row_cases [OF assms(1) layout_known(4) d p])
    case (1 e)
    then have w1: "valid w1" by (simp add: same_rows_def)
    from 1(1) p assms(3) obtain z where z: "get_orphan repo (oc_candidate_id c) False w1 = (Inr (Some z), w')"
      "same_orphan_identity z c" "s = z"
      by (auto simp: put_orphan_def pbind_def pcatch_def plift_def pret_def pthrow_def
          split: sum.splits option.splits if_splits prod.splits)
    with get_orphan_recorded [OF w1] show ?thesis by blast
  next
    case (2 r row)
    from parse_orphan_row [OF assms(2) 2(3)] obtain v where v: "parse_orphan (rt_ext (mr_runtime repo)) row = Inr (c\<lparr>oc_record_version := v\<rparr>)"
      "map_of row ''values'' = None" "map_of row ''candidateId'' = Some (PStr (oc_candidate_id c))" .
    have "put_orphan repo c w = (Inr (c\<lparr>oc_record_version := v\<rparr>), w1)"
      using p 2(1) result_record_PDict [OF 2(4) v(2)] v(1)
      by (simp add: put_orphan_def pbind_def pcatch_def plift_def pret_def)
    with assms(3) have "s = c\<lparr>oc_record_version := v\<rparr>" "w' = w1" by simp_all
    moreover have "recorded repo rows c w1" using 2(5) v(3) by (auto simp: recorded_def)
    ultimately show ?thesis by simp
  qed
qed

text \<open>Rows of orphan candidates are only added.\<close>

lemma put_orphan_appends:
  assumes "valid w" "put_orphan repo orphan w = (out, w')" "recorded repo rows c w"
  shows "recorded repo rows c w'"
proof -
  let ?O = "mr_orphan_resource repo" and ?d = "orphan_to_record (rt_ext (mr_runtime repo)) orphan"
  obtain o1 w1 where p: "put_row repo ?O ?d w = (o1, w1)" by fastforce
  have d: "map_of ?d ''recordVersion'' = None" "map_of ?d (key_field ?O) = Some (PStr (oc_candidate_id orphan))"
    using layout_keys by (simp_all add: orphan_to_record_def)
  have one: "valid w1 \<and> set (rows ?O w) \<subseteq> set (rows ?O w1)"
    by (rule put_row_cases [OF assms(1) layout_known(4) d p]) (auto simp: same_rows_def)
  obtain z w2 where g: "get_orphan repo (oc_candidate_id orphan) False w1 = (z, w2)" by fastforce
  have "same_rows valid rows w1 w2" using neutralD [OF neutral_get_orphan _ g] one by blast
  moreover have "w' = w1 \<or> w' = w2"
    using p g assms(2) by (auto simp: put_orphan_def pbind_def pcatch_def plift_def pret_def pthrow_def
        split: sum.splits option.splits if_splits)
  ultimately have "set (rows ?O w) \<subseteq> set (rows ?O w')" using one by (auto simp: same_rows_def)
  with assms(3) show ?thesis by (auto simp: recorded_def)
qed

end

section \<open>Discovery\<close>

text \<open>Worlds whose metadata map is the same and whose recorded candidates are still there.\<close>

definition orphans_grow ::
  "'w metadata_repository \<Rightarrow> ('w \<Rightarrow> bool) \<Rightarrow> (resource_ref \<Rightarrow> 'w \<Rightarrow> pyval dict list) \<Rightarrow> 'w \<Rightarrow> 'w \<Rightarrow> bool" where
  "orphans_grow repo valid rows w w' \<longleftrightarrow> ledger_ok repo valid rows w'
     \<and> catalogue repo rows w' = catalogue repo rows w \<and> (\<forall>c. recorded repo rows c w \<longrightarrow> recorded repo rows c w')"

lemma orphans_grow_trans:
  "orphans_grow repo valid rows w w1 \<Longrightarrow> orphans_grow repo valid rows w1 w2 \<Longrightarrow> orphans_grow repo valid rows w w2"
  by (simp add: orphans_grow_def)

context plugin_catalog
begin

lemma orphans_grow_refl: "ledger_ok repo valid rows w \<Longrightarrow> orphans_grow repo valid rows w w"
  by (simp add: orphans_grow_def)

lemma orphans_grow_neutral:
  assumes "neutral valid rows m" "ledger_ok repo valid rows w" "m w = (r, w')"
  shows "orphans_grow repo valid rows w w'"
proof -
  have same: "same_rows valid rows w w'" using neutralD [OF assms(1) ledger_ok_parts(1) [OF assms(2)] assms(3)] .
  with ledger_ok_same(1) [OF assms(2) same] ledger_ok_same(2) [OF same] show ?thesis
    by (simp add: orphans_grow_def same_rows_def recorded_def)
qed

lemma orphans_grow_put_orphan:
  assumes "ledger_ok repo valid rows w" "put_orphan repo c w = (r, w')"
  shows "orphans_grow repo valid rows w w'"
  using put_orphan_moves [OF assms] put_orphan_appends [OF ledger_ok_parts(1) [OF assms(1)] assms(2)] moves_ok
  by (auto simp: orphans_grow_def)

lemma discover_item_reports:
  assumes "consumer_wired repo con" "ledger_ok repo valid rows w" "discover_item con b m w = (Inr z, w')"
  shows "reported (catalogue repo rows w) m z \<and> orphans_grow repo valid rows w w'
    \<and> (b \<longrightarrow> (\<forall>c. z = Some c \<longrightarrow> recorded repo rows c w'))"
proof (cases "claimed_resource m")
  case None
  with assms(3) have "z = None" "w' = w" by (simp_all add: discover_item_def)
  with None orphans_grow_refl [OF assms(2)] show ?thesis by (simp add: reported_def)
next
  case (Some rid)
  note wired = consumer_wiredD [OF assms(1)]
  obtain r w1 where got: "get_resource repo rid False w = (r, w1)" by fastforce
  note one = orphans_grow_neutral [OF neutral_get_resource assms(2) got]
  show ?thesis
  proof (cases r)
    case (Inl e)
    with assms(3) Some got show ?thesis by (simp add: discover_item_def wired pbind_step)
  next
    case (Inr found)
    have found: "found = catalogue repo rows w rid"
      using get_resource_spec(1) [OF ledger_ok_parts(1,2) [OF assms(2)]] got Inr by (simp add: catalogue_def)
    show ?thesis
    proof (cases found)
      case (Some r)
      with assms(3) got Inr \<open>claimed_resource m = Some rid\<close> have "z = None" "w' = w1"
        by (simp_all add: discover_item_def wired pbind_step)
      moreover have "reported (catalogue repo rows w) m None"
        using found Some \<open>claimed_resource m = Some rid\<close> by (auto simp: reported_def dest: sym)
      ultimately show ?thesis using one by simp
    next
      case None
      with assms(3) got Inr \<open>claimed_resource m = Some rid\<close> obtain reference at w2 c where
        c: "timestamp_now (rt_now (mr_runtime repo)) w1 = (Inr at, w2)"
        "mk_orphan_candidate (rt_ext (mr_runtime repo))
           \<lparr>oa_candidate_id = PStr (orphan_candidate_id rid (or_object_id reference) (om_digest m)),
            oa_resource_id = PStr rid, oa_object_ref = reference, oa_digest = PStr (om_digest m),
            oa_byte_length = PInt (om_byte_length m),
            oa_reason = PStr ''object-without-structured-metadata'', oa_discovered_at = PStr at,
            oa_state = DISCOVERED, oa_record_version = PNone, oa_format_version = PStr orphan_format\<rparr> = Inr c"
        and z: "if b then \<exists>s. put_orphan repo c w2 = (Inr s, w') \<and> z = Some s else z = Some c \<and> w' = w2"
        by (auto simp: discover_item_def wired pbind_step pbind_Inr_iff split: if_splits)
      have ok: "orphan_ok c" "oc_resource_id c = rid" "oc_digest c = om_digest m" "oc_byte_length c = om_byte_length m"
        using mk_orphan_candidate_fields [OF c(2)] by simp_all
      have two: "orphans_grow repo valid rows w w2"
        using orphans_grow_trans [OF one orphans_grow_neutral [OF neutral_timestamp_now [OF now_reads] _ c(1)]] one
        by (simp add: orphans_grow_def)
      then have ok2: "ledger_ok repo valid rows w2" by (simp add: orphans_grow_def)
      show ?thesis
      proof (cases b)
        case False
        with z two ok None found \<open>claimed_resource m = Some rid\<close> show ?thesis by (simp add: reported_def)
      next
        case True
        with z obtain s where s: "put_orphan repo c w2 = (Inr s, w')" "z = Some s" by auto
        note put = put_orphan_records [OF ledger_ok_parts(1) [OF ok2] ok(1) s(1)]
        have "orphans_grow repo valid rows w w'"
          by (rule orphans_grow_trans [OF two orphans_grow_put_orphan [OF ok2 s(1)]])
        with put s(2) ok None found \<open>claimed_resource m = Some rid\<close> show ?thesis
          by (simp add: reported_def same_orphan_identity_def recorded_def)
      qed
    qed
  qed
qed

lemma discover_items_report:
  assumes "consumer_wired repo con" "ledger_ok repo valid rows w" "pmap (discover_item con b) ms w = (Inr zs, w')"
  shows "list_all2 (reported (catalogue repo rows w)) ms zs \<and> orphans_grow repo valid rows w w'
    \<and> (b \<longrightarrow> (\<forall>c. Some c \<in> set zs \<longrightarrow> recorded repo rows c w'))"
  using assms(2,3)
proof (induction ms arbitrary: w zs)
  case Nil
  then show ?case by (simp add: orphans_grow_refl)
next
  case (Cons m ms)
  from Cons.prems(2) obtain z zs' w1 where s: "discover_item con b m w = (Inr z, w1)"
    "pmap (discover_item con b) ms w1 = (Inr zs', w')" "zs = z # zs'"
    by (auto simp: pbind_Inr_iff)
  note one = discover_item_reports [OF assms(1) Cons.prems(1) s(1)]
  then have ok: "ledger_ok repo valid rows w1" and same: "catalogue repo rows w1 = catalogue repo rows w"
    by (simp_all add: orphans_grow_def)
  note rest = Cons.IH [OF ok s(2), unfolded same]
  from one rest have "orphans_grow repo valid rows w w'" by (blast intro: orphans_grow_trans)
  with one rest s(3) show ?case by (auto simp: orphans_grow_def)
qed

lemma discover_orphans_reports:
  assumes "consumer_wired repo con" "ledger_ok repo valid rows w"
    "discover_orphans con limit cursor b w = (Inr page, w')"
  obtains pg w1 zs where "object_list (ac_objects con) ''artifacts/'' limit cursor w = (Inr pg, w1)"
    "list_all2 (reported (catalogue repo rows w)) (pg_items pg) zs" "op_items page = List.map_filter id zs"
    "orphans_grow repo valid rows w w'" "b \<Longrightarrow> \<forall>c \<in> set (op_items page). recorded repo rows c w'"
proof -
  from assms(3) obtain pg w1 zs where s: "object_list (ac_objects con) ''artifacts/'' limit cursor w = (Inr pg, w1)"
    "pmap (discover_item con b) (pg_items pg) w1 = (Inr zs, w')" "page = \<lparr>op_items = List.map_filter id zs, op_cursor = pg_cursor pg\<rparr>"
    by (auto simp: discover_orphans_def pbind_Inr_iff)
  note one = orphans_grow_neutral [OF neutral_objects(5) [OF consumer_wiredD(2) [OF assms(1)]] assms(2) s(1)]
  then have ok: "ledger_ok repo valid rows w1" and same: "catalogue repo rows w1 = catalogue repo rows w"
    by (simp_all add: orphans_grow_def)
  note rest = discover_items_report [OF assms(1) ok s(2), unfolded same]
  have "orphans_grow repo valid rows w w'" using orphans_grow_trans [OF one] rest by blast
  moreover have "b \<longrightarrow> (\<forall>c \<in> set (op_items page). recorded repo rows c w')"
    using rest s(3) by (force simp: List.map_filter_def)
  ultimately show thesis using that s rest by auto
qed

end

section \<open>A metadata write that fails after the Object was committed\<close>

text \<open>The candidate that stands for the Object of resource \<open>c\<close>.\<close>

definition names_object :: "orphan_candidate \<Rightarrow> stored_resource \<Rightarrow> bool" where
  "names_object k c \<longleftrightarrow> orphan_ok k \<and> oc_resource_id k = sr_resource_id c \<and> sr_object_ref c = Some (oc_object_ref k)
     \<and> oc_digest k = sr_digest c \<and> oc_byte_length k = sr_byte_length c
     \<and> oc_reason k = ''metadata-publication-failed'' \<and> oc_state k = RECORDED \<and> oc_record_version k = PNone"

context plugin_catalog
begin

lemma ap_after_failure_records:
  assumes "artifact_wired repo valid rows pub" "ledger_ok repo valid rows w"
    "resource_ok (rt_ext (mr_runtime repo)) c" "sr_profile c = ARTIFACT_PROFILE"
    "\<not> has_code IDENTITY_CONFLICT exc"
    "if is_conflict exc then get_resource repo (identity_resource_id i) False w = (Inr None, w0) else w0 = w"
    "ap_clock pub w0 = (Inr now, w1)" "civil_ok (dt_civil now)" "utc_of_datetime now = Inr at"
  obtains k r w' where "names_object k c" "put_orphan repo k w1 = (r, w')"
    "ap_after_failure pub i p c exc w = (Inl (incomplete i exc), w')"
    "orphans_grow repo valid rows w w'" "\<And>s. r = Inr s \<Longrightarrow> recorded repo rows k w'"
proof -
  have wired: "ap_metadata pub = repo" "neutral valid rows (ap_clock pub)"
    using assms(1) by (simp_all add: artifact_wired_def)
  obtain ob where ob: "sr_object_ref c = Some ob" "or_digest ob = Some (sr_digest c)"
    using assms(3,4) by (auto simp: resource_ok_def profile_part_ok_def)
  from utc_of_datetime_instant [OF assms(8,9)] have at: "utc_of_value (PStr at) = Inr at" by blast
  let ?k = "\<lparr>oc_candidate_id = orphan_candidate_id (sr_resource_id c) (or_object_id ob) (sr_digest c),
    oc_resource_id = sr_resource_id c, oc_object_ref = ob, oc_digest = sr_digest c, oc_byte_length = sr_byte_length c,
    oc_reason = ''metadata-publication-failed'', oc_discovered_at = at, oc_state = RECORDED, oc_record_version = PNone,
    oc_format_version = orphan_format\<rparr>"
  have reason: "bounded_ok 512 ''metadata-publication-failed''" by code_simp
  have k: "orphan_ok ?k"
    using assms(3) ob at reason by (auto simp: orphan_ok_def resource_ok_def)
  obtain r w' where put: "put_orphan repo ?k w1 = (r, w')" by fastforce
  have "mk_orphan_candidate (rt_ext (mr_runtime repo))
      \<lparr>oa_candidate_id = PStr (orphan_candidate_id (sr_resource_id c) (or_object_id ob) (sr_digest c)),
       oa_resource_id = PStr (sr_resource_id c), oa_object_ref = ob, oa_digest = PStr (sr_digest c),
       oa_byte_length = PInt (sr_byte_length c), oa_reason = PStr ''metadata-publication-failed'',
       oa_discovered_at = PStr at, oa_state = RECORDED, oa_record_version = PNone,
       oa_format_version = PStr orphan_format\<rparr> = Inr ?k"
    by (rule mk_orphan_candidate_Inr [OF k]) simp_all
  then have run: "ap_after_failure pub i p c exc w = (Inl (incomplete i exc), w')"
    using assms(5-7,9) ob(1) put
    by (cases r; cases "is_conflict exc") (simp_all add: ap_after_failure_def Let_def record_orphan_def wired timestamp_now_def pbind_def pcatch_def)
  have zero: "orphans_grow repo valid rows w w0"
    using assms(6) orphans_grow_neutral [OF neutral_get_resource assms(2)] orphans_grow_refl [OF assms(2)]
    by (cases "is_conflict exc") auto
  then have "ledger_ok repo valid rows w0" by (simp add: orphans_grow_def)
  from orphans_grow_trans [OF zero orphans_grow_neutral [OF wired(2) this assms(7)]]
  have one: "orphans_grow repo valid rows w w1" .
  then have ok: "ledger_ok repo valid rows w1" by (simp add: orphans_grow_def)
  have "recorded repo rows ?k w'" if "r = Inr s" for s
    using put_orphan_records [OF ledger_ok_parts(1) [OF ok] k] put that by blast
  moreover have "orphans_grow repo valid rows w w'"
    by (rule orphans_grow_trans [OF one orphans_grow_put_orphan [OF ok put]])
  moreover have "names_object ?k c" using k ob(1) by (simp add: names_object_def)
  ultimately show thesis using that put run by blast
qed

text \<open>The same of the publication: the Object is put, its row is not committed, the candidate is recorded,
  the payload is released.\<close>

lemma ap_publish_records:
  assumes "artifact_wired repo valid rows pub" "ledger_ok repo valid rows w" "publication_ok (rt_ext (mr_runtime repo)) p"
    "mk_identity (pb_namespace p) (pb_kind p) (pb_name p) (pb_version p) = Inr i" "media_type (pb_media_type p) = Inr media"
    and steps: "register_payload (mr_runtime repo) payload dg n w = (Inr rg, w1)"
      "get_resource repo (identity_resource_id i) False w1 = (Inr None, w2)"
      "ap_put_object pub i (rg_reference rg) (rg_digest rg) (rg_byte_length rg) media (pb_actor p) (pb_provenance p) w2
        = (Inr (m, b), w3)"
      "ap_candidate pub i p (Some (om_object_ref m)) (rg_digest rg) (rg_byte_length rg) media w3 = (Inr c, w4)"
      "commit same_artifact repo i c w4 = (Inl exc, w5)"
    and failure: "\<not> has_code IDENTITY_CONFLICT exc"
      "if is_conflict exc then get_resource repo (identity_resource_id i) False w5 = (Inr None, w6) else w6 = w5"
    and clock: "ap_clock pub w6 = (Inr now, w7)" "civil_ok (dt_civil now)" "utc_of_datetime now = Inr at"
    and run: "ap_publish pub p payload dg n w = (out, w')"
  obtains k r u z where "names_object k c" "put_orphan repo k w7 = (r, u)"
    "pwhen (rg_owned rg) (rt_release (mr_runtime repo) (rg_reference rg)) u = (z, w')"
    "out = (case z of Inl e \<Rightarrow> Inl e | Inr _ \<Rightarrow> Inl (incomplete i exc))"
    "orphans_grow repo valid rows w5 w'" "\<And>s. r = Inr s \<Longrightarrow> recorded repo rows k w'"
proof -
  have wired: "ap_metadata pub = repo" "ap_payloads pub = mr_runtime repo" "ob_runtime (ap_objects pub) = mr_runtime repo"
    "neutral valid rows (ap_clock pub)"
    using assms(1) by (simp_all add: artifact_wired_def)
  have "ledger_ok repo valid rows w1"
    using orphans_grow_neutral [OF neutral_register_payload assms(2) steps(1)] by (simp add: orphans_grow_def)
  then have "ledger_ok repo valid rows w2"
    using orphans_grow_neutral [OF neutral_get_resource _ steps(2)] by (simp add: orphans_grow_def)
  then have "ledger_ok repo valid rows w3"
    using orphans_grow_neutral [OF neutral_ap_put_object [OF wired(3)] _ steps(3)] by (simp add: orphans_grow_def)
  then have ok: "ledger_ok repo valid rows w4"
    using orphans_grow_neutral [OF neutral_ap_candidate [OF wired(4)] _ steps(4)] by (simp add: orphans_grow_def)
  have mk: "make_candidate (rt_ext (mr_runtime repo)) (ap_clock pub) i ARTIFACT_PROFILE p media (rg_digest rg)
      (rg_byte_length rg) PNone None (Some (om_object_ref m)) w3 = (Inr c, w4)"
    using steps(4) by (simp add: ap_candidate_def wired(1))
  have c: "resource_ok (rt_ext (mr_runtime repo)) c" "sr_state c = PUBLISHED" "sr_profile c = ARTIFACT_PROFILE"
    using make_candidate_ok [OF mk assms(3)] by simp_all
  have ok5: "ledger_ok repo valid rows w5"
    using commit_moves(1) [OF ok c(1,2) steps(5)] by (auto simp: moves_def)
  from ap_after_failure_records [OF assms(1) ok5 c(1,3) failure clock] obtain k r u
    where k: "names_object k c" "put_orphan repo k w7 = (r, u)" "ap_after_failure pub i p c exc w5 = (Inl (incomplete i exc), u)"
      "orphans_grow repo valid rows w5 u" "\<And>s. r = Inr s \<Longrightarrow> recorded repo rows k u" by blast
  obtain z v where rel: "pwhen (rg_owned rg) (rt_release (mr_runtime repo) (rg_reference rg)) u = (z, v)" by fastforce
  have new: "ap_publish_new pub i p rg media w2 = (Inl (incomplete i exc), u)"
    using steps(3-5) k(3) by (simp add: ap_publish_new_def pbind_def pcatch_def wired(1))
  have end_of: "v = w'" "out = (case z of Inl e \<Rightarrow> Inl e | Inr _ \<Rightarrow> Inl (incomplete i exc))"
    using run steps(1,2) new rel assms(4,5) wired(1,2)
    by (simp_all add: ap_publish_def pbind_def pfinally_def split: sum.splits)
  have "neutral valid rows (pwhen (rg_owned rg) (rt_release (mr_runtime repo) (rg_reference rg)))"
    unfolding pwhen_def by (intro neutral_rules)
  from orphans_grow_neutral [OF this _ rel] k(4) have grow: "orphans_grow repo valid rows u v"
    by (simp add: orphans_grow_def)
  show thesis
    by (rule that [OF k(1,2) rel [unfolded end_of(1)] end_of(2)])
      (use orphans_grow_trans [OF k(4) grow] grow k(5) end_of(1) in \<open>auto simp: orphans_grow_def\<close>)
qed

text \<open>Which Object that is: the one the publication put, with the bytes it registered.\<close>

lemma ap_candidate_names:
  assumes "artifact_wired repo valid rows pub" "publication_ok (rt_ext (mr_runtime repo)) p"
    "ap_candidate pub i p (Some ob) dig len media w = (Inr c, w')" "names_object k c"
  shows "oc_resource_id k = identity_resource_id i" "oc_digest k = dig" "oc_byte_length k = len"
    "or_digest ob \<noteq> None \<Longrightarrow> oc_object_ref k = ob"
proof -
  have mk: "make_candidate (rt_ext (mr_runtime repo)) (ap_clock pub) i ARTIFACT_PROFILE p media dig len PNone None (Some ob) w = (Inr c, w')"
    using assms(1,3) by (simp add: ap_candidate_def artifact_wired_def)
  from make_candidate_ok [OF mk assms(2)] assms(4)
  show "oc_resource_id k = identity_resource_id i" "oc_digest k = dig" "oc_byte_length k = len"
    by (simp_all add: names_object_def)
  show "oc_object_ref k = ob" if "or_digest ob \<noteq> None"
    using mk assms(4) parse_object [OF that]
    by (auto simp: names_object_def make_candidate_def pbind_Inr_iff check_profile_def rbind_Inr_iff dest!: mk_stored_resource_fields(14))
qed

end

end
