(* ===== verification/OrphanProperties.thy ===== *)
theory OrphanProperties
  imports Orphans StoreProperties
begin

text \<open>
  Reconciliation of Objects without metadata: what \<open>discover_orphans\<close> reports, and what a failed
  metadata write leaves behind. The witnesses run on the world \<open>ex_stored\<close>, in which an artifact's
  Object is committed and its row is not.
\<close>

section \<open>A discovery and a failed publication\<close>

definition ex_found :: orphan_candidate where
  "ex_found = ex_orphan\<lparr>oc_reason := ''object-without-structured-metadata'', oc_state := DISCOVERED\<rparr>"

definition ex_orphan_row :: "orphan_candidate \<Rightarrow> pyval dict" where
  "ex_orphan_row c = orphan_to_record reference_external c @ [(''recordVersion'', PInt 1)]"

definition ex_found_world :: fake where
  "ex_found_world = ex_stored\<lparr>fk_orphans := [(oc_candidate_id ex_found, ex_orphan_row ex_found)]\<rparr>"

lemma ex_found_ok: "orphan_ok ex_found"
proof -
  have "bounded_ok 512 ''object-without-structured-metadata''" by code_simp
  with ex_orphan_ok show ?thesis by (simp add: ex_found_def orphan_ok_def)
qed

lemma ex_found_fields [simp]:
  "oc_candidate_id ex_found = orphan_candidate_id (identity_resource_id ex_identity)
       (identity_object_id ex_identity) (sha256_digest ''abc'')"
  "oc_resource_id ex_found = identity_resource_id ex_identity" "oc_object_ref ex_found = ex_object_ref"
  "oc_digest ex_found = sha256_digest ''abc''" "oc_byte_length ex_found = 3"
  "oc_discovered_at ex_found = ex_time" "oc_state ex_found = DISCOVERED" "oc_record_version ex_found = PNone"
  "oc_format_version ex_found = orphan_format" "oc_reason ex_found = ''object-without-structured-metadata''"
  by (simp_all add: ex_found_def ex_orphan_def)

lemma ex_stored_tables [simp]:
  "fk_metadata ex_stored = []" "fk_orphans ex_stored = []" "fk_channels ex_stored = []" "fk_provenance ex_stored = []"
  "fk_fail_next_metadata_put ex_stored = False"
  "fk_objects ex_stored = [(identity_object_id ex_identity, (ex_object_metadata, ''abc''))]"
  by (simp_all add: ex_stored_def ex_registered_def empty_fake_def)

lemma ex_stored_ok: "ledger_ok fake_metadata fake_valid fake_rows ex_stored"
proof -
  have "fake_valid ex_stored" by (simp add: fake_valid_def table_ok_def)
  moreover have "fake_rows METADATA_RESOURCE ex_stored = []" "fake_rows CHANNEL_RESOURCE ex_stored = []"
    by (simp_all add: fake_rows_def fake_table_of_def fake_known_def get_table_def)
  ultimately show ?thesis
    by (simp add: ledger_ok_def catalogue_def ex_catalogue history_ok_Nil fake_store_ok)
qed

lemma ex_put_orphan:
  assumes "orphan_ok c" "oc_record_version c = PNone" "fk_orphans w = []"
  shows "put_orphan fake_metadata c w
    = (Inr (c\<lparr>oc_record_version := PInt 1\<rparr>), w\<lparr>fk_orphans := [(oc_candidate_id c, ex_orphan_row c)]\<rparr>)"
proof -
  have row: "versioned (orphan_to_record reference_external c) 1 = ex_orphan_row c"
    and key: "map_of (orphan_to_record reference_external c) ''candidateId'' = Some (PStr (oc_candidate_id c))"
    by (simp_all add: versioned_def orphan_to_record_def ex_orphan_row_def)
  have no: "map_of (ex_orphan_row c) ''createdAt'' = None" "map_of (ex_orphan_row c) ''updatedAt'' = None"
    "map_of (ex_orphan_row c) ''values'' = None"
    by (simp_all add: ex_orphan_row_def orphan_to_record_def)
  have "without [''createdAt'', ''updatedAt''] (ex_orphan_row c) = ex_orphan_row c"
    using no by (intro without_id) (force simp: map_of_eq_None_iff)
  moreover have "orphan_from_record reference_external (ex_orphan_row c) = Inr (c\<lparr>oc_record_version := PInt 1\<rparr>)"
    using reference.orphan_from_printed(2) [OF assms(1), of "PInt 1"] by (simp add: ex_orphan_row_def)
  ultimately have "parse_orphan reference_external (ex_orphan_row c) = Inr (c\<lparr>oc_record_version := PInt 1\<rparr>)"
    using no by (simp add: parse_orphan_def without_record_timestamps_def check_timestamp_def)
  with row key no(3) assms(3) show ?thesis
    by (simp add: put_orphan_def put_row_def run_def build_def execute_def pbind_def pcatch_def fake_metadata_def
        fake_execute_def with_table_def fake_put_def key_name_def get_table_def
        set_table_def result_of_def Let_def result_record_def result_mapping_def logical_record_def)
qed

lemma ex_object_list:
  "object_list fake_objects ''artifacts/'' 100 None ex_stored
     = (Inr \<lparr>pg_items = [ex_object_metadata], pg_cursor = None\<rparr>, ex_stored)"
proof -
  have "starts_with ''artifacts/'' (identity_object_id ex_identity)"
    by (simp add: starts_with_def identity_object_id_def)
  moreover have "parse_object_metadata (object_metadata_dict ex_object_metadata) = Inr ex_object_metadata"
    using ex_parse_object_metadata [of "[]"] by (simp add: object_metadata_of_def metadata_result_def object_mapping_def get_or_def reraise_Inr_iff)
  ultimately show ?thesis
    by (simp add: object_list_def fake_objects_def run_def build_def execute_def pbind_def fake_execute_def
        fake_object_list_def result_of_def object_mapping_def get_or_def sort_dict_def)
qed

lemma ex_claimed: "claimed_resource ex_object_metadata = Some (identity_resource_id ex_identity)"
  by (simp add: claimed_resource_def ex_object_metadata_def str_dict_def get_or_def validate_resource_id_def
      ex_object_ref_def identity_object_id_def)

lemma ex_discover:
  "discover_orphans fake_consumer 100 None True ex_stored
     = (Inr \<lparr>op_items = [ex_found\<lparr>oc_record_version := PInt 1\<rparr>], op_cursor = None\<rparr>, ex_found_world)"
proof -
  have con: "ac_metadata fake_consumer = fake_metadata" "ac_objects fake_consumer = fake_objects"
    "ob_runtime fake_objects = fake_runtime"
    by (simp_all add: fake_store_def fake_objects_def)
  have meta: "om_digest ex_object_metadata = sha256_digest ''abc''" "om_byte_length ex_object_metadata = 3"
    "om_object_ref ex_object_metadata = ex_object_ref" "or_object_id ex_object_ref = identity_object_id ex_identity"
    by (simp_all add: ex_object_metadata_def ex_object_ref_def)
  have ref: "x_object_reference reference_external (or_resource ex_object_ref) (identity_object_id ex_identity)
      (Some (sha256_digest ''abc'')) = Inr ex_object_ref"
    by (simp add: ex_object_ref_def)
  have "mk_orphan_candidate reference_external
      \<lparr>oa_candidate_id = PStr (orphan_candidate_id (identity_resource_id ex_identity) (identity_object_id ex_identity)
         (sha256_digest ''abc'')),
       oa_resource_id = PStr (identity_resource_id ex_identity), oa_object_ref = ex_object_ref,
       oa_digest = PStr (sha256_digest ''abc''), oa_byte_length = PInt 3,
       oa_reason = PStr ''object-without-structured-metadata'', oa_discovered_at = PStr ex_time,
       oa_state = DISCOVERED, oa_record_version = PNone, oa_format_version = PStr orphan_format\<rparr> = Inr ex_found"
    by (rule reference.mk_orphan_candidate_Inr [OF ex_found_ok]) simp_all
  then have "discover_item fake_consumer True ex_object_metadata ex_stored
      = (Inr (Some (ex_found\<lparr>oc_record_version := PInt 1\<rparr>)), ex_found_world)"
    using ex_get_no_resource [of ex_stored] ex_put_orphan [OF ex_found_ok, of ex_stored] ref
    by (simp add: discover_item_def ex_claimed con meta pbind_step ex_now fake_store_ok ex_found_world_def)
  then show ?thesis
    by (simp add: discover_orphans_def con ex_object_list pbind_step List.map_filter_def)
qed

definition ex_failure :: exn where
  "ex_failure = RuntimeError ''injected metadata failure''"

section \<open>Properties\<close>

lemma fake_consumer_wired: "consumer_wired fake_metadata fake_consumer"
  by (simp add: consumer_wired_def fake_store_def fake_metadata_def fake_objects_def fake_channels_def
      mk_channel_repository_def)

lemma fake_artifacts_wired: "artifact_wired fake_metadata fake_valid fake_rows (sp_artifacts (st_publisher fake_store))"
  using neutral_fake_calls
  by (simp add: artifact_wired_def fake_store_def fake_metadata_def fake_objects_def fake_channels_def
      mk_artifact_publisher_def mk_channel_repository_def)

text \<open>C16. Orphan discovery is exact for the Objects of the page it lists: it reports each Object that
  claims, by its name and its metadata, a resource without an entry, with the Object's digest and
  length, and no other; it changes no entry, and every candidate it was asked to record is recorded.\<close>
theorem discovery_reports_orphans:
  assumes "plugin_catalog repo rows key_field known valid" "consumer_wired repo con" "ledger_ok repo valid rows w"
    "discover_orphans con limit cursor b w = (Inr page, w')"
  shows "\<exists>pg w1 zs. object_list (ac_objects con) ''artifacts/'' limit cursor w = (Inr pg, w1)
    \<and> list_all2 (reported (catalogue repo rows w)) (pg_items pg) zs \<and> op_items page = List.map_filter id zs
    \<and> orphans_grow repo valid rows w w' \<and> (b \<longrightarrow> list_all (\<lambda>c. recorded repo rows c w') (op_items page))"
  by (rule plugin_catalog.discover_orphans_reports [OF assms]) (force simp: list_all_iff)

theorem discovery_reports_orphans_witness:
  "reported Map.empty ex_object_metadata (Some (ex_found\<lparr>oc_record_version := PInt 1\<rparr>))
    \<and> recorded fake_metadata fake_rows (ex_found\<lparr>oc_record_version := PInt 1\<rparr>) ex_found_world"
proof -
  have con: "ac_objects fake_consumer = fake_objects" by (simp add: fake_store_def)
  have "catalogue fake_metadata fake_rows ex_stored = Map.empty"
    by (simp add: catalogue_def ex_catalogue fake_store_ok fake_rows_def fake_table_of_def fake_known_def get_table_def)
  then show ?thesis
    using discovery_reports_orphans [OF fake_store_ok(1) [unfolded fake_store_ok(3)] fake_consumer_wired ex_stored_ok ex_discover]
    by (auto simp: con ex_object_list list_all2_Cons1 List.map_filter_def split: option.splits if_splits)
qed

text \<open>C15. When an artifact's Object was put and the write of its metadata fails, and the failure is not a
  conflict of identities and no other writer's entry explains it (it is no conflict, or the lookup after it
  finds none), \<open>publish\<close> raises \<open>IncompletePublication\<close> (or what releasing the payload raises) after it has
  tried to record a candidate that names the resource and exactly that Object and its bytes. From the failed
  write on no entry of the metadata map is changed and no recorded candidate is lost, and if the write of the
  candidate succeeds it is in the collection when \<open>publish\<close> ends.\<close>
theorem failed_metadata_leaves_orphan:
  assumes "plugin_catalog repo rows key_field known valid" "artifact_wired repo valid rows pub"
    "ledger_ok repo valid rows w" "publication_ok (mr_ext repo) p"
    "mk_identity (pb_namespace p) (pb_kind p) (pb_name p) (pb_version p) = Inr i" "media_type (pb_media_type p) = Inr media"
    "register_payload (mr_runtime repo) payload dg n w = (Inr rg, w1)"
    "get_resource repo (identity_resource_id i) False w1 = (Inr None, w2)"
    "ap_put_object pub i (rg_reference rg) (rg_digest rg) (rg_byte_length rg) media (pb_actor p) (pb_provenance p) w2
      = (Inr (m, b), w3)"
    "ap_candidate pub i p (Some (om_object_ref m)) (rg_digest rg) (rg_byte_length rg) media w3 = (Inr c, w4)"
    "commit same_artifact repo i c w4 = (Inl exc, w5)" "\<not> has_code IDENTITY_CONFLICT exc"
    "if is_conflict exc then get_resource repo (identity_resource_id i) False w5 = (Inr None, w6) else w6 = w5"
    "ap_clock pub w6 = (Inr now, w7)" "civil_ok (dt_civil now)" "utc_of_datetime now = Inr at"
    "ap_publish pub p payload dg n w = (out, w')"
  shows "\<exists>k r u z. names_object k c \<and> oc_resource_id k = identity_resource_id i
    \<and> oc_digest k = rg_digest rg \<and> oc_byte_length k = rg_byte_length rg
    \<and> (or_digest (om_object_ref m) \<noteq> None \<longrightarrow> oc_object_ref k = om_object_ref m)
    \<and> put_orphan repo k w7 = (r, u)
    \<and> pwhen (rg_owned rg) (rt_release (mr_runtime repo) (rg_reference rg)) u = (z, w')
    \<and> out = (case z of Inl e \<Rightarrow> Inl e | Inr _ \<Rightarrow> Inl (incomplete i exc))
    \<and> orphans_grow repo valid rows w5 w' \<and> (\<forall>s. r = Inr s \<longrightarrow> recorded repo rows k w')"
proof -
  from plugin_catalog.ap_publish_records [OF assms] obtain k r u z where k: "names_object k c" "put_orphan repo k w7 = (r, u)"
    "pwhen (rg_owned rg) (rt_release (mr_runtime repo) (rg_reference rg)) u = (z, w')"
    "out = (case z of Inl e \<Rightarrow> Inl e | Inr _ \<Rightarrow> Inl (incomplete i exc))"
    "orphans_grow repo valid rows w5 w'" "\<And>s. r = Inr s \<Longrightarrow> recorded repo rows k w'" by metis
  with plugin_catalog.ap_candidate_names [OF assms(1,2,4,10) k(1)] show ?thesis by blast
qed

text \<open>The failure \<open>tests/conftest.py\<close> injects: the next write of a metadata row raises.\<close>

abbreviation ex_failing :: "fake \<Rightarrow> fake" where
  "ex_failing w \<equiv> w\<lparr>fk_fail_next_metadata_put := True\<rparr>"

definition ex_failed_write :: fake where
  "ex_failed_write = ex_stored\<lparr>fk_transactions := 1\<rparr>"

lemma ex_failed_commit:
  "commit same_artifact fake_metadata ex_identity (ex_artifact\<lparr>sr_record_version := PNone\<rparr>) (ex_failing ex_stored)
    = (Inl ex_failure, ex_failed_write)"
  by (simp add: commit_def transaction_def with_transaction_def guarded_def pbind_def fake_metadata_def put_resource_def
      put_row_def run_def build_def execute_def fake_execute_def with_table_def fake_put_def ex_failure_def pcatch_def
      ex_failed_write_def ex_stored_def ex_registered_def empty_fake_def)

theorem failed_metadata_leaves_orphan_witness:
  "\<exists>k w'. ap_publish (sp_artifacts (st_publisher fake_store)) ex_artifact_publication (PayloadBytes ''abc'') PNone PNone
        (ex_failing empty_fake) = (Inl (incomplete ex_identity ex_failure), w')
    \<and> names_object k (ex_artifact\<lparr>sr_record_version := PNone\<rparr>) \<and> oc_object_ref k = ex_object_ref
    \<and> recorded fake_metadata fake_rows k w'"
proof -
  let ?c = "ex_artifact\<lparr>sr_record_version := PNone\<rparr>" and ?pub = "sp_artifacts (st_publisher fake_store)"
  let ?now = "\<lparr>dt_civil = \<lparr>c_year = 2026, c_month = 1, c_day = 2, c_hour = 3, c_minute = 4,
     c_second = 5, c_micro = 123456\<rparr>, dt_offset = Some 0\<rparr>"
  have now: "ap_clock ?pub ex_failed_write = (Inr ?now, ex_failed_write)"
    by (simp add: fake_now_def fake_store_def mk_artifact_publisher_def)
  have civil: "civil_ok (dt_civil ?now)" by (simp add: civil_ok_def days_in_month_def)
  have at: "utc_of_datetime ?now = Inr ex_time" by code_simp
  have exc: "\<not> has_code IDENTITY_CONFLICT ex_failure" "\<not> is_conflict ex_failure" unfolding ex_failure_def by code_simp+
  have start: "ledger_ok fake_metadata fake_valid fake_rows (ex_failing empty_fake)"
    by (rule ledger_ok_same(1) [OF empty_fake_ok same_rows_tables])
      (simp_all add: get_table_def fake_valid_def table_ok_def empty_fake_def split: fake_table.split)
  have pub: "publication_ok (mr_ext fake_metadata) ex_artifact_publication"
    using ex_publication_ok by (simp add: publication_ok_def ex_artifact_publication_def fake_metadata_def)
  have ref: "om_object_ref ex_object_metadata = ex_object_ref" "or_digest ex_object_ref \<noteq> None"
    by (simp_all add: ex_object_metadata_def ex_object_ref_def)
  have run: "mr_runtime fake_metadata = fake_runtime" by (simp add: fake_metadata_def)
  obtain out w' where out: "ap_publish ?pub ex_artifact_publication (PayloadBytes ''abc'') PNone PNone (ex_failing empty_fake) = (out, w')"
    by fastforce
  let ?rg = "\<lparr>rg_reference = ex_handle, rg_digest = sha256_digest ''abc'', rg_byte_length = 3, rg_owned = True\<rparr>"
  let ?p = ex_artifact_publication and ?media = "''application/octet-stream''"
  have args: "mk_identity (pb_namespace ?p) (pb_kind ?p) (pb_name ?p) (pb_version ?p) = Inr ex_identity"
    "media_type (pb_media_type ?p) = Inr ?media"
    using ex_artifact_args ex_artifact_parts by simp_all
  have found: "get_resource fake_metadata (identity_resource_id ex_identity) False (ex_failing ex_registered)
      = (Inr None, ex_failing ex_registered)"
    by (rule ex_get_no_resource) (simp add: ex_registered_def empty_fake_def)
  have put: "ap_put_object ?pub ex_identity (rg_reference ?rg) (rg_digest ?rg) (rg_byte_length ?rg) ?media (pb_actor ?p)
      (pb_provenance ?p) (ex_failing ex_registered) = (Inr (ex_object_metadata, False), ex_failing ex_stored)"
    using ex_object_put_any [of True] ex_artifact_args by simp
  have cand: "ap_candidate ?pub ex_identity ?p (Some (om_object_ref ex_object_metadata)) (rg_digest ?rg) (rg_byte_length ?rg)
      ?media (ex_failing ex_stored) = (Inr ?c, ex_failing ex_stored)"
    using ex_artifact_candidate ref by simp
  have "if is_conflict ex_failure
      then get_resource fake_metadata (identity_resource_id ex_identity) False ex_failed_write = (Inr None, ex_failed_write)
      else ex_failed_write = ex_failed_write" using exc by simp
  from failed_metadata_leaves_orphan [OF fake_store_ok(1) [unfolded fake_store_ok(3)] fake_artifacts_wired start pub args
      ex_register_any [of True, folded run] found put cand ex_failed_commit exc(1) this now civil at out]
  obtain k r u z where k: "names_object k ?c" "oc_object_ref k = ex_object_ref" "put_orphan fake_metadata k ex_failed_write = (r, u)"
    "fake_release ex_handle u = (z, w')" "out = (case z of Inl e \<Rightarrow> Inl e | Inr _ \<Rightarrow> Inl (incomplete ex_identity ex_failure))"
    "\<forall>s. r = Inr s \<longrightarrow> recorded fake_metadata fake_rows k w'"
    using ref run by (auto simp: pwhen_def)
  have "fk_orphans ex_failed_write = []" by (simp add: ex_failed_write_def)
  with ex_put_orphan [of k ex_failed_write] k out show ?thesis
    by (auto simp: names_object_def fake_release_def)
qed

end
