(* ===== verification/ChannelProperties.thy ===== *)
theory ChannelProperties
  imports Examples
begin

text \<open>
  The channel protocol over any structured Catalog that keeps the contract \<open>metadata_catalog\<close>. The
  witnesses run it on the in-memory runtime, which keeps it.
\<close>

lemma ex_world_valid: "fake_valid ex_world"
  by (simp add: fake_valid_def table_ok_def ex_world_def empty_fake_def key_name_def ex_row_def
      resource_to_record_def)

lemma ex_promoted_valid: "fake_valid ex_promoted"
  using ex_world_valid by (simp add: fake_valid_def table_ok_def ex_promoted_def key_name_def channel_to_record_def)

lemma ex_world_rows [simp]:
  "fake_rows CHANNEL_RESOURCE ex_world = []"
  "fake_rows CHANNEL_RESOURCE ex_promoted = [channel_to_record ex_channel @ [(''recordVersion'', PInt 1)]]"
  "mr_channel_resource fake_metadata = CHANNEL_RESOURCE" "cr_metadata fake_channels = fake_metadata"
  "neutral fake_valid fake_rows (cr_clock fake_channels)"
  by (simp_all add: fake_rows_def fake_table_of_def fake_known_def get_table_def ex_promoted_def
      ex_world_def empty_fake_def fake_metadata_def fake_channels_def mk_channel_repository_def fake_now_def neutral_def same_rows_def)

text \<open>C8. Promotion is compare-and-set: whatever the target and the arguments, it either raises and
  leaves every collection as it was, or appends exactly one channel row. That row is the pointer
  that follows the newest one of its channel, and the newest one is the version the caller
  expected. No other collection changes.\<close>
theorem promote_compare_and_set:
  assumes "metadata_catalog repo rows key_field known valid" "valid w"
    "history_ok (rows (mr_channel_resource repo) w)" "cr_metadata chs = repo"
    "neutral valid rows (cr_clock chs)" "promote chs target channel expected actor profile w = (out, w')"
  shows "(\<exists>e. out = Inl e \<and> same_rows valid rows w w') \<or>
    (\<exists>c row n. out = Inr c \<and> expected = PInt n \<and> valid w' \<and> channel_of c row
      \<and> channel = PStr (ch_channel c) \<and> ch_pointer_version c = n + 1
      \<and> newest (channel_id c) (rows (mr_channel_resource repo) w) n
      \<and> rows (mr_channel_resource repo) w' = rows (mr_channel_resource repo) w @ [row]
      \<and> (\<forall>res. res \<noteq> mr_channel_resource repo \<longrightarrow> rows res w' = rows res w))"
  using assms(2-) by (rule metadata_catalog.promote_spec [OF assms(1)])

theorem promote_compare_and_set_witness:
  "newest (channel_id ex_channel) (fake_rows CHANNEL_RESOURCE ex_world) 0
    \<and> fake_rows CHANNEL_RESOURCE ex_promoted
        = fake_rows CHANNEL_RESOURCE ex_world @ [channel_to_record ex_channel @ [(''recordVersion'', PInt 1)]]"
proof -
  have "history_ok (fake_rows (mr_channel_resource fake_metadata) ex_world)" by (simp add: history_ok_Nil)
  moreover have "neutral fake_valid fake_rows (cr_clock fake_channels)" by simp
  ultimately show ?thesis
    using promote_compare_and_set [OF fake_repo.metadata_catalog_axioms ex_world_valid _ _ _ ex_promotion]
    by (auto simp: channel_of_def)
qed

text \<open>C11. Promotions keep the channel history well formed: every channel row parses, and the pointer
  versions of each channel are exactly 1 up to the newest, without a gap or a repetition.\<close>
theorem promote_keeps_history:
  assumes "metadata_catalog repo rows key_field known valid" "valid w"
    "history_ok (rows (mr_channel_resource repo) w)" "cr_metadata chs = repo"
    "neutral valid rows (cr_clock chs)"
  shows "valid (snd (promote chs target channel expected actor profile w))
    \<and> history_ok (rows (mr_channel_resource repo) (snd (promote chs target channel expected actor profile w)))"
  using metadata_catalog.promote_history [OF assms] by (metis prod.collapse)

theorem promote_keeps_history_witness:
  "fake_valid ex_promoted \<and> history_ok (fake_rows CHANNEL_RESOURCE ex_promoted)"
proof -
  have "history_ok (fake_rows (mr_channel_resource fake_metadata) ex_world)" by (simp add: history_ok_Nil)
  moreover have "neutral fake_valid fake_rows (cr_clock fake_channels)" by simp
  ultimately show ?thesis
    using promote_keeps_history [OF fake_repo.metadata_catalog_axioms ex_world_valid, of fake_channels
        "TargetResource ex_resource" "PStr ''stable''" "PInt 0" "PStr ''ci''" "Some CONFIGURATION_PROFILE"]
    by (simp add: ex_promotion)
qed

text \<open>C12. Two writers that both saw the same newest pointer cannot both move it: once one of them has
  written the next version, the other's write fails at any later time, whatever target it chose and
  whatever was written in between, and writes nothing.\<close>
theorem promotion_race_has_one_winner:
  assumes "metadata_catalog repo rows key_field known valid" "valid w" "channel_row_ok c"
    "put_channel repo c w = (Inr c', w1)" "valid w2"
    "set (rows (mr_channel_resource repo) w1) \<subseteq> set (rows (mr_channel_resource repo) w2)"
    "cr_metadata chs = repo" "channel_row_ok d" "channel_id d = channel_id c"
    "ch_pointer_version d = ch_pointer_version c"
  shows "\<exists>e w3. put_pointer chs stale d w2 = (Inl e, w3) \<and> same_rows valid rows w2 w3"
  using assms(2-) by (rule metadata_catalog.put_pointer_race [OF assms(1)])

theorem promotion_race_has_one_winner_witness:
  "\<exists>e w3. put_pointer fake_channels (StaleChannelPointer (about_ref (pointer_ref ex_resource ''stable'')))
      (ex_channel\<lparr>ch_actor := ''other'', ch_record_version := PNone\<rparr>) ex_promoted
      = (Inl e, w3) \<and> same_rows fake_valid fake_rows ex_promoted w3"
proof (rule promotion_race_has_one_winner [OF fake_repo.metadata_catalog_axioms ex_world_valid])
  have ok: "channel_row_ok (ex_channel\<lparr>ch_record_version := PNone\<rparr>)"
    using ex_channel_ok by (simp add: channel_row_ok_def)
  show "channel_row_ok (ex_channel\<lparr>ch_record_version := PNone\<rparr>)" by (rule ok)
  have "bounded_ok 512 ''other''" by code_simp
  with ok show "channel_row_ok (ex_channel\<lparr>ch_actor := ''other'', ch_record_version := PNone\<rparr>)"
    by (simp add: channel_row_ok_def)
  show "put_channel fake_metadata (ex_channel\<lparr>ch_record_version := PNone\<rparr>) ex_world = (Inr ex_channel, ex_promoted)"
    by (rule ex_put_channel)
  show "fake_valid ex_promoted" by (rule ex_promoted_valid)
qed (simp_all add: channel_id_def)

text \<open>C13. A caller that expects anything but the newest pointer version is refused, and nothing is
  written.\<close>
theorem stale_promotion_refused:
  assumes "metadata_catalog repo rows key_field known valid" "valid w"
    "history_ok (rows (mr_channel_resource repo) w)" "cr_metadata chs = repo"
    "neutral valid rows (cr_clock chs)"
    "newest (sr_namespace r, sr_kind r, sr_name r, ch) (rows (mr_channel_resource repo) w) m" "m \<noteq> n"
    "promote chs (TargetResource r) (PStr ch) (PInt n) actor profile w = (out, w')"
  shows "(\<exists>e. out = Inl e) \<and> same_rows valid rows w w'"
proof -
  from assms(8) have "w' = w \<and> (\<exists>e. out = Inl e) \<or> advance_pointer chs r ch n actor w = (out, w')"
    by (auto simp: promote_def target_resource_def nat_value_def channel_name_PStr pbind_def plift_def
        pthrow_def channel_name_Inr_iff split: sum.splits if_splits prod.splits)
  with metadata_catalog.promote_stale [OF assms(1-7)] assms(2) show ?thesis
    by (auto simp: same_rows_def)
qed

theorem stale_promotion_refused_witness:
  "(\<exists>e. fst (promote fake_channels (TargetResource ex_resource) (PStr ''stable'') (PInt 0) (PStr ''ci'')
      (Some CONFIGURATION_PROFILE) ex_promoted) = Inl e)"
proof -
  have h: "history_ok (fake_rows CHANNEL_RESOURCE ex_promoted)"
    using metadata_catalog.promote_history [OF fake_repo.metadata_catalog_axioms ex_world_valid _ _ _ ex_promotion]
    by (simp add: history_ok_Nil)
  have id: "channel_id ex_channel = (''app'', ''config'', ''svc'', ''stable'')"
    by (simp add: channel_id_def ex_channel_def)
  have "newest (channel_id ex_channel) [channel_to_record ex_channel @ [(''recordVersion'', PInt 1)]] 1"
    using newest_append [OF ex_channel_of, of "[]"] by (simp add: history_ok_Nil ex_channel_def)
  then have "newest (sr_namespace ex_resource, sr_kind ex_resource, sr_name ex_resource, ''stable'')
      (fake_rows (mr_channel_resource fake_metadata) ex_promoted) 1"
    by (simp add: id)
  from stale_promotion_refused [OF fake_repo.metadata_catalog_axioms ex_promoted_valid _ _ _ this] h
  show ?thesis by (metis ex_world_rows(3-5) prod.collapse zero_neq_one)
qed

text \<open>C33. What a lookup of a channel returns is its newest pointer, and it finds none only when no
  pointer was ever written.\<close>
theorem channel_lookup_is_newest:
  assumes "metadata_catalog repo rows key_field known valid" "valid w"
    "history_ok (rows (mr_channel_resource repo) w)"
    "latest_channel repo ns k n ch False w = (Inr z, w')"
  shows "same_rows valid rows w w' \<and> newest (ns, k, n, ch) (rows (mr_channel_resource repo) w)
    (case z of None \<Rightarrow> 0 | Some c \<Rightarrow> ch_pointer_version c)"
  using metadata_catalog.latest_channel_spec [OF assms] metadata_catalog.latest_channel_reads [OF assms(1,2,4)]
  by simp

theorem channel_lookup_is_newest_witness:
  "newest (''app'', ''config'', ''svc'', ''stable'') (fake_rows CHANNEL_RESOURCE ex_world) 0"
proof -
  have "latest_channel fake_metadata ''app'' ''config'' ''svc'' ''stable'' False ex_world = (Inr None, ex_world)"
    by (simp add: latest_channel_def run_def build_def execute_def pbind_def
        fake_metadata_def fake_execute_def with_table_def fake_query_def get_table_def ex_world_def
        empty_fake_def result_page_def result_of_def result_mapping_def get_or_def sort_rows_def)
  from channel_lookup_is_newest [OF fake_repo.metadata_catalog_axioms ex_world_valid _ this]
  show ?thesis by (simp add: history_ok_Nil)
qed

end
