(* ===== verification/ConsumerProperties.thy ===== *)
theory ConsumerProperties
  imports ArtifactExamples
begin

text \<open>
  What a consumer of artifacts relies on, over any runtime: the bytes it gets are those the metadata
  names, payloads are released however a read ends, and draining a stream returns. The witnesses read
  back the artifact the in-memory store published.
\<close>

section \<open>The reader\<close>

lemma reader_read_Inr_iff:
  "reader_read rt n rd w = (Inr (b, rd'), w') \<longleftrightarrow>
    rt_read rt (vr_stream rd) n w = (Inr (PBytes b), w') \<and> rd' = rd\<lparr>vr_data := vr_data rd @ b\<rparr>"
proof
  assume "reader_read rt n rd w = (Inr (b, rd'), w')"
  then obtain raw w1 where raw: "rt_read rt (vr_stream rd) n w = (Inr raw, w1)"
    "(case raw of PBytes b \<Rightarrow> pret (b, rd\<lparr>vr_data := vr_data rd @ b\<rparr>)
     | _ \<Rightarrow> pthrow (TypeError ''artifact stream returned non-binary data'')) w1 = (Inr (b, rd'), w')"
    unfolding reader_read_def pbind_Inr_iff by blast
  then show "rt_read rt (vr_stream rd) n w = (Inr (PBytes b), w') \<and> rd' = rd\<lparr>vr_data := vr_data rd @ b\<rparr>"
    by (cases raw) auto
qed (simp add: reader_read_def pbind_def)

lemma reader_read_data:
  "reader_read rt n rd w = (Inr (b, rd'), w') \<Longrightarrow> rd' = rd\<lparr>vr_data := vr_data rd @ b\<rparr>"
  by (simp add: reader_read_Inr_iff)

lemma drain_data:
  assumes "drain rt rd w = Some (Inr rd', w')"
  shows "\<exists>rest. rd' = rd\<lparr>vr_data := vr_data rd @ rest\<rparr>"
proof -
  have "\<forall>rd' w'. y = (Inr rd', w') \<longrightarrow> (\<exists>rest. rd' = rd\<lparr>vr_data := vr_data rd @ rest\<rparr>)"
    if "drain rt rd w = Some y" for rd w y
  proof (rule drain.raw_induct [where P = "\<lambda>rt rd w y. \<forall>rd' w'. y = (Inr rd', w') \<longrightarrow>
      (\<exists>rest. rd' = rd\<lparr>vr_data := vr_data rd @ rest\<rparr>)", OF _ that])
    fix d and rt :: "'a runtime" and rd w y
    assume ih: "\<And>rt rd w y. d rt rd w = Some y \<Longrightarrow> \<forall>rd' w'. y = (Inr rd', w') \<longrightarrow> (\<exists>rest. rd' = rd\<lparr>vr_data := vr_data rd @ rest\<rparr>)"
      and step: "(case reader_read rt chunk_size rd w of (Inl e, w') \<Rightarrow> Some (Inl e, w')
        | (Inr (b, rd'), w') \<Rightarrow> if b = [] then Some (Inr rd', w') else d rt rd' w') = Some y"
    show "\<forall>rd' w'. y = (Inr rd', w') \<longrightarrow> (\<exists>rest. rd' = rd\<lparr>vr_data := vr_data rd @ rest\<rparr>)"
    proof (intro allI impI)
      fix rd' w' assume y: "y = (Inr rd', w')"
      with step obtain b rd1 w1 where r: "reader_read rt chunk_size rd w = (Inr (b, rd1), w1)"
        "b = [] \<and> rd' = rd1 \<or> d rt rd1 w1 = Some (Inr rd', w')"
        by (auto split: prod.splits sum.splits if_splits)
      have rd1: "rd1 = rd\<lparr>vr_data := vr_data rd @ b\<rparr>" using r(1) by (rule reader_read_data)
      from r(2) show "\<exists>rest. rd' = rd\<lparr>vr_data := vr_data rd @ rest\<rparr>"
      proof
        assume "b = [] \<and> rd' = rd1"
        with rd1 show ?thesis by (intro exI [of _ "[]"]) simp
      next
        assume "d rt rd1 w1 = Some (Inr rd', w')"
        from ih [OF this] obtain rest where "rd' = rd1\<lparr>vr_data := vr_data rd1 @ rest\<rparr>" by blast
        with rd1 show ?thesis by (intro exI [of _ "b @ rest"]) simp
      qed
    qed
  qed
  with assms show ?thesis by blast
qed

text \<open>The digest and the length of everything read through the reader, to the end of the stream.\<close>

lemma reader_verify_data:
  assumes "reader_verify rt rd w = Some (Inr rd', w')" "\<not> vr_done rd"
  shows "\<exists>rest. sha256_digest (vr_data rd @ rest) = vr_expected_digest rd
    \<and> int (length (vr_data rd @ rest)) = vr_expected_length rd"
proof -
  from assms obtain rd1 w1 where d: "drain rt rd w = Some (Inr rd1, w1)"
    "int (length (vr_data rd1)) = vr_expected_length rd1" "sha256_digest (vr_data rd1) = vr_expected_digest rd1"
    by (auto simp: reader_verify_def dbind_Some_iff dlift_Some_iff split: if_splits)
  from drain_data [OF d(1)] obtain rest where "rd1 = rd\<lparr>vr_data := vr_data rd @ rest\<rparr>" by blast
  with d(2,3) show ?thesis by (intro exI [of _ rest]) simp
qed

lemma read_sizes_data:
  "read_sizes rt ns rd w = (Inr (bs, rd'), w') \<Longrightarrow> rd' = rd\<lparr>vr_data := vr_data rd @ concat bs\<rparr>"
proof (induction ns arbitrary: rd w bs)
  case Nil
  then show ?case by auto
next
  case (Cons n ns)
  from Cons.prems obtain b rd1 w1 cs where r: "reader_read rt n rd w = (Inr (b, rd1), w1)"
    "read_sizes rt ns rd1 w1 = (Inr (cs, rd'), w')" "bs = b # cs"
    by (auto simp: pbind_Inr_iff)
  with Cons.IH [OF r(2)] reader_read_data [OF r(1)] show ?case by simp
qed

lemma ac_open_Inr:
  assumes "ac_open con a body w = Some (Inr v, w')"
  obtains stream u rd u1 rd' u2 where
    "body (mk_reader stream (sr_digest (selected a)) (sr_byte_length (selected a))) u = (Inr (v, rd), u1)"
    "reader_verify (ac_payloads con) rd u1 = Some (Inr rd', u2)"
  using assms
  by (auto simp: ac_open_def Let_def flow split: prod.splits)


section \<open>What a read returns\<close>

text \<open>C9. Whatever a client reads from an artifact through \<open>open\<close>, in pieces of any sizes, is the beginning
  of a byte string whose SHA-256 digest and whose length are those of the metadata: if the context
  manager exits without an error, the client was given nothing else.\<close>
theorem opened_bytes_verified:
  assumes "ac_open con a (read_sizes (ac_payloads con) ns) w = Some (Inr pieces, w')"
  shows "\<exists>rest. sha256_digest (concat pieces @ rest) = sr_digest (selected a)
    \<and> int (length (concat pieces @ rest)) = sr_byte_length (selected a)"
proof (rule ac_open_Inr [OF assms])
  fix stream u rd u1 rd' u2
  assume b: "read_sizes (ac_payloads con) ns (mk_reader stream (sr_digest (selected a)) (sr_byte_length (selected a))) u
      = (Inr (pieces, rd), u1)"
    and v: "reader_verify (ac_payloads con) rd u1 = Some (Inr rd', u2)"
  from read_sizes_data [OF b] have "rd = (mk_reader stream (sr_digest (selected a)) (sr_byte_length (selected a)))
      \<lparr>vr_data := concat pieces\<rparr>" by (simp add: mk_reader_def)
  with reader_verify_data [OF v] show ?thesis by (simp add: mk_reader_def)
qed

theorem opened_bytes_verified_witness:
  "\<exists>rest. sha256_digest (''ab'' @ rest) = sha256_digest ''abc'' \<and> length (''ab'' @ rest) = 3"
proof -
  have "ac_payloads fake_consumer = fake_runtime" by (simp add: fake_store_def)
  with opened_bytes_verified [of fake_consumer "Stored ex_artifact" "[1, 1]"] ex_open_pieces show ?thesis
    by (fastforce simp: selected_def)
qed

text \<open>C10. \<open>read\<close> returns an artifact's bytes, no more and no less: if reading a stream to its end leaves
  nothing to read, the digest and the length of the value are those of the metadata.\<close>
theorem read_bytes_verified:
  assumes "ac_read con a w = Some (Inr value, w')"
    and "\<And>s u b u1 c u2. rt_read (ac_payloads con) s (- 1) u = (Inr (PBytes b), u1) \<Longrightarrow>
      rt_read (ac_payloads con) s chunk_size u1 = (Inr (PBytes c), u2) \<Longrightarrow> c = []"
  shows "sha256_digest value = sr_digest (selected a) \<and> int (length value) = sr_byte_length (selected a)"
proof (rule ac_open_Inr [OF assms(1) [unfolded ac_read_def]])
  fix stream u rd u1 rd' u2
  let ?rt = "ac_payloads con" and ?rd = "mk_reader stream (sr_digest (selected a)) (sr_byte_length (selected a))"
  assume b: "reader_read ?rt (- 1) ?rd u = (Inr (value, rd), u1)" and v: "reader_verify ?rt rd u1 = Some (Inr rd', u2)"
  from b have raw: "rt_read ?rt stream (- 1) u = (Inr (PBytes value), u1)"
    by (auto simp: reader_read_Inr_iff mk_reader_def)
  have rd: "rd = ?rd\<lparr>vr_data := value\<rparr>" using reader_read_data [OF b] by (simp add: mk_reader_def)
  from v rd obtain rd1 w1 where d: "drain ?rt rd u1 = Some (Inr rd1, w1)"
    "int (length (vr_data rd1)) = vr_expected_length rd1" "sha256_digest (vr_data rd1) = vr_expected_digest rd1"
    by (auto simp: reader_verify_def dbind_Some_iff dlift_Some_iff mk_reader_def split: if_splits)
  from d(1) obtain c rd2 u3 where c: "reader_read ?rt chunk_size rd u1 = (Inr (c, rd2), u3)"
    "c = [] \<Longrightarrow> rd1 = rd2" by (subst (asm) drain.simps) (auto split: prod.splits sum.splits if_splits)
  from c(1) rd have "rt_read ?rt stream chunk_size u1 = (Inr (PBytes c), u3)"
    by (auto simp: reader_read_Inr_iff mk_reader_def)
  with assms(2) [OF raw] have "c = []" by blast
  with c reader_read_data [OF c(1)] have "rd1 = rd" by simp
  with d(2,3) rd show ?thesis by (simp add: mk_reader_def)
qed

theorem read_bytes_verified_witness:
  "ac_read fake_consumer (Stored ex_artifact) ex_artifact_world = Some (Inr ''abc'', ex_read_back)
    \<and> sha256_digest ''abc'' = sr_digest ex_artifact \<and> int (length ''abc'') = sr_byte_length ex_artifact"
proof -
  have "c = []" if "fake_read s (- 1) u = (Inr (PBytes b), u1)" "fake_read s chunk_size u1 = (Inr (PBytes c), u2)"
    for s u b u1 c u2
    using that by (auto simp: fake_read_def Let_def update_Some_unfold split: option.splits)
  then show ?thesis
    using read_bytes_verified [OF ex_read_artifact] ex_read_artifact by (simp add: fake_store_def selected_def)
qed

text \<open>A range read returns as many bytes as the range selects of the artifact's length.\<close>
lemma range_read_length:
  assumes "ac_range_read con a rng w = (Inr value, w')"
  shows "x_range_length (ob_ext (ac_objects con)) rng (sr_byte_length (selected a)) = Inr (int (length value))"
  using assms by (auto simp: ac_range_read_def Let_def flow split: if_splits)


lemma range_read_length_witness:
  "ac_range_read fake_consumer (Stored ex_artifact) ex_range ex_artifact_world = (Inr ''bc'', ex_read_back)
    \<and> resolve_range ex_range 3 = Inr (1, 2) \<and> x_range_length reference_external ex_range 3 = Inr (int (length ''bc''))"
  using range_read_length [OF ex_range_read] ex_range_read
  by (simp add: fake_store_def fake_objects_def selected_def resolve_range_def ex_range_def)

section \<open>Release\<close>

lemma pfinally_last: "pfinally m c w = (out, w') \<Longrightarrow> \<exists>u o1. c u = (o1, w')"
  by (auto simp: pfinally_def split: prod.splits sum.splits)

text \<open>C31. Once \<open>open\<close> holds a payload, that is once the object Catalog has answered, releasing it is the
  last thing it does, whether the metadata of the Object does not match the resource, the stream cannot
  be opened, the client's body, the verification or the close of the stream fails, or nothing does.\<close>
theorem open_releases_payload:
  assumes "artifact_object (selected a) = Inr object"
    "missing_object (selected a) (object_get (ac_objects con) object) w = (Inr result, w1)"
    "ac_open con a body w = Some (out, w')"
  shows "\<exists>u o1. rt_release (ac_payloads con) (rd_payload result) u = (o1, w')"
proof (cases "verify_consumed_metadata (rd_metadata result) (selected a)")
  case (Inl e)
  then have "has_code DIGEST_MISMATCH e"
    by (auto simp: verify_consumed_metadata_def ensure_def ArtifactDigestMismatch_def ArtifactDigestMismatch_msg_def split: if_splits)
  with Inl assms show ?thesis
    by (cases "rt_release (ac_payloads con) (rd_payload result) w1")
      (auto simp: ac_open_def Let_def checked_read_def dbind_def dlift_def pbind_def pcatch_def plift_def pthrow_def split: sum.splits)
next
  case (Inr u)
  with assms show ?thesis
    by (auto simp: ac_open_def Let_def checked_read_def dbind_def dlift_def pbind_def pcatch_def dfinally_def dest!: pfinally_last)
qed

theorem open_releases_payload_witness:
  "ac_open fake_consumer (Stored ex_mismatch) (reader_read fake_runtime (- 1)) ex_artifact_world
      = Some (Inl (ArtifactDigestMismatch (about_ref (identity_resource_id ex_identity))), ex_read_back)
    \<and> (\<exists>u o1. fake_release ex_read_handle u = (o1, ex_read_back))"
proof -
  have s: "ac_payloads fake_consumer = fake_runtime" "ac_objects fake_consumer = fake_objects" by (simp_all add: fake_store_def)
  have "artifact_object (selected (Stored ex_mismatch)) = Inr ex_object_ref"
    by (simp add: artifact_object_def require_artifact_def selected_def ex_mismatch_def)
  from open_releases_payload [OF this, of fake_consumer] ex_got_object [of ex_mismatch] ex_open_mismatch s show ?thesis
    by (fastforce simp: selected_def)
qed

text \<open>C30. A publisher that registered the payload itself releases it, as the last thing it does, on every
  path out of \<open>publish\<close>; a reference of the caller's it does not touch.\<close>
theorem publish_releases_payload:
  assumes "mk_identity (pb_namespace p) (pb_kind p) (pb_name p) (pb_version p) = Inr i"
    "media_type (pb_media_type p) = Inr media" "register_payload (ap_payloads pub) payload dg n w = (Inr rg, w1)"
    "ap_publish pub p payload dg n w = (out, w')"
  shows "if rg_owned rg then \<exists>u o1. rt_release (ap_payloads pub) (rg_reference rg) u = (o1, w')
    else w1 = w \<and> (\<exists>r. payload = PayloadRef r \<and> rg_reference rg = r)"
proof (cases "rg_owned rg")
  case True
  with assms have "pfinally (pbind (get_resource (ap_metadata pub) (identity_resource_id i) False) (\<lambda>found. (case found of
          Some existing \<Rightarrow> ap_publish_existing pub i p rg media existing
        | None \<Rightarrow> ap_publish_new pub i p rg media))) (rt_release (ap_payloads pub) (rg_reference rg)) w1 = (out, w')"
    by (simp add: ap_publish_def pbind_def pwhen_def)
  from pfinally_last [OF this] True show ?thesis by simp
next
  case False
  with assms(3) show ?thesis
    by (cases payload) (auto simp: register_payload_def Let_def flow)
qed

theorem publish_releases_payload_witness:
  "\<exists>u o1. fake_release ex_handle u = (o1, ex_artifact_world)"
proof -
  have m: "mk_identity (pb_namespace ex_artifact_publication) (pb_kind ex_artifact_publication)
      (pb_name ex_artifact_publication) (pb_version ex_artifact_publication) = Inr ex_identity"
    "media_type (pb_media_type ex_artifact_publication) = Inr ''application/octet-stream''"
    using ex_identity_ok by (simp_all add: ex_artifact_publication_def mk_identity_Inr_iff media_type_Inr_iff ex_names_ok)
      (simp add: ex_identity_def)
  have s: "ap_payloads (sp_artifacts (st_publisher fake_store)) = fake_runtime"
    by (simp add: fake_store_def mk_artifact_publisher_def)
  from publish_releases_payload [OF m, of "sp_artifacts (st_publisher fake_store)"] ex_register ex_artifact_run s show ?thesis
    by (fastforce simp: publish_artifact_def)
qed

section \<open>Termination\<close>

definition returns :: "('w, 'a) dprog \<Rightarrow> bool" where
  "returns m \<longleftrightarrow> (\<forall>w. m w \<noteq> None)"

lemma returns_dlift: "returns (dlift m)"
  by (simp add: returns_def dlift_def)

lemma returns_dbind:
  assumes "returns m" "\<And>x. returns (f x)"
  shows "returns (dbind m f)"
  unfolding returns_def
proof
  fix w
  obtain r w1 where "m w = Some (r, w1)" using assms(1) unfolding returns_def by fastforce
  with assms(2) show "dbind m f w \<noteq> None" by (cases r) (simp_all add: dbind_def returns_def)
qed

lemma returns_dfinally: "returns m \<Longrightarrow> returns (dfinally m c)"
  by (simp add: returns_def dfinally_def)

lemma returns_dguarded: "returns m \<Longrightarrow> returns (dguarded m exit)"
  by (simp add: returns_def dguarded_def)

lemma returns_if: "returns m \<Longrightarrow> returns n \<Longrightarrow> returns (if b then m else n)"
  by simp

lemma returns_case_prod: "(\<And>x y. returns (f x y)) \<Longrightarrow> returns (case z of (x, y) \<Rightarrow> f x y)"
  by (cases z) simp

text \<open>C32. Reading an artifact returns, if the streams of the payload registry are finite: some measure
  decreases whenever a read gives bytes. The verification loop has no bound of its own, so this is
  what its termination rests on.\<close>
theorem reads_terminate:
  assumes "\<And>s n u b u'. rt_read (ac_payloads con) s n u = (Inr (PBytes b), u') \<Longrightarrow> b \<noteq> [] \<Longrightarrow> \<mu> u' < (\<mu> u :: nat)"
  shows "\<exists>out. ac_open con a body w = Some out"
proof -
  let ?rt = "ac_payloads con"
  have "\<exists>out. drain ?rt rd u = Some out" for rd u
  proof (induction "\<mu> u" arbitrary: rd u rule: less_induct)
    case less
    obtain r u1 where r: "reader_read ?rt chunk_size rd u = (r, u1)" by fastforce
    show ?case
    proof (cases "\<exists>b rd1. r = Inr (b, rd1) \<and> b \<noteq> []")
      case True
      then obtain b rd1 where b: "r = Inr (b, rd1)" "b \<noteq> []" by blast
      with r assms have "\<mu> u1 < \<mu> u" by (auto simp: reader_read_Inr_iff)
      from less [OF this, of rd1] b r show ?thesis by (subst drain.simps) simp
    next
      case False
      with r show ?thesis by (subst drain.simps) (auto split: sum.split)
    qed
  qed
  then have "returns (drain ?rt rd)" for rd unfolding returns_def by (metis option.distinct(1))
  then have verified: "returns (reader_verify ?rt rd)" for rd
    unfolding reader_verify_def by (intro returns_if returns_dbind returns_dlift)
  have "returns (ac_open con a body)"
    unfolding ac_open_def Let_def
    by (intro returns_dbind returns_dlift returns_dfinally returns_dguarded returns_case_prod verified)
  then show ?thesis by (simp add: returns_def)
qed

theorem reads_terminate_witness:
  "\<exists>out. ac_open fake_consumer (Stored ex_artifact) (read_sizes fake_runtime [2, 7]) ex_artifact_world = Some out"
proof (rule reads_terminate [where \<mu> = "\<lambda>u. sum_list (map (\<lambda>p. length (snd p)) (fk_streams u))"])
  fix s n u b u'
  assume r: "rt_read (ac_payloads fake_consumer) s n u = (Inr (PBytes b), u')" "b \<noteq> []"
  have shrink: "sum_list (map (\<lambda>p. length (snd p)) (AList.update s left d)) < sum_list (map (\<lambda>p. length (snd p)) d)"
    if "map_of d s = Some rest" "length left < length rest" for left rest :: string and d
    using that by (induction d) (auto split: if_splits)
  from r show "sum_list (map (\<lambda>p. length (snd p)) (fk_streams u')) < sum_list (map (\<lambda>p. length (snd p)) (fk_streams u))"
    by (auto simp: fake_store_def fake_read_def Let_def intro!: shrink split: option.splits if_splits)
qed

end
