(* ===== verification/RepositoryProperties.thy ===== *)
theory RepositoryProperties
  imports Examples
begin

text \<open>
  The properties of the repositories over any runtime: what a returned value guarantees when the
  Catalog behind it is not trusted, and which exception each failure becomes.
\<close>

section \<open>Deprecation\<close>

lemma map_of_with_state: "map_of (with_state s d) k = (if k = ''state'' then Some (PStr (state_value s)) else map_of d k)"
  by (simp add: with_state_def update_conv')

lemma py_eq_opt_str: "py_eq (of_opt PStr a) (of_opt PStr b) \<longleftrightarrow> a = b"
  by (cases a; cases b) (auto simp: scalar_eq_def num_view_def)

lemma py_eq_opt_int: "py_eq (of_opt PInt a) (of_opt PInt b) \<longleftrightarrow> a = b"
  by (cases a; cases b) (auto simp: scalar_eq_def num_view_def)

lemma py_eq_scalars:
  "py_eq (PInt a) (PInt b) \<longleftrightarrow> a = b"
  "py_eq (PBool p) (PBool q) \<longleftrightarrow> p = q"
  by (auto simp: scalar_eq_def num_view_def)

text \<open>Equality of printed dicts of strings, and of printed optional values.\<close>

lemma dict_sub_str_dict:
  "dict_sub (str_dict d) (str_dict d') \<longleftrightarrow> list_all (\<lambda>p. map_of d' (fst p) = Some (snd p)) d"
proof -
  have "map_of (str_dict d') k = map_option PStr (map_of d' k)" for k
    by (induction d') (auto simp: str_dict_def)
  then show ?thesis
    by (induction d) (auto simp: str_dict_def scalar_eq_def num_view_def split: option.splits)
qed

lemma dict_eq_sub: "dict_eq d d' \<longleftrightarrow> length d = length d' \<and> dict_sub d d'"
  by (simp add: dict_eq_def)

lemma dict_eq_str_dict: "dict_eq (str_dict d) (str_dict d') \<longleftrightarrow> smap_eq d d'"
  by (simp add: smap_eq_def dict_eq_sub dict_sub_str_dict)

lemma py_eq_opt_dict: "py_eq (of_opt (\<lambda>x. PDict (f x)) a) (of_opt (\<lambda>x. PDict (f x)) b) \<longleftrightarrow> opt_eq (\<lambda>x y. dict_eq (f x) (f y)) a b"
  by (cases a; cases b) (auto simp: opt_eq_def dict_eq_def scalar_eq_def num_view_def)

lemma dict_eq_schema_ref: "dict_eq (schema_ref_to_dict a) (schema_ref_to_dict b) \<longleftrightarrow> a = b"
  by (cases a; cases b) (auto simp: dict_eq_def schema_ref_to_dict_def scalar_eq_def num_view_def)

lemma opt_eq_schema_ref: "opt_eq (\<lambda>a b. dict_eq (schema_ref_to_dict a) (schema_ref_to_dict b)) a b \<longleftrightarrow> a = b"
  by (cases a; cases b) (simp_all add: opt_eq_def dict_eq_schema_ref)

text \<open>What the comparison of two printed provenances compares.\<close>

definition provenance_printed_eq :: "provenance \<Rightarrow> provenance \<Rightarrow> bool" where
  "provenance_printed_eq p q \<longleftrightarrow> pv_format_version p = pv_format_version q \<and> pv_producer p = pv_producer q
     \<and> pv_producer_version p = pv_producer_version q \<and> smap_eq (pv_source_digests p) (pv_source_digests q)
     \<and> pv_build_id p = pv_build_id q \<and> pv_validation_version p = pv_validation_version q
     \<and> dict_eq (thaw_items (pv_attributes p)) (thaw_items (pv_attributes q))"

lemma dict_eq_provenance: "dict_eq (provenance_to_dict p) (provenance_to_dict q) \<longleftrightarrow> provenance_printed_eq p q"
proof -
  have "py_eq (PStr a) (PStr b) \<longleftrightarrow> a = b" for a b by (simp add: scalar_eq_def num_view_def)
  then show ?thesis
    unfolding dict_eq_sub [of "provenance_to_dict p"] unfolding provenance_to_dict_def provenance_printed_eq_def
    by (simp add: py_eq_opt_str dict_eq_str_dict dict_eq_def [symmetric] del: py_eq.simps)
qed

lemmas record_field_eqs = resource_fields_def resource_to_record_def py_eq_opt_str py_eq_opt_int py_eq_scalars
  dict_eq_str_dict py_eq_opt_dict dict_eq_provenance opt_eq_schema_ref dict_eq_def [symmetric]

text \<open>A record equal to another with the state set to deprecated agrees with it on every other field: the
  payload, the annotations, the provenance and the reference to the Object as they are printed.\<close>

lemma deprecated_record_lookup:
  assumes "dict_eq (resource_to_record x s) (with_state DEPRECATED (resource_to_record x r))" "k \<in> set resource_fields"
  shows "py_eq (get_or (resource_to_record x s) k PNone)
    (if k = ''state'' then PStr (state_value DEPRECATED) else get_or (resource_to_record x r) k PNone)"
proof -
  from assms(2) have "k \<in> keys (resource_to_record x s)"
    by (simp add: resource_fields_def resource_to_record_def)
  then obtain v where v: "map_of (resource_to_record x s) k = Some v"
    by (rule exE [OF iffD2 [OF map_of_is_Some_iff]])
  from dict_eq_lookup [OF assms(1) v] obtain w
    where w: "map_of (with_state DEPRECATED (resource_to_record x r)) k = Some w" "py_eq v w" by blast
  have "get_or (resource_to_record x s) k PNone = v" by (simp only: get_or_def v option.case)
  moreover have "(if k = ''state'' then PStr (state_value DEPRECATED)
      else get_or (resource_to_record x r) k PNone) = w"
    using w(1) unfolding map_of_with_state get_or_def by (simp only: option.inject option.case simp_thms split: if_splits)
  ultimately show ?thesis using w(2) by (simp only:)
qed

lemma deprecated_record_fields:
  assumes "dict_eq (resource_to_record x s) (with_state DEPRECATED (resource_to_record x r))"
  shows "sr_state s = DEPRECATED" "sr_resource_id s = sr_resource_id r" "sr_identity s = sr_identity r"
    "sr_profile s = sr_profile r" "sr_media_type s = sr_media_type r" "sr_digest s = sr_digest r"
    "sr_byte_length s = sr_byte_length r" "sr_created_by s = sr_created_by r"
    "sr_created_at s = sr_created_at r" "sr_supersedes s = sr_supersedes r"
    "sr_version_order s = sr_version_order r" "sr_immutable s = sr_immutable r"
    "sr_format_version s = sr_format_version r" "smap_eq (sr_labels s) (sr_labels r)"
    "dict_eq (thaw_items (sr_annotations s)) (thaw_items (sr_annotations r))"
    "opt_eq (\<lambda>a b. dict_eq (thaw_items a) (thaw_items b)) (sr_payload s) (sr_payload r)"
    "sr_payload_schema s = sr_payload_schema r"
    "opt_eq provenance_printed_eq (sr_provenance s) (sr_provenance r)"
    "py_eq (of_opt (x_object_reference_dict x) (sr_object_ref s)) (of_opt (x_object_reference_dict x) (sr_object_ref r))"
proof -
  note eq = deprecated_record_lookup [OF assms]
  have fields: "sr_namespace s = sr_namespace r" "sr_kind s = sr_kind r" "sr_name s = sr_name r"
    "sr_version s = sr_version r"
    using eq [of "''namespace''"] eq [of "''kind''"] eq [of "''name''"] eq [of "''version''"]
    by (simp_all add: resource_fields_def resource_to_record_def)
  show "sr_identity s = sr_identity r" using fields by (simp add: sr_identity_def)
  show "sr_state s = DEPRECATED" using eq [of "''state''"]
    by (simp add: record_field_eqs del: py_eq.simps)
  show "sr_resource_id s = sr_resource_id r" using eq [of "''resourceId''"]
    by (simp add: record_field_eqs del: py_eq.simps)
  show "sr_profile s = sr_profile r" using eq [of "''profile''"]
    by (simp add: record_field_eqs del: py_eq.simps)
  show "sr_media_type s = sr_media_type r" using eq [of "''mediaType''"]
    by (simp add: record_field_eqs del: py_eq.simps)
  show "sr_digest s = sr_digest r" using eq [of "''digest''"]
    by (simp add: record_field_eqs del: py_eq.simps)
  show "sr_byte_length s = sr_byte_length r" using eq [of "''byteLength''"]
    by (simp add: record_field_eqs del: py_eq.simps)
  show "sr_created_by s = sr_created_by r" using eq [of "''createdBy''"]
    by (simp add: record_field_eqs del: py_eq.simps)
  show "sr_created_at s = sr_created_at r" using eq [of "''createdAt''"]
    by (simp add: record_field_eqs del: py_eq.simps)
  show "sr_supersedes s = sr_supersedes r" using eq [of "''supersedes''"]
    by (simp add: record_field_eqs del: py_eq.simps)
  show "sr_version_order s = sr_version_order r" using eq [of "''versionOrder''"]
    by (simp add: record_field_eqs del: py_eq.simps)
  show "sr_immutable s = sr_immutable r" using eq [of "''immutable''"]
    by (simp add: record_field_eqs del: py_eq.simps)
  show "sr_format_version s = sr_format_version r" using eq [of "''formatVersion''"]
    by (simp add: record_field_eqs del: py_eq.simps)
  show "smap_eq (sr_labels s) (sr_labels r)" using eq [of "''labels''"]
    by (simp add: record_field_eqs del: py_eq.simps)
  show "dict_eq (thaw_items (sr_annotations s)) (thaw_items (sr_annotations r))" using eq [of "''annotations''"]
    by (simp add: record_field_eqs del: py_eq.simps)
  show "opt_eq (\<lambda>a b. dict_eq (thaw_items a) (thaw_items b)) (sr_payload s) (sr_payload r)" using eq [of "''payload''"]
    by (simp add: record_field_eqs del: py_eq.simps)
  show "sr_payload_schema s = sr_payload_schema r" using eq [of "''payloadSchema''"]
    by (simp add: record_field_eqs del: py_eq.simps)
  show "opt_eq provenance_printed_eq (sr_provenance s) (sr_provenance r)" using eq [of "''provenance''"]
    by (simp add: record_field_eqs del: py_eq.simps)
  show "py_eq (of_opt (x_object_reference_dict x) (sr_object_ref s)) (of_opt (x_object_reference_dict x) (sr_object_ref r))" using eq [of "''objectRef''"]
    by (simp add: record_field_eqs del: py_eq.simps)
qed

lemma deprecation_result_Inr:
  assumes "deprecation_result repo res r = Inr s"
  shows "dict_eq (resource_to_record (mr_ext repo) s) (with_state DEPRECATED (resource_to_record (mr_ext repo) r))"
    "sr_record_version s \<noteq> PNone" "\<not> py_eq (sr_record_version s) (sr_record_version r)"
    "res_resources res = [mr_metadata_resource repo]"
  using assms
  by (auto simp: deprecation_result_def rbind_Inr_iff ensure_Inr_iff split: option.splits list.splits)

text \<open>C17. A deprecation that is reported happened, exactly: in a transaction on the metadata
  collection that was left without an error, the Catalog executed the one patch that sets this
  resource's state, conditional on the record version the caller held; and what it returned, in
  that scope, is the same resource in state DEPRECATED with another record version: every other field,
  identity, digest, payload, payload Schema, labels, annotations, provenance and Object included, is
  unchanged, mappings up to their equality as they are printed. This holds for any runtime, however
  it behaves.\<close>
theorem deprecate_exact:
  assumes "deprecate_resource repo r w = (Inr s, w')"
  shows "(\<exists>w1 res w2. rt_tx_enter (mr_runtime repo) (mr_metadata_resource repo) w = (Inr (), w1)
      \<and> rt_execute (mr_runtime repo) (SPatch (mr_metadata_resource repo)
          [(''resourceId'', PStr (sr_resource_id r))] [(''state'', PStr ''DEPRECATED'')]
          (sr_record_version r)) w1 = (Inr res, w2)
      \<and> res_resources res = [mr_metadata_resource repo]
      \<and> rt_tx_exit (mr_runtime repo) (mr_metadata_resource repo) None w2 = (Inr (), w'))
    \<and> sr_state s = DEPRECATED \<and> sr_resource_id s = sr_resource_id r \<and> sr_identity s = sr_identity r
    \<and> sr_profile s = sr_profile r \<and> sr_media_type s = sr_media_type r \<and> sr_digest s = sr_digest r
    \<and> sr_byte_length s = sr_byte_length r \<and> sr_created_by s = sr_created_by r
    \<and> sr_created_at s = sr_created_at r \<and> sr_supersedes s = sr_supersedes r
    \<and> sr_version_order s = sr_version_order r \<and> sr_immutable s = sr_immutable r
    \<and> sr_format_version s = sr_format_version r \<and> smap_eq (sr_labels s) (sr_labels r)
    \<and> dict_eq (thaw_items (sr_annotations s)) (thaw_items (sr_annotations r))
    \<and> opt_eq (\<lambda>a b. dict_eq (thaw_items a) (thaw_items b)) (sr_payload s) (sr_payload r)
    \<and> sr_payload_schema s = sr_payload_schema r
    \<and> opt_eq provenance_printed_eq (sr_provenance s) (sr_provenance r)
    \<and> py_eq (of_opt (x_object_reference_dict (mr_ext repo)) (sr_object_ref s))
        (of_opt (x_object_reference_dict (mr_ext repo)) (sr_object_ref r))
    \<and> sr_record_version s \<noteq> PNone \<and> \<not> py_eq (sr_record_version s) (sr_record_version r)"
proof -
  from assms obtain w1 res w2 where tx: "rt_tx_enter (mr_runtime repo) (mr_metadata_resource repo) w = (Inr (), w1)"
    "rt_execute (mr_runtime repo) (SPatch (mr_metadata_resource repo)
          [(''resourceId'', PStr (sr_resource_id r))] [(''state'', PStr (state_value DEPRECATED))]
          (sr_record_version r)) w1 = (Inr res, w2)"
    "rt_tx_exit (mr_runtime repo) (mr_metadata_resource repo) None w2 = (Inr (), w')"
    and d: "deprecation_result repo res r = Inr s"
    by (auto simp: deprecate_resource_def transaction_def with_transaction_Inr_iff pbind_Inr_iff
        run_Inr_iff split: if_splits)
  note spec = deprecation_result_Inr [OF d]
  have "state_value DEPRECATED = ''DEPRECATED''" by (simp add: state_value_def)
  with tx show ?thesis using spec deprecated_record_fields [OF spec(1)] by (intro conjI) (blast | simp only:)+
qed

theorem deprecate_exact_witness:
  "sr_state ex_deprecated = DEPRECATED \<and> sr_resource_id ex_deprecated = sr_resource_id ex_resource
    \<and> sr_digest ex_deprecated = sr_digest ex_resource"
  using deprecate_exact [OF ex_deprecation] by blast

end
