(* ===== verification/ModelProperties.thy ===== *)
theory ModelProperties
  imports Examples Calendar
begin

text \<open>
  The properties of the data model: canonical forms, identities, and the records that are written
  and read back. Where a property depends on the imported packages it names their contract
  (\<open>canonical_codec\<close>, \<open>external_contract\<close>) as a hypothesis; the witnesses meet it with
  \<open>reference_external\<close>.
\<close>

section \<open>Canonical forms\<close>

text \<open>C24. An accepted timestamp is normalised to 27 characters that denote a real UTC moment, and
  normalising again changes nothing.\<close>
theorem timestamp_canonical:
  assumes "utc_of_value v = Inr t"
  shows "length t = 27 \<and> utc_of_value (PStr t) = Inr t
    \<and> (\<exists>c. civil_ok c \<and> t = format_utc c \<and> parse_utc t = Some c)"
proof -
  from assms obtain c where "civil_ok c" "t = format_utc c" by (rule utc_of_value_Inr)
  then have "\<exists>c. civil_ok c \<and> t = format_utc c \<and> parse_utc t = Some c" by (auto simp: parse_format_utc)
  with utc_of_value_idem [OF assms] utc_of_value_length [OF assms] show ?thesis by blast
qed

theorem timestamp_canonical_witness:
  "length ''2026-01-02T03:04:05.100000Z'' = 27
   \<and> utc_of_value (PStr ''2026-01-02T03:04:05.100000Z'') = Inr ''2026-01-02T03:04:05.100000Z''
   \<and> (\<exists>c. civil_ok c \<and> ''2026-01-02T03:04:05.100000Z'' = format_utc c
        \<and> parse_utc ''2026-01-02T03:04:05.100000Z'' = Some c)"
proof (rule timestamp_canonical)
  show "utc_of_value (PStr ''2026-1-2T3:4:5.1Z'') = Inr ''2026-01-02T03:04:05.100000Z''" by code_simp
qed

text \<open>C25. The text of an aware timestamp names the same instant: it is the canonical form of the UTC date and
  time that lies the offset before the local one, and it parses back to that date and time.\<close>
theorem timestamp_same_instant:
  assumes "civil_ok (dt_civil v)" "utc_of_datetime v = Inr t"
  shows "\<exists>c off. dt_offset v = Some off \<and> civil_ok c \<and> t = format_utc c \<and> parse_utc t = Some c
    \<and> micros_of c = micros_of (dt_civil v) - off"
  by (rule utc_of_datetime_instant [OF assms]) (auto simp: parse_format_utc)

theorem timestamp_same_instant_witness:
  "\<exists>c. parse_utc ''2025-12-31T23:30:00.000000Z'' = Some c
    \<and> micros_of c = micros_of \<lparr>c_year = 2026, c_month = 1, c_day = 1, c_hour = 0, c_minute = 30, c_second = 0, c_micro = 0\<rparr>
        - 3600000000"
proof -
  let ?v = "\<lparr>dt_civil = \<lparr>c_year = 2026, c_month = 1, c_day = 1, c_hour = 0, c_minute = 30, c_second = 0, c_micro = 0\<rparr>,
    dt_offset = Some 3600000000\<rparr>"
  have "civil_ok (dt_civil ?v)" by (simp add: civil_ok_def days_in_month_def)
  moreover have "utc_of_datetime ?v = Inr ''2025-12-31T23:30:00.000000Z''" by code_simp
  ultimately show ?thesis using timestamp_same_instant [of ?v] by auto
qed

text \<open>C23. Freezing JSON data gives read-only data with sorted keys; thawing it gives back an equal
  value, and freezing that again gives the same frozen value.\<close>
theorem freeze_thaw_roundtrip:
  assumes "json_data v" "wf_py v"
  shows "frozen (freeze_json v) \<and> py_eq v (thaw_json (freeze_json v))
    \<and> freeze_json (thaw_json (freeze_json v)) = freeze_json v"
  using assms by (simp add: frozen_freeze py_eq_thaw_freeze freeze_idem)

theorem freeze_thaw_roundtrip_witness:
  "let v = PDict [(''b'', PList [PInt 1, PNone]), (''a'', PBool True)] in
     frozen (freeze_json v) \<and> py_eq v (thaw_json (freeze_json v))
     \<and> freeze_json (thaw_json (freeze_json v)) = freeze_json v"
proof -
  let ?v = "PDict [(''b'', PList [PInt 1, PNone]), (''a'', PBool True)]"
  have "json_data ?v" "wf_py ?v" by simp_all
  from freeze_thaw_roundtrip [OF this] show ?thesis by (simp only: Let_def)
qed

text \<open>C22. Canonical mappings are a normal form: what \<open>canonical_mapping\<close> returns is frozen, within
  its limits, and is returned unchanged when it is normalised again, frozen or thawed.\<close>
theorem canonical_mapping_idempotent:
  assumes "canonical_codec cj" "canonical_mapping cj v f me (Some n) = Inr d" "str_items v \<noteq> None"
  shows "frozen_dict d \<and> wf_dict d \<and> (\<exists>b. mapping_bytes cj d = Inr b \<and> length b \<le> n)
    \<and> canonical_mapping cj (PProxy d) g me (Some n) = Inr d
    \<and> canonical_mapping cj (PDict (thaw_items d)) g me (Some n) = Inr d"
proof -
  have "normal cj me (Some n) d"
    by (rule canonical_codec.canonical_mapping_normal_form [OF assms])
  moreover have "\<exists>b. mapping_bytes cj d = Inr b \<and> length b \<le> n"
    by (rule canonical_codec.canonical_mapping_normal [OF assms]) blast
  ultimately show ?thesis by (simp add: normal_def del: wf_py.simps)
qed

theorem canonical_mapping_idempotent_witness:
  "frozen_dict [] \<and> wf_dict [] \<and> (\<exists>b. mapping_bytes reference_encode [] = Inr b \<and> length b \<le> 262144)
    \<and> canonical_mapping reference_encode (PProxy []) ''annotations'' (Some 64) (Some 262144) = Inr []
    \<and> canonical_mapping reference_encode (PDict (thaw_items [])) ''annotations'' (Some 64) (Some 262144) = Inr []"
  by (rule canonical_mapping_idempotent [OF encoder.canonical_codec_axioms ex_encodings(1)]) simp

section \<open>Identities\<close>

text \<open>Two references may share a canonical text when their names hold dots.\<close>

lemma schema_ref_canonical_ambiguous:
  "\<exists>s t. mk_schema_ref (PStr ''a.b'') (PStr ''c'') (PStr ''1'') (PStr ''structured'') = Inr s
    \<and> mk_schema_ref (PStr ''a'') (PStr ''b.c'') (PStr ''1'') (PStr ''structured'') = Inr t
    \<and> s \<noteq> t \<and> schema_ref_canonical s = schema_ref_canonical t"
proof -
  let ?s = "\<lparr>ps_namespace = ''a.b'', ps_name = ''c'', ps_version = ''1'', ps_catalog = ''structured''\<rparr>"
  let ?t = "\<lparr>ps_namespace = ''a'', ps_name = ''b.c'', ps_version = ''1'', ps_catalog = ''structured''\<rparr>"
  have "mk_schema_ref (PStr ''a.b'') (PStr ''c'') (PStr ''1'') (PStr ''structured'') = Inr ?s"
    "mk_schema_ref (PStr ''a'') (PStr ''b.c'') (PStr ''1'') (PStr ''structured'') = Inr ?t"
    by code_simp+
  then show ?thesis by (simp add: schema_ref_canonical_def)
qed

text \<open>C26. The texts behind the identifiers determine what they identify: percent-encoding never writes a
  separator, so different identities have different canonical texts, and their resource identifiers
  coincide only if the version-5 UUIDs of two different texts do; the text of a channel row determines
  the channel and the pointer version, that of an orphan candidate the resource, the Object and its digest.\<close>
theorem identifier_texts_injective:
  assumes "0 \<le> p" "0 \<le> q"
  shows "(identity_canonical i = identity_canonical j \<longleftrightarrow> i = j)
   \<and> (identity_resource_id i = identity_resource_id j \<longleftrightarrow>
       i = j \<or> identity_canonical i \<noteq> identity_canonical j
         \<and> uuid5_hex resource_id_namespace (identity_canonical i)
             = uuid5_hex resource_id_namespace (identity_canonical j))
   \<and> (channel_text ns k n c p = channel_text ns' k' n' c' q \<longleftrightarrow>
       ns = ns' \<and> k = k' \<and> n = n' \<and> c = c' \<and> p = q)
   \<and> (orphan_text r o1 d = orphan_text r' o2 d' \<longleftrightarrow> r = r' \<and> o1 = o2 \<and> d = d')"
  using channel_text_inject [OF assms] orphan_text_inject
  by (simp add: identity_canonical_inject identity_resource_id_def) blast

theorem identifier_texts_injective_witness:
  "channel_text ''a'' ''b'' ''c'' ''d'' 1 \<noteq> channel_text ''a'' ''b'' ''c'' ''d'' 2"
  using identifier_texts_injective [of 1 2 _ _ "''a''" "''b''" "''c''" "''d''" "''a''" "''b''" "''c''" "''d''"] by simp

text \<open>C27. A payload Schema reference is read back from its canonical text, provided its name holds
  no dot and its version no at sign; without that, two references share a text.\<close>
theorem schema_ref_canonical_roundtrip:
  assumes "schema_ref_ok s" "CHR ''.'' \<notin> set (ps_name s)" "CHR ''@'' \<notin> set (ps_version s)"
  shows "parse_schema_ref (SchemaValueArg (PStr (schema_ref_canonical s))) = Inr s"
proof -
  let ?address = "''structured:'' @ ps_namespace s @ ''.'' @ ps_name s"
  have c: "schema_ref_canonical s = ?address @ CHR ''@'' # ps_version s" "ps_catalog s = ''structured''"
    using assms(1) by (simp_all add: schema_ref_canonical_def schema_ref_ok_def)
  have "split_last CHR ''@'' (schema_ref_canonical s) = (?address, ps_version s)"
    unfolding c(1) using assms(3) by (rule split_last_append)
  moreover have "split_first CHR '':'' ?address = (''structured'', ps_namespace s @ ''.'' @ ps_name s)"
    using split_first_append [of "CHR '':''" "''structured''" "ps_namespace s @ ''.'' @ ps_name s"] by simp
  moreover have "split_last CHR ''.'' (ps_namespace s @ ''.'' @ ps_name s) = (ps_namespace s, ps_name s)"
    using split_last_append [OF assms(2), of "ps_namespace s"] by simp
  moreover have "CHR ''@'' \<in> set (schema_ref_canonical s)" "CHR '':'' \<in> set ?address" by (simp_all add: c(1))
  ultimately have "parse_schema_string (schema_ref_canonical s)
      = mk_schema_ref (PStr (ps_namespace s)) (PStr (ps_name s)) (PStr (ps_version s)) (PStr ''structured'')"
    by (simp add: parse_schema_string_def)
  also have "\<dots> = Inr s" using assms(1) c(2) by (simp add: mk_schema_ref_Inr_iff)
  finally show ?thesis by (simp add: parse_schema_ref_def)
qed

theorem schema_ref_canonical_roundtrip_witness:
  "parse_schema_ref (SchemaValueArg (PStr (schema_ref_canonical fake_schema_ref))) = Inr fake_schema_ref"
  by (rule schema_ref_canonical_roundtrip [OF fake_schema_ref_ok]) (simp_all add: fake_schema_ref_def)

section \<open>Records\<close>

text \<open>C28. A provenance the constructor accepts is read back unchanged from its printed form.\<close>
theorem provenance_print_parse:
  assumes "canonical_codec cj" "mk_provenance cj a = Inr p"
    "wf_py (pa_source_digests a)" "wf_py (pa_attributes a)"
  shows "provenance_from_mapping cj (PDict (provenance_to_dict p)) = Inr p"
proof -
  have "is_mapping (pa_attributes a)"
    using assms(2) unfolding mk_provenance_def
    by (auto simp only: rbind_Inr_iff ensure_Inr_iff elim: canonical_mapping_Inr)
  with assms(4) have "str_items (pa_attributes a) \<noteq> None" by (rule wf_mapping_items)
  with assms(1-3) have "provenance_ok cj p" by (intro canonical_codec.mk_provenance_ok)
  then show ?thesis by (simp add: provenance_from_mapping_def provenance_roundtrip)
qed

theorem provenance_print_parse_witness:
  "provenance_from_mapping reference_encode (PDict (provenance_to_dict ex_provenance)) = Inr ex_provenance"
proof (rule provenance_print_parse [OF encoder.canonical_codec_axioms])
  show "mk_provenance reference_encode ex_provenance_args = Inr ex_provenance"
    by (simp add: mk_provenance_def ex_provenance_args_def ex_provenance_def scalar_PStr ex_names_ok
        ex_encodings string_mapping_def sort_dict_def)
  show "wf_py (pa_source_digests ex_provenance_args)" "wf_py (pa_attributes ex_provenance_args)"
    by (simp_all add: ex_provenance_args_def)
qed

text \<open>C18. Every stored resource the constructor lets through satisfies the record invariant: identity
  and identifier agree, a configuration carries exactly a payload and its Schema with the payload's
  own digest and length, an artifact exactly an Object reference with the resource's digest, and a
  resource is immutable unless it is a draft.\<close>
theorem stored_resource_invariant:
  assumes "external_contract x" "mk_stored_resource x a = Inr r" "wf_py (ra_labels a)"
    "wf_py (ra_annotations a)" "wf_py (ra_payload a)"
    "\<forall>s. ra_payload_schema a = Some s \<longrightarrow> schema_ref_ok s"
    "\<forall>p. ra_provenance a = Some p \<longrightarrow> provenance_ok (x_canonical_json_bytes x) p"
  shows "resource_ok x r"
  using assms by (rule external_contract.mk_stored_resource_ok)

theorem stored_resource_invariant_witness: "resource_ok reference_external ex_resource"
proof (rule stored_resource_invariant [OF reference.external_contract_axioms])
  have profile: "profile_part_ok reference_external ex_resource"
    using ex_resource_ok by (simp add: resource_ok_def)
  show "mk_stored_resource reference_external ex_resource_args = Inr ex_resource"
    by (rule mk_stored_resource_Inr [OF ex_resource_ok])
      (simp_all add: ex_resource_args_def ex_resource_def,
       insert reference.check_profile_again [OF profile, of ex_resource_args],
       simp add: ex_resource_args_def ex_resource_def)
  show "wf_py (ra_labels ex_resource_args)" "wf_py (ra_annotations ex_resource_args)"
    "wf_py (ra_payload ex_resource_args)"
    by (simp_all add: ex_resource_args_def str_dict_def ex_payload_def)
  show "\<forall>s. ra_payload_schema ex_resource_args = Some s \<longrightarrow> schema_ref_ok s"
    "\<forall>p. ra_provenance ex_resource_args = Some p \<longrightarrow>
       provenance_ok (x_canonical_json_bytes reference_external) p"
    by (simp_all add: ex_resource_args_def fake_schema_ref_ok ex_provenance_ok)
qed

text \<open>C20. A stored resource parsed from any plain row is read back unchanged from the row it prints,
  record version included.\<close>
theorem stored_resource_roundtrip:
  assumes "external_contract x" "resource_from_record x d = Inr r" "wf_dict d"
  shows "resource_from_record x (resource_to_record x r @ [(''recordVersion'', sr_record_version r)]) = Inr r
    \<and> resource_from_record x (resource_to_record x r) = Inr (r\<lparr>sr_record_version := PNone\<rparr>)"
proof -
  have ok: "resource_ok x r" using assms by (rule external_contract.resource_from_record_ok)
  then have "record_version_ok (sr_record_version r)" by (simp add: resource_ok_def)
  with external_contract.resource_from_printed [OF assms(1) ok] show ?thesis by simp
qed

theorem stored_resource_roundtrip_witness:
  "resource_from_record reference_external
     (resource_to_record reference_external ex_resource @ [(''recordVersion'', sr_record_version ex_resource)])
     = Inr ex_resource
   \<and> resource_from_record reference_external (resource_to_record reference_external ex_resource)
     = Inr (ex_resource\<lparr>sr_record_version := PNone\<rparr>)"
  by (rule stored_resource_roundtrip [OF reference.external_contract_axioms ex_row_parses])

text \<open>C19. A configuration that is read from a row has the digest and the length of that row's own
  payload: a row whose payload was altered is refused.\<close>
theorem configuration_row_integrity:
  assumes "external_contract x" "resource_from_record x d = Inr r" "wf_dict d"
    "sr_profile r = CONFIGURATION_PROFILE"
  shows "\<exists>b. x_canonical_json_bytes x (shallow_dict (get_or d ''payload'' PNone)) = Inr b
    \<and> sr_digest r = sha256_digest b \<and> sr_byte_length r = int (length b)
    \<and> get_or d ''digest'' PNone = PStr (sha256_digest b) \<and> sr_object_ref r = None"
proof -
  from assms(2) obtain a where a: "mk_stored_resource x a = Inr r"
    "ra_payload a = get_or d ''payload'' PNone" "ra_digest a = get_or d ''digest'' PNone"
    unfolding resource_from_record_def Let_def
    by (auto simp only: rbind_Inr_iff resource_args.select_convs)
  note f = mk_stored_resource_fields [OF a(1)]
  have "ra_profile a = CONFIGURATION_PROFILE" using f(15) assms(4) by simp
  from f(14) [unfolded check_profile_configuration [OF this]] obtain p b where p:
    "canonical_mapping (x_canonical_json_bytes x) (ra_payload a) ''configuration payload'' None None = Inr p"
    "mapping_bytes (x_canonical_json_bytes x) p = Inr b" "sr_digest r = sha256_digest b"
    "sr_byte_length r = int (length b)" "sr_object_ref r = None" by auto
  have "wf_py (ra_payload a)" using assms(3) a(2) by (simp add: wf_get_or)
  moreover have "is_mapping (ra_payload a)" using p(1) by (rule canonical_mapping_Inr)
  ultimately have "str_items (ra_payload a) \<noteq> None" by (rule wf_mapping_items)
  from canonical_codec.canonical_mapping_normal [OF external_contract.axioms(1) [OF assms(1)] p(1) this]
  have "x_canonical_json_bytes x (shallow_dict (ra_payload a)) = Inr b" using p(2) by metis
  with p a f(4) show ?thesis by (auto simp: digest_Inr_iff)
qed

theorem configuration_row_integrity_witness:
  "\<exists>b. x_canonical_json_bytes reference_external (shallow_dict (get_or ex_row ''payload'' PNone)) = Inr b
    \<and> sr_digest ex_resource = sha256_digest b \<and> sr_byte_length ex_resource = int (length b)
    \<and> get_or ex_row ''digest'' PNone = PStr (sha256_digest b) \<and> sr_object_ref ex_resource = None"
  by (rule configuration_row_integrity [OF reference.external_contract_axioms ex_row_parses])
    (simp add: ex_resource_def)

text \<open>C21. A channel row or an orphan candidate that parses is valid, and is read back unchanged from
  the row it prints.\<close>
theorem pointer_rows_roundtrip:
  assumes "channel_from_record d = Inr c" "external_contract x" "orphan_from_record x e = Inr u"
  shows "channel_row_ok c
    \<and> channel_from_record (channel_to_record c @ [(''recordVersion'', ch_record_version c)]) = Inr c
    \<and> orphan_ok u
    \<and> orphan_from_record x (orphan_to_record x u @ [(''recordVersion'', oc_record_version u)]) = Inr u"
proof -
  have ok: "channel_row_ok c" "orphan_ok u"
    using channel_from_record_ok [OF assms(1)] orphan_from_record_ok [OF assms(3)] by simp_all
  then have "record_version_ok (ch_record_version c)" "record_version_ok (oc_record_version u)"
    by (simp_all add: channel_row_ok_def orphan_ok_def)
  with channel_from_printed(2) [OF ok(1)] external_contract.orphan_from_printed(2) [OF assms(2) ok(2)] ok
  show ?thesis by simp
qed

theorem pointer_rows_roundtrip_witness:
  "channel_row_ok ex_channel
    \<and> channel_from_record (channel_to_record ex_channel @ [(''recordVersion'', ch_record_version ex_channel)]) = Inr ex_channel
    \<and> orphan_ok ex_orphan \<and> orphan_from_record reference_external
     (orphan_to_record reference_external ex_orphan @ [(''recordVersion'', oc_record_version ex_orphan)]) = Inr ex_orphan"
proof (rule pointer_rows_roundtrip [OF _ reference.external_contract_axioms])
  have "ex_channel\<lparr>ch_record_version := PInt 1\<rparr> = ex_channel" by (simp add: ex_channel_def)
  with channel_from_printed(2) [OF ex_channel_ok, of "PInt 1"]
  show "channel_from_record (channel_to_record ex_channel @ [(''recordVersion'', PInt 1)]) = Inr ex_channel"
    by simp
  have "ex_orphan\<lparr>oc_record_version := PNone\<rparr> = ex_orphan" by (simp add: ex_orphan_def)
  with reference.orphan_from_printed(1) [OF ex_orphan_ok]
  show "orphan_from_record reference_external (orphan_to_record reference_external ex_orphan) = Inr ex_orphan"
    by simp
qed

section \<open>Schemas\<close>

text \<open>C29. Every row the plugin writes conforms to its declared Schema: the row of a valid resource, of
  its provenance, of a channel pointer and of an orphan candidate has exactly the fields of the
  Schema, of their types, within their constraints. Only the integers, which Python does not bound,
  need to fit the Schema's 64 bits.\<close>
theorem printed_rows_conform:
  assumes "external_contract x" "resource_ok x r" "int64_ok (sr_byte_length r)"
    "\<forall>n. sr_version_order r = Some n \<longrightarrow> int64_ok n"
    "channel_row_ok c" "int64_ok (ch_pointer_version c)" "orphan_ok u" "int64_ok (oc_byte_length u)"
  shows "conforms stored_resource_schema (resource_to_record x r)
    \<and> conforms resource_channel_schema (channel_to_record c)
    \<and> conforms orphan_candidate_schema (orphan_to_record x u)
    \<and> (case provenance_record r of None \<Rightarrow> True | Some d \<Rightarrow> conforms provenance_schema d)"
  using assms(2,5-) external_contract.printed_mapping [OF assms(1)] external_contract.resource_conforms [OF assms(1-4)]
  by (simp add: channel_conforms_lemma orphan_conforms_lemma provenance_conforms_lemma split: option.split)

theorem printed_rows_conform_witness:
  "conforms stored_resource_schema (resource_to_record reference_external ex_artifact)
    \<and> conforms resource_channel_schema (channel_to_record ex_channel)
    \<and> conforms orphan_candidate_schema (orphan_to_record reference_external ex_orphan)
    \<and> conforms provenance_schema (the (provenance_record ex_artifact))"
proof -
  have "int64_ok (sr_byte_length ex_artifact)" "\<forall>n. sr_version_order ex_artifact = Some n \<longrightarrow> int64_ok n"
    "int64_ok (ch_pointer_version ex_channel)" "int64_ok (oc_byte_length ex_orphan)"
    by (simp_all add: ex_artifact_def ex_resource_def ex_channel_def ex_orphan_def int64_ok_def)
  moreover have "\<exists>d. provenance_record ex_artifact = Some d"
    by (simp add: provenance_record_def ex_artifact_def ex_resource_def)
  ultimately show ?thesis
    using printed_rows_conform [OF reference.external_contract_axioms ex_artifact_ok _ _ ex_channel_ok _ ex_orphan_ok]
    by auto
qed

end
