(* ===== verification/Progress.thy ===== *)
theory Progress
  imports FakeRuntime
begin

text \<open>
  When operations return. The guarantees of \<open>Catalog\<close>, \<open>Ledger\<close> and \<open>Publishing\<close> say what holds if
  an operation returns; an implementation that always raises would satisfy them. The locale
  \<open>available_catalog\<close> adds to the Catalog contract what a caller may expect while the Catalog is
  up: expressions are accepted, a read answers or reports a missing row, a write of a new key
  succeeds, transactions open and commit. Its client lemmas are total: on such a Catalog a lookup,
  a promotion from the newest pointer and a publication of a new identity return, with their
  effects. The in-memory runtime provides it as long as no failure was injected.
\<close>

locale available_catalog = transactional_catalog repo rows key_field known valid
  for repo :: "'w metadata_repository" and rows key_field known valid +
  fixes up :: "'w \<Rightarrow> bool"
  assumes builds: "res \<in> known \<Longrightarrow> rt_build (mr_runtime repo) (SGet res [(key_field res, PStr k)]) = Inr ()"
      "res \<in> known \<Longrightarrow> map_of d (key_field res) = Some (PStr k) \<Longrightarrow>
         rt_build (mr_runtime repo) (SPut res d ''if_absent'') = Inr ()"
      "res \<in> known \<Longrightarrow> rt_build (mr_runtime repo) (SQuery res wh [descending f] 1 None) = Inr ()"
    and get_answers: "valid w \<Longrightarrow> up w \<Longrightarrow> res \<in> known \<Longrightarrow>
      rt_execute (mr_runtime repo) (SGet res [(key_field res, PStr k)]) w = (out, w') \<Longrightarrow>
      up w' \<and> (\<forall>e. out = Inl e \<longrightarrow> is_not_found e)"
    and query_answers: "valid w \<Longrightarrow> up w \<Longrightarrow> res \<in> known \<Longrightarrow>
      rt_execute (mr_runtime repo) (SQuery res wh [descending f] 1 None) w = (out, w') \<Longrightarrow>
      up w' \<and> (\<exists>r. out = Inr r)"
    and put_answers: "valid w \<Longrightarrow> up w \<Longrightarrow> res \<in> known \<Longrightarrow> map_of d (key_field res) = Some (PStr k) \<Longrightarrow>
      \<forall>row \<in> set (rows res w). map_of row (key_field res) \<noteq> Some (PStr k) \<Longrightarrow>
      rt_execute (mr_runtime repo) (SPut res d ''if_absent'') w = (out, w') \<Longrightarrow> up w' \<and> (\<exists>r. out = Inr r)"
    and transaction_opens: "valid w \<Longrightarrow> up w \<Longrightarrow>
      \<exists>w'. rt_tx_enter (mr_runtime repo) (mr_metadata_resource repo) w = (Inr (), w')
        \<and> same_rows valid rows w w' \<and> up w'"
    and transaction_commits: "valid w \<Longrightarrow> up w \<Longrightarrow>
      \<exists>w'. rt_tx_exit (mr_runtime repo) (mr_metadata_resource repo) None w = (Inr (), w')
        \<and> same_rows valid rows w w' \<and> up w'"

text \<open>A read of an available Catalog leaves it available, with the same rows.\<close>

definition settled ::
  "('w \<Rightarrow> bool) \<Rightarrow> (resource_ref \<Rightarrow> 'w \<Rightarrow> pyval dict list) \<Rightarrow> ('w \<Rightarrow> bool) \<Rightarrow> 'w \<Rightarrow> 'w \<Rightarrow> bool" where
  "settled valid rows up w w' \<longleftrightarrow> same_rows valid rows w w' \<and> up w'"

text \<open>A clock that can be read, and whose reading the operations accept.\<close>

definition ticking ::
  "('w \<Rightarrow> bool) \<Rightarrow> (resource_ref \<Rightarrow> 'w \<Rightarrow> pyval dict list) \<Rightarrow> ('w \<Rightarrow> bool) \<Rightarrow> 'w clock \<Rightarrow> bool" where
  "ticking valid rows up clock \<longleftrightarrow> (\<forall>w. valid w \<longrightarrow> up w \<longrightarrow>
     (\<exists>t w'. timestamp_now clock w = (Inr t, w') \<and> utc_of_value (PStr t) = Inr t \<and> settled valid rows up w w'))"

lemma settled_trans: "settled valid rows up w w1 \<Longrightarrow> settled valid rows up w1 w2 \<Longrightarrow> settled valid rows up w w2"
  by (simp add: settled_def same_rows_def)

lemma settledD: "settled valid rows up w w' \<Longrightarrow> rows res w' = rows res w"
  "settled valid rows up w w' \<Longrightarrow> valid w'" "settled valid rows up w w' \<Longrightarrow> up w'"
  by (simp_all add: settled_def same_rows_def)

lemma settled_ledger_ok:
  "ledger_ok repo valid rows w \<Longrightarrow> settled valid rows up w w' \<Longrightarrow> ledger_ok repo valid rows w'"
  using ledger_ok_same(1) by (auto simp: settled_def)

section \<open>Lookups\<close>

context available_catalog
begin

lemma get_row_returns:
  assumes "valid w" "up w" "res \<in> known" "f = key_field res"
    "\<And>row. row \<in> set (rows res w) \<Longrightarrow> map_of row f = Some (PStr k) \<Longrightarrow>
       \<exists>v. (\<forall>r. res_data r = PDict row \<longrightarrow> rbind (result_record d r) parse = Inr v)"
    "b \<Longrightarrow> \<exists>row \<in> set (rows res w). map_of row f = Some (PStr k)"
  shows "\<exists>z w'. get_row repo res f k b d parse w = (Inr z, w') \<and> settled valid rows up w w'"
proof -
  let ?e = "SGet res [(f, PStr k)]"
  obtain o1 w1 where x: "rt_execute (mr_runtime repo) ?e w = (o1, w1)" by fastforce
  have s: "settled valid rows up w w1" "\<And>e. o1 = Inl e \<Longrightarrow> is_not_found e"
    using get_reads [OF assms(1,3) x] get_answers [OF assms(1-3), of k o1 w1] x assms(4)
    by (simp_all add: settled_def same_rows_def)
  have built: "rt_build (mr_runtime repo) ?e = Inr ()" using builds(1) [OF assms(3)] assms(4) by simp
  show ?thesis
  proof (cases o1)
    case (Inl e)
    then have "\<not> b" using get_missing [OF assms(1,3), of k e w1] x s(2) assms(4,6) by blast
    with Inl x s built show ?thesis
      by (intro exI [of _ None] exI [of _ w1])
        (simp add: get_row_def Let_def build_def execute_def pbind_def pcatch_def)
  next
    case (Inr r)
    from get_found [OF assms(1,3), of k r w1] x Inr assms(4) obtain row
      where row: "row \<in> set (rows res w)" "map_of row f = Some (PStr k)" "res_data r = PDict row" by auto
    with assms(5) obtain v where "rbind (result_record d r) parse = Inr v" by blast
    then have "rbind (result_record d r) (\<lambda>d. rbind (parse d) (\<lambda>v. Inr (Some v))) = Inr (Some v)"
      by (auto simp: rbind_Inr_iff)
    with Inr x s(1) built row(3) show ?thesis
      by (intro exI [of _ "Some v"] exI [of _ w1])
        (simp add: get_row_def Let_def build_def execute_def pbind_def pcatch_def)
  qed
qed

lemma get_resource_returns:
  assumes "ledger_ok repo valid rows w" "up w" "b \<Longrightarrow> catalogue repo rows w k \<noteq> None"
  shows "\<exists>w'. get_resource repo k b w = (Inr (catalogue repo rows w k), w') \<and> settled valid rows up w w'"
proof -
  let ?x = "rt_ext (mr_runtime repo)" and ?M = "rows (mr_metadata_resource repo) w"
  from assms(1) have w: "valid w" "metadata_ok ?x ?M" by (simp_all add: ledger_ok_def)
  have "\<exists>z w'. get_resource repo k b w = (Inr z, w') \<and> settled valid rows up w w'"
    unfolding get_resource_def
  proof (rule get_row_returns [OF w(1) assms(2)])
    show "mr_metadata_resource repo \<in> known" "''resourceId'' = key_field (mr_metadata_resource repo)"
      using layout by (simp_all add: layout_keys)
  next
    fix row assume "row \<in> set ?M"
    then obtain r where "resource_of ?x r row" using w(2) unfolding metadata_ok_def by blast
    note parse = parse_resource_row [OF this]
    show "\<exists>v. \<forall>res. res_data res = PDict row \<longrightarrow>
        rbind (result_record ''structured resource result'' res) (parse_resource ?x) = Inr v"
      using parse(1) result_record_PDict [OF _ parse(2)] by (intro exI [of _ r]) simp
  next
    assume b
    with assms(3) have "resource_at ?x ?M k \<noteq> None" by (simp add: catalogue_def)
    with resource_at_None [OF w(2), of k] show "\<exists>row \<in> set ?M. map_of row ''resourceId'' = Some (PStr k)"
      by (auto simp: row_id_def)
  qed
  with get_resource_spec(1) [OF w] show ?thesis by (metis catalogue_def)
qed

text \<open>A lookup of a channel returns its newest row; one that requires a row has one to return.\<close>

lemma latest_channel_returns:
  assumes "ledger_ok repo valid rows w" "up w" "newest (ns, k, n, ch) (rows (mr_channel_resource repo) w) p"
    "b \<Longrightarrow> 1 \<le> p"
  shows "\<exists>z w'. latest_channel repo ns k n ch b w = (Inr z, w') \<and> settled valid rows up w w'
    \<and> (case z of None \<Rightarrow> p = 0 | Some c \<Rightarrow> ch_pointer_version c = p \<and> channel_id c = (ns, k, n, ch)
         \<and> (\<exists>row \<in> set (rows (mr_channel_resource repo) w). channel_of c row))"
proof -
  let ?C = "mr_channel_resource repo" and ?wh = "channel_where ns k n ch"
  let ?R = "rows ?C w" and ?q = "SQuery ?C ?wh [descending ''pointerVersion''] 1 None"
  have known: "?C \<in> known" using layout by simp
  from assms(1) have w: "valid w" "history_ok ?R" by (simp_all add: ledger_ok_def)
  obtain o1 w1 where x: "rt_execute (mr_runtime repo) ?q w = (o1, w1)" by fastforce
  with query_answers [OF w(1) assms(2) known] obtain r where r: "o1 = Inr r" "up w1" by blast
  have s: "settled valid rows up w w1"
    using query_reads [OF w(1) known x] r(2) by (simp add: settled_def same_rows_def)
  have run: "run (mr_runtime repo) ?q w = (Inr r, w1)"
    using x r builds(3) [OF known] by (simp add: run_def build_def execute_def pbind_def)
  have all: "\<exists>c. channel_of c row" if "row \<in> set ?R" for row using w(2) that by (simp add: history_ok_def)
  have "\<forall>row \<in> set ?R. matches ?wh row \<longrightarrow> (\<exists>n. map_of row ''pointerVersion'' = Some (PInt n))"
    using all channel_of_pointer by blast
  from query_top [OF w(1) known x [unfolded r(1)] this] show ?thesis
  proof (elim disjE conjE exE)
    fix c assume q: "res_data r = page_data [] c" "is_cursor c" "\<forall>row \<in> set ?R. \<not> matches ?wh row"
    then have "pointers (ns, k, n, ch) ?R = {}" using matches_channel by (fastforce simp: pointers_def)
    with assms(3) have "p = 0" by (simp add: newest_def)
    moreover from this assms(4) have "\<not> b" by auto
    moreover obtain z where "result_page ''structured channel query result'' r = Inr ([], z)"
      using result_page_data [OF q(1,2)] by auto
    ultimately show ?thesis using run s
      by (intro exI [of _ None] exI [of _ w1]) (simp add: latest_channel_def pbind_def)
  next
    fix row c m
    assume q: "res_data r = page_data [row] c" "is_cursor c" "row \<in> set ?R" "matches ?wh row"
    from all q(3) obtain d where d: "channel_of d row" by blast
    moreover obtain z where "result_page ''structured channel query result'' r = Inr ([PDict row], z)"
      using result_page_data [OF q(1,2)] by auto
    ultimately have l: "latest_channel repo ns k n ch b' w = (Inr (Some d), w1)" for b'
      using run parse_channel_row(1,2) [OF d] by (simp add: latest_channel_def pbind_def)
    have "ch_pointer_version d = p"
      using newest_unique [OF latest_channel_spec [OF w l] assms(3)] by simp
    moreover have "channel_id d = (ns, k, n, ch)" using q(4) matches_channel [OF d] by simp
    ultimately show ?thesis using l [of b] s d q(3) by auto
  qed
qed

end

section \<open>Writes\<close>

text \<open>A row is written unless its identifier is taken.\<close>

definition unused :: "string \<Rightarrow> string \<Rightarrow> pyval dict list \<Rightarrow> bool" where
  "unused f k rs = (\<forall>row \<in> set rs. map_of row f \<noteq> Some (PStr k))"

context available_catalog
begin

lemma put_row_returns:
  assumes "valid w" "up w" "res \<in> known" "map_of d (key_field res) = Some (PStr k)"
    "unused (key_field res) k (rows res w)"
  shows "\<exists>r w'. put_row repo res d w = (Inr r, w') \<and> up w'"
proof -
  obtain o1 w1 where x: "rt_execute (mr_runtime repo) (SPut res d ''if_absent'') w = (o1, w1)" by fastforce
  from assms(5) have "\<forall>row \<in> set (rows res w). map_of row (key_field res) \<noteq> Some (PStr k)"
    by (simp add: unused_def)
  from put_answers [OF assms(1-4) this x] x builds(2) [OF assms(3,4)] show ?thesis
    by (auto simp: put_row_def run_def build_def execute_def pbind_def)
qed

lemma put_channel_returns:
  assumes "valid w" "up w" "channel_row_ok c" "ch_record_version c = PNone"
    "unused ''channelVersionId'' (ch_channel_version_id c) (rows (mr_channel_resource repo) w)"
  shows "\<exists>v w'. v \<noteq> PNone \<and> put_channel repo c w = (Inr (c\<lparr>ch_record_version := v\<rparr>), w') \<and> up w'"
proof -
  let ?C = "mr_channel_resource repo" and ?d = "channel_to_record c"
  have known: "?C \<in> known" using layout by simp
  have d: "map_of ?d ''recordVersion'' = None" "map_of ?d (key_field ?C) = Some (PStr (ch_channel_version_id c))"
    by (simp_all add: channel_to_record_def layout_keys)
  have "unused (key_field ?C) (ch_channel_version_id c) (rows ?C w)"
    using assms(5) by (simp add: layout_keys)
  from put_row_returns [OF assms(1,2) known d(2) this] obtain r w1
    where p: "put_row repo ?C ?d w = (Inr r, w1)" "up w1" by blast
  from assms(1) known d p(1) obtain row where row: "stored_as ?d row" "res_data r = PDict row"
    by (cases rule: put_row_cases) auto
  obtain v where v: "v \<noteq> PNone" "channel_of (c\<lparr>ch_record_version := v\<rparr>) row"
    by (rule stored_as_channel [OF assms(3) row(1)])
  have "map_of row ''values'' = None" using row(1) by (auto simp: stored_as_def channel_to_record_def)
  then have "put_channel repo c w = (Inr (c\<lparr>ch_record_version := v\<rparr>), w1)"
    using p(1) result_record_PDict [OF row(2)] parse_channel_row(1) [OF v(2)]
    by (simp add: put_channel_def pbind_def)
  with v(1) p(2) show ?thesis by blast
qed

end

section \<open>Promotion\<close>

text \<open>What a promotion of a stored resource asks for: a valid channel name and actor.\<close>

lemma requested_row_returns:
  assumes "resource_ok x r" "channel_ok ch" "bounded_ok 512 actor" "1 \<le> p" "utc_of_value (PStr t) = Inr t"
  shows "\<exists>c. requested_row r ch p (PStr actor) t = Inr c \<and> ch_record_version c = PNone
    \<and> channel_id c = (sr_namespace r, sr_kind r, sr_name r, ch) \<and> ch_pointer_version c = p
    \<and> ch_target_resource_id c = sr_resource_id r
    \<and> ch_channel_version_id c = channel_version_id (sr_namespace r) (sr_kind r) (sr_name r) ch p"
proof -
  let ?c = "\<lparr>ch_channel_version_id = channel_version_id (sr_namespace r) (sr_kind r) (sr_name r) ch p,
    ch_namespace = sr_namespace r, ch_kind = sr_kind r, ch_name = sr_name r, ch_channel = ch,
    ch_target_resource_id = sr_resource_id r, ch_pointer_version = p, ch_actor = actor,
    ch_updated_at = t, ch_record_version = PNone, ch_format_version = channel_format\<rparr>"
  have "identity_ok (sr_identity r)" "resource_id_re (sr_resource_id r)"
    using assms(1) by (simp_all add: resource_ok_def)
  then have "channel_row_ok ?c"
    using assms by (simp add: channel_row_ok_def identity_ok_def sr_identity_def record_version_ok_def)
  with assms(5) have "requested_row r ch p (PStr actor) t = Inr ?c"
    by (simp add: requested_row_def mk_channel_row_Inr_iff)
  then show ?thesis by (simp add: channel_id_def)
qed

text \<open>The three ways a caller names a stored resource.\<close>

definition target_names :: "promotion_target \<Rightarrow> stored_resource \<Rightarrow> bool" where
  "target_names target r = (case target of
     TargetResource s \<Rightarrow> s = r
   | TargetRef t \<Rightarrow> sr_ref r = Inr t
   | TargetIdentity i \<Rightarrow> i = sr_identity r)"

context available_catalog
begin

lemma advance_pointer_returns:
  assumes "ledger_ok repo valid rows w" "up w" "cr_metadata chs = repo" "ticking valid rows up (cr_clock chs)"
    "resource_ok x r" "channel_ok ch" "bounded_ok 512 actor"
    "newest (sr_namespace r, sr_kind r, sr_name r, ch) (rows (mr_channel_resource repo) w) n"
    "unused ''channelVersionId'' (channel_version_id (sr_namespace r) (sr_kind r) (sr_name r) ch (n + 1))
       (rows (mr_channel_resource repo) w)"
  shows "\<exists>c w'. advance_pointer chs r ch n (PStr actor) w = (Inr c, w') \<and> up w'
    \<and> channel_id c = (sr_namespace r, sr_kind r, sr_name r, ch) \<and> ch_pointer_version c = n + 1
    \<and> ch_target_resource_id c = sr_resource_id r"
proof -
  let ?C = "mr_channel_resource repo"
  have names: "logical_ok (sr_namespace r)" "logical_ok (sr_kind r)" "logical_ok (sr_name r)"
    using assms(5) by (simp_all add: resource_ok_def identity_ok_def sr_identity_def)
  obtain z w1 where l: "latest_channel repo (sr_namespace r) (sr_kind r) (sr_name r) ch False w = (Inr z, w1)"
      "settled valid rows up w w1"
      "case z of None \<Rightarrow> n = 0 | Some c \<Rightarrow> ch_pointer_version c = n"
    using latest_channel_returns [OF assms(1,2,8), of False] by (auto split: option.splits)
  have g: "get_channel chs (PStr (sr_namespace r)) (PStr (sr_kind r)) (PStr (sr_name r)) (PStr ch) False w = (Inr z, w1)"
    using l(1) names assms(3,6) by (simp add: get_channel_def logical_name_PStr channel_name_PStr pbind_def)
  have next_p: "next_pointer z n = Some (n + 1)" using l(3) by (auto simp: next_pointer_def split: option.splits)
  obtain t w2 where t: "timestamp_now (cr_clock chs) w1 = (Inr t, w2)" "utc_of_value (PStr t) = Inr t"
      "settled valid rows up w1 w2"
    using assms(4) settledD(2,3) [OF l(2)] unfolding ticking_def by blast
  have s: "settled valid rows up w w2" by (rule settled_trans [OF l(2) t(3)])
  have "1 \<le> n + 1" using assms(8) by (simp add: newest_def)
  from requested_row_returns [OF assms(5-7) this t(2)] obtain c
    where c: "requested_row r ch (n + 1) (PStr actor) t = Inr c" "ch_record_version c = PNone"
      "channel_id c = (sr_namespace r, sr_kind r, sr_name r, ch)" "ch_pointer_version c = n + 1"
      "ch_target_resource_id c = sr_resource_id r"
      "ch_channel_version_id c = channel_version_id (sr_namespace r) (sr_kind r) (sr_name r) ch (n + 1)"
    by blast
  have ok: "channel_row_ok c" using c(1) by (simp add: requested_row_def mk_channel_row_Inr_iff)
  have "unused ''channelVersionId'' (ch_channel_version_id c) (rows ?C w2)"
    using assms(9) c(6) settledD(1) [OF s] by simp
  from put_channel_returns [OF settledD(2,3) [OF s] ok c(2) this] obtain v w3
    where p: "put_channel repo c w2 = (Inr (c\<lparr>ch_record_version := v\<rparr>), w3)" "up w3" by blast
  have "advance_pointer chs r ch n (PStr actor) w = (Inr (c\<lparr>ch_record_version := v\<rparr>), w3)"
    using g next_p t(1) c(1) p(1) assms(3)
    by (simp add: advance_pointer_def pbind_def put_pointer_def pcatch_def Let_def)
  with p(2) c(3-5) show ?thesis by (simp add: channel_id_def)
qed

lemma catalogue_ok:
  assumes "ledger_ok repo valid rows w" "catalogue repo rows w k = Some r"
  shows "resource_ok (rt_ext (mr_runtime repo)) r" "sr_resource_id r = k"
proof -
  let ?x = "rt_ext (mr_runtime repo)" and ?M = "rows (mr_metadata_resource repo) w"
  have "metadata_ok ?x ?M" "resource_at ?x ?M k = Some r"
    using assms by (simp_all add: ledger_ok_def catalogue_def)
  then obtain row where "resource_of ?x r row" "sr_resource_id r = k" by (rule resource_at_Some)
  then show "resource_ok (rt_ext (mr_runtime repo)) r" "sr_resource_id r = k" by (simp_all add: resource_of_def)
qed

lemma target_resource_returns:
  assumes "ledger_ok repo valid rows w" "up w" "catalogue repo rows w (sr_resource_id r) = Some r"
    "target_names target r"
  shows "\<exists>w'. target_resource repo target w = (Inr r, w') \<and> settled valid rows up w w'"
proof (cases target)
  case (TargetResource s)
  with assms show ?thesis by (simp add: target_resource_def target_names_def settled_def same_rows_def ledger_ok_def)
next
  case (TargetRef t)
  have "rr_resource_id t = sr_resource_id r"
    using assms(4) sr_ref_ok [OF catalogue_ok(1) [OF assms(1,3)]] TargetRef by (auto simp: target_names_def)
  with get_resource_returns [OF assms(1,2), of True "sr_resource_id r"] assms(3) TargetRef
  show ?thesis by (auto simp: target_resource_def pbind_def)
next
  case (TargetIdentity i)
  have "identity_resource_id i = sr_resource_id r"
    using assms(4) catalogue_ok(1) [OF assms(1,3)] TargetIdentity by (simp add: target_names_def resource_ok_def)
  with get_resource_returns [OF assms(1,2), of True "sr_resource_id r"] assms(3) TargetIdentity
  show ?thesis by (auto simp: target_resource_def pbind_def)
qed

lemma required_resource_returns:
  assumes "ledger_ok repo valid rows w" "up w" "catalogue repo rows w k = Some r"
  shows "\<exists>w'. required_resource repo k w = (Inr r, w') \<and> settled valid rows up w w'"
  using get_resource_returns [OF assms(1,2), of True k] assms(3) by (auto simp: required_resource_def pbind_def)

text \<open>A caller that expects the newest pointer moves it, whatever way it names the resource.\<close>

lemma promote_returns:
  assumes "ledger_ok repo valid rows w" "up w" "cr_metadata chs = repo" "ticking valid rows up (cr_clock chs)"
    "neutral valid rows (cr_clock chs)"
    "catalogue repo rows w (sr_resource_id r) = Some r" "sr_state r = PUBLISHED" "target_names target r"
    "profile = None \<or> profile = Some (sr_profile r)" "channel_ok ch" "bounded_ok 512 actor"
    "newest (sr_namespace r, sr_kind r, sr_name r, ch) (rows (mr_channel_resource repo) w) n"
    "unused ''channelVersionId'' (channel_version_id (sr_namespace r) (sr_kind r) (sr_name r) ch (n + 1))
       (rows (mr_channel_resource repo) w)"
  shows "\<exists>c row w'. promote chs target (PStr ch) (PInt n) (PStr actor) profile w = (Inr c, w')
    \<and> ledger_ok repo valid rows w' \<and> up w' \<and> catalogue repo rows w' = catalogue repo rows w
    \<and> channel_id c = (sr_namespace r, sr_kind r, sr_name r, ch) \<and> ch_pointer_version c = n + 1
    \<and> ch_target_resource_id c = sr_resource_id r \<and> channel_of c row
    \<and> rows (mr_channel_resource repo) w' = rows (mr_channel_resource repo) w @ [row]"
proof -
  obtain w1 where t: "target_resource repo target w = (Inr r, w1)" "settled valid rows up w w1"
    using target_resource_returns [OF assms(1,2,6,8)] by blast
  note w1 = settled_ledger_ok [OF assms(1) t(2)] settledD [OF t(2)]
  from assms(12,13) w1(2) have ch: "newest (sr_namespace r, sr_kind r, sr_name r, ch) (rows (mr_channel_resource repo) w1) n"
    "unused ''channelVersionId'' (channel_version_id (sr_namespace r) (sr_kind r) (sr_name r) ch (n + 1))
       (rows (mr_channel_resource repo) w1)" by simp_all
  from advance_pointer_returns [OF w1(1,4) assms(3,4) catalogue_ok(1) [OF assms(1,6)] assms(10,11) ch]
  obtain c w2 where a: "advance_pointer chs r ch n (PStr actor) w1 = (Inr c, w2)" "up w2"
    "channel_id c = (sr_namespace r, sr_kind r, sr_name r, ch)" "ch_pointer_version c = n + 1"
    "ch_target_resource_id c = sr_resource_id r" by blast
  have "0 \<le> n" using assms(12) by (simp add: newest_def)
  moreover have "check_target target r profile = Inr ()"
    using assms(7-9) by (auto simp: check_target_def target_names_def split: promotion_target.splits)
  ultimately have p: "promote chs target (PStr ch) (PInt n) (PStr actor) profile w = (Inr c, w2)"
    using t(1) a(1) assms(3,10) by (simp add: promote_def nat_value_def channel_name_PStr pbind_def)
  have w: "valid w" "history_ok (rows (mr_channel_resource repo) w)" using assms(1) by (simp_all add: ledger_ok_def)
  obtain row where "channel_of c row" "rows (mr_channel_resource repo) w2 = rows (mr_channel_resource repo) w @ [row]"
    using promote_spec [OF w assms(3,5) p] by auto
  moreover have "ledger_ok repo valid rows w2" "catalogue repo rows w2 = catalogue repo rows w"
    using promote_moves [OF assms(1,3,5) p] by (simp_all add: moves_ok)
  ultimately show ?thesis using p a by blast
qed

text \<open>A pointer that was just written is what the channel resolves to.\<close>

lemma resolve_channel_returns:
  assumes "ledger_ok repo valid rows w" "up w" "cr_metadata chs = repo"
    "catalogue repo rows w (sr_resource_id r) = Some r" "check r = Inr ()" "channel_of c row"
    "rows (mr_channel_resource repo) w = old @ [row]" "newest (channel_id c) old (ch_pointer_version c - 1)"
    "ch_target_resource_id c = sr_resource_id r" "channel_id c = (ns, k, nm, ch)"
  shows "\<exists>w'. resolve_channel repo chs check (PStr ns) (PStr k) (PStr nm) (PStr ch) w
      = (Inr \<lparr>rs_resource = r, rs_channel = Some c\<rparr>, w') \<and> settled valid rows up w w'"
proof -
  have names: "logical_ok ns" "logical_ok k" "logical_ok nm" "channel_ok ch" "1 \<le> ch_pointer_version c"
    using assms(6,10) by (auto simp: channel_of_def channel_row_ok_def channel_id_def)
  have new: "newest (ns, k, nm, ch) (rows (mr_channel_resource repo) w) (ch_pointer_version c)"
    using newest_append [OF assms(6,8)] assms(7,10) by simp
  from latest_channel_returns [OF assms(1,2) new, of True] names(5) obtain d row' w1
    where l: "latest_channel repo ns k nm ch True w = (Inr (Some d), w1)" "settled valid rows up w w1"
      "ch_pointer_version d = ch_pointer_version c" "channel_id d = (ns, k, nm, ch)"
      "row' \<in> set (rows (mr_channel_resource repo) w)" "channel_of d row'"
    by (auto split: option.splits)
  have "row' \<notin> set old"
  proof
    assume "row' \<in> set old"
    with l(3,4,6) assms(10) have "ch_pointer_version c \<in> pointers (channel_id c) old"
      unfolding pointers_def by (metis (mono_tags, lifting) mem_Collect_eq)
    with assms(8) show False by (simp add: newest_def)
  qed
  with l(5,6) assms(6,7) have d: "d = c" using channel_of_inject by auto
  have "get_channel chs (PStr ns) (PStr k) (PStr nm) (PStr ch) True w = (Inr (Some c), w1)"
    using l(1) d names assms(3) by (simp add: get_channel_def logical_name_PStr channel_name_PStr pbind_def)
  moreover have "catalogue repo rows w1 (sr_resource_id r) = Some r"
    using assms(4) settledD(1) [OF l(2)] by (simp add: catalogue_def)
  from required_resource_returns [OF settled_ledger_ok [OF assms(1) l(2)] settledD(3) [OF l(2)] this]
  obtain w2 where "required_resource repo (sr_resource_id r) w1 = (Inr r, w2)" "settled valid rows up w1 w2" by blast
  ultimately show ?thesis using assms(5,9) settled_trans [OF l(2)]
    by (auto simp: resolve_channel_def pbind_def)
qed

end

section \<open>Publication\<close>

lemma wf_thaw: "wf_py v \<Longrightarrow> wf_py (thaw_json v)"
  by (induction v rule: thaw_json.induct) (auto simp: list_all_iff o_def)

lemma wf_provenance_row:
  assumes "resource_ok x r" "provenance_record r = Some d"
  shows "wf_dict d"
proof -
  obtain p where p: "sr_provenance r = Some p" using assms(2) by (auto simp: provenance_record_def split: option.splits)
  with assms(1) have "provenance_ok (x_canonical_json_bytes x) p" by (simp add: resource_ok_def)
  then have "distinct (map fst (pv_source_digests p))" "wf_py (PProxy (pv_attributes p))"
    by (simp_all add: provenance_ok_def labels_ok_def normal_def)
  with wf_thaw [of "PProxy (pv_attributes p)"] have "wf_dict (provenance_to_dict p)"
    by (cases "pv_build_id p"; cases "pv_validation_version p")
      (simp_all add: provenance_to_dict_def str_dict_def list_all_iff o_def split_beta)
  with assms(2) p show ?thesis by (auto simp: provenance_record_def)
qed

text \<open>A resource is the same publication as itself, whatever record version it was given.\<close>

lemma same_publication_version:
  assumes "resource_ok x c"
  shows "same_artifact c (c\<lparr>sr_record_version := v\<rparr>)" "same_configuration c (c\<lparr>sr_record_version := v\<rparr>)"
proof -
  have "smap_eq (sr_labels c) (sr_labels c)" "dict_eq (sr_annotations c) (sr_annotations c)"
    using assms by (simp_all add: resource_ok_def labels_ok_def normal_def smap_eq_refl dict_eq_refl del: wf_py.simps)
  moreover have "opt_eq provenance_eq (sr_provenance c) (sr_provenance c)"
    using assms provenance_eq_refl by (cases "sr_provenance c") (auto simp: resource_ok_def opt_eq_def)
  moreover have "opt_eq dict_eq (sr_payload c) (sr_payload c)"
    using assms by (cases "sr_profile c"; cases "sr_payload c")
      (auto simp: resource_ok_def profile_part_ok_def opt_eq_def normal_def dict_eq_refl simp del: wf_py.simps)
  ultimately show "same_artifact c (c\<lparr>sr_record_version := v\<rparr>)" "same_configuration c (c\<lparr>sr_record_version := v\<rparr>)"
    by (simp_all add: same_artifact_def same_configuration_def)
qed

context available_catalog
begin

lemma put_resource_returns:
  assumes "valid w" "up w" "resource_ok (rt_ext (mr_runtime repo)) c"
    "unused ''resourceId'' (sr_resource_id c) (rows (mr_metadata_resource repo) w)"
  shows "\<exists>v w'. put_resource repo c w = (Inr (c\<lparr>sr_record_version := v\<rparr>), w') \<and> valid w' \<and> up w'
    \<and> (\<forall>res. res \<noteq> mr_metadata_resource repo \<longrightarrow> rows res w' = rows res w)"
proof -
  let ?M = "mr_metadata_resource repo" and ?d = "resource_to_record (rt_ext (mr_runtime repo)) c"
  have known: "?M \<in> known" using layout by simp
  have d: "map_of ?d ''recordVersion'' = None" "map_of ?d (key_field ?M) = Some (PStr (sr_resource_id c))"
    by (simp_all add: resource_row_keys layout_keys)
  have "unused (key_field ?M) (sr_resource_id c) (rows ?M w)" using assms(4) by (simp add: layout_keys)
  from put_row_returns [OF assms(1,2) known d(2) this] obtain r w1
    where p: "put_row repo ?M ?d w = (Inr r, w1)" "up w1" by blast
  from assms(1) known d p(1) obtain row where row: "valid w1" "stored_as ?d row" "res_data r = PDict row"
    "\<forall>res. res \<noteq> ?M \<longrightarrow> rows res w1 = rows res w"
    by (cases rule: put_row_cases) auto
  obtain v where v: "resource_of (rt_ext (mr_runtime repo)) (c\<lparr>sr_record_version := v\<rparr>) row"
    by (rule stored_as_resource [OF assms(3) row(2)])
  note parse = parse_resource_row [OF v]
  have "put_resource repo c w = (Inr (c\<lparr>sr_record_version := v\<rparr>), w1)"
    using p(1) parse(1) result_record_PDict [OF row(3) parse(2)] by (simp add: put_resource_def pbind_def)
  with p(2) row(1,4) show ?thesis by blast
qed

lemma put_provenance_returns:
  assumes "valid w" "up w" "resource_ok x r" "provenance_record r = Some d"
    "unused ''provenanceId'' (sr_resource_id r) (rows (mr_provenance_resource repo) w)"
  shows "\<exists>z w'. put_provenance repo d w = (Inr z, w') \<and> valid w' \<and> up w'"
proof -
  let ?P = "mr_provenance_resource repo"
  have known: "?P \<in> known" using layout by simp
  have keys: "map_of d ''recordVersion'' = None" "map_of d (key_field ?P) = Some (PStr (sr_resource_id r))"
    "map_of d ''values'' = None" "map_of d ''updatedAt'' = None" "map_of d ''createdAt'' = Some (PStr (sr_created_at r))"
    using assms(4) by (auto simp: provenance_record_def layout_keys split: option.splits)
  have "unused (key_field ?P) (sr_resource_id r) (rows ?P w)" using assms(5) by (simp add: layout_keys)
  from put_row_returns [OF assms(1,2) known keys(2) this] obtain res w1
    where p: "put_row repo ?P d w = (Inr res, w1)" "up w1" by blast
  from assms(1) known keys(1,2) p(1) obtain row where row: "valid w1" "stored_as d row" "res_data res = PDict row"
    by (cases rule: put_row_cases) auto
  then obtain v where v: "row = d @ [(''recordVersion'', v)]" by (auto simp: stored_as_def)
  then have row_keys: "map_of row ''values'' = None" "map_of row ''updatedAt'' = None"
    "map_of row ''createdAt'' = Some (PStr (sr_created_at r))"
    using keys by simp_all
  have "utc_of_value (PStr (sr_created_at r)) = Inr (sr_created_at r)" using assms(3) by (simp add: resource_ok_def)
  moreover have "AList.update ''createdAt'' (PStr (sr_created_at r)) row = row"
    using assms(4) v by (auto simp: provenance_record_def split: option.splits)
  ultimately have n: "normalise_created_at row = Inr row" using row_keys(3) by (simp add: normalise_created_at_def)
  have "without [''updatedAt''] row = row" using row_keys(2) by (intro without_id) (auto simp: map_of_eq_None_iff)
  then have t: "without_record_timestamps [''updatedAt''] row = Inr row"
    using row_keys(2) by (simp add: without_record_timestamps_def check_timestamp_def)
  have "without [''recordVersion''] d = d" using keys(1) by (intro without_id) (auto simp: map_of_eq_None_iff)
  then have "without [''recordVersion''] row = d" using v by (simp add: without_def)
  moreover have "dict_eq d d" by (rule dict_eq_refl [OF wf_provenance_row [OF assms(3,4)]])
  ultimately have "put_provenance repo d w = (Inr row, w1)"
    using p(1) n t result_record_PDict [OF row(3) row_keys(1)] by (simp add: put_provenance_def pbind_def)
  with p(2) row(1) show ?thesis by blast
qed

text \<open>The transaction of a publication: the row, the comparison, the provenance, the commit.\<close>

lemma commit_returns:
  assumes "ledger_ok repo valid rows w" "up w" "resource_ok (rt_ext (mr_runtime repo)) c"
    "catalogue repo rows w (sr_resource_id c) = None" "\<And>v. same c (c\<lparr>sr_record_version := v\<rparr>)"
    "sr_provenance c \<noteq> None \<Longrightarrow> unused ''provenanceId'' (sr_resource_id c) (rows (mr_provenance_resource repo) w)"
  shows "\<exists>s w'. commit same repo i c w = (Inr s, w') \<and> up w'
    \<and> rows (mr_channel_resource repo) w' = rows (mr_channel_resource repo) w"
proof -
  let ?M = "mr_metadata_resource repo" and ?P = "mr_provenance_resource repo"
  let ?x = "rt_ext (mr_runtime repo)"
  let ?prov = "\<lambda>s. (case provenance_record s of None \<Rightarrow> pret s | Some row \<Rightarrow> pbind (put_provenance repo row) (\<lambda>_. pret s))"
  from assms(1) have w: "valid w" "metadata_ok ?x (rows ?M w)" by (simp_all add: ledger_ok_def)
  obtain w1 where enter: "rt_tx_enter (mr_runtime repo) ?M w = (Inr (), w1)" "settled valid rows up w w1"
    using transaction_opens [OF w(1) assms(2)] by (auto simp: settled_def)
  have "unused ''resourceId'' (sr_resource_id c) (rows ?M w1)"
    using assms(4) resource_at_None [OF w(2), of "sr_resource_id c"] settledD(1) [OF enter(2)]
    by (simp add: catalogue_def unused_def row_id_def)
  from put_resource_returns [OF settledD(2,3) [OF enter(2)] assms(3) this] obtain v w2
    where p: "put_resource repo c w1 = (Inr (c\<lparr>sr_record_version := v\<rparr>), w2)" "valid w2" "up w2"
      "\<forall>res. res \<noteq> ?M \<longrightarrow> rows res w2 = rows res w1" by blast
  let ?s = "c\<lparr>sr_record_version := v\<rparr>"
  have same_row: "provenance_record ?s = provenance_record c" by (simp add: provenance_record_def split: option.split)
  have "\<exists>w3. ?prov ?s w2 = (Inr ?s, w3) \<and> valid w3 \<and> up w3"
  proof (cases "provenance_record c")
    case None
    with same_row p(2,3) show ?thesis by simp
  next
    case (Some d)
    have "?P \<noteq> ?M" using layout_distinct by auto
    moreover have "sr_provenance c \<noteq> None" using Some by (auto simp: provenance_record_def split: option.splits)
    ultimately have "unused ''provenanceId'' (sr_resource_id c) (rows ?P w2)"
      using assms(6) p(4) settledD(1) [OF enter(2)] by simp
    from put_provenance_returns [OF p(2,3) assms(3) Some this] same_row Some show ?thesis
      by (auto simp: pbind_def)
  qed
  then obtain w3 where q: "?prov ?s w2 = (Inr ?s, w3)" "valid w3" "up w3" by blast
  obtain w4 where exit: "rt_tx_exit (mr_runtime repo) ?M None w3 = (Inr (), w4)" "up w4"
    using transaction_commits [OF q(2,3)] by auto
  have done_w4: "commit same repo i c w = (Inr ?s, w4)"
    using enter(1) p(1) q(1) exit(1) assms(5) [of v]
    by (simp add: commit_def transaction_def with_transaction_def guarded_def pbind_def ensure_def)
  from w(1) assms(3) this w(2) have "rows (mr_channel_resource repo) w4 = rows (mr_channel_resource repo) w"
    by (cases rule: commit_cases) (use layout_distinct in auto)
  with exit(2) done_w4 show ?thesis by blast
qed

end

text \<open>
  The promotion a publication asks for: none, or to a channel whose newest pointer it expects. The
  identifier of the next pointer is a hash of the names and the version; it is taken only if two
  texts collide.
\<close>

definition promotion_ready ::
  "'w metadata_repository \<Rightarrow> (resource_ref \<Rightarrow> 'w \<Rightarrow> pyval dict list) \<Rightarrow> 'w \<Rightarrow> publication \<Rightarrow> stored_resource \<Rightarrow> bool" where
  "promotion_ready repo rows w p r \<longleftrightarrow> pb_channel p = PNone \<and> pb_expected_pointer p = PNone \<or>
     (\<exists>ch n. pb_channel p = PStr ch \<and> pb_expected_pointer p = PInt n \<and> channel_ok ch
        \<and> sr_state r = PUBLISHED
        \<and> newest (sr_namespace r, sr_kind r, sr_name r, ch) (rows (mr_channel_resource repo) w) n
        \<and> unused ''channelVersionId'' (channel_version_id (sr_namespace r) (sr_kind r) (sr_name r) ch (n + 1))
            (rows (mr_channel_resource repo) w))"

text \<open>What the receipt of such a publication says of the channel.\<close>

definition promoted_as :: "publication \<Rightarrow> stored_resource \<Rightarrow> channel_row option \<Rightarrow> bool" where
  "promoted_as p r z = (case z of
     None \<Rightarrow> pb_channel p = PNone
   | Some c \<Rightarrow> pb_channel p = PStr (ch_channel c) \<and> pb_expected_pointer p = PInt (ch_pointer_version c - 1)
       \<and> ch_target_resource_id c = sr_resource_id r)"

lemma make_candidate_actor:
  assumes "make_candidate x clock i profile p media dig len payload schema object w = (Inr c, w')"
  shows "pb_actor p = PStr (sr_created_by c)" "bounded_ok 512 (sr_created_by c)"
  using assms by (auto simp: make_candidate_def pbind_Inr_iff bounded_string_Inr_iff
      dest!: mk_stored_resource_fields(6))

lemma cp_candidate_actor:
  assumes "cp_candidate pub p payload schema w = (Inr (i, c), w')"
  shows "pb_actor p = PStr (sr_created_by c)" "bounded_ok 512 (sr_created_by c)"
  using assms by (auto simp: cp_candidate_def Let_def pbind_Inr_iff dest: make_candidate_actor)

context available_catalog
begin

lemma promote_optional_returns:
  assumes "ledger_ok repo valid rows w" "up w" "cr_metadata chs = repo" "ticking valid rows up (cr_clock chs)"
    "neutral valid rows (cr_clock chs)" "catalogue repo rows w (sr_resource_id r) = Some r"
    "promotion_ready repo rows w p r" "bounded_ok 512 actor"
  shows "\<exists>z w'. promote_optional chs (sr_profile r) r (pb_channel p) (pb_expected_pointer p) (PStr actor) w = (Inr z, w')
    \<and> ledger_ok repo valid rows w' \<and> up w' \<and> catalogue repo rows w' = catalogue repo rows w \<and> promoted_as p r z"
proof (cases "pb_channel p = PNone")
  case True
  with assms(7) have "pb_expected_pointer p = PNone" by (auto simp: promotion_ready_def)
  with True assms(1,2) show ?thesis by (simp add: promote_optional_def promoted_as_def)
next
  case False
  with assms(7) obtain ch n where ch: "pb_channel p = PStr ch" "pb_expected_pointer p = PInt n" "channel_ok ch"
    "sr_state r = PUBLISHED"
    "newest (sr_namespace r, sr_kind r, sr_name r, ch) (rows (mr_channel_resource repo) w) n"
    "unused ''channelVersionId'' (channel_version_id (sr_namespace r) (sr_kind r) (sr_name r) ch (n + 1))
       (rows (mr_channel_resource repo) w)"
    by (auto simp: promotion_ready_def)
  have "target_names (TargetResource r) r" by (simp add: target_names_def)
  from promote_returns [OF assms(1-6) ch(4) this disjI2 [OF refl] ch(3) assms(8) ch(5,6)] obtain c w'
    where c: "promote chs (TargetResource r) (PStr ch) (PInt n) (PStr actor) (Some (sr_profile r)) w = (Inr c, w')"
      "ledger_ok repo valid rows w'" "up w'" "catalogue repo rows w' = catalogue repo rows w"
      "channel_id c = (sr_namespace r, sr_kind r, sr_name r, ch)" "ch_pointer_version c = n + 1"
      "ch_target_resource_id c = sr_resource_id r" by blast
  then have "promote_optional chs (sr_profile r) r (pb_channel p) (pb_expected_pointer p) (PStr actor) w = (Inr (Some c), w')"
    using ch(1,2) by (simp add: promote_optional_def pbind_def)
  moreover have "promoted_as p r (Some c)" using c(5-7) ch(1,2) by (simp add: promoted_as_def channel_id_def)
  ultimately show ?thesis using c(2-4) by blast
qed

text \<open>
  Publication of a configuration whose arguments are accepted: a new identity is written, and the
  same publication again returns the resource that is there.
\<close>

lemma commit_promote_returns:
  assumes "ledger_ok repo valid rows w" "up w" "resource_ok (rt_ext (mr_runtime repo)) c" "sr_state c = PUBLISHED"
    "catalogue repo rows w (sr_resource_id c) = None" "\<And>v. same c (c\<lparr>sr_record_version := v\<rparr>)"
    "sr_provenance c \<noteq> None \<Longrightarrow> unused ''provenanceId'' (sr_resource_id c) (rows (mr_provenance_resource repo) w)"
    "cr_metadata chs = repo" "ticking valid rows up (cr_clock chs)" "neutral valid rows (cr_clock chs)"
    "promotion_ready repo rows w p c" "bounded_ok 512 actor"
  shows "\<exists>v z w1 w2. commit same repo i c w = (Inr (c\<lparr>sr_record_version := v\<rparr>), w1)
    \<and> promote_optional chs (sr_profile c) (c\<lparr>sr_record_version := v\<rparr>) (pb_channel p) (pb_expected_pointer p) (PStr actor) w1 = (Inr z, w2)
    \<and> ledger_ok repo valid rows w2 \<and> up w2
    \<and> catalogue repo rows w2 = (catalogue repo rows w)(sr_resource_id c \<mapsto> c\<lparr>sr_record_version := v\<rparr>)
    \<and> promoted_as p c z"
proof -
  from commit_returns [of w c same i, OF assms(1-3,5-7)] obtain s w1
    where m: "commit same repo i c w = (Inr s, w1)" "up w1"
      "rows (mr_channel_resource repo) w1 = rows (mr_channel_resource repo) w" by blast
  from commit_moves [OF assms(1,3,4) m(1)] obtain v where s: "s = c\<lparr>sr_record_version := v\<rparr>"
    "catalogue repo rows w1 = (catalogue repo rows w)(sr_resource_id c \<mapsto> s)" "ledger_ok repo valid rows w1"
    by (auto simp: moves_ok)
  have "promotion_ready repo rows w1 p s" using assms(11) s(1) m(3) by (simp add: promotion_ready_def)
  moreover have "promoted_as p s = promoted_as p c"
    using s(1) by (intro ext) (simp add: promoted_as_def split: option.split)
  ultimately show ?thesis
    using promote_optional_returns [OF s(3) m(2) assms(8-10), of s p actor] assms(12) m(1) s(1,2) by auto
qed

lemma cp_publish_returns:
  assumes "ledger_ok repo valid rows w" "up w1" "configuration_wired repo valid rows pub"
    "ticking valid rows up (cr_clock (cp_channels pub))" "publication_ok (rt_ext (mr_runtime repo)) p"
    "schema_arg_ok schema" "wf_py payload" "cp_candidate pub p payload schema w = (Inr (i, c), w1)"
    and entry: "case catalogue repo rows w (sr_resource_id c) of
      None \<Rightarrow> promotion_ready repo rows w p c
        \<and> (sr_provenance c \<noteq> None \<longrightarrow> unused ''provenanceId'' (sr_resource_id c) (rows (mr_provenance_resource repo) w))
    | Some r \<Rightarrow> promotion_ready repo rows w p r \<and> same_configuration c r"
  shows "\<exists>rc w'. cp_publish pub p payload schema w = (Inr rc, w') \<and> ledger_ok repo valid rows w' \<and> up w'
    \<and> catalogue repo rows w' = (catalogue repo rows w)(sr_resource_id c \<mapsto> rc_resource rc)
    \<and> same_configuration c (rc_resource rc)
    \<and> rc_idempotent rc = (catalogue repo rows w (sr_resource_id c) \<noteq> None)
    \<and> promoted_as p c (rc_channel rc) \<and> sr_resource_id c = identity_resource_id i
    \<and> sr_profile (rc_resource rc) = CONFIGURATION_PROFILE"
proof -
  have wired: "cp_metadata pub = repo" "cr_metadata (cp_channels pub) = repo" "neutral valid rows (cr_clock (cp_channels pub))"
    using assms(3) by (simp_all add: configuration_wired_def)
  note actor = cp_candidate_actor [OF assms(8)]
  have s1: "settled valid rows up w w1"
    using neutralD [OF neutral_cp_candidate [OF assms(3)] _ assms(8)] assms(1,2)
    by (simp add: settled_def ledger_ok_def)
  have "reached repo valid rows w (\<lambda>_. True) w" using assms(1) by (simp add: reached_def moves_refl)
  from tripleD(1) [OF reached_cp_candidate [OF assms(3,5-7)] this assms(8)]
  have c: "resource_ok (rt_ext (mr_runtime repo)) c" "sr_state c = PUBLISHED" "sr_profile c = CONFIGURATION_PROFILE"
    "identity_resource_id i = sr_resource_id c" by (simp_all add: configuration_candidate_def)
  obtain w2 where g: "get_resource repo (sr_resource_id c) False w1 = (Inr (catalogue repo rows w (sr_resource_id c)), w2)"
    "settled valid rows up w w2"
    using get_resource_returns [OF settled_ledger_ok [OF assms(1) s1] assms(2), of False "sr_resource_id c"]
      settledD(1) [OF s1] settled_trans [OF s1] by (auto simp: catalogue_def)
  note w2 = settled_ledger_ok [OF assms(1) g(2)] settledD [OF g(2)]
  have cat2: "catalogue repo rows w2 = catalogue repo rows w" by (intro ext) (simp add: catalogue_def w2(2))
  have start: "cp_publish pub p payload schema w = (case catalogue repo rows w (sr_resource_id c) of
       Some existing \<Rightarrow> cp_existing_receipt pub p c existing w2 | None \<Rightarrow> cp_publish_new pub i p c w2)"
    using assms(8) g(1) wired(1) c(4) by (simp add: cp_publish_def pbind_def split: option.split)
  show ?thesis
  proof (cases "catalogue repo rows w (sr_resource_id c)")
    case (Some r)
    with entry have r: "same_configuration c r" "promotion_ready repo rows w2 p r"
      by (simp_all add: promotion_ready_def w2(2))
    then have "sr_resource_id r = sr_resource_id c" "sr_profile r = CONFIGURATION_PROFILE"
      using c(3) by (simp_all add: same_configuration_def same_artifact_def)
    moreover from this have "promoted_as p r = promoted_as p c"
      by (intro ext) (simp add: promoted_as_def split: option.split)
    moreover have "catalogue repo rows w2 (sr_resource_id c) = Some r" using Some cat2 by simp
    ultimately obtain z w3
      where "promote_optional (cp_channels pub) CONFIGURATION_PROFILE r (pb_channel p) (pb_expected_pointer p) (pb_actor p) w2 = (Inr z, w3)"
        "ledger_ok repo valid rows w3" "up w3" "catalogue repo rows w3 = catalogue repo rows w2" "promoted_as p c z"
        "sr_profile r = CONFIGURATION_PROFILE"
      using promote_optional_returns [OF w2(1,4) wired(2) assms(4) wired(3) _ r(2) actor(2)] actor(1) by auto
    then show ?thesis using start Some r(1) cat2 c(4)
      by (simp add: cp_existing_receipt_def pbind_def ensure_def fun_upd_idem)
  next
    case None
    with entry have e: "promotion_ready repo rows w2 p c"
      "sr_provenance c \<noteq> None \<Longrightarrow> unused ''provenanceId'' (sr_resource_id c) (rows (mr_provenance_resource repo) w2)"
      by (simp_all add: promotion_ready_def w2(2))
    note same = same_publication_version(2) [OF c(1)]
    have "catalogue repo rows w2 (sr_resource_id c) = None" using None cat2 by simp
    from commit_promote_returns [of w2 c same_configuration, OF w2(1,4) c(1,2) this same e(2) wired(2) assms(4) wired(3) e(1) actor(2), of i]
    obtain v z w3 w4
      where "commit same_configuration repo i c w2 = (Inr (c\<lparr>sr_record_version := v\<rparr>), w3)"
        "promote_optional (cp_channels pub) CONFIGURATION_PROFILE (c\<lparr>sr_record_version := v\<rparr>) (pb_channel p)
           (pb_expected_pointer p) (pb_actor p) w3 = (Inr z, w4)"
        "ledger_ok repo valid rows w4" "up w4" "promoted_as p c z"
        "catalogue repo rows w4 = (catalogue repo rows w2)(sr_resource_id c \<mapsto> c\<lparr>sr_record_version := v\<rparr>)"
      using actor(1) c(3) by auto
    with start None same [of v] cat2 wired(1) c(3,4) show ?thesis
      by (simp add: cp_publish_new_def pbind_def pcatch_def)
  qed
qed

lemma resolve_exact_returns:
  assumes "ledger_ok repo valid rows w" "up w" "catalogue repo rows w (identity_resource_id i) = Some r" "check r = Inr ()"
  shows "\<exists>w'. resolve_exact repo check i w = (Inr \<lparr>rs_resource = r, rs_channel = None\<rparr>, w') \<and> settled valid rows up w w'"
  using required_resource_returns [OF assms(1-3)] assms(4) by (auto simp: resolve_exact_def pbind_def)

end

section \<open>The in-memory runtime\<close>

definition fake_up :: "fake \<Rightarrow> bool" where
  "fake_up w = (\<not> fk_fail_next_metadata_put w)"

lemma fake_up_set_table [simp]: "fake_up (set_table t rs w) = fake_up w"
  by (cases t) (simp_all add: fake_up_def set_table_def)

lemma is_not_found_record [simp]: "is_not_found record_not_found"
  by (simp add: is_not_found_def record_not_found_def category_of_def)

text \<open>It is up unless the next metadata write is to fail.\<close>

interpretation fake_available: available_catalog fake_metadata fake_rows fake_key fake_known fake_valid fake_up
proof (rule available_catalog.intro [OF fake_ledger.transactional_catalog_axioms], rule available_catalog_axioms.intro, goal_cases)
  case (4 w res k out w')
  then obtain t where "fake_table_of res = Some t" by (auto elim: known_table)
  with 4 show ?case
    by (auto simp: fake_metadata_def fake_execute_structured fake_get_def split: list.splits)
next
  case (5 w res wh f out w')
  then obtain t where "fake_table_of res = Some t" by (auto elim: known_table)
  with 5 show ?case
    by (auto simp: fake_metadata_def fake_execute_structured fake_query_def Let_def)
next
  case (6 w res d k out w')
  then obtain t where t: "fake_table_of res = Some t" "fake_key res = key_name t" by (auto elim: known_table)
  have "map_of (get_table t w) k = None"
  proof (rule ccontr)
    assume "map_of (get_table t w) k \<noteq> None"
    then obtain row where row: "(k, row) \<in> set (get_table t w)" by (auto dest: map_of_SomeD)
    moreover from this 6(1) have "map_of row (key_name t) = Some (PStr k)"
      by (fastforce simp: fake_valid_table table_ok_def list_all_iff)
    ultimately show False using 6(5) t by (force simp: fake_rows_def)
  qed
  with 6 t show ?case
    by (auto simp: fake_metadata_def fake_execute_structured fake_put_def fake_up_def Let_def)
      (simp_all add: set_table_def fake_up_def split: fake_table.splits)
qed (simp_all add: fake_metadata_def same_rows_def fake_up_def)

end
