(* ===== verification/ArtifactProgress.thy ===== *)
theory ArtifactProgress
  imports Progress
begin

text \<open>
  The path of an artifact, from the bytes a publisher is given to the bytes a consumer reads. The
  locale \<open>object_catalog\<close> states what the plugin expects of the object Catalog and of the payload
  registry while they are up: registered bytes are held behind their reference, a put stores what
  its payload holds under a new identifier, a get gives a payload that holds it again, a stream
  reads what its payload holds. The client lemmas carry the bytes through \<open>publish\<close> and \<open>read\<close>.
\<close>

text \<open>A call that returns, writes no structured row and leaves the runtime up.\<close>

definition answers ::
  "('w \<Rightarrow> bool) \<Rightarrow> (resource_ref \<Rightarrow> 'w \<Rightarrow> pyval dict list) \<Rightarrow> ('w \<Rightarrow> bool) \<Rightarrow> ('w, exn, 'a) prog \<Rightarrow> 'w
    \<Rightarrow> ('a \<Rightarrow> 'w \<Rightarrow> bool) \<Rightarrow> bool" where
  "answers valid rows up m w Q \<longleftrightarrow> (\<exists>x w'. m w = (Inr x, w') \<and> settled valid rows up w w' \<and> Q x w')"

text \<open>Worlds with the given Objects and payloads.\<close>

definition stays :: "('w \<Rightarrow> 'o) \<Rightarrow> ('w \<Rightarrow> 'h) \<Rightarrow> 'o \<Rightarrow> 'h \<Rightarrow> 'w \<Rightarrow> bool" where
  "stays objects held S H w \<longleftrightarrow> objects w = S \<and> held w = H"

lemma keeps_staysD:
  assumes "\<And>S H. keeps (stays objects held S H) m" "m w = (r, w')"
  shows "objects w' = objects w" "held w' = held w"
  using keepsD [OF assms(1) [of "objects w" "held w"] _ assms(2)] by (simp_all add: stays_def)

text \<open>What an Object is stored as: its reference names it and its digest.\<close>

definition object_of :: "resource_ref \<Rightarrow> string \<Rightarrow> string \<Rightarrow> object_ref" where
  "object_of bucket object_id b = \<lparr>or_resource = bucket, or_object_id = object_id, or_digest = Some (sha256_digest b)\<rparr>"

definition describes :: "resource_ref \<Rightarrow> string \<Rightarrow> string \<Rightarrow> string \<Rightarrow> object_metadata \<Rightarrow> bool" where
  "describes bucket object_id media b m \<longleftrightarrow> om_object_ref m = object_of bucket object_id b
     \<and> om_digest m = sha256_digest b \<and> om_byte_length m = int (length b) \<and> om_media_type m = media"

text \<open>A clock that can be read and leaves the Objects and the payloads alone.\<close>

definition steady ::
  "('w \<Rightarrow> bool) \<Rightarrow> (resource_ref \<Rightarrow> 'w \<Rightarrow> pyval dict list) \<Rightarrow> ('w \<Rightarrow> bool) \<Rightarrow> ('w \<Rightarrow> 'o) \<Rightarrow> ('w \<Rightarrow> 'h) \<Rightarrow> 'w clock \<Rightarrow> bool" where
  "steady valid rows up objects held clock \<longleftrightarrow> ticking valid rows up clock
     \<and> (\<forall>S H. keeps (stays objects held S H) clock)"

locale object_catalog = available_catalog repo rows key_field known valid up
  for repo :: "'w metadata_repository" and rows key_field known valid up +
  fixes bucket :: resource_ref
    and objects :: "'w \<Rightarrow> string \<Rightarrow> (object_metadata \<times> string) option"
    and held :: "'w \<Rightarrow> payload_ref \<Rightarrow> string option"
    and unread :: "'w \<Rightarrow> string \<Rightarrow> string option"
    and part :: "byte_range \<Rightarrow> string \<Rightarrow> string"
  assumes bucket_reference: "x_resource_reference (rt_ext (mr_runtime repo)) bucket = Inr bucket"
    and structured_keeps:
      "\<not> object_call e \<Longrightarrow> keeps (stays objects held S H) (rt_execute (mr_runtime repo) e)"
      "keeps (stays objects held S H) (rt_tx_enter (mr_runtime repo) res)"
      "keeps (stays objects held S H) (rt_tx_exit (mr_runtime repo) res z)"
    and register_answers: "valid w \<Longrightarrow> up w \<Longrightarrow> answers valid rows up
      (rt_register (mr_runtime repo) (BytesSource b) (sha256_digest b) (int (length b))) w
      (\<lambda>p w'. held w' p = Some b \<and> objects w' = objects w)"
    and release_answers: "valid w \<Longrightarrow> up w \<Longrightarrow> answers valid rows up
      (rt_release (mr_runtime repo) p) w (\<lambda>_ w'. objects w' = objects w)"
    and put_object_answers: "valid w \<Longrightarrow> up w \<Longrightarrow> held w (op_payload a) = Some b \<Longrightarrow>
      objects w (op_object_id a) = None \<Longrightarrow> op_expected_digest a = sha256_digest b \<Longrightarrow>
      op_expected_length a = int (length b) \<Longrightarrow> answers valid rows up
      (run (mr_runtime repo) (OPut bucket a)) w
      (\<lambda>r w'. \<exists>m. (\<forall>d. object_metadata_of (rt_ext (mr_runtime repo)) d r = Inr m)
         \<and> describes bucket (op_object_id a) (op_media_type a) b m
         \<and> objects w' = (objects w)(op_object_id a \<mapsto> (m, b)))"
    and get_object_answers: "valid w \<Longrightarrow> up w \<Longrightarrow> objects w object_id = Some (m, b) \<Longrightarrow>
      describes bucket object_id media b m \<Longrightarrow> answers valid rows up
      (run (mr_runtime repo) (OGet bucket (object_of bucket object_id b))) w
      (\<lambda>r w'. \<exists>p. held w' p = Some b \<and> (\<forall>d. object_read_of (rt_ext (mr_runtime repo)) d r
         = Inr \<lparr>rd_metadata = m, rd_payload = p, rd_byte_range = None\<rparr>))"
    and get_range_answers: "valid w \<Longrightarrow> up w \<Longrightarrow> objects w object_id = Some (m, b) \<Longrightarrow>
      describes bucket object_id media b m \<Longrightarrow>
      x_range_length (rt_ext (mr_runtime repo)) rng (int (length b)) = Inr n \<Longrightarrow>
      int (length (part rng b)) = n \<and> answers valid rows up
      (run (mr_runtime repo) (ORange bucket (object_of bucket object_id b) rng)) w
      (\<lambda>r w'. \<exists>p range_dict. held w' p = Some (part rng b) \<and> (\<forall>d. object_read_of (rt_ext (mr_runtime repo)) d r
         = Inr \<lparr>rd_metadata = m, rd_payload = p, rd_byte_range = range_dict\<rparr>))"
    and open_answers: "valid w \<Longrightarrow> up w \<Longrightarrow> held w p = Some b \<Longrightarrow> answers valid rows up
      (rt_open (mr_runtime repo) p) w (\<lambda>s w'. unread w' s = Some b)"
    and read_answers: "valid w \<Longrightarrow> up w \<Longrightarrow> unread w s = Some b \<Longrightarrow> n < 0 \<Longrightarrow> answers valid rows up
      (rt_read (mr_runtime repo) s n) w (\<lambda>v w'. v = PBytes b \<and> unread w' s = Some [])"
      "valid w \<Longrightarrow> up w \<Longrightarrow> unread w s = Some [] \<Longrightarrow> answers valid rows up
      (rt_read (mr_runtime repo) s n) w (\<lambda>v w'. v = PBytes [] \<and> unread w' s = Some [])"
    and chunks_answers: "valid w \<Longrightarrow> up w \<Longrightarrow> unread w s = Some b \<Longrightarrow> answers valid rows up
      (rt_chunks (mr_runtime repo) s) w (\<lambda>cs w'. concat cs = b)"
    and close_answers: "valid w \<Longrightarrow> up w \<Longrightarrow> answers valid rows up
      (rt_close (mr_runtime repo) s None) w (\<lambda>_ _. True)"

section \<open>The metadata calls leave the Objects alone\<close>

context object_catalog
begin

lemma keeps_structured_run: "\<not> object_call e \<Longrightarrow> keeps (stays objects held S H) (run (mr_runtime repo) e)"
  by (intro keeps_intros structured_keeps)

lemma keeps_get_row: "keeps (stays objects held S H) (get_row repo res f k b d parse)"
  unfolding get_row_def Let_def execute_def by (intro keeps_intros structured_keeps) simp

lemma keeps_get_resource: "keeps (stays objects held S H) (get_resource repo k b)"
  unfolding get_resource_def by (rule keeps_get_row)

lemma keeps_put_row: "keeps (stays objects held S H) (put_row repo res d)"
  unfolding put_row_def by (rule keeps_structured_run) simp

lemma keeps_commit: "keeps (stays objects held S H) (commit same repo i c)"
  unfolding commit_def transaction_def put_resource_def put_provenance_def
  by (intro keeps_intros structured_keeps keeps_put_row)

lemma keeps_latest_channel: "keeps (stays objects held S H) (latest_channel repo ns k n ch b)"
  unfolding latest_channel_def by (intro keeps_intros keeps_structured_run) simp

lemma keeps_promote_resource:
  assumes "cr_metadata chs = repo" "keeps (stays objects held S H) (cr_clock chs)"
  shows "keeps (stays objects held S H) (promote chs (TargetResource r) ch expected actor profile)"
  unfolding promote_def target_resource_def advance_pointer_def get_channel_def put_pointer_def put_channel_def
    assms(1) Let_def promotion_target.case
  by (intro keeps_intros keeps_latest_channel keeps_put_row assms(2))

lemma keeps_promote_optional_objects:
  assumes "cr_metadata chs = repo" "keeps (stays objects held S H) (cr_clock chs)"
  shows "keeps (stays objects held S H) (promote_optional chs profile r ch expected actor)"
  unfolding promote_optional_def by (intro keeps_pbind keeps_if keeps_pret keeps_pthrow keeps_promote_resource assms)

end

section \<open>Publication\<close>

text \<open>A candidate that was accepted once is accepted again, with the time of the clock.\<close>

lemma make_candidate_again:
  assumes "make_candidate x clock i profile p media dig len payload schema object w = (Inr c, w')"
    "timestamp_now clock u = (Inr t, u')" "utc_of_value (PStr t) = Inr t"
  shows "make_candidate x clock i profile p media dig len payload schema object u = (Inr (c\<lparr>sr_created_at := t\<rparr>), u')"
proof -
  have prof: "check_profile x (a\<lparr>ra_created_at := v\<rparr>) = check_profile x a" for a v
    by (intro ext) (cases "ra_profile a"; cases "ra_object_ref a"; simp add: check_profile_def)
  have mk: "mk_stored_resource x (a\<lparr>ra_created_at := PStr t\<rparr>) = Inr (c\<lparr>sr_created_at := t\<rparr>)"
    if "mk_stored_resource x a = Inr c" for a
    using that assms(3) by (auto simp: mk_stored_resource_def rbind_Inr_iff prof)
  from assms(1) obtain annotations at where a: "canonical_mapping (x_canonical_json_bytes x) (or_empty (pb_annotations p))
       ''annotations'' (Some 64) (Some 262144) = Inr annotations"
    "mk_stored_resource x
       \<lparr>ra_resource_id = PStr (identity_resource_id i), ra_namespace = PStr (ri_namespace i),
        ra_kind = PStr (ri_kind i), ra_name = PStr (ri_name i), ra_version = PStr (ri_version i),
        ra_profile = profile, ra_state = PUBLISHED, ra_media_type = PStr media,
        ra_digest = PStr dig, ra_byte_length = PInt len, ra_created_by = pb_actor p,
        ra_created_at = PStr at, ra_object_ref = object, ra_payload = payload,
        ra_payload_schema = schema, ra_labels = or_empty (pb_labels p),
        ra_annotations = PProxy annotations, ra_provenance = pb_provenance p,
        ra_supersedes = pb_supersedes p, ra_immutable = PBool True,
        ra_version_order = pb_version_order p, ra_record_version = PNone,
        ra_format_version = PStr resource_format\<rparr> = Inr c"
    by (auto simp: make_candidate_def pbind_Inr_iff)
  from a(1) assms(2) mk [OF a(2)] show ?thesis by (simp add: make_candidate_def pbind_def)
qed

context object_catalog
begin

lemma register_payload_returns:
  assumes "valid w" "up w" "match_declared (sha256_digest b) (int (length b)) dg n = Inr ()"
  shows "answers valid rows up (register_payload (mr_runtime repo) (PayloadBytes b) dg n) w
    (\<lambda>rg w'. held w' (rg_reference rg) = Some b \<and> objects w' = objects w
       \<and> rg_digest rg = sha256_digest b \<and> rg_byte_length rg = int (length b))"
  using register_answers [OF assms(1,2), of b] assms(3)
  by (auto simp: answers_def register_payload_def Let_def pbind_def)

lemma ap_put_object_returns:
  assumes "valid w" "up w" "held w p = Some b" "objects w (identity_object_id i) = None"
    "ob_runtime (ap_objects pub) = mr_runtime repo" "ob_resource (ap_objects pub) = bucket"
  shows "answers valid rows up
    (ap_put_object pub i p (sha256_digest b) (int (length b)) media actor prov) w
    (\<lambda>(m, idempotent) w'. \<not> idempotent \<and> describes bucket (identity_object_id i) media b m
       \<and> objects w' = (objects w)(identity_object_id i \<mapsto> (m, b)))"
proof -
  let ?a = "\<lparr>op_object_id = identity_object_id i, op_payload = p, op_media_type = media,
        op_expected_digest = sha256_digest b, op_expected_length = int (length b),
        op_user_metadata = [(''resourceId'', identity_resource_id i), (''namespace'', ri_namespace i),
           (''kind'', ri_kind i), (''name'', ri_name i), (''version'', ri_version i)],
        op_creation_context = [(''actor'', actor), (''profile'', PStr (profile_value ARTIFACT_PROFILE))],
        op_provenance = (case prov of None \<Rightarrow> [] | Some p \<Rightarrow> provenance_to_dict p),
        op_retention = ''immutable'', op_publish_once = True, op_create_only = True\<rparr>"
  obtain r m w' where put: "run (mr_runtime repo) (OPut bucket ?a) w = (Inr r, w')" "settled valid rows up w w'"
    "\<And>d. object_metadata_of (rt_ext (mr_runtime repo)) d r = Inr m"
    "describes bucket (identity_object_id i) media b m" "objects w' = (objects w)(identity_object_id i \<mapsto> (m, b))"
    using put_object_answers [OF assms(1,2), of ?a b] assms(3,4) by (auto simp: answers_def)
  have "verify_object_metadata pub m i (sha256_digest b) (int (length b)) media = Inr ()"
    using put(4) bucket_reference assms(5,6)
    by (simp add: verify_object_metadata_def describes_def object_of_def)
  with put assms(5,6) show ?thesis
    by (auto simp: answers_def ap_put_object_def put_object_def pbind_def pcatch_def)
qed

text \<open>The candidate built around the Object that was stored.\<close>

lemma ap_candidate_returns:
  assumes "valid w" "up w" "ap_metadata pub = repo" "steady valid rows up objects held (ap_clock pub)"
    "publication_ok (rt_ext (mr_runtime repo)) p"
    "make_candidate (rt_ext (mr_runtime repo)) (ap_clock pub) i ARTIFACT_PROFILE p media (sha256_digest b)
       (int (length b)) PNone None (Some (om_object_ref m)) u = (Inr c, u')"
    "describes bucket object_id media b m"
  shows "\<exists>t. answers valid rows up (ap_candidate pub i p (Some (om_object_ref m)) (sha256_digest b) (int (length b)) media) w
    (\<lambda>c' w'. c' = c\<lparr>sr_created_at := t\<rparr> \<and> resource_ok (rt_ext (mr_runtime repo)) c' \<and> sr_state c' = PUBLISHED
       \<and> sr_profile c' = ARTIFACT_PROFILE \<and> sr_resource_id c' = identity_resource_id i
       \<and> sr_object_ref c' = Some (om_object_ref m) \<and> objects w' = objects w)"
proof -
  let ?x = "rt_ext (mr_runtime repo)"
  have clock: "ticking valid rows up (ap_clock pub)" "\<And>S H. keeps (stays objects held S H) (ap_clock pub)"
    using assms(4) by (simp_all add: steady_def)
  obtain t w' where t: "timestamp_now (ap_clock pub) w = (Inr t, w')" "utc_of_value (PStr t) = Inr t" "settled valid rows up w w'"
    using clock(1) assms(1,2) unfolding ticking_def by blast
  note mk = make_candidate_again [OF assms(6) t(1,2)]
  have "x_parse_object_reference ?x (RefObject (om_object_ref m)) = Inr (om_object_ref m)"
    using assms(7) by (intro parse_object) (simp add: describes_def object_of_def)
  then have "sr_object_ref c = Some (om_object_ref m)"
    using assms(6) by (auto simp: make_candidate_def pbind_Inr_iff check_profile_def rbind_Inr_iff dest!: mk_stored_resource_fields(14))
  moreover have "objects w' = objects w"
    using keeps_staysD(1) [OF keeps_timestamp_now [OF clock(2)] t(1)] .
  ultimately show ?thesis
    using mk make_candidate_ok [OF mk assms(5)] t(3) assms(3) by (auto simp: answers_def ap_candidate_def)
qed

text \<open>The bytes, then the row: what \<open>_publish\<close> does for an identity that is new.\<close>

lemma ap_publish_new_returns:
  assumes "ledger_ok repo valid rows w" "up w" "artifact_wired repo valid rows pub"
    "ob_resource (ap_objects pub) = bucket" "steady valid rows up objects held (ap_clock pub)"
    "steady valid rows up objects held (cr_clock (ap_channels pub))"
    "publication_ok (rt_ext (mr_runtime repo)) p"
    "held w (rg_reference rg) = Some b" "rg_digest rg = sha256_digest b" "rg_byte_length rg = int (length b)"
    "make_candidate (rt_ext (mr_runtime repo)) (ap_clock pub) i ARTIFACT_PROFILE p media (sha256_digest b)
       (int (length b)) PNone None (Some (object_of bucket (identity_object_id i) b)) u = (Inr c, u')"
    "catalogue repo rows w (identity_resource_id i) = None" "objects w (identity_object_id i) = None"
    "promotion_ready repo rows w p c"
    "sr_provenance c \<noteq> None \<Longrightarrow> unused ''provenanceId'' (identity_resource_id i) (rows (mr_provenance_resource repo) w)"
  shows "\<exists>rc m w'. ap_publish_new pub i p rg media w = (Inr rc, w') \<and> ledger_ok repo valid rows w' \<and> up w'
    \<and> objects w' (identity_object_id i) = Some (m, b) \<and> describes bucket (identity_object_id i) media b m
    \<and> catalogue repo rows w' (identity_resource_id i) = Some (rc_resource rc)
    \<and> same_artifact c (rc_resource rc) \<and> sr_object_ref (rc_resource rc) = Some (om_object_ref m)
    \<and> sr_profile (rc_resource rc) = ARTIFACT_PROFILE \<and> promoted_as p c (rc_channel rc)"
proof -
  let ?x = "rt_ext (mr_runtime repo)" and ?oid = "identity_object_id i" and ?dg = "sha256_digest b"
  have wired: "ap_metadata pub = repo" "ob_runtime (ap_objects pub) = mr_runtime repo"
    "cr_metadata (ap_channels pub) = repo" "neutral valid rows (cr_clock (ap_channels pub))"
    using assms(3) by (simp_all add: artifact_wired_def)
  have clock: "ticking valid rows up (cr_clock (ap_channels pub))" "\<And>S H. keeps (stays objects held S H) (cr_clock (ap_channels pub))"
    using assms(6) by (simp_all add: steady_def)
  from assms(1) have "valid w" by (simp add: ledger_ok_def)
  from ap_put_object_returns [OF this assms(2,8,13) wired(2) assms(4), of media "pb_actor p" "pb_provenance p"]
  obtain m w1 where put: "ap_put_object pub i (rg_reference rg) ?dg (int (length b)) media (pb_actor p) (pb_provenance p) w = (Inr (m, False), w1)"
    "settled valid rows up w w1" "describes bucket ?oid media b m" "objects w1 = (objects w)(?oid \<mapsto> (m, b))"
    by (auto simp: answers_def)
  have mk: "make_candidate ?x (ap_clock pub) i ARTIFACT_PROFILE p media ?dg (int (length b)) PNone None (Some (om_object_ref m)) u = (Inr c, u')"
    using assms(11) put(3) by (simp add: describes_def)
  from ap_candidate_returns [OF settledD(2,3) [OF put(2)] wired(1) assms(5,7) mk put(3)] obtain t w2
    where cand: "ap_candidate pub i p (Some (om_object_ref m)) ?dg (int (length b)) media w1 = (Inr (c\<lparr>sr_created_at := t\<rparr>), w2)"
      "settled valid rows up w1 w2" "objects w2 = objects w1"
    and c: "resource_ok ?x (c\<lparr>sr_created_at := t\<rparr>)" "sr_state (c\<lparr>sr_created_at := t\<rparr>) = PUBLISHED" "sr_profile c = ARTIFACT_PROFILE"
      "sr_resource_id c = identity_resource_id i" "sr_object_ref c = Some (om_object_ref m)"
    by (auto simp: answers_def)
  let ?c = "c\<lparr>sr_created_at := t\<rparr>"
  have s2: "settled valid rows up w w2" by (rule settled_trans [OF put(2) cand(2)])
  note w2 = settled_ledger_ok [OF assms(1) s2] settledD [OF s2]
  have none: "catalogue repo rows w2 (sr_resource_id ?c) = None"
    and prov: "sr_provenance ?c \<noteq> None \<Longrightarrow> unused ''provenanceId'' (sr_resource_id ?c) (rows (mr_provenance_resource repo) w2)"
    and ready: "promotion_ready repo rows w2 p ?c"
    using assms(12,14,15) c(4) by (simp_all add: catalogue_def promotion_ready_def w2(2))
  note same = same_publication_version(1) [OF c(1)] and actor = make_candidate_actor [OF assms(11)]
  from commit_promote_returns [of w2 ?c same_artifact, OF w2(1,4) c(1,2) none same prov wired(3) clock(1) wired(4) ready actor(2), of i]
  obtain v z w3 w4 where com: "commit same_artifact repo i ?c w2 = (Inr (?c\<lparr>sr_record_version := v\<rparr>), w3)"
    and pr: "promote_optional (ap_channels pub) ARTIFACT_PROFILE (?c\<lparr>sr_record_version := v\<rparr>) (pb_channel p) (pb_expected_pointer p) (pb_actor p) w3 = (Inr z, w4)"
      "ledger_ok repo valid rows w4" "up w4" "promoted_as p c z"
      "catalogue repo rows w4 (identity_resource_id i) = Some (?c\<lparr>sr_record_version := v\<rparr>)"
    using c(3,4) actor(1) by (auto simp: promoted_as_def split: option.splits)
  have "objects w4 = objects w1"
    using cand(3) keeps_staysD(1) [OF keeps_commit com] keeps_staysD(1) [OF keeps_promote_optional_objects [OF wired(3) clock(2)] pr(1)] by simp
  moreover have "ap_publish_new pub i p rg media w = (Inr \<lparr>rc_resource = ?c\<lparr>sr_record_version := v\<rparr>, rc_idempotent = False,
      rc_object_committed = True, rc_metadata_committed = True, rc_channel = z, rc_orphan_candidate = None\<rparr>, w4)"
    using put(1) cand(1) com pr(1) assms(9,10) wired(1)
    by (simp add: ap_publish_new_def pbind_def pcatch_def)
  moreover have "same_artifact c (?c\<lparr>sr_record_version := v\<rparr>)" using same [of v] by (simp add: same_artifact_def)
  ultimately show ?thesis
    using pr(2-5) put(3,4) c(3,5)
    by (intro exI [of _ "\<lparr>rc_resource = ?c\<lparr>sr_record_version := v\<rparr>, rc_idempotent = False, rc_object_committed = True,
        rc_metadata_committed = True, rc_channel = z, rc_orphan_candidate = None\<rparr>"] exI [of _ m] exI [of _ w4]) simp
qed

text \<open>
  \<open>publish\<close> of bytes: registered, stored, committed, released. What the caller declared of them holds,
  and the arguments make a valid record (at the time of the call, hence at any time).
\<close>

lemma ap_publish_returns:
  assumes "ledger_ok repo valid rows w" "up w" "artifact_wired repo valid rows pub"
    "ob_resource (ap_objects pub) = bucket" "steady valid rows up objects held (ap_clock pub)"
    "steady valid rows up objects held (cr_clock (ap_channels pub))"
    "publication_ok (rt_ext (mr_runtime repo)) p"
    "mk_identity (pb_namespace p) (pb_kind p) (pb_name p) (pb_version p) = Inr i"
    "media_type (pb_media_type p) = Inr media"
    "match_declared (sha256_digest b) (int (length b)) dg n = Inr ()"
    "make_candidate (rt_ext (mr_runtime repo)) (ap_clock pub) i ARTIFACT_PROFILE p media (sha256_digest b)
       (int (length b)) PNone None (Some (object_of bucket (identity_object_id i) b)) w = (Inr c, u)"
    "catalogue repo rows w (identity_resource_id i) = None" "objects w (identity_object_id i) = None"
    "promotion_ready repo rows w p c"
    "sr_provenance c \<noteq> None \<Longrightarrow> unused ''provenanceId'' (identity_resource_id i) (rows (mr_provenance_resource repo) w)"
  shows "\<exists>rc m w'. ap_publish pub p (PayloadBytes b) dg n w = (Inr rc, w') \<and> ledger_ok repo valid rows w' \<and> up w'
    \<and> objects w' (identity_object_id i) = Some (m, b) \<and> describes bucket (identity_object_id i) media b m
    \<and> catalogue repo rows w' (identity_resource_id i) = Some (rc_resource rc)
    \<and> same_artifact c (rc_resource rc) \<and> sr_object_ref (rc_resource rc) = Some (om_object_ref m)
    \<and> sr_profile (rc_resource rc) = ARTIFACT_PROFILE \<and> promoted_as p c (rc_channel rc)"
proof -
  have wired: "ap_metadata pub = repo" "ap_payloads pub = mr_runtime repo"
    using assms(3) by (simp_all add: artifact_wired_def)
  from assms(1) have "valid w" by (simp add: ledger_ok_def)
  from register_payload_returns [OF this assms(2,10)] obtain rg w1
    where rg: "register_payload (mr_runtime repo) (PayloadBytes b) dg n w = (Inr rg, w1)" "settled valid rows up w w1"
      "held w1 (rg_reference rg) = Some b" "objects w1 = objects w" "rg_digest rg = sha256_digest b"
      "rg_byte_length rg = int (length b)"
    by (auto simp: answers_def)
  obtain w2 where g: "get_resource repo (identity_resource_id i) False w1 = (Inr None, w2)" "settled valid rows up w1 w2"
    using get_resource_returns [OF settled_ledger_ok [OF assms(1) rg(2)] settledD(3) [OF rg(2)], of False "identity_resource_id i"]
      assms(12) settledD(1) [OF rg(2)] by (auto simp: catalogue_def)
  have s2: "settled valid rows up w w2" by (rule settled_trans [OF rg(2) g(2)])
  note w2 = settled_ledger_ok [OF assms(1) s2] settledD [OF s2]
  have h2: "held w2 (rg_reference rg) = Some b" "objects w2 (identity_object_id i) = None"
    using keeps_staysD [OF keeps_get_resource g(1)] rg(3,4) assms(13) by simp_all
  have e2: "catalogue repo rows w2 (identity_resource_id i) = None" "promotion_ready repo rows w2 p c"
    "sr_provenance c \<noteq> None \<Longrightarrow> unused ''provenanceId'' (identity_resource_id i) (rows (mr_provenance_resource repo) w2)"
    using assms(12,14,15) by (simp_all add: catalogue_def promotion_ready_def w2(2))
  from ap_publish_new_returns [OF w2(1,4) assms(3-7) h2(1) rg(5,6) assms(11) e2(1) h2(2) e2(2,3)] obtain rc m w3
    where new: "ap_publish_new pub i p rg media w2 = (Inr rc, w3)" "ledger_ok repo valid rows w3" "up w3"
      "objects w3 (identity_object_id i) = Some (m, b)" "describes bucket (identity_object_id i) media b m"
      "catalogue repo rows w3 (identity_resource_id i) = Some (rc_resource rc)" "same_artifact c (rc_resource rc)"
      "sr_object_ref (rc_resource rc) = Some (om_object_ref m)" "sr_profile (rc_resource rc) = ARTIFACT_PROFILE"
      "promoted_as p c (rc_channel rc)" by blast
  from new(2) have v3: "valid w3" by (simp add: ledger_ok_def)
  obtain w4 where rel: "pwhen (rg_owned rg) (rt_release (mr_runtime repo) (rg_reference rg)) w3 = (Inr (), w4)"
    "settled valid rows up w3 w4" "objects w4 = objects w3"
  proof (cases "rg_owned rg")
    case True
    with release_answers [OF v3 new(3), of "rg_reference rg"] that show ?thesis by (auto simp: answers_def pwhen_def)
  next
    case False
    with v3 new(3) that [of w3] show ?thesis by (simp add: pwhen_def settled_def same_rows_def)
  qed
  have "ap_publish pub p (PayloadBytes b) dg n w = (Inr rc, w4)"
    using assms(8,9) rg(1) g(1) new(1) rel(1) wired by (simp add: ap_publish_def pbind_def pfinally_def)
  moreover have "catalogue repo rows w4 = catalogue repo rows w3"
    by (intro ext) (simp add: catalogue_def settledD(1) [OF rel(2)])
  ultimately show ?thesis
    using new rel(3) settled_ledger_ok [OF new(2) rel(2)] settledD(3) [OF rel(2)] by (intro exI [of _ rc] exI [of _ m] exI [of _ w4]) simp
qed

text \<open>What an accepted record of the bytes says of them, and any stored record that is the same.\<close>

lemma artifact_describes_bytes:
  assumes "make_candidate (rt_ext (mr_runtime repo)) (ap_clock pub) i ARTIFACT_PROFILE p media (sha256_digest b)
       (int (length b)) PNone None object w = (Inr c, u)"
    "publication_ok (rt_ext (mr_runtime repo)) p" "same_artifact c r"
  shows "sr_digest r = sha256_digest b" "sr_byte_length r = int (length b)" "sr_media_type r = media"
  using make_candidate_ok [OF assms(1,2)] assms(3) by (simp_all add: same_artifact_def)

end

section \<open>Reading\<close>

text \<open>A reader that has read everything verifies it.\<close>

lemma reader_verify_read:
  assumes "reader_read rt chunk_size rd w = (Inr ([], rd), w')" "\<not> vr_done rd"
    "int (length (vr_data rd)) = vr_expected_length rd" "sha256_digest (vr_data rd) = vr_expected_digest rd"
  shows "reader_verify rt rd w = Some (Inr (rd\<lparr>vr_done := True\<rparr>), w')"
proof -
  have "drain rt rd w = Some (Inr rd, w')" using assms(1) by (subst drain.simps) simp
  with assms(2-4) show ?thesis by (simp add: reader_verify_def dbind_def dlift_def)
qed

context object_catalog
begin

text \<open>Reading an artifact whose Object is stored gives its bytes.\<close>

lemma ac_read_returns:
  assumes "valid w" "up w" "consumer_wired repo con" "ob_resource (ac_objects con) = bucket"
    "objects w object_id = Some (m, b)" "describes bucket object_id media b m"
    "selected a = r" "sr_profile r = ARTIFACT_PROFILE" "sr_object_ref r = Some (om_object_ref m)" "sr_digest r = sha256_digest b"
    "sr_byte_length r = int (length b)" "sr_media_type r = media"
  shows "\<exists>w'. ac_read con a w = Some (Inr b, w') \<and> settled valid rows up w w'"
proof -
  let ?rt = "mr_runtime repo"
  note wired = consumer_wiredD [OF assms(3)]
  obtain res p w1 where g: "run ?rt (OGet bucket (om_object_ref m)) w = (Inr res, w1)" "settled valid rows up w w1"
    "held w1 p = Some b" "\<And>d. object_read_of (rt_ext ?rt) d res = Inr \<lparr>rd_metadata = m, rd_payload = p, rd_byte_range = None\<rparr>"
    using get_object_answers [OF assms(1,2,5,6)] assms(6) by (auto simp: answers_def describes_def)
  have "verify_consumed_metadata m r = Inr ()"
    using assms(6,9-12) by (simp add: verify_consumed_metadata_def describes_def)
  then have checked: "checked_read con r (object_get (ac_objects con) (om_object_ref m)) w
      = (Inr \<lparr>rd_metadata = m, rd_payload = p, rd_byte_range = None\<rparr>, w1)"
    using g(1,4) wired assms(4) by (simp add: checked_read_def missing_object_def object_get_def pbind_def pcatch_def)
  obtain s w2 where o1: "rt_open ?rt p w1 = (Inr s, w2)" "settled valid rows up w1 w2" "unread w2 s = Some b"
    using open_answers [OF settledD(2,3) [OF g(2)] g(3)] by (auto simp: answers_def)
  obtain w3 where r1: "rt_read ?rt s (- 1) w2 = (Inr (PBytes b), w3)" "settled valid rows up w2 w3" "unread w3 s = Some []"
    using read_answers(1) [OF settledD(2,3) [OF o1(2)] o1(3), of "- 1"] by (auto simp: answers_def)
  obtain w4 where r2: "rt_read ?rt s chunk_size w3 = (Inr (PBytes []), w4)" "settled valid rows up w3 w4"
    using read_answers(2) [OF settledD(2,3) [OF r1(2)] r1(3), of chunk_size] by (auto simp: answers_def)
  obtain w5 where cl: "rt_close ?rt s None w4 = (Inr (), w5)" "settled valid rows up w4 w5"
    using close_answers [OF settledD(2,3) [OF r2(2)], of s] by (auto simp: answers_def)
  obtain w6 where rel: "rt_release ?rt p w5 = (Inr (), w6)" "settled valid rows up w5 w6"
    using release_answers [OF settledD(2,3) [OF cl(2)], of p] by (auto simp: answers_def)
  let ?rd = "(mk_reader s (sr_digest r) (sr_byte_length r))\<lparr>vr_data := b\<rparr>"
  have "reader_read ?rt (- 1) (mk_reader s (sr_digest r) (sr_byte_length r)) w2 = (Inr (b, ?rd), w3)"
    using r1(1) by (simp add: reader_read_def pbind_def mk_reader_def)
  moreover have "reader_verify ?rt ?rd w3 = Some (Inr (?rd\<lparr>vr_done := True\<rparr>), w4)"
    using r2(1) assms(10,11) by (intro reader_verify_read) (simp_all add: reader_read_def pbind_def mk_reader_def)
  moreover have "artifact_object r = Inr (om_object_ref m)"
    using assms(8,9) by (simp add: artifact_object_def require_artifact_def)
  ultimately have "ac_read con a w = Some (Inr b, w6)"
    using checked o1(1) cl(1) rel(1) wired assms(7)
    by (simp add: ac_read_def ac_open_def Let_def dbind_def dlift_def pbind_def dfinally_def dguarded_def
        guarded_def pfinally_def)
  moreover have "settled valid rows up w w6"
    using settled_trans [OF settled_trans [OF settled_trans [OF settled_trans [OF settled_trans [OF g(2) o1(2)] r1(2)] r2(2)] cl(2)] rel(2)] .
  ultimately show ?thesis by blast
qed

lemma keeps_resolve_exact: "keeps (stays objects held S H) (resolve_exact repo check i)"
  unfolding resolve_exact_def required_resource_def by (intro keeps_intros keeps_get_resource)

text \<open>A range of it is that part of its bytes.\<close>

lemma ac_range_read_returns:
  assumes "valid w" "up w" "consumer_wired repo con" "ob_resource (ac_objects con) = bucket"
    "objects w object_id = Some (m, b)" "describes bucket object_id media b m"
    "selected a = r" "sr_profile r = ARTIFACT_PROFILE" "sr_object_ref r = Some (om_object_ref m)" "sr_digest r = sha256_digest b"
    "sr_byte_length r = int (length b)" "sr_media_type r = media"
    "x_range_length (rt_ext (mr_runtime repo)) rng (int (length b)) = Inr n"
  shows "\<exists>w'. ac_range_read con a rng w = (Inr (part rng b), w')"
proof -
  let ?rt = "mr_runtime repo"
  note wired = consumer_wiredD [OF assms(3)]
  obtain res p rd w1 where g: "run ?rt (ORange bucket (om_object_ref m) rng) w = (Inr res, w1)" "settled valid rows up w w1"
    "held w1 p = Some (part rng b)" "int (length (part rng b)) = n"
    "\<And>d. object_read_of (rt_ext ?rt) d res = Inr \<lparr>rd_metadata = m, rd_payload = p, rd_byte_range = rd\<rparr>"
    using get_range_answers [OF assms(1,2,5,6,13)] assms(6) by (auto simp: answers_def describes_def)
  have "verify_consumed_metadata m r = Inr ()"
    using assms(6,9-12) by (simp add: verify_consumed_metadata_def describes_def)
  then have checked: "checked_read con r (object_read_range (ac_objects con) (om_object_ref m) rng) w
      = (Inr \<lparr>rd_metadata = m, rd_payload = p, rd_byte_range = rd\<rparr>, w1)"
    using g(1,5) wired assms(4) by (simp add: checked_read_def missing_object_def object_read_range_def pbind_def pcatch_def)
  obtain s w2 where o1: "rt_open ?rt p w1 = (Inr s, w2)" "settled valid rows up w1 w2" "unread w2 s = Some (part rng b)"
    using open_answers [OF settledD(2,3) [OF g(2)] g(3)] by (auto simp: answers_def)
  obtain cs w3 where c: "rt_chunks ?rt s w2 = (Inr cs, w3)" "settled valid rows up w2 w3" "concat cs = part rng b"
    using chunks_answers [OF settledD(2,3) [OF o1(2)] o1(3)] by (auto simp: answers_def)
  obtain w4 where cl: "rt_close ?rt s None w3 = (Inr (), w4)" "settled valid rows up w3 w4"
    using close_answers [OF settledD(2,3) [OF c(2)], of s] by (auto simp: answers_def)
  obtain w5 where rel: "rt_release ?rt p w4 = (Inr (), w5)"
    using release_answers [OF settledD(2,3) [OF cl(2)], of p] by (auto simp: answers_def)
  have "artifact_object r = Inr (om_object_ref m)"
    using assms(8,9) by (simp add: artifact_object_def require_artifact_def)
  then show ?thesis
    using checked o1(1) c(1,3) cl(1) rel wired assms(7,11,13) g(4)
    by (simp add: ac_range_read_def Let_def pbind_def pfinally_def guarded_def)
qed

end

section \<open>The in-memory runtime\<close>

definition fake_object :: "fake \<Rightarrow> string \<Rightarrow> (object_metadata \<times> string) option" where
  "fake_object w object_id = map_of (fk_objects w) object_id"

definition fake_held :: "fake \<Rightarrow> payload_ref \<Rightarrow> string option" where
  "fake_held w p = map_of (fk_payloads w) (pr_handle p)"

definition fake_unread :: "fake \<Rightarrow> string \<Rightarrow> string option" where
  "fake_unread w s = map_of (fk_streams w) s"

definition fake_part :: "byte_range \<Rightarrow> string \<Rightarrow> string" where
  "fake_part rng b = (case resolve_range rng (int (length b)) of
     Inl _ \<Rightarrow> [] | Inr (a, z) \<Rightarrow> take (nat (z + 1 - a)) (drop (nat a) b))"

lemma parse_printed_metadata:
  assumes "or_digest (om_object_ref m) = Some dg"
  shows "object_metadata_of reference_external d (result_of res (PDict ((''metadata'', PDict (object_metadata_dict m)) # rest))) = Inr m"
  using assms
  by (cases m; cases "om_object_ref m"; cases "or_resource (om_object_ref m)")
    (simp add: object_metadata_of_def result_of_def object_mapping_def get_or_def object_metadata_dict_def
      parse_object_metadata_def dict_at_def str_at_def int_at_def parse_object_ref_dict_def object_ref_dict_def
      parse_resource_ref_def resource_ref_dict_def)

lemma settled_tables:
  assumes "fake_valid w" "fake_up w" "\<And>t. get_table t w' = get_table t w" "fk_fail_next_metadata_put w' = fk_fail_next_metadata_put w"
  shows "settled fake_valid fake_rows fake_up w w'"
  using assms same_rows_tables [OF assms(1,3)] by (simp add: settled_def fake_up_def)

lemma parse_printed_read:
  assumes "or_digest (om_object_ref m) = Some dg"
  shows "object_read_of reference_external d (result_of res (PDict [(''metadata'', PDict (object_metadata_dict m)),
        (''payload'', PDict (payload_ref_dict p))])) = Inr \<lparr>rd_metadata = m, rd_payload = p, rd_byte_range = None\<rparr>"
    and "object_read_of reference_external d (result_of res (PDict [(''metadata'', PDict (object_metadata_dict m)),
        (''payload'', PDict (payload_ref_dict p)), (''range'', PDict e)]))
        = Inr \<lparr>rd_metadata = m, rd_payload = p, rd_byte_range = Some e\<rparr>"
  by (cases p; simp add: object_read_of_def parse_printed_metadata [OF assms, unfolded result_of_def]
      result_of_def object_mapping_def get_or_def payload_ref_dict_def parse_payload_ref_def str_at_def Let_def
      of_opt_def split: option.split)+

lemma fake_keeps_structured:
  assumes "\<not> object_call e"
  shows "keeps (stays fake_object fake_held S H) (fake_execute e)"
proof -
  have set: "fake_object (set_table t rows w) = fake_object w" "fake_held (set_table t rows w) = fake_held w" for t rows w
    by (cases t; intro ext; simp add: fake_object_def fake_held_def set_table_def)+
  have fail: "fake_object (w\<lparr>fk_fail_next_metadata_put := False\<rparr>) = fake_object w"
    "fake_held (w\<lparr>fk_fail_next_metadata_put := False\<rparr>) = fake_held w" for w
    by (intro ext; simp add: fake_object_def fake_held_def)+
  have "keeps (stays fake_object fake_held S H) (with_table res f)"
    if "\<And>t. keeps (stays fake_object fake_held S H) (f t)" for res and f :: "fake_table \<Rightarrow> (fake, exn, op_result) prog"
    using that by (simp add: with_table_def keeps_pthrow split: option.split)
  moreover have "keeps (stays fake_object fake_held S H) (fake_get res t wh)"
    "keeps (stays fake_object fake_held S H) (fake_put res t d)"
    "keeps (stays fake_object fake_held S H) (fake_patch res t wh changes v)"
    "keeps (stays fake_object fake_held S H) (fake_query res t wh order limit cursor)" for res t wh d changes v order limit cursor
    by (simp_all add: keeps_def stays_def fake_get_def fake_put_def fake_patch_def fake_query_def set fail Let_def
        split: list.split option.split pyval.split)
  ultimately show ?thesis using assms by (cases e) (simp_all add: fake_execute_def)
qed

lemma fake_register_answers:
  assumes "fake_valid w" "fake_up w"
  shows "\<exists>p w'. fake_register (BytesSource b) dg n w = (Inr p, w') \<and> settled fake_valid fake_rows fake_up w w'
    \<and> fake_held w' p = Some b \<and> fake_object w' = fake_object w"
  using assms by (auto simp: fake_register_def Let_def fake_held_def fake_object_def intro!: settled_tables ext)

lemma fake_object_put_answers:
  assumes "fake_valid w" "fake_up w" "fake_held w (op_payload a) = Some b" "fake_object w (op_object_id a) = None"
    "op_expected_digest a = sha256_digest b" "op_expected_length a = int (length b)"
  shows "\<exists>m w'. fake_object_put OBJECT_RESOURCE a w = (Inr (metadata_result OBJECT_RESOURCE m), w')
    \<and> settled fake_valid fake_rows fake_up w w' \<and> describes OBJECT_RESOURCE (op_object_id a) (op_media_type a) b m
    \<and> fake_object w' = (fake_object w)(op_object_id a \<mapsto> (m, b))"
proof -
  let ?m = "\<lparr>om_object_ref = object_of OBJECT_RESOURCE (op_object_id a) b, om_digest = sha256_digest b,
    om_byte_length = int (length b), om_media_type = op_media_type a, om_user_metadata = str_dict (op_user_metadata a)\<rparr>"
  obtain w' where "fake_object_put OBJECT_RESOURCE a w = (Inr (metadata_result OBJECT_RESOURCE ?m), w')"
    "\<And>t. get_table t w' = get_table t w" "fk_fail_next_metadata_put w' = fk_fail_next_metadata_put w"
    "fk_objects w' = (op_object_id a, (?m, b)) # fk_objects w"
    using assms by (simp add: fake_object_put_def fake_held_def fake_object_def fake_open_def fake_chunks_def fake_read_def
        fake_close_def guarded_def pbind_def pret_def Let_def object_of_def update_conv')
  with assms(1,2) show ?thesis
    by (intro exI [of _ ?m] exI [of _ w'])
      (auto simp: describes_def fake_object_def intro!: settled_tables ext)
qed

lemma fake_object_get_answers:
  assumes "fake_valid w" "fake_up w" "fake_object w object_id = Some (m, b)" "describes OBJECT_RESOURCE object_id media b m"
  shows "\<exists>p r w'. fake_object_get OBJECT_RESOURCE (object_of OBJECT_RESOURCE object_id b) None w = (Inr r, w')
    \<and> settled fake_valid fake_rows fake_up w w' \<and> fake_held w' p = Some b
    \<and> (\<forall>d. object_read_of reference_external d r = Inr \<lparr>rd_metadata = m, rd_payload = p, rd_byte_range = None\<rparr>)"
proof -
  obtain p w' where p: "fake_register (BytesSource b) (om_digest m) (int (length b)) w = (Inr p, w')"
    "settled fake_valid fake_rows fake_up w w'" "fake_held w' p = Some b"
    using fake_register_answers [OF assms(1,2)] by blast
  have "fake_stored_object (object_of OBJECT_RESOURCE object_id b) w = (Inr (m, b), w)"
    using assms(3,4) by (simp add: fake_stored_object_def fake_object_def object_of_def describes_def)
  with p(1) have "fake_object_get OBJECT_RESOURCE (object_of OBJECT_RESOURCE object_id b) None w
      = (Inr (result_of OBJECT_RESOURCE (PDict [(''metadata'', PDict (object_metadata_dict m)),
          (''payload'', PDict (payload_ref_dict p))])), w')"
    by (simp add: fake_object_get_def pbind_def pret_def)
  moreover have "or_digest (om_object_ref m) = Some (sha256_digest b)"
    using assms(4) by (simp add: describes_def object_of_def)
  ultimately show ?thesis using p(2,3) parse_printed_read(1) by blast
qed

lemma fake_range_answers:
  assumes "fake_valid w" "fake_up w" "fake_object w object_id = Some (m, b)" "describes OBJECT_RESOURCE object_id media b m"
    "resolve_range rng (int (length b)) = Inr (a, z)"
  shows "\<exists>p e r w'. fake_object_get OBJECT_RESOURCE (object_of OBJECT_RESOURCE object_id b) (Some rng) w = (Inr r, w')
    \<and> settled fake_valid fake_rows fake_up w w' \<and> fake_held w' p = Some (fake_part rng b)
    \<and> (\<forall>d. object_read_of reference_external d r = Inr \<lparr>rd_metadata = m, rd_payload = p, rd_byte_range = e\<rparr>)"
proof -
  obtain p w' where p: "fake_register (BytesSource (fake_part rng b)) (om_digest m) (int (length (fake_part rng b))) w = (Inr p, w')"
    "settled fake_valid fake_rows fake_up w w'" "fake_held w' p = Some (fake_part rng b)"
    using fake_register_answers [OF assms(1,2)] by blast
  have "fake_stored_object (object_of OBJECT_RESOURCE object_id b) w = (Inr (m, b), w)"
    using assms(3,4) by (simp add: fake_stored_object_def fake_object_def object_of_def describes_def)
  with p(1) assms(5) have "fake_object_get OBJECT_RESOURCE (object_of OBJECT_RESOURCE object_id b) (Some rng) w
      = (Inr (result_of OBJECT_RESOURCE (PDict [(''metadata'', PDict (object_metadata_dict m)),
          (''payload'', PDict (payload_ref_dict (p\<lparr>pr_expected_digest := None\<rparr>))),
          (''range'', PDict [(''start'', PInt a), (''end'', PInt z)])])), w')"
    by (simp add: fake_object_get_def fake_part_def pbind_def pret_def plift_def)
  moreover have "or_digest (om_object_ref m) = Some (sha256_digest b)"
    using assms(4) by (simp add: describes_def object_of_def)
  moreover have "fake_held w' (p\<lparr>pr_expected_digest := None\<rparr>) = Some (fake_part rng b)"
    using p(3) by (simp add: fake_held_def)
  ultimately show ?thesis using p(2) parse_printed_read(2) by blast
qed

lemma fake_part_length:
  assumes "resolve_range rng (int (length b)) = Inr (a, z)"
  shows "int (length (fake_part rng b)) = z - a + 1"
  using assms by (auto simp: fake_part_def resolve_range_def Let_def split: pyval.splits list.splits if_splits)

interpretation fake_object_catalog: object_catalog fake_metadata fake_rows fake_key fake_known fake_valid fake_up
  OBJECT_RESOURCE fake_object fake_held fake_unread fake_part
proof (rule object_catalog.intro [OF fake_available.available_catalog_axioms], rule object_catalog_axioms.intro, goal_cases)
  case (2 e S H)
  then show ?case by (simp add: fake_metadata_def fake_keeps_structured)
next
  case (3 S H res)
  have "fake_object (w\<lparr>fk_transactions := k\<rparr>) = fake_object w" "fake_held (w\<lparr>fk_transactions := k\<rparr>) = fake_held w" for w k
    by (intro ext; simp add: fake_object_def fake_held_def)+
  then show ?case by (simp add: fake_metadata_def keeps_def stays_def)
next
  case (5 w b)
  then show ?case using fake_register_answers [OF 5] by (simp add: fake_metadata_def answers_def)
next
  case (6 w p)
  then show ?case by (auto simp: fake_metadata_def answers_def fake_release_def fake_object_def intro!: settled_tables ext)
next
  case (7 w a b)
  from fake_object_put_answers [OF 7] obtain m w' where
    m: "fake_object_put OBJECT_RESOURCE a w = (Inr (metadata_result OBJECT_RESOURCE m), w')"
    "settled fake_valid fake_rows fake_up w w'" "describes OBJECT_RESOURCE (op_object_id a) (op_media_type a) b m"
    "fake_object w' = (fake_object w)(op_object_id a \<mapsto> (m, b))" by blast
  then have "object_metadata_of reference_external d (metadata_result OBJECT_RESOURCE m) = Inr m" for d
    unfolding metadata_result_def by (intro parse_printed_metadata) (auto simp: describes_def object_of_def)
  with m show ?case
    by (auto simp: fake_metadata_def answers_def run_def build_def execute_def pbind_def fake_execute_def)
next
  case (8 w object_id m b media)
  from fake_object_get_answers [OF 8] show ?case
    by (auto simp: fake_metadata_def answers_def run_def build_def execute_def pbind_def fake_execute_def)
next
  case (9 w object_id m b media rng n)
  from 9(5) obtain a z where "resolve_range rng (int (length b)) = Inr (a, z)" "n = z - a + 1"
    by (auto simp: fake_metadata_def reference_external_def rbind_Inr_iff)
  with fake_range_answers [OF 9(1-4)] fake_part_length show ?case
    by (fastforce simp: fake_metadata_def answers_def run_def build_def execute_def pbind_def fake_execute_def)
next
  case (10 w p b)
  then show ?case
    by (auto simp: fake_metadata_def answers_def fake_open_def fake_held_def fake_unread_def update_conv' intro!: settled_tables)
next
  case (11 w s b n)
  then show ?case
    by (auto simp: fake_metadata_def answers_def fake_read_def fake_unread_def update_conv' intro!: settled_tables)
next
  case (12 w s n)
  then show ?case
    by (auto simp: fake_metadata_def answers_def fake_read_def fake_unread_def update_conv' intro!: settled_tables)
next
  case (13 w s b)
  then show ?case
    by (auto simp: fake_metadata_def answers_def fake_chunks_def fake_read_def fake_unread_def update_conv' pbind_def pret_def
        intro!: settled_tables)
next
  case (14 w s)
  then show ?case by (auto simp: fake_metadata_def answers_def fake_close_def intro!: settled_tables)
qed (simp_all add: fake_metadata_def keeps_pret)

end
