(* ===== verification/ProgressProperties.thy ===== *)
theory ProgressProperties
  imports StoreProperties ChannelProperties ArtifactProgress
begin

text \<open>
  Progress over any Catalog that is up: what a caller asks for in good order happens, and the next
  reader sees it. The witnesses run on the in-memory runtime.
\<close>

lemma ticking_fake_now: "ticking fake_valid fake_rows fake_up fake_now"
  using ex_now ex_time_ok by (simp add: ticking_def settled_def same_rows_def)

lemma ex_up [simp]: "fake_up empty_fake" "fake_up ex_published"
  by (simp_all add: fake_up_def empty_fake_def ex_published_def)

lemma ex_published_catalogue:
  "catalogue fake_metadata fake_rows ex_published = [identity_resource_id ex_identity \<mapsto> ex_resource]"
  "catalogue fake_metadata fake_rows empty_fake = Map.empty"
  by (simp_all add: catalogue_def fake_store_ok ex_catalogue)

text \<open>C14. Promotion succeeds for a caller that expects the newest pointer: on an available Catalog, a
  promotion of a published resource, named by itself, by its reference or by its identity, to a
  valid channel whose newest pointer version is the expected one returns the next pointer to that
  resource, and the channel then resolves to the resource and that pointer. The Catalog may refuse
  only if the identifier of the next pointer, a hash, is taken.\<close>
theorem promotion_succeeds:
  assumes "available_catalog repo rows key_field known valid up" "ledger_ok repo valid rows w" "up w"
    "cr_metadata chs = repo" "ticking valid rows up (cr_clock chs)" "neutral valid rows (cr_clock chs)"
    "catalogue repo rows w (sr_resource_id r) = Some r" "sr_state r = PUBLISHED" "target_names target r"
    "profile = None \<or> profile = Some (sr_profile r)" "channel_ok ch" "bounded_ok 512 actor"
    "newest (sr_namespace r, sr_kind r, sr_name r, ch) (rows (mr_channel_resource repo) w) n"
    "unused ''channelVersionId'' (channel_version_id (sr_namespace r) (sr_kind r) (sr_name r) ch (n + 1))
       (rows (mr_channel_resource repo) w)"
    "check r = Inr ()"
  shows "\<exists>c w' w''. promote chs target (PStr ch) (PInt n) (PStr actor) profile w = (Inr c, w') \<and> up w'
    \<and> ch_pointer_version c = n + 1 \<and> ch_target_resource_id c = sr_resource_id r
    \<and> resolve_channel repo chs check (PStr (sr_namespace r)) (PStr (sr_kind r)) (PStr (sr_name r)) (PStr ch) w'
        = (Inr \<lparr>rs_resource = r, rs_channel = Some c\<rparr>, w'')"
proof -
  obtain c row w' where p: "promote chs target (PStr ch) (PInt n) (PStr actor) profile w = (Inr c, w')"
    "ledger_ok repo valid rows w'" "up w'" "catalogue repo rows w' = catalogue repo rows w"
    "channel_id c = (sr_namespace r, sr_kind r, sr_name r, ch)" "ch_pointer_version c = n + 1"
    "ch_target_resource_id c = sr_resource_id r" "channel_of c row"
    "rows (mr_channel_resource repo) w' = rows (mr_channel_resource repo) w @ [row]"
    using available_catalog.promote_returns [OF assms(1-14)] by blast
  have "catalogue repo rows w' (sr_resource_id r) = Some r" "newest (channel_id c) (rows (mr_channel_resource repo) w) (ch_pointer_version c - 1)"
    using p(4-6) assms(7,13) by simp_all
  from available_catalog.resolve_channel_returns [where check = check, OF assms(1) p(2,3) assms(4) this(1) assms(15) p(8,9) this(2) p(7,5)]
  show ?thesis using p by blast
qed

theorem promotion_succeeds_witness:
  "\<exists>c w' w''. promote fake_channels (TargetIdentity ex_identity) (PStr ''stable'') (PInt 0) (PStr ''ci'')
      (Some CONFIGURATION_PROFILE) ex_published = (Inr c, w') \<and> fake_up w'
    \<and> ch_pointer_version c = 1 \<and> ch_target_resource_id c = identity_resource_id ex_identity
    \<and> resolve_channel fake_metadata fake_channels require_configuration (PStr ''app'') (PStr ''config'') (PStr ''svc'')
        (PStr ''stable'') w' = (Inr \<lparr>rs_resource = ex_resource, rs_channel = Some c\<rparr>, w'')"
proof -
  have "target_names (TargetIdentity ex_identity) ex_resource"
    by (simp add: target_names_def sr_identity_def ex_identity_def ex_resource_def)
  moreover have "ticking fake_valid fake_rows fake_up (cr_clock fake_channels)"
    using ticking_fake_now by (simp add: fake_channels_def mk_channel_repository_def)
  ultimately show ?thesis
    using promotion_succeeds [of fake_metadata fake_rows fake_key fake_known fake_valid fake_up ex_published fake_channels
        ex_resource "TargetIdentity ex_identity" "Some CONFIGURATION_PROFILE" "''stable''" "''ci''" 0 require_configuration,
        OF fake_available.available_catalog_axioms ex_published_ok]
    by (simp add: ex_published_catalogue history_ok_Nil unused_def ex_names_ok require_configuration_def)
qed

text \<open>C7. Publication succeeds: on an available Catalog, a configuration whose arguments and payload
  are accepted is published if its identity is new, and confirmed with an idempotent receipt if the
  same publication is already there; the promotion it asks for happens, and an exact lookup then
  returns the resource of the receipt.\<close>
theorem publication_succeeds:
  assumes "available_catalog repo rows key_field known valid up" "ledger_ok repo valid rows w" "up w1"
    "configuration_wired repo valid rows pub" "ticking valid rows up (cr_clock (cp_channels pub))"
    "publication_ok (rt_ext (mr_runtime repo)) p" "schema_arg_ok schema" "wf_py payload"
    "cp_candidate pub p payload schema w = (Inr (i, c), w1)"
    "case catalogue repo rows w (sr_resource_id c) of
       None \<Rightarrow> promotion_ready repo rows w p c
         \<and> (sr_provenance c \<noteq> None \<longrightarrow> unused ''provenanceId'' (sr_resource_id c) (rows (mr_provenance_resource repo) w))
     | Some r \<Rightarrow> promotion_ready repo rows w p r \<and> same_configuration c r"
    "cc_metadata con = repo"
  shows "\<exists>rc w' w''. cp_publish pub p payload schema w = (Inr rc, w') \<and> up w'
    \<and> same_configuration c (rc_resource rc)
    \<and> rc_idempotent rc = (catalogue repo rows w (sr_resource_id c) \<noteq> None)
    \<and> promoted_as p c (rc_channel rc)
    \<and> cc_exact con i w' = (Inr \<lparr>rs_resource = rc_resource rc, rs_channel = None\<rparr>, w'')"
proof -
  from available_catalog.cp_publish_returns [OF assms(1-10)] obtain rc w'
    where rc: "cp_publish pub p payload schema w = (Inr rc, w')" "ledger_ok repo valid rows w'" "up w'"
      "catalogue repo rows w' = (catalogue repo rows w)(sr_resource_id c \<mapsto> rc_resource rc)"
      "same_configuration c (rc_resource rc)"
      "rc_idempotent rc = (catalogue repo rows w (sr_resource_id c) \<noteq> None)"
      "promoted_as p c (rc_channel rc)" "sr_resource_id c = identity_resource_id i"
      "sr_profile (rc_resource rc) = CONFIGURATION_PROFILE"
    by blast
  then have "catalogue repo rows w' (identity_resource_id i) = Some (rc_resource rc)"
    "require_configuration (rc_resource rc) = Inr ()" by (simp_all add: require_configuration_def)
  from available_catalog.resolve_exact_returns [where check = require_configuration, OF assms(1) rc(2,3) this] rc assms(11) show ?thesis
    by (auto simp: cc_exact_def)
qed

theorem publication_succeeds_witness:
  "\<exists>rc w' w''. cp_publish fake_configuration ex_publication (PDict ex_payload) (SchemaRefArg fake_schema_ref) empty_fake
      = (Inr rc, w') \<and> fake_up w' \<and> \<not> rc_idempotent rc
    \<and> cc_exact (sc_configurations (st_consumer fake_store)) ex_identity w'
        = (Inr \<lparr>rs_resource = rc_resource rc, rs_channel = None\<rparr>, w'')"
proof -
  let ?c = "ex_resource\<lparr>sr_record_version := PNone\<rparr>"
  have "configuration_wired fake_metadata fake_valid fake_rows fake_configuration"
    using fake_plugin.mk_resource_store_wired [OF fake_store_built [of empty_fake] fake_store_ok(3,2)]
    by (rule fake_plugin.store_wiredD)
  moreover have "ticking fake_valid fake_rows fake_up (cr_clock (cp_channels fake_configuration))"
    using ticking_fake_now by (simp add: fake_store_def mk_configuration_publisher_def fake_channels_def mk_channel_repository_def)
  moreover have "promotion_ready fake_metadata fake_rows empty_fake ex_publication ?c"
    by (simp add: promotion_ready_def)
  moreover have "unused ''provenanceId'' (sr_resource_id ?c) (fake_rows (mr_provenance_resource fake_metadata) empty_fake)"
    by (simp add: unused_def fake_rows_def fake_table_of_def fake_known_def get_table_def empty_fake_def fake_metadata_def)
  moreover have "cc_metadata (sc_configurations (st_consumer fake_store)) = fake_metadata" by (simp add: fake_store_def)
  ultimately show ?thesis
    using publication_succeeds [where con = "sc_configurations (st_consumer fake_store)",
        OF fake_available.available_catalog_axioms empty_fake_ok ex_up(1) _ _ _ _ _ ex_candidate] ex_publish(1-3)
    by (simp add: ex_published_catalogue fake_store_ok) blast
qed

text \<open>C6. Artifacts survive the plugin: over any Catalogs and payload registry that are up, bytes that are
  published under a new identity are accepted, the exact lookup of the identity returns the resource
  of the receipt, reading that resource gives the same bytes, and reading a range of it that the
  length admits gives that part of them.\<close>
theorem artifact_roundtrip:
  assumes "object_catalog repo rows key_field known valid up bucket objects held unread part"
    "ledger_ok repo valid rows w" "up w" "artifact_wired repo valid rows pub" "consumer_wired repo con"
    "ob_resource (ap_objects pub) = bucket" "ob_resource (ac_objects con) = bucket"
    "steady valid rows up objects held (ap_clock pub)" "steady valid rows up objects held (cr_clock (ap_channels pub))"
    "publication_ok (rt_ext (mr_runtime repo)) p"
    "mk_identity (pb_namespace p) (pb_kind p) (pb_name p) (pb_version p) = Inr i"
    "media_type (pb_media_type p) = Inr media"
    "match_declared (sha256_digest b) (int (length b)) dg n = Inr ()"
    "make_candidate (rt_ext (mr_runtime repo)) (ap_clock pub) i ARTIFACT_PROFILE p media (sha256_digest b)
       (int (length b)) PNone None (Some (object_of bucket (identity_object_id i) b)) w = (Inr c, u)"
    "catalogue repo rows w (identity_resource_id i) = None" "objects w (identity_object_id i) = None"
    "promotion_ready repo rows w p c"
    "sr_provenance c \<noteq> None \<Longrightarrow> unused ''provenanceId'' (identity_resource_id i) (rows (mr_provenance_resource repo) w)"
  shows "\<exists>rc w1 w2 w3. ap_publish pub p (PayloadBytes b) dg n w = (Inr rc, w1) \<and> promoted_as p c (rc_channel rc)
    \<and> ac_exact con i w1 = (Inr \<lparr>rs_resource = rc_resource rc, rs_channel = None\<rparr>, w2)
    \<and> ac_read con (Resolved \<lparr>rs_resource = rc_resource rc, rs_channel = None\<rparr>) w2 = Some (Inr b, w3)
    \<and> (\<forall>rng k. x_range_length (rt_ext (mr_runtime repo)) rng (int (length b)) = Inr k \<longrightarrow>
         (\<exists>w4. ac_range_read con (Stored (rc_resource rc)) rng w2 = (Inr (part rng b), w4)))"
proof -
  note cat = object_catalog.axioms(1) [OF assms(1)]
  obtain rc m w1 where rc: "ap_publish pub p (PayloadBytes b) dg n w = (Inr rc, w1)" "ledger_ok repo valid rows w1" "up w1"
    "objects w1 (identity_object_id i) = Some (m, b)" "describes bucket (identity_object_id i) media b m"
    "catalogue repo rows w1 (identity_resource_id i) = Some (rc_resource rc)" "same_artifact c (rc_resource rc)"
    "sr_object_ref (rc_resource rc) = Some (om_object_ref m)" "sr_profile (rc_resource rc) = ARTIFACT_PROFILE"
    "promoted_as p c (rc_channel rc)"
    using object_catalog.ap_publish_returns [OF assms(1-4,6,8-18)] by blast
  note stored = object_catalog.artifact_describes_bytes [OF assms(1,14,10) rc(7)]
  obtain w2 where w2: "ac_exact con i w1 = (Inr \<lparr>rs_resource = rc_resource rc, rs_channel = None\<rparr>, w2)"
    "settled valid rows up w1 w2"
    using available_catalog.resolve_exact_returns [where check = require_artifact, OF cat rc(2,3,6)] rc(9)
      consumer_wiredD(1) [OF assms(5)] by (auto simp: ac_exact_def require_artifact_def)
  have "objects w2 = objects w1"
    using keeps_staysD(1) [OF object_catalog.keeps_resolve_exact [OF assms(1)]] w2(1) consumer_wiredD(1) [OF assms(5)]
    by (simp add: ac_exact_def)
  then have object: "objects w2 (identity_object_id i) = Some (m, b)" using rc(4) by simp
  note read = object_catalog.ac_read_returns [OF assms(1) settledD(2,3) [OF w2(2)] assms(5,7) object rc(5) _ rc(9,8) stored]
    and part = object_catalog.ac_range_read_returns [OF assms(1) settledD(2,3) [OF w2(2)] assms(5,7) object rc(5) _ rc(9,8) stored]
  obtain w3 where "ac_read con (Resolved \<lparr>rs_resource = rc_resource rc, rs_channel = None\<rparr>) w2 = Some (Inr b, w3)"
    using read [of "Resolved \<lparr>rs_resource = rc_resource rc, rs_channel = None\<rparr>"] by (auto simp: selected_def)
  with rc(1,10) w2(1) part [of "Stored (rc_resource rc)"] show ?thesis
    by (intro exI [of _ rc] exI [of _ w1] exI [of _ w2] exI [of _ w3]) (simp add: selected_def)
qed

theorem artifact_roundtrip_witness:
  "\<exists>rc w1 w2 w3 w4. ap_publish (sp_artifacts (st_publisher fake_store)) ex_artifact_publication (PayloadBytes ''abc'') PNone PNone empty_fake
      = (Inr rc, w1)
    \<and> ac_exact fake_consumer ex_identity w1 = (Inr \<lparr>rs_resource = rc_resource rc, rs_channel = None\<rparr>, w2)
    \<and> ac_read fake_consumer (Resolved \<lparr>rs_resource = rc_resource rc, rs_channel = None\<rparr>) w2 = Some (Inr ''abc'', w3)
    \<and> ac_range_read fake_consumer (Stored (rc_resource rc)) ex_range w2 = (Inr ''bc'', w4)"
proof -
  let ?pub = "sp_artifacts (st_publisher fake_store)" and ?c = "ex_artifact\<lparr>sr_record_version := PNone\<rparr>"
  have wired: "artifact_wired fake_metadata fake_valid fake_rows ?pub" "consumer_wired fake_metadata fake_consumer"
    using fake_plugin.mk_resource_store_wired [OF fake_store_built [of empty_fake] fake_store_ok(3,2)]
    by (simp_all add: fake_plugin.store_wiredD)
  have clocks: "steady fake_valid fake_rows fake_up fake_object fake_held (ap_clock ?pub)"
    "steady fake_valid fake_rows fake_up fake_object fake_held (cr_clock (ap_channels ?pub))"
    using ticking_fake_now
    by (simp_all add: steady_def fake_now_def keeps_pret fake_store_def mk_artifact_publisher_def fake_channels_def mk_channel_repository_def)
  have empty: "promotion_ready fake_metadata fake_rows empty_fake ex_artifact_publication ?c"
    "unused ''provenanceId'' (identity_resource_id ex_identity) (fake_rows (mr_provenance_resource fake_metadata) empty_fake)"
    "fake_object empty_fake (identity_object_id ex_identity) = None"
    by (simp_all add: promotion_ready_def ex_artifact_publication_def ex_publication_def unused_def fake_rows_def
        fake_table_of_def fake_known_def get_table_def empty_fake_def fake_metadata_def fake_object_def)
  have pub: "publication_ok reference_external ex_artifact_publication"
    using ex_publication_ok by (simp add: publication_ok_def ex_artifact_publication_def)
  have cand: "make_candidate reference_external (ap_clock ?pub) ex_identity ARTIFACT_PROFILE ex_artifact_publication
      ''application/octet-stream'' (sha256_digest ''abc'') 3 PNone None (Some ex_object_ref) empty_fake = (Inr ?c, empty_fake)"
    using ex_artifact_candidate by (simp add: ap_candidate_def fake_store_def mk_artifact_publisher_def fake_metadata_def)
  have range: "x_range_length reference_external ex_range 3 = Inr 2" "fake_part ex_range ''abc'' = ''bc''"
    by (simp_all add: reference_external_def resolve_range_def ex_range_def fake_part_def)
  have env: "mr_ext fake_metadata = reference_external" "ob_resource (ap_objects ?pub) = OBJECT_RESOURCE"
    "ob_resource (ac_objects fake_consumer) = OBJECT_RESOURCE" "match_declared d 3 PNone PNone = Inr ()"
    "object_of OBJECT_RESOURCE (identity_object_id ex_identity) ''abc'' = ex_object_ref"
    for d
    by (simp_all add: fake_metadata_def fake_store_def mk_artifact_publisher_def fake_objects_def match_declared_def
        object_of_def ex_object_ref_def)
  from artifact_roundtrip [where p = ex_artifact_publication and b = "''abc''" and dg = PNone and n = PNone and w = empty_fake
        and pub = ?pub and con = fake_consumer and i = ex_identity and media = "''application/octet-stream''" and c = ?c
        and u = empty_fake,
        OF fake_object_catalog.object_catalog_axioms empty_fake_ok ex_up(1) wired env(2,3) clocks]
  obtain rc w1 w2 w3 where "ap_publish ?pub ex_artifact_publication (PayloadBytes ''abc'') PNone PNone empty_fake = (Inr rc, w1)"
    "ac_exact fake_consumer ex_identity w1 = (Inr \<lparr>rs_resource = rc_resource rc, rs_channel = None\<rparr>, w2)"
    "ac_read fake_consumer (Resolved \<lparr>rs_resource = rc_resource rc, rs_channel = None\<rparr>) w2 = Some (Inr ''abc'', w3)"
    "\<And>rng k. x_range_length reference_external rng 3 = Inr k \<Longrightarrow>
       \<exists>w4. ac_range_read fake_consumer (Stored (rc_resource rc)) rng w2 = (Inr (fake_part rng ''abc''), w4)"
    using pub cand empty env(1,4,5) ex_artifact_parts ex_artifact_args ex_published_catalogue(2) by auto
  with range show ?thesis by metis
qed

end
