(* ===== verification/Scripts.thy ===== *)
theory Scripts
  imports Errors Hashing PyJson Timestamps
begin

text \<open>
  The standard library the release scripts under \<open>src/scripts\<close> use, and the checks they share. A
  directory is the list of its entries: a regular file with its bytes, or something that cannot be
  read as one. File texts are UTF-8 bytes; \<open>split_lines\<close> is \<open>read_text().splitlines()\<close>, which
  breaks at every line boundary of \<open>str\<close>, not at newlines only.
\<close>

type_synonym directory = "(string \<times> string option) list"

definition assertion_error :: "string \<Rightarrow> exn" where
  "assertion_error m = OtherException (''AssertionError: '' @ m)"

text \<open>\<open>_require\<close>.\<close>

definition require :: "bool \<Rightarrow> string \<Rightarrow> (exn, unit) result" where
  "require condition message = ensure condition (assertion_error message)"

lemma require_Inr_iff [flow]: "require b m = Inr u \<longleftrightarrow> b"
  by (simp add: require_def flow)

lemma require_Inl_iff [flow]: "require b m = Inl e \<longleftrightarrow> \<not> b \<and> e = assertion_error m"
  by (auto simp: require_def flow)

lemma require_simps [simp]: "require True m = Inr ()" "require False m = Inl (assertion_error m)"
  by (simp_all add: require_def)

section \<open>Values of parsed JSON\<close>

text \<open>\<open>value[key]\<close>, for what \<open>json.loads\<close> can return.\<close>

definition py_item :: "pyval \<Rightarrow> string \<Rightarrow> (exn, pyval) result" where
  "py_item v k = (case v of
     PDict d \<Rightarrow> (case map_of d k of None \<Rightarrow> Inl (KeyError k) | Some x \<Rightarrow> Inr x)
   | _ \<Rightarrow> Inl (TypeError ''value is not subscriptable by a string''))"

lemma py_item_Inr_iff [flow]: "py_item v k = Inr x \<longleftrightarrow> (\<exists>d. v = PDict d \<and> map_of d k = Some x)"
  by (cases v) (auto simp: py_item_def split: option.splits)

definition load_json :: "string \<Rightarrow> (exn, pyval) result" where
  "load_json b = (case json_loads b of None \<Rightarrow> Inl (ValueError ''invalid JSON'') | Some v \<Rightarrow> Inr v)"

lemma load_json_Inr_iff [flow]: "load_json b = Inr v \<longleftrightarrow> json_loads b = Some v"
  by (simp add: load_json_def split: option.split)

lemma py_eq_PStr [simp]: "py_eq v (PStr s) \<longleftrightarrow> v = PStr s"
  by (cases v) (auto simp: scalar_eq_def num_view_def split: pyfloat.splits option.splits)

section \<open>Files\<close>

definition read_bytes :: "directory \<Rightarrow> string \<Rightarrow> (exn, string) result" where
  "read_bytes dir name = (case map_of dir name of
     None \<Rightarrow> Inl (OtherException ''FileNotFoundError'')
   | Some None \<Rightarrow> Inl (OtherException ''IsADirectoryError'')
   | Some (Some b) \<Rightarrow> Inr b)"

lemma read_bytes_Inr_iff [flow]: "read_bytes dir name = Inr b \<longleftrightarrow> map_of dir name = Some (Some b)"
  by (auto simp: read_bytes_def split: option.splits)

fun split_at :: "char \<Rightarrow> string \<Rightarrow> string \<Rightarrow> string list" where
  "split_at c acc [] = [rev acc]"
| "split_at c acc (x # s) = (if x = c then rev acc # split_at c [] s else split_at c (x # acc) s)"

text \<open>\<open>Path(s).name\<close>: the last component that is neither empty nor \<open>.\<close>.\<close>

definition path_name :: "string \<Rightarrow> string" where
  "path_name s = (case rev (filter (\<lambda>p. p \<noteq> [] \<and> p \<noteq> ''.'') (split_at CHR ''/'' [] s)) of
     [] \<Rightarrow> [] | p # _ \<Rightarrow> p)"

definition ends_with :: "string \<Rightarrow> string \<Rightarrow> bool" where
  "ends_with p s = (length p \<le> length s \<and> drop (length s - length p) s = p)"

definition remove_prefix :: "string \<Rightarrow> string \<Rightarrow> string" where
  "remove_prefix p s = (if take (length p) s = p then drop (length p) s else s)"

text \<open>The length of the line boundary a text begins with, 0 if it begins with none.\<close>

fun line_break :: "string \<Rightarrow> nat" where
  "line_break [] = 0"
| "line_break (c # s) =
     (let n = of_char c :: nat; next = map of_char (take 2 s) :: nat list in
      if n = 13 then (if take 1 next = [10] then 2 else 1)
      else if n \<in> {10, 11, 12, 28, 29, 30} then 1
      else if n = 0xC2 \<and> take 1 next = [0x85] then 2
      else if n = 0xE2 \<and> (take 2 next = [0x80, 0xA8] \<or> take 2 next = [0x80, 0xA9]) then 3
      else 0)"

function split_lines :: "string \<Rightarrow> string \<Rightarrow> string list" where
  "split_lines acc [] = (if acc = [] then [] else [rev acc])"
| "split_lines acc (c # s) =
     (if line_break (c # s) = 0 then split_lines (c # acc) s
      else rev acc # split_lines [] (drop (line_break (c # s)) (c # s)))"
  by pat_completeness auto
termination
  by (relation "measure (\<lambda>(acc, s). length s)") auto

text \<open>\<open>line.split("  ", 1)\<close>, when the line has two spaces.\<close>

fun cut_two_spaces :: "string \<Rightarrow> (string \<times> string) option" where
  "cut_two_spaces [] = None"
| "cut_two_spaces (c # s) =
     (if c = CHR '' '' \<and> take 1 s = '' '' then Some ([], tl s)
      else map_option (\<lambda>(a, b). (c # a, b)) (cut_two_spaces s))"

section \<open>\<open>datetime.fromtimestamp(epoch, UTC).strftime("%Y-%m-%dT%H:%M:%SZ")\<close>\<close>

text \<open>
  The whole seconds of a POSIX timestamp. A float is rounded half to even to microseconds, its
  fraction having been multiplied by a million in double precision first.
\<close>

definition float_seconds :: "bool \<Rightarrow> int \<Rightarrow> int \<Rightarrow> int" where
  "float_seconds negative m e =
     (if 0 \<le> e then (if negative then - (m * 2 ^ nat e) else m * 2 ^ nat e)
      else let q = 2 ^ nat (- e); whole = m div q; p = m mod q * 1000000;
               r = 2 ^ nat (bit_len p - 53);
               micros = round_half_even (round_half_even p r * r) q in
        if negative then (if micros = 0 then - whole else - whole - 1)
        else if 1000000 \<le> micros then whole + 1 else whole)"

definition epoch_seconds :: "pyval \<Rightarrow> (exn, int) result" where
  "epoch_seconds v = (case v of
     PInt i \<Rightarrow> Inr i
   | PBool b \<Rightarrow> Inr (if b then 1 else 0)
   | PFloat (FFin negative m e) \<Rightarrow> Inr (float_seconds negative m e)
   | PFloat FNaN \<Rightarrow> Inl (ValueError ''cannot convert float NaN to integer'')
   | PFloat (FInf s) \<Rightarrow> Inl (OtherException ''OverflowError'')
   | _ \<Rightarrow> Inl (TypeError ''timestamp must be a number''))"

text \<open>
  Outside the years 1 to 9999 the standard library raises \<open>ValueError\<close>, \<open>OverflowError\<close> or
  \<open>OSError\<close>, by how far; the model has one exception for the three.
\<close>

definition civil_of_epoch :: "int \<Rightarrow> (exn, civil) result" where
  "civil_of_epoch s = (let day = 719163 + s div 86400 in
     if 1 \<le> day \<and> day \<le> 3652059 then Inr (civil_of_micros ((719163 * 86400 + s) * 1000000))
     else Inl (OtherException ''timestamp out of range''))"

definition format_seconds :: "civil \<Rightarrow> string" where
  "format_seconds c = pad 4 (c_year c) @ ''-'' @ pad 2 (c_month c) @ ''-'' @ pad 2 (c_day c) @ ''T''
     @ pad 2 (c_hour c) @ '':'' @ pad 2 (c_minute c) @ '':'' @ pad 2 (c_second c) @ ''Z''"

definition epoch_text :: "pyval \<Rightarrow> (exn, string) result" where
  "epoch_text v = rbind (epoch_seconds v) (\<lambda>s. rbind (civil_of_epoch s) (\<lambda>c. Inr (format_seconds c)))"

end
