(* ===== verification/Evidence.thy ===== *)
theory Evidence
  imports Scripts Canonical
begin

text \<open>
  \<open>scripts/verify_release_evidence.py\<close> and \<open>scripts/compare_artifacts.py\<close>: the checks of a release
  directory against its checked-in evidence, and of two builds against each other. \<open>release_ok\<close> says
  without loops and early exits what an accepted release is; \<open>verify_release_evidence\<close> decides it.
\<close>

definition sums_name :: string where
  "sums_name = ''SHA256SUMS''"

definition is_distribution :: "string \<Rightarrow> bool" where
  "is_distribution name = (ends_with ''.whl'' name \<or> ends_with ''.tar.gz'' name)"

definition check_artifact :: "directory \<Rightarrow> string \<times> pyval \<Rightarrow> (exn, unit) result" where
  "check_artifact dir p =
     rbind (require (fst p = path_name (fst p)) ''unsafe artifact name in evidence'') (\<lambda>_.
     rbind (read_bytes dir (fst p)) (\<lambda>b.
     require (py_eq (snd p) (PStr (''sha256:'' @ sha256_hex b))) ''hash differs''))"

definition distribution_digest :: "string \<times> pyval \<Rightarrow> (exn, string \<times> string) result" where
  "distribution_digest p = (case snd p of
     PStr d \<Rightarrow> Inr (fst p, remove_prefix ''sha256:'' d)
   | _ \<Rightarrow> Inl (OtherException ''AttributeError''))"

definition checksum_entry :: "string \<Rightarrow> (exn, string \<times> string) result" where
  "checksum_entry line = (case cut_two_spaces line of
     None \<Rightarrow> Inl (ValueError ''dictionary update sequence element has length 1; 2 is required'')
   | Some (h, name) \<Rightarrow> Inr (name, h))"

text \<open>\<open>dict(pairs)\<close>: a later pair replaces the value of an earlier one.\<close>

definition dict_of_pairs :: "(string \<times> 'v) list \<Rightarrow> 'v dict" where
  "dict_of_pairs ps = foldl (\<lambda>d p. AList.update (fst p) (snd p) d) [] ps"

definition read_checksums :: "string \<Rightarrow> (exn, string dict) result" where
  "read_checksums text =
     rbind (if utf8_valid text then Inr (split_lines [] text)
       else Inl (ValueError ''UnicodeDecodeError'')) (\<lambda>lines.
     rbind (rmap checksum_entry lines) (\<lambda>ps. Inr (dict_of_pairs ps)))"

definition check_distributions :: "pyval dict \<Rightarrow> directory \<Rightarrow> (exn, unit) result" where
  "check_distributions expected dir =
     rbind (rmap distribution_digest (filter (\<lambda>p. is_distribution (fst p)) expected)) (\<lambda>distributions.
     rbind (require (length distributions = 2) ''evidence must identify one wheel and one sdist'') (\<lambda>_.
     rbind (read_bytes dir sums_name) (\<lambda>text.
     rbind (read_checksums text) (\<lambda>checksums.
     require (smap_eq checksums distributions) ''SHA256SUMS differs from distribution evidence''))))"

definition check_sbom :: "pyval dict \<Rightarrow> directory \<Rightarrow> string \<Rightarrow> (exn, unit) result" where
  "check_sbom expected dir generated_at =
     (let names = filter (ends_with ''.spdx.json'') (map fst expected) in
      rbind (require (length names = 1) ''evidence must identify exactly one SPDX JSON SBOM'') (\<lambda>_.
      rbind (read_bytes dir (hd names)) (\<lambda>text.
      rbind (load_json text) (\<lambda>sbom.
      rbind (py_item sbom ''creationInfo'') (\<lambda>info.
      rbind (py_item info ''created'') (\<lambda>created.
      require (py_eq created (PStr generated_at)) ''SBOM timestamp differs from epoch''))))))"

definition artifact_table :: "pyval \<Rightarrow> (exn, pyval dict) result" where
  "artifact_table v = (case v of
     PDict d \<Rightarrow> rbind (require (d \<noteq> []) ''evidence must list release artifacts'') (\<lambda>_. Inr d)
   | _ \<Rightarrow> Inl (assertion_error ''evidence must list release artifacts''))"

lemma artifact_table_Inr_iff [flow]: "artifact_table v = Inr d \<longleftrightarrow> v = PDict d \<and> d \<noteq> []"
  by (cases v) (auto simp: artifact_table_def flow)

definition verify_release_evidence :: "string \<Rightarrow> directory \<Rightarrow> (exn, pyval dict) result" where
  "verify_release_evidence evidence_text dir =
     rbind (load_json evidence_text) (\<lambda>evidence.
     rbind (py_item evidence ''sourceDateEpoch'') (\<lambda>epoch.
     rbind (epoch_text epoch) (\<lambda>generated_at.
     rbind (py_item evidence ''generatedAt'') (\<lambda>stated.
     rbind (require (py_eq stated (PStr generated_at)) ''evidence timestamp differs from epoch'') (\<lambda>_.
     rbind (py_item evidence ''artifacts'') (\<lambda>artifacts.
     rbind (artifact_table artifacts) (\<lambda>expected.
     rbind (require (set (filter (\<lambda>n. n \<noteq> sums_name) (map fst dir)) = set (map fst expected))
       ''release files differ from evidence manifest'') (\<lambda>_.
     rbind (rmap (check_artifact dir) expected) (\<lambda>_.
     rbind (check_sbom expected dir generated_at) (\<lambda>_.
     rbind (check_distributions expected dir) (\<lambda>_.
     Inr [(''artifacts'', PInt (int (length expected))), (''generatedAt'', PStr generated_at),
          (''status'', PStr ''passed'')])))))))))))"

section \<open>Comparing two builds\<close>

text \<open>\<open>path.suffix == ".whl"\<close>: the last dot is not the first character of the name.\<close>

definition has_whl_suffix :: "string \<Rightarrow> bool" where
  "has_whl_suffix name = (ends_with ''.whl'' name \<and> name \<noteq> ''.whl'')"

definition build_hashes :: "directory \<Rightarrow> (exn, string dict) result" where
  "build_hashes dir =
     rmap (\<lambda>p. rbind (read_bytes dir (fst p)) (\<lambda>b. Inr (fst p, sha256_hex b)))
       (filter (\<lambda>p. has_whl_suffix (fst p) \<or> ends_with ''.tar.gz'' (fst p)) (sort_dict dir))"

definition compare_builds :: "directory \<Rightarrow> directory \<Rightarrow> (exn, pyval dict) result" where
  "compare_builds dir1 dir2 =
     rbind (build_hashes dir1) (\<lambda>h1.
     rbind (build_hashes dir2) (\<lambda>h2.
     rbind (ensure (length h1 = 2 \<and> smap_eq h1 h2)
       (OtherException ''SystemExit: distribution artifacts are not reproducible'')) (\<lambda>_.
     Inr [(''artifacts'', PDict (str_dict h1)), (''reproducible'', PBool True)])))"

section \<open>What an accepted release is\<close>

definition file_hash :: "directory \<Rightarrow> string \<Rightarrow> string option" where
  "file_hash dir n = (case map_of dir n of Some (Some b) \<Rightarrow> Some (sha256_hex b) | _ \<Rightarrow> None)"

definition artifacts_ok :: "pyval dict \<Rightarrow> directory \<Rightarrow> bool" where
  "artifacts_ok arts dir \<longleftrightarrow> arts \<noteq> [] \<and> keys dir - {sums_name} = keys arts
     \<and> (\<forall>n \<in> keys arts. path_name n = n
          \<and> (\<exists>h. file_hash dir n = Some h \<and> map_of arts n = Some (PStr (''sha256:'' @ h))))"

definition sbom_ok :: "pyval dict \<Rightarrow> directory \<Rightarrow> string \<Rightarrow> bool" where
  "sbom_ok arts dir at \<longleftrightarrow> (\<exists>n text s i. {x \<in> keys arts. ends_with ''.spdx.json'' x} = {n}
     \<and> map_of dir n = Some (Some text) \<and> json_loads text = Some (PDict s)
     \<and> map_of s ''creationInfo'' = Some (PDict i) \<and> map_of i ''created'' = Some (PStr at))"

definition sums_ok :: "pyval dict \<Rightarrow> directory \<Rightarrow> bool" where
  "sums_ok arts dir \<longleftrightarrow> card {n \<in> keys arts. is_distribution n} = 2
     \<and> (\<exists>text sums. map_of dir sums_name = Some (Some text) \<and> read_checksums text = Inr sums
          \<and> (\<forall>n. map_of sums n = (if n \<in> keys arts \<and> is_distribution n then file_hash dir n else None)))"

definition release_ok :: "pyval \<Rightarrow> directory \<Rightarrow> bool" where
  "release_ok evidence dir \<longleftrightarrow> (\<exists>d epoch at arts. evidence = PDict d
     \<and> map_of d ''sourceDateEpoch'' = Some epoch \<and> epoch_text epoch = Inr at
     \<and> map_of d ''generatedAt'' = Some (PStr at) \<and> map_of d ''artifacts'' = Some (PDict arts)
     \<and> artifacts_ok arts dir \<and> sbom_ok arts dir at \<and> sums_ok arts dir)"

lemma map_of_keyed:
  "map_of (map (\<lambda>p. (fst p, f (fst p))) ps) k = (if k \<in> fst ` set ps then Some (f k) else None)"
  by (induction ps) auto

lemma rmap_returns: "(\<exists>ys. rmap f xs = Inr ys) \<longleftrightarrow> (\<forall>x \<in> set xs. \<exists>y. f x = Inr y)"
  by (induction xs) (auto simp: flow)

lemma smap_eq_maps:
  assumes "distinct (map fst d)" "distinct (map fst d')"
  shows "smap_eq d d' \<longleftrightarrow> map_of d = map_of d'"
proof
  assume same: "map_of d = map_of d'"
  then have "keys d = keys d'" by (metis dom_map_of_conv_image_fst set_map)
  then have "length d = length d'" using assms by (metis distinct_card length_map)
  moreover have "map_of d' (fst p) = Some (snd p)" if "p \<in> set d" for p
    using that same assms(1) by (metis map_of_eq_Some_iff prod.collapse)
  ultimately show "smap_eq d d'" by (simp add: smap_eq_def list_all_iff)
next
  assume eq: "smap_eq d d'"
  then have sub: "map_of d' k = Some v" if "map_of d k = Some v" for k v
    using map_of_SomeD [OF that] by (auto simp: smap_eq_def list_all_iff)
  then have "keys d \<subseteq> keys d'" using map_of_is_Some_iff by (metis subsetI)
  moreover have "card (keys d) = card (keys d')"
    using eq distinct_card [OF assms(1)] distinct_card [OF assms(2)] by (simp add: smap_eq_def)
  ultimately have "keys d = keys d'" by (simp add: card_subset_eq)
  then have "map_of d k = map_of d' k" for k using sub map_of_is_Some_iff [of d k] map_of_is_Some_iff [of d' k]
    by (cases "map_of d k"; cases "map_of d' k") auto
  then show "map_of d = map_of d'" by (rule ext)
qed

lemma distinct_dict_of_pairs:
  fixes ps :: "(string \<times> 'v) list"
  shows "distinct (map fst (dict_of_pairs ps))"
proof -
  have "distinct (map fst (foldl (\<lambda>d p. AList.update (fst p) (snd p) d) d ps))" if "distinct (map fst d)" for d :: "'v dict"
    using that by (induction ps arbitrary: d) (simp_all add: distinct_update)
  then show ?thesis by (simp add: dict_of_pairs_def)
qed

lemma read_checksums_distinct: "read_checksums text = Inr sums \<Longrightarrow> distinct (map fst sums)"
  by (auto simp: read_checksums_def flow distinct_dict_of_pairs)

lemma remove_prefix_append [simp]: "remove_prefix p (p @ s) = s"
  by (simp add: remove_prefix_def)

lemma check_artifact_iff:
  "check_artifact dir p = Inr u \<longleftrightarrow> path_name (fst p) = fst p
     \<and> (\<exists>h. file_hash dir (fst p) = Some h \<and> snd p = PStr (''sha256:'' @ h))"
  by (auto simp: check_artifact_def flow file_hash_def split: option.splits)

lemma distinct_filter_card:
  "distinct (map fst d) \<Longrightarrow> length (filter (\<lambda>p. P (fst p)) d) = card {n \<in> keys d. P n}"
proof -
  assume "distinct (map fst d)"
  then have "distinct (filter P (map fst d))" by simp
  then have "length (filter P (map fst d)) = card (set (filter P (map fst d)))" by (rule distinct_card [symmetric])
  also have "set (filter P (map fst d)) = {n \<in> keys d. P n}" by auto
  finally show ?thesis by (simp add: filter_map o_def)
qed

lemma distinct_singleton: "distinct xs \<Longrightarrow> length xs = 1 \<and> hd xs = n \<longleftrightarrow> set xs = {n}"
proof (cases xs)
  case (Cons x ys)
  assume "distinct xs"
  with Cons show ?thesis by (cases ys) auto
qed simp

lemma check_sbom_iff:
  assumes "distinct (map fst arts)"
  shows "check_sbom arts dir at = Inr u \<longleftrightarrow> sbom_ok arts dir at"
proof -
  let ?P = "ends_with ''.spdx.json''"
  have one: "length (filter ?P (map fst arts)) = 1 \<and> hd (filter ?P (map fst arts)) = n \<longleftrightarrow> {x \<in> keys arts. ?P x} = {n}" for n
  proof -
    have "distinct (filter ?P (map fst arts))" using assms by simp
    moreover have "set (filter ?P (map fst arts)) = {x \<in> keys arts. ?P x}" by auto
    ultimately show ?thesis using distinct_singleton [of "filter ?P (map fst arts)" n] by simp
  qed
  define ns where "ns = filter ?P (map fst arts)"
  have "check_sbom arts dir at = Inr u \<longleftrightarrow> length ns = 1 \<and> (\<exists>text s i. map_of dir (hd ns) = Some (Some text)
      \<and> json_loads text = Some (PDict s) \<and> map_of s ''creationInfo'' = Some (PDict i)
      \<and> map_of i ''created'' = Some (PStr at))"
    unfolding check_sbom_def ns_def [symmetric] Let_def by (auto simp: flow)
  also have "\<dots> \<longleftrightarrow> sbom_ok arts dir at"
    unfolding sbom_ok_def one [folded ns_def, symmetric] by auto
  finally show ?thesis .
qed

lemma check_distributions_iff:
  assumes "distinct (map fst arts)" "artifacts_ok arts dir"
  shows "check_distributions arts dir = Inr u \<longleftrightarrow> sums_ok arts dir"
proof -
  let ?ds = "filter (\<lambda>p. is_distribution (fst p)) arts"
  have hash: "\<exists>h. file_hash dir (fst p) = Some h \<and> snd p = PStr (''sha256:'' @ h)" if "p \<in> set arts" for p
  proof -
    from that have "map_of arts (fst p) = Some (snd p)" "fst p \<in> keys arts" using assms(1) by simp_all
    with assms(2) show ?thesis by (fastforce simp: artifacts_ok_def)
  qed
  define hs where "hs = map (\<lambda>p. (fst p, the (file_hash dir (fst p)))) ?ds"
  have read: "rmap distribution_digest ?ds = Inr hs"
    unfolding hs_def
  proof (rule rmap_cong_Inr)
    fix p assume "p \<in> set ?ds"
    then obtain h where "file_hash dir (fst p) = Some h" "snd p = PStr (''sha256:'' @ h)" using hash [of p] by auto
    then show "distribution_digest p = Inr (fst p, the (file_hash dir (fst p)))" by (simp add: distribution_digest_def remove_prefix_def)
  qed
  have dist: "distinct (map fst hs)"
  proof -
    have "map fst hs = filter is_distribution (map fst arts)" by (simp add: hs_def o_def filter_map)
    with assms(1) show ?thesis by simp
  qed
  have maps: "map_of hs n = (if n \<in> keys arts \<and> is_distribution n then file_hash dir n else None)" for n
  proof -
    have "\<exists>h. file_hash dir n = Some h" if "n \<in> keys arts" using that assms(2) by (auto simp: artifacts_ok_def)
    then show ?thesis by (auto simp: hs_def map_of_keyed [where f = "\<lambda>n. the (file_hash dir n)"])
  qed
  have two: "length hs = card {n \<in> keys arts. is_distribution n}"
    using distinct_filter_card [OF assms(1)] by (simp add: hs_def)
  have eq: "smap_eq sums hs \<longleftrightarrow> (\<forall>n. map_of sums n = (if n \<in> keys arts \<and> is_distribution n then file_hash dir n else None))"
    if "read_checksums t = Inr sums" for t sums
    using smap_eq_maps [OF read_checksums_distinct [OF that] dist] by (simp add: fun_eq_iff maps)
  have "check_distributions arts dir = Inr u \<longleftrightarrow> length hs = 2
      \<and> (\<exists>text sums. map_of dir sums_name = Some (Some text) \<and> read_checksums text = Inr sums \<and> smap_eq sums hs)"
    by (auto simp: check_distributions_def read flow)
  then show ?thesis unfolding sums_ok_def two using eq by blast
qed

text \<open>The script accepts a release exactly if it is one, whatever the evidence text is.\<close>

lemma dict_ball:
  assumes "distinct (map fst d)"
  shows "(\<forall>n \<in> keys d. Q n (map_of d n)) \<longleftrightarrow> (\<forall>p \<in> set d. Q (fst p) (Some (snd p)))"
proof -
  have "map_of d (fst p) = Some (snd p)" if "p \<in> set d" for p using assms that by simp
  then have "(\<forall>p \<in> set d. Q (fst p) (map_of d (fst p))) \<longleftrightarrow> (\<forall>p \<in> set d. Q (fst p) (Some (snd p)))" by simp
  then show ?thesis by simp
qed

lemma artifacts_ok_iff:
  assumes "distinct (map fst arts)"
  shows "artifacts_ok arts dir \<longleftrightarrow> arts \<noteq> [] \<and> set (filter (\<lambda>n. n \<noteq> sums_name) (map fst dir)) = keys arts
    \<and> (\<forall>p \<in> set arts. \<exists>u. check_artifact dir p = Inr u)"
proof -
  have "set (filter (\<lambda>n. n \<noteq> sums_name) (map fst dir)) = keys dir - {sums_name}" by auto
  moreover have "(\<forall>n \<in> keys arts. path_name n = n
      \<and> (\<exists>h. file_hash dir n = Some h \<and> map_of arts n = Some (PStr (''sha256:'' @ h))))
    \<longleftrightarrow> (\<forall>p \<in> set arts. \<exists>u. check_artifact dir p = Inr u)"
    using dict_ball [OF assms, of "\<lambda>n v. path_name n = n \<and> (\<exists>h. file_hash dir n = Some h \<and> v = Some (PStr (''sha256:'' @ h)))"]
    by (simp add: check_artifact_iff)
  ultimately show ?thesis by (simp add: artifacts_ok_def)
qed

lemma verify_release_iff:
  "(\<exists>out. verify_release_evidence text dir = Inr out) \<longleftrightarrow> (\<exists>ev. json_loads text = Some ev \<and> release_ok ev dir)"
proof -
  have one: "(\<exists>out. verify_release_evidence text dir = Inr out) \<longleftrightarrow>
      (\<exists>d epoch at arts. json_loads text = Some (PDict d) \<and> map_of d ''sourceDateEpoch'' = Some epoch \<and> epoch_text epoch = Inr at
        \<and> map_of d ''generatedAt'' = Some (PStr at) \<and> map_of d ''artifacts'' = Some (PDict arts) \<and> arts \<noteq> []
        \<and> set (filter (\<lambda>n. n \<noteq> sums_name) (map fst dir)) = keys arts
        \<and> (\<exists>us. rmap (check_artifact dir) arts = Inr us)
        \<and> check_sbom arts dir at = Inr () \<and> check_distributions arts dir = Inr ())"
    (is "_ \<longleftrightarrow> (\<exists>d epoch at arts. ?ok d epoch at arts)")
  proof
    assume "\<exists>out. verify_release_evidence text dir = Inr out"
    then show "\<exists>d epoch at arts. ?ok d epoch at arts"
      by (auto simp: verify_release_evidence_def flow)
  next
    assume "\<exists>d epoch at arts. ?ok d epoch at arts"
    then show "\<exists>out. verify_release_evidence text dir = Inr out"
      by (auto simp: verify_release_evidence_def py_item_def load_json_def artifact_table_def require_def)
  qed
  have dist: "distinct (map fst arts)" if "json_loads text = Some (PDict d)" "map_of d ''artifacts'' = Some (PDict arts)" for d arts
    using json_loads_data [OF that(1)] map_of_SomeD [OF that(2)] by (fastforce simp: list_all_iff)
  have two: "?ok d epoch at arts \<longleftrightarrow> json_loads text = Some (PDict d) \<and> map_of d ''sourceDateEpoch'' = Some epoch
      \<and> epoch_text epoch = Inr at \<and> map_of d ''generatedAt'' = Some (PStr at) \<and> map_of d ''artifacts'' = Some (PDict arts)
      \<and> artifacts_ok arts dir \<and> sbom_ok arts dir at \<and> sums_ok arts dir" for d epoch at arts
  proof (cases "json_loads text = Some (PDict d) \<and> map_of d ''artifacts'' = Some (PDict arts)")
    case True
    then have d: "distinct (map fst arts)" using dist by blast
    then show ?thesis
      using artifacts_ok_iff [OF d] check_sbom_iff [OF d] check_distributions_iff [OF d] rmap_returns [of "check_artifact dir" arts]
      by auto
  qed auto
  show ?thesis unfolding one two release_ok_def by blast
qed

section \<open>Releases and reproducible builds\<close>

text \<open>One evidence file pins every file of a release but the checksum list itself.\<close>

lemma artifacts_okD:
  assumes "artifacts_ok arts dir" "n \<in> keys dir - {sums_name}"
  obtains h where "file_hash dir n = Some h" "map_of arts n = Some (PStr (''sha256:'' @ h))"
  using assms unfolding artifacts_ok_def by blast

lemma release_ok_pins:
  assumes "release_ok evidence dir1" "release_ok evidence dir2"
  shows "keys dir1 - {sums_name} = keys dir2 - {sums_name}"
    "n \<in> keys dir1 - {sums_name} \<Longrightarrow> file_hash dir1 n \<noteq> None \<and> file_hash dir1 n = file_hash dir2 n"
proof -
  from assms obtain arts where arts: "artifacts_ok arts dir1" "artifacts_ok arts dir2"
    by (auto simp: release_ok_def)
  then show "keys dir1 - {sums_name} = keys dir2 - {sums_name}" by (simp add: artifacts_ok_def)
  assume n: "n \<in> keys dir1 - {sums_name}"
  with \<open>keys dir1 - {sums_name} = keys dir2 - {sums_name}\<close> have "n \<in> keys dir2 - {sums_name}" by blast
  from artifacts_okD [OF arts(2) this] obtain h2 where "file_hash dir2 n = Some h2" "map_of arts n = Some (PStr (''sha256:'' @ h2))" .
  moreover from artifacts_okD [OF arts(1) n] obtain h1
    where "file_hash dir1 n = Some h1" "map_of arts n = Some (PStr (''sha256:'' @ h1))" .
  ultimately show "file_hash dir1 n \<noteq> None \<and> file_hash dir1 n = file_hash dir2 n" by simp
qed

definition is_build :: "string \<Rightarrow> bool" where
  "is_build n \<longleftrightarrow> has_whl_suffix n \<or> ends_with ''.tar.gz'' n"

lemma is_build_distribution: "n \<noteq> ''.whl'' \<Longrightarrow> is_build n = is_distribution n"
  by (simp add: is_build_def is_distribution_def has_whl_suffix_def)

lemma build_hashes_iff:
  assumes "distinct (map fst dir)"
  shows "(\<exists>hs. build_hashes dir = Inr hs) \<longleftrightarrow> (\<forall>n \<in> keys dir. is_build n \<longrightarrow> file_hash dir n \<noteq> None)"
    "build_hashes dir = Inr hs \<Longrightarrow> distinct (map fst hs) \<and> length hs = card {n \<in> keys dir. is_build n}
      \<and> (\<forall>n. map_of hs n = (if n \<in> keys dir \<and> is_build n then file_hash dir n else None))"
proof -
  let ?f = "\<lambda>p. rbind (read_bytes dir (fst p)) (\<lambda>b. Inr (fst p, sha256_hex b))"
  let ?ps = "filter (\<lambda>p. is_build (fst p)) (sort_dict dir)"
  have f: "?f p = Inr q \<longleftrightarrow> fst q = fst p \<and> file_hash dir (fst p) = Some (snd q)" for p q
    by (cases q) (auto simp: flow file_hash_def split: option.splits)
  have def: "build_hashes dir = rmap ?f ?ps" by (simp add: build_hashes_def is_build_def)
  show "(\<exists>hs. build_hashes dir = Inr hs) \<longleftrightarrow> (\<forall>n \<in> keys dir. is_build n \<longrightarrow> file_hash dir n \<noteq> None)"
    unfolding def rmap_returns f by (auto simp: ball_simps)
  assume "build_hashes dir = Inr hs"
  then have all: "list_all2 (\<lambda>p q. fst q = fst p \<and> file_hash dir (fst p) = Some (snd q)) ?ps hs"
    unfolding def rmap_Inr_iff f .
  then have names: "map fst hs = map fst ?ps" by (induction rule: list_all2_induct) simp_all
  have "map fst ?ps = filter is_build (map fst (sort_dict dir))" by (simp add: filter_map o_def)
  with names have dist: "distinct (map fst hs)" using assms by simp
  have keys: "keys hs = {n \<in> keys dir. is_build n}" using names by (metis (no_types) \<open>map fst ?ps = _\<close> set_filter keys_sort_dict)
  have "file_hash dir (fst q) = Some (snd q)" if "q \<in> set hs" for q
    using all that by (induction rule: list_all2_induct) auto
  then have val: "map_of hs n = file_hash dir n" if "n \<in> keys hs" for n
    using that dist by (auto simp: map_of_eq_Some_iff [OF dist])
  have "map_of hs n = (if n \<in> keys dir \<and> is_build n then file_hash dir n else None)" for n
    using val [of n] map_of_eq_None_iff [of hs n] keys by auto
  moreover have "length hs = card {n \<in> keys dir. is_build n}"
    using distinct_card [OF dist] unfolding keys by simp
  ultimately show "distinct (map fst hs) \<and> length hs = card {n \<in> keys dir. is_build n}
      \<and> (\<forall>n. map_of hs n = (if n \<in> keys dir \<and> is_build n then file_hash dir n else None))"
    using dist by blast
qed

lemma compare_builds_iff:
  assumes "distinct (map fst dir1)" "distinct (map fst dir2)"
  shows "(\<exists>out. compare_builds dir1 dir2 = Inr out) \<longleftrightarrow>
      (let bs = {n \<in> keys dir1. is_build n} in bs = {n \<in> keys dir2. is_build n} \<and> card bs = 2
        \<and> (\<forall>n \<in> bs. file_hash dir1 n \<noteq> None \<and> file_hash dir1 n = file_hash dir2 n))"
proof -
  define B1 B2 where "B1 = {n \<in> keys dir1. is_build n}" and "B2 = {n \<in> keys dir2. is_build n}"
  note b1 = build_hashes_iff [OF assms(1)] and b2 = build_hashes_iff [OF assms(2)]
  have run: "(\<exists>out. compare_builds dir1 dir2 = Inr out) \<longleftrightarrow>
      (\<exists>h1 h2. build_hashes dir1 = Inr h1 \<and> build_hashes dir2 = Inr h2 \<and> length h1 = 2 \<and> smap_eq h1 h2)"
    by (auto simp: compare_builds_def flow)
  have eq: "length h1 = 2 \<and> smap_eq h1 h2 \<longleftrightarrow> B1 = B2 \<and> card B1 = 2 \<and> (\<forall>n \<in> B1. file_hash dir1 n = file_hash dir2 n)"
    if h: "build_hashes dir1 = Inr h1" "build_hashes dir2 = Inr h2" for h1 h2
  proof -
    have m: "map_of h1 n = (if n \<in> B1 then file_hash dir1 n else None)" "map_of h2 n = (if n \<in> B2 then file_hash dir2 n else None)" for n
      using b1(2) [OF h(1)] b2(2) [OF h(2)] by (simp_all add: B1_def B2_def)
    have some: "n \<in> B1 \<Longrightarrow> file_hash dir1 n \<noteq> None" "n \<in> B2 \<Longrightarrow> file_hash dir2 n \<noteq> None" for n
      using b1(1) b2(1) h by (auto simp: B1_def B2_def)
    have "smap_eq h1 h2 \<longleftrightarrow> map_of h1 = map_of h2" using b1(2) [OF h(1)] b2(2) [OF h(2)] by (simp add: smap_eq_maps)
    also have "\<dots> \<longleftrightarrow> B1 = B2 \<and> (\<forall>n \<in> B1. file_hash dir1 n = file_hash dir2 n)"
    proof -
      have "(if n \<in> B1 then file_hash dir1 n else None) = (if n \<in> B2 then file_hash dir2 n else None)
          \<longleftrightarrow> (n \<in> B1 \<longleftrightarrow> n \<in> B2) \<and> (n \<in> B1 \<longrightarrow> file_hash dir1 n = file_hash dir2 n)" for n
        using some [of n] by (cases "n \<in> B1"; cases "n \<in> B2") auto
      then show ?thesis unfolding fun_eq_iff m by blast
    qed
    finally show ?thesis using b1(2) [OF h(1)] by (auto simp: B1_def)
  qed
  have ex: "(\<exists>h1 h2. build_hashes dir1 = Inr h1 \<and> build_hashes dir2 = Inr h2)
      \<longleftrightarrow> (\<forall>n \<in> B1. file_hash dir1 n \<noteq> None) \<and> (\<forall>n \<in> B2. file_hash dir2 n \<noteq> None)"
    using b1(1) b2(1) by (auto simp: B1_def B2_def)
  have "(\<exists>h1 h2. build_hashes dir1 = Inr h1 \<and> build_hashes dir2 = Inr h2 \<and> length h1 = 2 \<and> smap_eq h1 h2)
      \<longleftrightarrow> B1 = B2 \<and> card B1 = 2 \<and> (\<forall>n \<in> B1. file_hash dir1 n \<noteq> None \<and> file_hash dir1 n = file_hash dir2 n)"
    (is "?L \<longleftrightarrow> ?R")
  proof
    assume ?L
    then obtain h1 h2 where h: "build_hashes dir1 = Inr h1" "build_hashes dir2 = Inr h2" "length h1 = 2 \<and> smap_eq h1 h2" by blast
    from h(1,2) ex have "\<forall>n \<in> B1. file_hash dir1 n \<noteq> None" by blast
    with h(3) eq [OF h(1,2)] show ?R by blast
  next
    assume r: ?R
    then have "(\<forall>n \<in> B1. file_hash dir1 n \<noteq> None) \<and> (\<forall>n \<in> B2. file_hash dir2 n \<noteq> None)" by metis
    with ex obtain h1 h2 where h: "build_hashes dir1 = Inr h1" "build_hashes dir2 = Inr h2" by blast
    with r eq [OF h] show ?L by blast
  qed
  with run show ?thesis unfolding Let_def B1_def [symmetric] B2_def [symmetric] by simp
qed

text \<open>Two releases accepted with one evidence file are reproductions of each other.\<close>

lemma release_ok_reproducible:
  assumes "release_ok evidence dir1" "release_ok evidence dir2" "distinct (map fst dir1)" "distinct (map fst dir2)"
    "''.whl'' \<notin> keys dir1"
  shows "\<exists>out. compare_builds dir1 dir2 = Inr out"
proof -
  note pins = release_ok_pins [OF assms(1,2)]
  from assms(1) obtain arts where arts: "artifacts_ok arts dir1" "card {n \<in> keys arts. is_distribution n} = 2"
    by (auto simp: release_ok_def sums_ok_def)
  have sums: "\<not> is_build sums_name" "''.whl'' \<noteq> sums_name" by code_simp+
  have builds: "{n \<in> keys dir. is_build n} = {n \<in> keys dir - {sums_name}. is_build n}" for dir :: directory
    using sums by auto
  have arts': "keys dir1 - {sums_name} = keys arts" using arts(1) by (simp add: artifacts_ok_def)
  then have "''.whl'' \<notin> keys arts" using assms(5) by blast
  then have "{n \<in> keys arts. is_build n} = {n \<in> keys arts. is_distribution n}"
    using is_build_distribution by metis
  with arts(2) arts' have "card {n \<in> keys dir1. is_build n} = 2" unfolding builds [of dir1] by simp
  moreover have "{n \<in> keys dir1. is_build n} = {n \<in> keys dir2. is_build n}"
    unfolding builds [of dir1] builds [of dir2] pins(1) ..
  moreover have "file_hash dir1 n \<noteq> None \<and> file_hash dir1 n = file_hash dir2 n" if "n \<in> {n \<in> keys dir1. is_build n}" for n
    using pins(2) [of n] that sums(1) by blast
  ultimately show ?thesis unfolding compare_builds_iff [OF assms(3,4)] Let_def by blast
qed

end
