(* ===== verification/Sbom.thy ===== *)
theory Sbom
  imports Evidence "HOL-Library.Multiset"
begin

text \<open>
  \<open>scripts/generate_sbom.py\<close>: the SPDX document of a release, with the JSON printers it uses
  (\<open>json.dumps\<close> with sorted keys and ASCII output, once without white space and once indented) and
  \<open>int\<close> of a text in ASCII digits. The document does not depend on the order in which the
  artifacts are named on the command line.
\<close>

section \<open>\<open>json.dumps\<close>\<close>

definition byte_at :: "string \<Rightarrow> nat \<Rightarrow> nat" where
  "byte_at s i = (if i < length s then of_char (s ! i) mod 64 else 0)"

text \<open>The code points of a \<open>str\<close>, with the number of bytes each takes.\<close>

definition first_point :: "char \<Rightarrow> string \<Rightarrow> nat \<times> nat" where
  "first_point c s = (let n = of_char c :: nat in
     if n < 0xC0 then (n, 0)
     else if n < 0xE0 then ((n - 0xC0) * 64 + byte_at s 0, 1)
     else if n < 0xF0 then (((n - 0xE0) * 64 + byte_at s 0) * 64 + byte_at s 1, 2)
     else ((((n - 0xF0) * 64 + byte_at s 0) * 64 + byte_at s 1) * 64 + byte_at s 2, 3))"

function code_points :: "string \<Rightarrow> nat list" where
  "code_points [] = []"
| "code_points (c # s) = (case first_point c s of (n, k) \<Rightarrow> n # code_points (drop k s))"
  by pat_completeness auto
termination
  by (relation "measure length") (auto simp: le_imp_less_Suc)

definition hex_escape :: "nat \<Rightarrow> string" where
  "hex_escape n = [CHR 0x5C, CHR ''u''] @ map (\<lambda>k. ''0123456789abcdef'' ! (n div 16 ^ k mod 16)) [3, 2, 1, 0]"

definition ascii_char :: "nat \<Rightarrow> string" where
  "ascii_char n =
     (if n = 0x22 \<or> n = 0x5C then [CHR 0x5C, char_of n]
      else if n = 8 then [CHR 0x5C, CHR ''b''] else if n = 9 then [CHR 0x5C, CHR ''t'']
      else if n = 10 then [CHR 0x5C, CHR ''n''] else if n = 12 then [CHR 0x5C, CHR ''f'']
      else if n = 13 then [CHR 0x5C, CHR ''r'']
      else if 32 \<le> n \<and> n < 127 then [char_of n]
      else if n < 0x10000 then hex_escape n
      else hex_escape (0xD800 + (n - 0x10000) div 0x400) @ hex_escape (0xDC00 + (n - 0x10000) mod 0x400))"

definition dump_string :: "string \<Rightarrow> string" where
  "dump_string s = CHR 0x22 # concat (map ascii_char (code_points s)) @ [CHR 0x22]"

fun joined :: "string \<Rightarrow> string list \<Rightarrow> string" where
  "joined sep [] = []"
| "joined sep [s] = s"
| "joined sep (s # ss) = s @ sep @ joined sep ss"

text \<open>\<open>json.dumps(value, sort_keys=True, separators=(",", ":"))\<close>, for the values the scripts print.\<close>

fun dump_compact :: "pyval \<Rightarrow> string"
  and compact_list :: "pyval list \<Rightarrow> string list"
  and compact_items :: "pyval dict \<Rightarrow> (string \<times> string) list" where
  "dump_compact (PStr s) = dump_string s"
| "dump_compact (PBool b) = (if b then ''true'' else ''false'')"
| "dump_compact (PInt i) = int_str i"
| "dump_compact PNone = ''null''"
| "dump_compact (PList xs) = ''['' @ joined '','' (compact_list xs) @ '']''"
| "dump_compact (PDict d) =
     ''{'' @ joined '','' (map (\<lambda>p. dump_string (fst p) @ '':'' @ snd p) (sort_dict (compact_items d))) @ ''}''"
| "dump_compact _ = []"
| "compact_list [] = []"
| "compact_list (x # xs) = dump_compact x # compact_list xs"
| "compact_items [] = []"
| "compact_items (p # d) = (fst p, dump_compact (snd p)) # compact_items d"

definition new_line :: "nat \<Rightarrow> string" where
  "new_line level = CHR 0x0A # replicate (2 * level) CHR '' ''"

text \<open>\<open>json.dumps(document, indent=2, sort_keys=True)\<close>, for the values a document holds.\<close>

fun dump_indented :: "nat \<Rightarrow> pyval \<Rightarrow> string"
  and dump_list :: "nat \<Rightarrow> pyval list \<Rightarrow> string list"
  and dump_items :: "nat \<Rightarrow> pyval dict \<Rightarrow> (string \<times> string) list" where
  "dump_indented n (PStr s) = dump_string s"
| "dump_indented n (PBool b) = (if b then ''true'' else ''false'')"
| "dump_indented n (PInt i) = int_str i"
| "dump_indented n PNone = ''null''"
| "dump_indented n (PList xs) =
     (if xs = [] then ''[]''
      else ''['' @ new_line (n + 1) @ joined ('','' @ new_line (n + 1)) (dump_list (n + 1) xs) @ new_line n @ '']'')"
| "dump_indented n (PDict d) =
     (if d = [] then ''{}''
      else ''{'' @ new_line (n + 1)
        @ joined ('','' @ new_line (n + 1)) (map (\<lambda>p. dump_string (fst p) @ '': '' @ snd p) (sort_dict (dump_items (n + 1) d)))
        @ new_line n @ ''}'')"
| "dump_indented n _ = []"
| "dump_list n [] = []"
| "dump_list n (x # xs) = dump_indented n x # dump_list n xs"
| "dump_items n [] = []"
| "dump_items n (p # d) = (fst p, dump_indented n (snd p)) # dump_items n d"

section \<open>\<open>int(text)\<close>\<close>

definition int_space :: "char \<Rightarrow> bool" where
  "int_space c = ((of_char c :: nat) \<in> {9, 10, 11, 12, 13, 28, 29, 30, 31, 32})"

text \<open>Digits with single underscores between them.\<close>

fun digit_groups :: "string \<Rightarrow> string option" where
  "digit_groups [] = None"
| "digit_groups [c] = (if is_digit c then Some [c] else None)"
| "digit_groups (c # d # s) =
     (if \<not> is_digit c then None
      else map_option (Cons c) (digit_groups (if d = CHR ''_'' then s else d # s)))"

definition int_of_text :: "string \<Rightarrow> (exn, int) result" where
  "int_of_text t =
     (let s = rev (dropWhile int_space (rev (dropWhile int_space t)));
          negative = (s \<noteq> [] \<and> hd s = CHR ''-'');
          body = (if s \<noteq> [] \<and> (hd s = CHR ''-'' \<or> hd s = CHR ''+'') then tl s else s) in
      (case digit_groups body of
         None \<Rightarrow> Inl (ValueError ''invalid literal for int() with base 10'')
       | Some ds \<Rightarrow> if 4300 < length ds then Inl (ValueError ''Exceeds the limit for integer string conversion'')
           else Inr (if negative then - digits_val ds else digits_val ds)))"

section \<open>The document\<close>

definition sbom_name :: string where
  "sbom_name = ''meridian-plugin-config-artifact''"

definition sbom_version :: string where
  "sbom_version = ''1.1.2''"

definition artifact_id :: "nat \<Rightarrow> string" where
  "artifact_id i = ''SPDXRef-Artifact-'' @ nat_digits i"

definition file_entry :: "string dict \<Rightarrow> nat \<times> string \<Rightarrow> pyval" where
  "file_entry checksums p = PDict
     [(''SPDXID'', PStr (artifact_id (fst p))),
      (''checksums'', PList [PDict [(''algorithm'', PStr ''SHA256''),
         (''checksumValue'', of_opt PStr (map_of checksums (snd p)))]]),
      (''copyrightText'', PStr ''NOASSERTION''), (''fileName'', PStr (snd p)),
      (''licenseConcluded'', PStr ''NOASSERTION'')]"

definition relationship :: "string \<Rightarrow> string \<Rightarrow> string \<Rightarrow> pyval" where
  "relationship element kind related = PDict
     [(''spdxElementId'', PStr element), (''relationshipType'', PStr kind),
      (''relatedSpdxElement'', PStr related)]"

definition sbom_document :: "string list \<Rightarrow> string dict \<Rightarrow> string \<Rightarrow> pyval" where
  "sbom_document names checksums created = (let numbered = zip [1..<Suc (length names)] names in PDict
     [(''SPDXID'', PStr ''SPDXRef-DOCUMENT''),
      (''creationInfo'', PDict [(''created'', PStr created),
         (''creators'', PList [PStr (''Tool: '' @ sbom_name @ ''/generate_sbom.py-'' @ sbom_version)])]),
      (''dataLicense'', PStr ''CC0-1.0''),
      (''documentNamespace'', PStr (''https://github.com/zephytiju/MeridianConfigArtifactPlugin/sbom/''
         @ sha256_hex (dump_compact (PDict (str_dict checksums))))),
      (''files'', PList (map (file_entry checksums) numbered)),
      (''name'', PStr (sbom_name @ ''-'' @ sbom_version @ ''-release'')),
      (''packages'', PList [PDict
         [(''SPDXID'', PStr ''SPDXRef-Package''), (''copyrightText'', PStr ''Copyright 2026 Meridian contributors''),
          (''downloadLocation'', PStr ''NOASSERTION''),
          (''externalRefs'', PList [PDict [(''referenceCategory'', PStr ''PACKAGE-MANAGER''),
             (''referenceLocator'', PStr (''pkg:pypi/'' @ sbom_name @ ''@'' @ sbom_version)),
             (''referenceType'', PStr ''purl'')]]),
          (''filesAnalyzed'', PBool False), (''licenseConcluded'', PStr ''Apache-2.0''),
          (''licenseDeclared'', PStr ''Apache-2.0''), (''name'', PStr sbom_name),
          (''supplier'', PStr ''Organization: Meridian contributors''), (''versionInfo'', PStr sbom_version)]]),
      (''relationships'', PList (relationship ''SPDXRef-DOCUMENT'' ''DESCRIBES'' ''SPDXRef-Package''
         # map (\<lambda>p. relationship ''SPDXRef-Package'' ''GENERATES'' (artifact_id (fst p))) numbered)),
      (''spdxVersion'', PStr ''SPDX-2.3'')])"

text \<open>\<open>main\<close>: what is written to the output, given the artifacts and \<open>SOURCE_DATE_EPOCH\<close>, if set.\<close>

definition generate_sbom :: "directory \<Rightarrow> string option \<Rightarrow> (exn, string) result" where
  "generate_sbom artifacts source_date_epoch =
     (let selected = sort_key fst artifacts in
      rbind (rmap (\<lambda>p. rbind (read_bytes [p] (fst p)) (\<lambda>b. Inr (fst p, sha256_hex b))) selected) (\<lambda>hashes.
      let checksums = dict_of_pairs hashes in
      rbind (int_of_text (case source_date_epoch of None \<Rightarrow> ''0'' | Some t \<Rightarrow> t)) (\<lambda>epoch.
      rbind (epoch_text (PInt epoch)) (\<lambda>created.
      Inr (dump_indented 0 (sbom_document (map fst selected) checksums created) @ [CHR 0x0A])))))"

section \<open>What the document says\<close>

lemma sort_key_permuted:
  fixes f :: "'a \<Rightarrow> 'b :: linorder"
  assumes "mset xs = mset ys" "inj_on f (set xs)"
  shows "sort_key f xs = sort_key f ys"
  by (rule sort_key_inj_key_eq) (use assms in simp_all)

lemma generate_sbom_permuted:
  assumes "mset xs = mset ys" "distinct (map fst xs)"
  shows "generate_sbom xs e = generate_sbom ys e"
  unfolding generate_sbom_def using sort_key_permuted [OF assms(1), of fst] assms(2) by (simp add: distinct_map)

text \<open>Every artifact has one file entry, with the digest of its bytes and an identifier of its own, and one
  relationship.\<close>

lemma artifact_id_inject: "artifact_id i = artifact_id j \<longleftrightarrow> i = j"
  by (simp add: artifact_id_def)

lemma map_of_dict_of_pairs:
  fixes ps :: "(string \<times> 'v) list"
  assumes "distinct (map fst ps)"
  shows "map_of (dict_of_pairs ps) = map_of ps"
proof -
  have "map_of (foldl (\<lambda>d p. AList.update (fst p) (snd p) d) d ps) = map_of d ++ map_of ps" if "distinct (map fst ps)" for d ps
    :: "(string \<times> 'v) list"
    using that
  proof (induction ps arbitrary: d)
    case (Cons p ps)
    then have "map_of ps (fst p) = None" by (simp add: map_of_eq_None_iff)
    with Cons show ?case by (auto simp: update_conv' fun_eq_iff map_add_def split: option.split)
  qed simp
  from this [OF assms, of "[]"] show ?thesis by (simp add: dict_of_pairs_def)
qed

lemma generate_sbom_returns:
  assumes "generate_sbom xs e = Inr out" "distinct (map fst xs)"
  obtains created checksums where "out = dump_indented 0 (sbom_document (map fst (sort_key fst xs)) checksums created) @ [CHR 0x0A]"
    "\<And>n. map_of checksums n = file_hash xs n" "distinct (map artifact_id [1..<Suc (length xs)])"
    "epoch_text (PInt (projr (int_of_text (case e of None \<Rightarrow> ''0'' | Some t \<Rightarrow> t)))) = Inr created"
proof -
  let ?f = "\<lambda>p. rbind (read_bytes [p] (fst p)) (\<lambda>b. Inr (fst p, sha256_hex b))"
  from assms(1) obtain hs created where h: "rmap ?f (sort_key fst xs) = Inr hs"
    "out = dump_indented 0 (sbom_document (map fst (sort_key fst xs)) (dict_of_pairs hs) created) @ [CHR 0x0A]"
    "epoch_text (PInt (projr (int_of_text (case e of None \<Rightarrow> ''0'' | Some t \<Rightarrow> t)))) = Inr created"
    by (auto simp: generate_sbom_def Let_def flow)
  have f: "?f p = Inr q \<longleftrightarrow> fst q = fst p \<and> (\<exists>b. snd p = Some b \<and> snd q = sha256_hex b)" for p q
    by (cases q; cases p) (auto simp: flow)
  from h(1) have all: "list_all2 (\<lambda>p q. fst q = fst p \<and> (\<exists>b. snd p = Some b \<and> snd q = sha256_hex b)) (sort_key fst xs) hs"
    unfolding rmap_Inr_iff f .
  then have names: "map fst hs = map fst (sort_key fst xs)" by (induction rule: list_all2_induct) simp_all
  have dist: "distinct (map fst (sort_key fst xs))" using distinct_fst_sort_dict [of xs] assms(2) by (simp add: sort_dict_def)
  have "map_of hs n = file_hash (sort_key fst xs) n" for n
    using all by (induction rule: list_all2_induct) (auto simp: file_hash_def)
  moreover have "file_hash (sort_key fst xs) n = file_hash xs n" for n
    using map_of_sort_dict [of xs] by (simp add: file_hash_def sort_dict_def)
  moreover have "map_of (dict_of_pairs hs) = map_of hs" by (rule map_of_dict_of_pairs) (simp add: names dist)
  moreover have "distinct (map artifact_id [1..<Suc (length xs)])"
    by (simp add: distinct_map inj_on_def artifact_id_inject)
  ultimately show thesis using that h(2,3) by simp
qed

end
