(* ===== verification/Distributions.thy ===== *)
theory Distributions
  imports Sbom
begin

text \<open>
  \<open>scripts/verify_artifacts.py\<close>: the checks of a built wheel and sdist. An opened archive is the list
  of its members with their bytes; reading one from a zip or tar file is a parameter, as are the
  parser of mail headers and the requirement and specifier types of the \<open>packaging\<close> package. The
  reader of the RECORD table is the standard library's CSV reader in its default dialect, for
  fields below its limit of 131072 characters.
\<close>

section \<open>\<open>csv.reader\<close>\<close>

datatype csv_state = StartRecord | StartField | InField | InQuoted | QuoteInQuoted | EatNewline

type_synonym csv = "csv_state \<times> string \<times> string list"

definition is_newline :: "char \<Rightarrow> bool" where
  "is_newline c = (c = CHR 0x0A \<or> c = CHR 0x0D)"

definition save_field :: "csv_state \<Rightarrow> string \<Rightarrow> string list \<Rightarrow> csv" where
  "save_field st f fs = (st, [], rev f # fs)"

text \<open>\<open>None\<close> is the end of a line; the result is \<open>None\<close> for a line break inside a line.\<close>

definition end_field :: "string \<Rightarrow> string list \<Rightarrow> char option \<Rightarrow> csv" where
  "end_field f fs z = save_field (case z of None \<Rightarrow> StartRecord | Some c \<Rightarrow> if c = CHR '','' then StartField else EatNewline) f fs"

definition ends_field :: "char option \<Rightarrow> bool" where
  "ends_field z = (case z of None \<Rightarrow> True | Some c \<Rightarrow> is_newline c \<or> c = CHR '','')"

definition csv_start :: "string \<Rightarrow> string list \<Rightarrow> char option \<Rightarrow> csv" where
  "csv_start f fs z =
     (if ends_field z then end_field f fs z
      else if z = Some CHR 0x22 then (InQuoted, f, fs) else (InField, the z # f, fs))"

fun csv_step :: "csv \<Rightarrow> char option \<Rightarrow> csv option" where
  "csv_step (StartRecord, f, fs) z = (case z of
     None \<Rightarrow> Some (StartRecord, f, fs)
   | Some c \<Rightarrow> Some (if is_newline c then (EatNewline, f, fs) else csv_start f fs z))"
| "csv_step (StartField, f, fs) z = Some (csv_start f fs z)"
| "csv_step (InField, f, fs) z = Some (if ends_field z then end_field f fs z else (InField, the z # f, fs))"
| "csv_step (InQuoted, f, fs) z = (case z of
     None \<Rightarrow> Some (InQuoted, f, fs)
   | Some c \<Rightarrow> Some (if c = CHR 0x22 then (QuoteInQuoted, f, fs) else (InQuoted, c # f, fs)))"
| "csv_step (QuoteInQuoted, f, fs) z =
     Some (if ends_field z then end_field f fs z
       else (if z = Some CHR 0x22 then InQuoted else InField, the z # f, fs))"
| "csv_step (EatNewline, f, fs) z = (case z of
     None \<Rightarrow> Some (StartRecord, f, fs)
   | Some c \<Rightarrow> if is_newline c then Some (EatNewline, f, fs) else None)"

text \<open>The rows read before the text ends, and whether the reader raised instead of ending.\<close>

fun csv_run :: "csv \<Rightarrow> string \<Rightarrow> string list list \<times> bool" where
  "csv_run (st, f, fs) [] = (if st = InQuoted then ([rev (rev f # fs)], False) else ([], False))"
| "csv_run st (c # s) = (case csv_step st (Some c) of
     None \<Rightarrow> ([], True)
   | Some st1 \<Rightarrow>
       if c = CHR 0x0A \<or> s = [] then
         (case csv_step st1 None of
            None \<Rightarrow> ([], True)
          | Some (st2, f, fs) \<Rightarrow>
              if st2 = StartRecord then (case csv_run (StartRecord, [], []) s of (rows, e) \<Rightarrow> (rev fs # rows, e))
              else csv_run (st2, f, fs) s)
       else csv_run st1 s)"

definition csv_reader :: "string \<Rightarrow> string list list \<times> bool" where
  "csv_reader t = csv_run (StartRecord, [], []) t"

section \<open>\<open>base64.urlsafe_b64encode(hashlib.sha256(content).digest()).rstrip(b"=")\<close>\<close>

definition b64_char :: "int \<Rightarrow> char" where
  "b64_char n = ''ABCDEFGHIJKLMNOPQRSTUVWXYZabcdefghijklmnopqrstuvwxyz0123456789-_'' ! nat n"

fun b64_unpadded :: "int list \<Rightarrow> string" where
  "b64_unpadded [] = []"
| "b64_unpadded [a] = [b64_char (a div 4), b64_char (a mod 4 * 16)]"
| "b64_unpadded [a, b] = [b64_char (a div 4), b64_char (a mod 4 * 16 + b div 16), b64_char (b mod 16 * 4)]"
| "b64_unpadded (a # b # c # r) =
     [b64_char (a div 4), b64_char (a mod 4 * 16 + b div 16), b64_char (b mod 16 * 4 + c div 64), b64_char (c mod 64)]
     @ b64_unpadded r"

definition sha256_raw :: "string \<Rightarrow> int list" where
  "sha256_raw s = (case sha256 (bytes_of s) of (a, b, c, d, e, f, g, h) \<Rightarrow>
     concat (map (be_bytes 4) [a, b, c, d, e, f, g, h]))"

definition record_hash :: "string \<Rightarrow> string" where
  "record_hash content = b64_unpadded (sha256_raw content)"

section \<open>\<open>_verify_record\<close>\<close>

type_synonym archive = "(string \<times> string) list"

text \<open>\<open>ZipFile.read\<close>: of several members with one name the last.\<close>

definition archive_read :: "archive \<Rightarrow> string \<Rightarrow> (exn, string) result" where
  "archive_read a name = (case map_of (rev a) name of
     None \<Rightarrow> Inl (KeyError name) | Some b \<Rightarrow> Inr b)"

lemma archive_read_Inr_iff [flow]: "archive_read a n = Inr b \<longleftrightarrow> map_of (rev a) n = Some b"
  by (simp add: archive_read_def split: option.split)

text \<open>\<open>s.split("=", 1)\<close>, unpacked into two.\<close>

definition cut_equals :: "string \<Rightarrow> (exn, string \<times> string) result" where
  "cut_equals s = (case dropWhile (\<lambda>c. c \<noteq> CHR ''='') s of
     [] \<Rightarrow> Inl (ValueError ''not enough values to unpack'')
   | c # r \<Rightarrow> Inr (takeWhile (\<lambda>c. c \<noteq> CHR ''='') s, r))"

definition check_record_row :: "archive \<Rightarrow> string list \<Rightarrow> (exn, unit) result" where
  "check_record_row a row = (case row of
     [name, encoded_hash, sz] \<Rightarrow>
       if encoded_hash = [] then Inr ()
       else
         rbind (cut_equals encoded_hash) (\<lambda>(algorithm, encoded).
         rbind (require (algorithm = ''sha256'') ''RECORD uses unsupported hash'') (\<lambda>_.
         rbind (archive_read a name) (\<lambda>content.
         rbind (require (encoded = record_hash content) ''RECORD hash differs'') (\<lambda>_.
         rbind (int_of_text sz) (\<lambda>n.
         require (n = int (length content)) ''RECORD size differs'')))))
   | _ \<Rightarrow> Inl (ValueError ''row does not have three fields''))"

definition decode_text :: "string \<Rightarrow> (exn, string) result" where
  "decode_text b = (if utf8_valid b then Inr b else Inl (ValueError ''UnicodeDecodeError''))"

definition verify_record :: "archive \<Rightarrow> string \<Rightarrow> (exn, unit) result" where
  "verify_record a record_name =
     rbind (archive_read a record_name) (\<lambda>b.
     rbind (decode_text b) (\<lambda>t.
     case csv_reader t of (rows, failed) \<Rightarrow>
       rbind (rmap (check_record_row a) rows) (\<lambda>_.
       ensure (\<not> failed) (OtherException ''_csv.Error: new-line character seen in unquoted field''))))"

section \<open>\<open>_verify_wheel\<close> and \<open>_verify_sdist\<close>\<close>

definition distribution_name :: string where
  "distribution_name = ''meridian-plugin-config-artifact''"

definition normalized_name :: string where
  "normalized_name = ''meridian_plugin_config_artifact''"

definition release_version :: string where
  "release_version = ''1.1.2''"

text \<open>The \<open>packaging\<close> package, \<open>email\<close> and the archive formats.\<close>

record packaging =
  pk_requirement :: "string \<Rightarrow> (exn, string) result"
  pk_same_specifiers :: "string option \<Rightarrow> string \<Rightarrow> (exn, bool) result"
  pk_headers :: "string \<Rightarrow> (string \<times> string) list"
  pk_zip :: "string \<Rightarrow> (exn, archive) result"
  pk_tar :: "string \<Rightarrow> (exn, string list) result"

definition ascii_lower :: "string \<Rightarrow> string" where
  "ascii_lower s = map (\<lambda>c. let n = of_char c :: nat in if 65 \<le> n \<and> n \<le> 90 then char_of (n + 32) else c) s"

definition headers_of :: "(string \<times> string) list \<Rightarrow> string \<Rightarrow> string list" where
  "headers_of hs name = map snd (filter (\<lambda>h. ascii_lower (fst h) = ascii_lower name) hs)"

definition header :: "(string \<times> string) list \<Rightarrow> string \<Rightarrow> string option" where
  "header hs name = (case headers_of hs name of [] \<Rightarrow> None | v # _ \<Rightarrow> Some v)"

fun contains :: "string \<Rightarrow> string \<Rightarrow> bool" where
  "contains p [] = (p = [])"
| "contains p (c # s) = (take (length p) (c # s) = p \<or> contains p s)"

definition begins_with :: "string \<Rightarrow> string \<Rightarrow> bool" where
  "begins_with p s = (take (length p) s = p)"

definition sort_names :: "string list \<Rightarrow> string list" where
  "sort_names ns = sort_key id ns"

definition dist_info_names :: "string list \<Rightarrow> string list" where
  "dist_info_names names =
     sort_names (remdups (map (\<lambda>n. hd (split_at CHR ''/'' [] n)) (filter (contains ''.dist-info/'') names)))"

definition wheel_required :: "string \<Rightarrow> string list" where
  "wheel_required root =
     [root @ ''/licenses/LICENSE'', root @ ''/licenses/NOTICE'', root @ ''/METADATA'', root @ ''/RECORD'',
      root @ ''/entry_points.txt'', ''meridian_storage/plugins/config_artifact/compatibility.json'',
      ''meridian_storage/plugins/config_artifact/contracts/public-api/meridian-config-artifact.v1.json'',
      ''meridian_storage/plugins/config_artifact/py.typed'']"

definition artifact_requirements :: "string list" where
  "artifact_requirements =
     [''meridian-storage-core>=1,<2'', ''meridian-storage-object-common>=1,<2'',
      ''meridian-storage-query>=1,<2'', ''meridian-storage-semantics>=2,<3'']"

definition artifact_bounds :: "packaging \<Rightarrow> (exn, string list) result" where
  "artifact_bounds pk = rmap (pk_requirement pk) artifact_requirements"

definition check_wheel_metadata :: "packaging \<Rightarrow> string \<Rightarrow> (exn, unit) result" where
  "check_wheel_metadata pk b =
     (let hs = pk_headers pk b in
      rbind (require (header hs ''Name'' = Some distribution_name) ''name differs'') (\<lambda>_.
      rbind (require (header hs ''Version'' = Some release_version) ''version differs'') (\<lambda>_.
      rbind (require (header hs ''License-Expression'' = Some ''Apache-2.0'') ''license differs'') (\<lambda>_.
      rbind (pk_same_specifiers pk (header hs ''Requires-Python'') ''>=3.12,<3.15'') (\<lambda>same.
      rbind (require same ''Python range differs'') (\<lambda>_.
      rbind (rmap (pk_requirement pk) (filter (\<lambda>v. begins_with ''meridian-storage-'' v \<and> \<not> contains ''; extra =='' v)
        (headers_of hs ''Requires-Dist''))) (\<lambda>pins.
      rbind (artifact_bounds pk) (\<lambda>expected.
      require (set pins = set expected) ''wheel runtime compatibility bounds differ''))))))))"

definition file_result :: "string \<Rightarrow> string \<Rightarrow> string list \<Rightarrow> pyval" where
  "file_result name content names = PDict
     [(''file'', PStr name), (''sha256'', PStr (sha256_hex content)), (''entries'', PInt (int (length names)))]"

definition verify_wheel :: "packaging \<Rightarrow> string \<Rightarrow> string \<Rightarrow> (exn, pyval) result" where
  "verify_wheel pk name content =
     rbind (pk_zip pk content) (\<lambda>a.
     let names = map fst a; roots = dist_info_names names; root = hd roots in
     rbind (require (roots = [normalized_name @ ''-'' @ release_version @ ''.dist-info''])
       ''wheel must contain exactly one config-artifact distribution'') (\<lambda>_.
     rbind (require (set (wheel_required root) \<subseteq> set names) ''wheel omits required metadata or package data'') (\<lambda>_.
     rbind (require (\<not> list_ex (begins_with ''meridian_storage/adapters/'') names) ''wheel contains Adapter source'') (\<lambda>_.
     rbind (archive_read a (root @ ''/METADATA'')) (\<lambda>b.
     rbind (check_wheel_metadata pk b) (\<lambda>_.
     rbind (verify_record a (root @ ''/RECORD'')) (\<lambda>_.
     Inr (file_result name content names))))))))"

text \<open>\<open>PurePosixPath(name).parts[0]\<close>.\<close>

definition first_part :: "string \<Rightarrow> (exn, string) result" where
  "first_part n =
     (if begins_with ''//'' n \<and> \<not> begins_with ''///'' n then Inr ''//''
      else if begins_with ''/'' n then Inr ''/''
      else (case filter (\<lambda>p. p \<noteq> [] \<and> p \<noteq> ''.'') (split_at CHR ''/'' [] n) of
              [] \<Rightarrow> Inl (OtherException ''IndexError'') | p # _ \<Rightarrow> Inr p))"

definition sdist_required :: "string \<Rightarrow> string list" where
  "sdist_required prefix = map (\<lambda>n. prefix @ n)
     [''/LICENSE'', ''/NOTICE'', ''/README.md'', ''/pyproject.toml'', ''/compatibility.json'',
      ''/contracts/public-api/meridian-config-artifact.v1.json'',
      ''/src/meridian_storage/plugins/config_artifact/__init__.py'']"

definition verify_sdist :: "packaging \<Rightarrow> string \<Rightarrow> string \<Rightarrow> (exn, pyval) result" where
  "verify_sdist pk name content =
     rbind (pk_tar pk content) (\<lambda>members.
     let names = sort_names members; prefix = normalized_name @ ''-'' @ release_version in
     rbind (rmap first_part names) (\<lambda>prefixes.
     rbind (require (set prefixes = {prefix}) ''sdist must contain exactly one project root'') (\<lambda>_.
     rbind (require (set (sdist_required prefix) \<subseteq> set names) ''sdist omits required source or license material'') (\<lambda>_.
     rbind (require (\<not> list_ex (contains ''/src/meridian_storage/adapters/'') names) ''sdist contains Adapter source'') (\<lambda>_.
     Inr (file_result name content names))))))"

text \<open>\<open>main\<close>: the printed evidence of a build directory.\<close>

definition one_file :: "directory \<Rightarrow> string \<Rightarrow> string list" where
  "one_file dir ending = filter (ends_with ending) (map fst (sort_dict dir))"

definition verify_artifacts :: "packaging \<Rightarrow> directory \<Rightarrow> (exn, string) result" where
  "verify_artifacts pk dir =
     (let wheels = one_file dir ''.whl''; sdists = one_file dir ''.tar.gz'' in
      rbind (ensure (length wheels = 1 \<and> length sdists = 1)
        (OtherException ''SystemExit: expected exactly one wheel and one sdist'')) (\<lambda>_.
      rbind (read_bytes dir (hd wheels)) (\<lambda>w.
      rbind (verify_wheel pk (hd wheels) w) (\<lambda>wheel.
      rbind (read_bytes dir (hd sdists)) (\<lambda>s.
      rbind (verify_sdist pk (hd sdists) s) (\<lambda>sdist.
      let evidence = [(''formatVersion'', PStr ''meridian.config-artifact.artifacts.v1''),
            (''package'', PStr distribution_name), (''version'', PStr release_version),
            (''artifacts'', PList [wheel, sdist]), (''status'', PStr ''passed'')];
          encoded = dump_compact (PDict evidence) in
      Inr (dump_compact (PDict (evidence @ [(''fingerprint'', PStr (''sha256:'' @ sha256_hex encoded))])) @ [CHR 0x0A])))))))"

section \<open>What an accepted RECORD pins\<close>

lemma b64_char_inject:
  assumes "0 \<le> m" "m < 64" "0 \<le> n" "n < 64"
  shows "b64_char m = b64_char n \<longleftrightarrow> m = n"
proof -
  let ?a = "''ABCDEFGHIJKLMNOPQRSTUVWXYZabcdefghijklmnopqrstuvwxyz0123456789-_''"
  have d: "distinct ?a" "length ?a = 64" by simp_all
  then have "?a ! nat m = ?a ! nat n \<longleftrightarrow> nat m = nat n" by (intro nth_eq_iff_index_eq) (use assms in simp_all)
  moreover have "nat m = nat n \<longleftrightarrow> m = n" using assms by (simp add: eq_nat_nat_iff)
  ultimately show ?thesis unfolding b64_char_def by blast
qed

definition bytes_ok :: "int list \<Rightarrow> bool" where
  "bytes_ok bs \<longleftrightarrow> list_all (\<lambda>b. 0 \<le> b \<and> b < 256) bs"

lemmas b64_char_eq = iffD1 [OF b64_char_inject]

lemma digit_pair:
  fixes x y k :: int
  assumes "x * k + y = x' * k + y'" "0 \<le> y" "y < k" "0 \<le> y'" "y' < k"
  shows "x = x' \<and> y = y'"
proof -
  have "(x * k + y) div k = x" "(x' * k + y') div k = x'" using assms(2-) by simp_all
  with assms(1) have "x = x'" by metis
  with assms(1) show ?thesis by simp
qed

abbreviation byte :: "int \<Rightarrow> bool" where
  "byte b \<equiv> 0 \<le> b \<and> b < 256"

lemma byte_digits:
  fixes x :: int
  assumes "byte x"
  shows "0 \<le> x div 4" "x div 4 < 64" "0 \<le> x div 16" "x div 16 < 16" "0 \<le> x div 64" "x div 64 < 4"
  using assms by - linarith+

lemma mod_digits:
  fixes x :: int
  shows "0 \<le> x mod 4" "x mod 4 < 4" "0 \<le> x mod 16" "x mod 16 < 16" "0 \<le> x mod 64" "x mod 64 < 64"
  by simp_all

lemma b64_quad_inject:
  assumes "byte a" "byte b" "byte c" "byte a'" "byte b'" "byte c'"
    "b64_char (a div 4) = b64_char (a' div 4)"
    "b64_char (a mod 4 * 16 + b div 16) = b64_char (a' mod 4 * 16 + b' div 16)"
    "b64_char (b mod 16 * 4 + c div 64) = b64_char (b' mod 16 * 4 + c' div 64)"
    "b64_char (c mod 64) = b64_char (c' mod 64)"
  shows "a = a' \<and> b = b' \<and> c = c'"
proof -
  note bs = byte_digits [OF assms(1)] byte_digits [OF assms(2)] byte_digits [OF assms(3)]
    byte_digits [OF assms(4)] byte_digits [OF assms(5)] byte_digits [OF assms(6)]
  have narrow: "0 \<le> x * 16 + y" "x * 16 + y < 64" if "0 \<le> x" "x < 4" "0 \<le> y" "y < 16" for x y :: int
    using that by linarith+
  have wide: "0 \<le> x * 4 + y" "x * 4 + y < 64" if "0 \<le> x" "x < 16" "0 \<le> y" "y < 4" for x y :: int
    using that by linarith+
  have q: "a div 4 = a' div 4" by (rule b64_char_eq [OF _ _ _ _ assms(7)]) (intro bs)+
  have "a mod 4 * 16 + b div 16 = a' mod 4 * 16 + b' div 16"
    by (rule b64_char_eq [OF _ _ _ _ assms(8)]) (intro narrow mod_digits bs)+
  then have r: "a mod 4 = a' mod 4 \<and> b div 16 = b' div 16" by (rule digit_pair) (intro bs)+
  have "b mod 16 * 4 + c div 64 = b' mod 16 * 4 + c' div 64"
    by (rule b64_char_eq [OF _ _ _ _ assms(9)]) (intro wide mod_digits bs)+
  then have t: "b mod 16 = b' mod 16 \<and> c div 64 = c' div 64" by (rule digit_pair) (intro bs)+
  have u: "c mod 64 = c' mod 64" by (rule b64_char_eq [OF _ _ _ _ assms(10)]) (intro mod_digits)+
  have "a = a'" using q r by (metis div_mult_mod_eq)
  moreover have "b = b'" using r t by (metis div_mult_mod_eq)
  moreover have "c = c'" using t u by (metis div_mult_mod_eq)
  ultimately show ?thesis by blast
qed

lemma b64_unpadded_inject:
  "b64_unpadded xs = b64_unpadded ys \<Longrightarrow> length xs = length ys \<Longrightarrow> list_all byte xs \<Longrightarrow> list_all byte ys \<Longrightarrow> xs = ys"
proof (induction xs arbitrary: ys rule: b64_unpadded.induct)
  case (2 a)
  then obtain a' where "ys = [a']" by (cases ys) auto
  with 2 b64_quad_inject [of a 0 0 a' 0 0] show ?case by simp
next
  case (3 a b)
  then obtain a' b' where "ys = [a', b']" by (cases ys; cases "tl ys") auto
  with 3 b64_quad_inject [of a b 0 a' b' 0] show ?case by simp
next
  case (4 a b c r)
  then obtain a' b' c' r' where ys: "ys = a' # b' # c' # r'"
    by (cases ys; cases "tl ys"; cases "tl (tl ys)") auto
  with 4 b64_quad_inject [of a b c a' b' c'] show ?case by simp
qed simp

text \<open>The raw digest determines the hexadecimal one.\<close>

lemma be_bytes_bytes: "list_all byte (be_bytes k n)"
  by (induction k n rule: be_bytes.induct) simp_all

lemma length_be_bytes [simp]: "length (be_bytes k n) = k"
  by (induction k n rule: be_bytes.induct) simp_all

lemma sha256_raw_bytes: "list_all byte (sha256_raw s)" "length (sha256_raw s) = 32"
  by (simp_all add: sha256_raw_def be_bytes_bytes split: prod.split)

lemma hex_word_bytes: "hex_word (2 * k) n = concat (map (hex_word 2) (be_bytes k n))"
proof (induction k arbitrary: n)
  case (Suc k)
  have n: "n mod 256 = 16 * (n div 16 mod 16) + n mod 16" "n div 256 = n div 16 div 16"
    using zmod_zmult2_eq [of 16 n 16] zdiv_zmult2_eq [of 16 n 16] by simp_all
  have "n mod 256 div 16 = n div 16 mod 16" "n mod 256 mod 16 = n mod 16" unfolding n(1) by simp_all
  then have two: "hex_word 2 (n mod 256) = [hex_digit (n div 16 mod 16), hex_digit (n mod 16)]"
    by (simp add: numeral_2_eq_2)
  have "hex_word (2 * Suc k) n = hex_word (2 * k) (n div 256) @ [hex_digit (n div 16 mod 16), hex_digit (n mod 16)]"
    unfolding n(2) by simp
  then show ?case by (simp only: Suc two be_bytes.simps map_append concat_append list.map concat.simps append_Nil2)
qed simp

lemma sha256_hex_raw: "sha256_hex s = concat (map (hex_word 2) (sha256_raw s))"
  using hex_word_bytes [of 4] by (simp add: sha256_hex_def sha256_raw_def split: prod.split)

lemma record_hash_inject: "record_hash s = record_hash t \<Longrightarrow> sha256_hex s = sha256_hex t"
  using b64_unpadded_inject [of "sha256_raw s" "sha256_raw t"] sha256_raw_bytes
  by (simp add: record_hash_def sha256_hex_raw)

lemma check_record_row_Inr:
  assumes "check_record_row a [name, h, sz] = Inr ()" "h \<noteq> []"
  obtains b where "map_of (rev a) name = Some b" "cut_equals h = Inr (''sha256'', record_hash b)"
    "int_of_text sz = Inr (int (length b))"
  using assms by (auto simp: check_record_row_def flow)

lemma verify_record_pins:
  assumes "verify_record a1 r = Inr ()" "verify_record a2 r = Inr ()"
    "archive_read a1 r = Inr t" "archive_read a2 r = Inr t"
    "[name, h, sz] \<in> set (fst (csv_reader t))" "h \<noteq> []"
  shows "\<exists>b1 b2. map_of (rev a1) name = Some b1 \<and> map_of (rev a2) name = Some b2
    \<and> sha256_hex b1 = sha256_hex b2 \<and> length b1 = length b2"
proof -
  have row: "check_record_row a [name, h, sz] = Inr ()" if "verify_record a r = Inr ()" "archive_read a r = Inr t" for a
  proof -
    obtain rows e where "csv_reader t = (rows, e)" by fastforce
    with that have "\<exists>us. rmap (check_record_row a) (fst (csv_reader t)) = Inr us"
      by (auto simp: verify_record_def decode_text_def flow split: if_splits)
    with assms(5) obtain u where "check_record_row a [name, h, sz] = Inr u" unfolding rmap_returns by blast
    then show ?thesis by simp
  qed
  from check_record_row_Inr [OF row [OF assms(1,3)] assms(6)] obtain b1 where b1: "map_of (rev a1) name = Some b1"
    "cut_equals h = Inr (''sha256'', record_hash b1)" "int_of_text sz = Inr (int (length b1))" .
  from check_record_row_Inr [OF row [OF assms(2,4)] assms(6)] obtain b2 where b2: "map_of (rev a2) name = Some b2"
    "cut_equals h = Inr (''sha256'', record_hash b2)" "int_of_text sz = Inr (int (length b2))" .
  from b1(2,3) b2(2,3) have "record_hash b1 = record_hash b2" "length b1 = length b2" by simp_all
  with b1(1) b2(1) record_hash_inject show ?thesis by blast
qed

lemma check_wheel_metadata_pins:
  assumes "check_wheel_metadata pk b = Inr u"
  shows "\<exists>pins expected. rmap (pk_requirement pk) (filter (\<lambda>v. begins_with ''meridian-storage-'' v \<and> \<not> contains ''; extra =='' v)
      (headers_of (pk_headers pk b) ''Requires-Dist'')) = Inr pins
    \<and> rmap (pk_requirement pk) artifact_requirements = Inr expected \<and> set pins = set expected"
  using assms unfolding check_wheel_metadata_def Let_def artifact_bounds_def rbind_Inr_iff require_Inr_iff by blast

end
