(* ===== verification/Printing.thy ===== *)
theory Printing
  imports Sbom
begin

text \<open>
  \<open>json.loads\<close> reads back what \<open>json.dumps\<close> printed, in both layouts the scripts use: the same value with
  the keys of every dict in order. Strings go through the escapes and surrogate pairs of the ASCII
  output and come back as the UTF-8 bytes they were.
\<close>

section \<open>Characters\<close>

lemma char_of_byte: "n < 256 \<Longrightarrow> (of_char (char_of n :: char) :: nat) = n"
  by (simp add: of_char_of take_bit_eq_mod)

lemma of_char_byte: "(of_char c :: nat) < 256"
  by (rule nat_of_char_less_256)

lemma char_eqI: "(of_char c :: nat) = n \<Longrightarrow> char_of n = c"
  by auto

lemma hex_val_digit: "d < 16 \<Longrightarrow> hex_val (''0123456789abcdef'' ! d) = Some d"
proof -
  assume "d < 16"
  moreover have "\<forall>d \<in> set [0..<16]. hex_val (''0123456789abcdef'' ! d) = Some d" by code_simp
  ultimately show ?thesis by (simp only: set_upt) simp
qed

lemma hex_digits_value: "n < 65536 \<Longrightarrow>
  ((n div 4096 mod 16 * 16 + n div 256 mod 16) * 16 + n div 16 mod 16) * 16 + n mod 16 = (n :: nat)"
proof -
  assume n: "n < 65536"
  have "n = n div 16 * 16 + n mod 16" "n div 16 = n div 256 * 16 + n div 16 mod 16"
    "n div 256 = n div 4096 * 16 + n div 256 mod 16"
    using div_mult_mod_eq [of n 16] div_mult_mod_eq [of "n div 16" 16] div_mult_mod_eq [of "n div 256" 16]
    by (simp_all add: div_mult2_eq [symmetric])
  moreover have "n div 4096 mod 16 = n div 4096" using n by simp
  ultimately show ?thesis by presburger
qed

lemma hex4_escape:
  assumes "n < 65536"
  shows "hex4 (''0123456789abcdef'' ! (n div 16 ^ 3 mod 16)) (''0123456789abcdef'' ! (n div 16 ^ 2 mod 16))
    (''0123456789abcdef'' ! (n div 16 ^ 1 mod 16)) (''0123456789abcdef'' ! (n div 16 ^ 0 mod 16)) = Some n"
proof -
  have "n div 4096 mod 16 = n div 4096" "hex_val (''0123456789abcdef'' ! (n div 4096)) = Some (n div 4096)"
    using assms by (simp_all add: hex_val_digit)
  with hex_digits_value [OF assms] show ?thesis by (simp add: hex4_def hex_val_digit algebra_simps)
qed

lemma hex_escape_chars:
  "hex_escape n = [CHR 0x5C, CHR ''u'', ''0123456789abcdef'' ! (n div 16 ^ 3 mod 16), ''0123456789abcdef'' ! (n div 16 ^ 2 mod 16),
     ''0123456789abcdef'' ! (n div 16 ^ 1 mod 16), ''0123456789abcdef'' ! (n div 16 ^ 0 mod 16)]"
  by (simp add: hex_escape_def)

lemma scan_hex_escape:
  assumes "n < 65536"
  shows "scan_str h acc (hex_escape n @ r) = scan_str (fst (scan_u h n)) (acc @ snd (scan_u h n)) r"
proof -
  let ?x = "map (\<lambda>k. ''0123456789abcdef'' ! (n div 16 ^ k mod 16)) [3, 2, 1, 0]"
  have x: "length (?x @ r) = 4 + length r" "drop 4 (?x @ r) = r"
    "(?x @ r) ! 0 = ?x ! 0" "(?x @ r) ! 1 = ?x ! 1" "(?x @ r) ! 2 = ?x ! 2" "(?x @ r) ! 3 = ?x ! 3"
    by (simp_all add: nth_append)
  have "hex4 ((?x @ r) ! 0) ((?x @ r) ! 1) ((?x @ r) ! 2) ((?x @ r) ! 3) = Some n"
    unfolding x(3-6) using hex4_escape [OF assms] by simp
  then have "scan_escape h (CHR ''u'' # ?x @ r) = Some (fst (scan_u h n), snd (scan_u h n), r)"
    unfolding scan_escape_def using x(1,2) by simp
  then show ?thesis unfolding hex_escape_def by simp
qed

text \<open>A code point other than a surrogate.\<close>

definition scalar_point :: "nat \<Rightarrow> bool" where
  "scalar_point n \<longleftrightarrow> n < 0x110000 \<and> \<not> (0xD800 \<le> n \<and> n < 0xE000)"

lemma scan_short:
  assumes "escape_char e = Some x" "e \<noteq> CHR ''u''"
  shows "scan_str None acc ([CHR 0x5C, e] @ r) = scan_str None (acc @ [x]) r"
  using assms by (simp add: scan_escape_def flush_def)

definition short_escapes :: "(nat \<times> char) list" where
  "short_escapes = [(0x22, CHR 0x22), (0x5C, CHR 0x5C), (8, CHR ''b''), (9, CHR ''t''), (10, CHR ''n''), (12, CHR ''f''), (13, CHR ''r'')]"

lemma short_escapes:
  assumes "(n, e) \<in> set short_escapes"
  shows "ascii_char n = [CHR 0x5C, e] \<and> escape_char e = Some (char_of n) \<and> e \<noteq> CHR ''u'' \<and> n < 128"
proof -
  have "list_all (\<lambda>(n, e). ascii_char n = [CHR 0x5C, e] \<and> escape_char e = Some (char_of n) \<and> e \<noteq> CHR ''u'' \<and> n < 128) short_escapes"
    by code_simp
  with assms show ?thesis unfolding list_all_iff by blast
qed

lemma scan_point:
  assumes "scalar_point n"
  shows "scan_str None acc (ascii_char n @ r) = scan_str None (acc @ encode_cp n) r"
proof -
  consider (short) e where "(n, e) \<in> set short_escapes"
    | (plain) "32 \<le> n" "n < 127" "n \<noteq> 0x22" "n \<noteq> 0x5C"
    | (hex) "n < 65536" "n \<notin> {8, 9, 10, 12, 13}" "\<not> (32 \<le> n \<and> n < 127)"
    | (pair) "65536 \<le> n"
    by (cases "n < 65536"; cases "32 \<le> n \<and> n < 127") (auto simp: short_escapes_def)
  then show ?thesis
  proof cases
    case short
    with short_escapes [OF this] scan_short show ?thesis by (simp add: encode_cp_def)
  next
    case plain
    then have "(of_char (char_of n :: char) :: nat) = n" by (simp add: char_of_byte)
    moreover have "(of_char CHR 0x22 :: nat) = 0x22" "(of_char CHR 0x5C :: nat) = 0x5C" by code_simp+
    ultimately have "\<not> (of_char (char_of n :: char) :: nat) < 32" "(char_of n :: char) \<noteq> CHR 0x22" "(char_of n :: char) \<noteq> CHR 0x5C"
      using plain by (auto dest: arg_cong [where f = "of_char :: char \<Rightarrow> nat"])
    with plain show ?thesis by (simp add: ascii_char_def encode_cp_def flush_def)
  next
    case hex
    with assms have "scan_u None n = (None, encode_cp n)" by (auto simp: scan_u_def scalar_point_def flush_def)
    moreover have "ascii_char n = hex_escape n" using hex by (auto simp: ascii_char_def)
    ultimately show ?thesis using hex(1) by (simp add: scan_hex_escape)
  next
    case pair
    define m where "m = n - 0x10000"
    have m: "n = 0x10000 + m" "m < 0x100000" using pair assms by (simp_all add: m_def scalar_point_def)
    then have d: "m div 1024 < 1024" "m mod 1024 < 1024" "m div 1024 * 1024 + m mod 1024 = m" by simp_all
    have "scan_u None (0xD800 + x) = (Some (0xD800 + x), [])" if "x < 1024" for x
      using that by (simp add: scan_u_def flush_def)
    with d(1) have hi: "scan_u None (0xD800 + m div 1024) = (Some (0xD800 + m div 1024), [])" by blast
    have "scan_u (Some (0xD800 + x)) (0xDC00 + y) = (None, encode_cp (65536 + (x * 1024 + y)))" if "y < 1024" for x y
      using that by (simp add: scan_u_def add.assoc)
    with d(2,3) have lo: "scan_u (Some (0xD800 + m div 1024)) (0xDC00 + m mod 1024) = (None, encode_cp n)"
      unfolding m(1) by metis
    have "ascii_char n = hex_escape (0xD800 + m div 1024) @ hex_escape (0xDC00 + m mod 1024)"
      using pair by (simp add: m_def ascii_char_def)
    then show ?thesis using d by (simp add: scan_hex_escape hi lo)
  qed
qed

lemma scan_points:
  assumes "list_all scalar_point ns"
  shows "scan_str None acc (concat (map ascii_char ns) @ CHR 0x22 # r) = Some (acc @ concat (map encode_cp ns), r)"
  using assms by (induction ns arbitrary: acc) (simp_all add: scan_point flush_def)

section \<open>Strings\<close>

lemma byte_at_char: "byte_at (c # s) 0 = of_char c mod 64" "byte_at (c # s) (Suc i) = byte_at s i"
  "byte_at (a # b # c # s) 2 = of_char c mod 64"
  by (simp_all add: byte_at_def)

text \<open>The shapes of valid UTF-8.\<close>

lemma utf8_cases:
  assumes "utf8_valid s"
  obtains (nil) "s = []"
  | (one) a r where "s = a # r" "byte_in 0 127 a" "utf8_valid r"
  | (two) a b r where "s = a # b # r" "byte_in 194 223 a" "cont_byte b" "utf8_valid r"
  | (three) a b c r where "s = a # b # c # r" "lead3 a b" "cont_byte c" "utf8_valid r"
  | (four) a b c d r where "s = a # b # c # d # r" "lead4 a b" "cont_byte c" "cont_byte d" "utf8_valid r"
proof (cases s)
  case (Cons a t)
  consider "byte_in 0 127 a" "utf8_pending [] t"
    | "byte_in 194 223 a" "utf8_pending [cont_byte] t"
    | "utf8_pending [lead3 a, cont_byte] t" | "utf8_pending [lead4 a, cont_byte, cont_byte] t"
    using assms Cons by (auto simp: utf8_valid_def split: if_splits)
  then show thesis
  proof cases
    case 1
    then show thesis using one Cons by (simp add: utf8_valid_def)
  next
    case 2
    then show thesis using two Cons by (cases t) (auto simp: utf8_valid_def)
  next
    case 3
    then obtain b u where "t = b # u" "lead3 a b" "utf8_pending [cont_byte] u" by (cases t) auto
    then show thesis using three Cons by (cases u) (auto simp: utf8_valid_def)
  next
    case 4
    then obtain b u where t: "t = b # u" "lead4 a b" "utf8_pending [cont_byte, cont_byte] u" by (cases t) auto
    then obtain c v where "u = c # v" "cont_byte c" "utf8_pending [cont_byte] v" by (cases u) auto
    then show thesis using four Cons t by (cases v) (auto simp: utf8_valid_def)
  qed
qed (use nil in simp)

lemma cont_byteD: "cont_byte c \<Longrightarrow> 128 \<le> (of_char c :: nat) \<and> (of_char c :: nat) < 192 \<and> char_of (128 + of_char c mod 64 :: nat) = c"
proof -
  assume "cont_byte c"
  moreover have "128 + m mod 64 = m" if "128 \<le> m" "m \<le> 191" for m :: nat
  proof -
    from that have "m = 64 * 2 + (m - 128)" "m - 128 < 64" by simp_all
    then have "m mod 64 = m - 128" by (metis mod_less mod_mult_self4)
    with that show ?thesis by simp
  qed
  ultimately show ?thesis unfolding cont_byte_def Let_def by auto
qed

lemma base64_digits: "y < 64 \<Longrightarrow> (x * 64 + y) div 64 = x \<and> (x * 64 + y) mod 64 = (y :: nat)"
  by simp

lemma encode_three:
  assumes "n = (x * 64 + y) * 64 + z" "y < 64" "z < 64" "2048 \<le> n" "n < 65536"
  shows "encode_cp n = [char_of (224 + x), char_of (128 + y), char_of (128 + z)]"
proof -
  have "n div 64 = x * 64 + y" "n mod 64 = z" using base64_digits [OF assms(3), of "x * 64 + y"] unfolding assms(1) by blast+
  moreover from this have "n div 4096 = x" "n div 64 mod 64 = y"
    using base64_digits [OF assms(2), of x] div_mult2_eq [of n 64 64] by simp_all
  ultimately show ?thesis using assms(4,5) by (simp add: encode_cp_def)
qed

lemma encode_four:
  assumes "n = ((w * 64 + x) * 64 + y) * 64 + z" "x < 64" "y < 64" "z < 64" "65536 \<le> n"
  shows "encode_cp n = [char_of (240 + w), char_of (128 + x), char_of (128 + y), char_of (128 + z)]"
proof -
  have "n div 64 = (w * 64 + x) * 64 + y" "n mod 64 = z"
    using base64_digits [OF assms(4), of "(w * 64 + x) * 64 + y"] unfolding assms(1) by blast+
  moreover from this have "n div 4096 = w * 64 + x" "n div 64 mod 64 = y"
    using base64_digits [OF assms(3), of "w * 64 + x"] div_mult2_eq [of n 64 64] by simp_all
  moreover from this have "n div 262144 = w" "n div 4096 mod 64 = x"
    using base64_digits [OF assms(2), of w] div_mult2_eq [of n 4096 64] by simp_all
  ultimately show ?thesis using assms(5) by (simp add: encode_cp_def)
qed

lemma first_point_encoded:
  assumes "utf8_valid s" "s \<noteq> []"
  obtains n k where "first_point (hd s) (tl s) = (n, k)" "scalar_point n" "encode_cp n @ drop k (tl s) = s" "utf8_valid (drop k (tl s))"
  using assms(1)
proof (cases rule: utf8_cases)
  case nil
  with assms(2) show ?thesis by simp
next
  case (one a r)
  then have "(of_char a :: nat) < 128" by (simp add: byte_in_def Let_def)
  with one that [of "of_char a" 0] show ?thesis by (simp add: first_point_def scalar_point_def encode_cp_def)
next
  case (two a b r)
  define x y where "x = of_char a - (0xC0 :: nat)" and "y = of_char b mod (64 :: nat)"
  have a: "of_char a = 0xC0 + x" "2 \<le> x" "x < 32" using two(2) by (auto simp: byte_in_def Let_def x_def)
  have y: "y < 64" "char_of (128 + y) = b" using cont_byteD [OF two(3)] by (simp_all add: y_def)
  have f: "first_point a (b # r) = (x * 64 + y, 1)" using a by (simp add: first_point_def byte_at_char y_def)
  have "128 \<le> x * 64 + y" "x * 64 + y < 2048" using a y by linarith+
  moreover from this have "encode_cp (x * 64 + y) = [a, b]"
    using base64_digits [OF y(1), of x] y(2) a(1) char_eqI [of a "192 + x"] by (simp add: encode_cp_def)
  ultimately show ?thesis using that [of "x * 64 + y" 1] two f by (simp add: scalar_point_def)
next
  case (three a b c r)
  define x y z where "x = of_char a - (0xE0 :: nat)" and "y = of_char b mod (64 :: nat)" and "z = of_char c mod (64 :: nat)"
  have a: "of_char a = 0xE0 + x" "x < 16" using three(2) by (auto simp: lead3_def byte_in_def Let_def x_def)
  have cont: "cont_byte b" using three(2) by (auto simp: lead3_def byte_in_def cont_byte_def Let_def)
  have y: "y < 64" "char_of (128 + y) = b" using cont_byteD [OF cont] by (simp_all add: y_def)
  have z: "z < 64" "char_of (128 + z) = c" using cont_byteD [OF three(3)] by (simp_all add: z_def)
  have b: "of_char b = 128 + y" using cont_byteD [OF cont] y char_of_byte [of "128 + y"] by simp
  have edge: "x = 0 \<Longrightarrow> 32 \<le> y" "x = 13 \<Longrightarrow> y < 32"
    using three(2) unfolding lead3_def byte_in_def cont_byte_def Let_def a(1) b by linarith+
  have f: "first_point a (b # c # r) = ((x * 64 + y) * 64 + z, 2)"
    using a by (simp add: first_point_def byte_at_char y_def z_def)
  define n where "n = (x * 64 + y) * 64 + z"
  have "2048 \<le> n" using edge(1) by (cases "x = 0") (simp_all add: n_def)
  moreover have "n < 65536" using a(2) y(1) z(1) by (simp add: n_def)
  moreover have "n < 0xD800 \<or> 0xE000 \<le> n"
  proof -
    consider "x < 13" | "x = 13" | "13 < x" by linarith
    then show ?thesis using edge(2) y(1) z(1) by cases (simp_all add: n_def)
  qed
  moreover have "encode_cp n = [char_of (224 + x), char_of (128 + y), char_of (128 + z)]"
    by (rule encode_three [OF n_def y(1) z(1)]) fact+
  moreover have "char_of (224 + x) = a" using char_eqI [OF a(1)] by simp
  moreover from calculation have "scalar_point n" by (auto simp: scalar_point_def)
  ultimately show ?thesis using that [of n 2] three(1,4) f [folded n_def] y(2) z(2) by simp
next
  case (four a b c d r)
  define w x y z where "w = of_char a - (0xF0 :: nat)" and "x = of_char b mod (64 :: nat)"
    and "y = of_char c mod (64 :: nat)" and "z = of_char d mod (64 :: nat)"
  have a: "of_char a = 0xF0 + w" "w < 5" using four(2) by (auto simp: lead4_def byte_in_def Let_def w_def)
  have cont: "cont_byte b" using four(2) by (auto simp: lead4_def byte_in_def cont_byte_def Let_def)
  have x: "x < 64" "char_of (128 + x) = b" using cont_byteD [OF cont] by (simp_all add: x_def)
  have y: "y < 64" "char_of (128 + y) = c" using cont_byteD [OF four(3)] by (simp_all add: y_def)
  have z: "z < 64" "char_of (128 + z) = d" using cont_byteD [OF four(4)] by (simp_all add: z_def)
  have b: "of_char b = 128 + x" using cont_byteD [OF cont] x char_of_byte [of "128 + x"] by simp
  have edge: "w = 0 \<Longrightarrow> 16 \<le> x" "w = 4 \<Longrightarrow> x < 16"
    using four(2) unfolding lead4_def byte_in_def cont_byte_def Let_def a(1) b by linarith+
  define n where "n = ((w * 64 + x) * 64 + y) * 64 + z"
  have f: "first_point a (b # c # d # r) = (n, 3)"
    using a by (simp add: first_point_def byte_at_char x_def y_def z_def n_def)
  have "65536 \<le> n" using edge(1) by (cases "w = 0") (simp_all add: n_def)
  moreover have "n < 0x110000"
  proof (cases "w = 4")
    case True
    with edge(2) y(1) z(1) show ?thesis by (simp add: n_def)
  next
    case False
    with a(2) x(1) y(1) z(1) show ?thesis by (simp add: n_def)
  qed
  moreover have "encode_cp n = [char_of (240 + w), char_of (128 + x), char_of (128 + y), char_of (128 + z)]"
    by (rule encode_four [OF n_def x(1) y(1) z(1)]) fact
  moreover have "char_of (240 + w) = a" using char_eqI [OF a(1)] by simp
  moreover from calculation have "scalar_point n" by (auto simp: scalar_point_def)
  ultimately show ?thesis using that [of n 3] four(1,5) f x(2) y(2) z(2) by simp
qed

lemma code_points_encoded:
  "utf8_valid s \<Longrightarrow> concat (map encode_cp (code_points s)) = s \<and> list_all scalar_point (code_points s)"
proof (induction s rule: code_points.induct)
  case (2 c s)
  obtain n k where f: "first_point c s = (n, k)" "scalar_point n" "encode_cp n @ drop k s = c # s" "utf8_valid (drop k s)"
    using first_point_encoded [OF "2.prems"] by auto
  with "2.IH" [of n k] show ?case by simp
qed simp

lemma scan_dump_string:
  "utf8_valid s \<Longrightarrow> scan_str None [] (concat (map ascii_char (code_points s)) @ CHR 0x22 # r) = Some (s, r)"
  using code_points_encoded [of s] scan_points [of "code_points s" "[]" r] by simp

section \<open>Tokens\<close>

text \<open>A text that cannot continue a number.\<close>

definition ends_number :: "string \<Rightarrow> bool" where
  "ends_number r \<longleftrightarrow> (case r of [] \<Rightarrow> True | c # _ \<Rightarrow> \<not> is_digit c \<and> c \<notin> {CHR ''.'', CHR ''e'', CHR ''E''})"

lemma lex_space [simp]: "json_space c \<Longrightarrow> lex (c # r) = lex r"
  by simp

lemma lex_punctuation:
  assumes "punctuation c = Some t"
  shows "lex (c # r) = map_option (Cons t) (lex r)"
proof -
  have "\<not> json_space c" using assms by (auto simp: punctuation_def json_space_def split: if_splits)
  with assms show ?thesis by (simp add: scan_token_def)
qed

lemma lex_marks:
  "lex (CHR ''{'' # r) = map_option (Cons TLBrace) (lex r)" "lex (CHR ''}'' # r) = map_option (Cons TRBrace) (lex r)"
  "lex (CHR ''['' # r) = map_option (Cons TLBracket) (lex r)" "lex (CHR '']'' # r) = map_option (Cons TRBracket) (lex r)"
  "lex (CHR '':'' # r) = map_option (Cons TColon) (lex r)" "lex (CHR '','' # r) = map_option (Cons TComma) (lex r)"
  by (rule lex_punctuation; simp add: punctuation_def)+

lemma lex_quote: "scan_str None [] s = Some (x, r) \<Longrightarrow> lex (CHR 0x22 # s) = map_option (Cons (TStr x)) (lex r)"
  by (simp add: scan_token_def punctuation_def json_space_def)

lemma lex_string: "utf8_valid s \<Longrightarrow> lex (dump_string s @ r) = map_option (Cons (TStr s)) (lex r)"
  using lex_quote [OF scan_dump_string [of s r]] by (simp add: dump_string_def del: lex.simps(2))

lemma lex_literals:
  "lex (''null'' @ r) = map_option (Cons (TVal PNone)) (lex r)"
  "lex (''true'' @ r) = map_option (Cons (TVal (PBool True))) (lex r)"
  "lex (''false'' @ r) = map_option (Cons (TVal (PBool False))) (lex r)"
  by (simp_all add: scan_token_def punctuation_def json_space_def literals_def)

declare lex.simps(2) [simp del]

lemma nat_digits_leading: "n \<noteq> 0 \<Longrightarrow> hd (nat_digits n) \<noteq> CHR ''0''"
proof (induction n rule: nat_digits.induct)
  case (1 n)
  show ?case
  proof (cases "n < 10")
    case True
    have "(char_of (48 + n) :: char) \<noteq> CHR ''0''"
    proof
      assume "char_of (48 + n) = CHR ''0''"
      then have "(of_char (char_of (48 + n) :: char) :: nat) = of_char CHR ''0''" by simp
      with True "1.prems" show False unfolding of_char_digit [OF True] by simp
    qed
    with True show ?thesis by (subst nat_digits.simps) simp
  next
    case False
    then have "hd (nat_digits n) = hd (nat_digits (n div 10))" by (subst nat_digits.simps) simp
    with 1 False show ?thesis by simp
  qed
qed

lemma digit_head: "is_digit c \<Longrightarrow> \<not> json_space c \<and> punctuation c = None \<and> c \<noteq> CHR 0x22
    \<and> c \<notin> {CHR ''-'', CHR ''n'', CHR ''t'', CHR ''f'', CHR ''N'', CHR ''I''}"
proof -
  assume "is_digit c"
  then have "(of_char c :: nat) \<in> set [48..<58]" unfolding set_upt by (simp add: is_digit_def Let_def)
  then have "c \<in> set (map char_of [48..<58 :: nat])" by (metis char_of_char image_eqI list.set_map)
  moreover have "list_all (\<lambda>c. \<not> json_space c \<and> punctuation c = None \<and> c \<noteq> CHR 0x22
    \<and> c \<notin> {CHR ''-'', CHR ''n'', CHR ''t'', CHR ''f'', CHR ''N'', CHR ''I''}) (map char_of [48..<58 :: nat])"
    by code_simp
  ultimately show ?thesis unfolding list_all_iff by blast
qed

lemma scan_ends: "ends_number r \<Longrightarrow> scan_frac r = ([], r) \<and> scan_exp r = (None, r)"
  by (cases r) (auto simp: ends_number_def scan_frac_def scan_exp_def)

lemma scan_digits:
  assumes "ends_number r" "length (nat_digits n) \<le> 4300"
  shows "scan_num (nat_digits n @ r) = Some (PInt (int n), r)"
    "scan_num (CHR ''-'' # nat_digits n @ r) = Some (PInt (- int n), r)"
proof -
  have d: "list_all is_digit (nat_digits n)" "nat_digits n \<noteq> []" using list_all_nat_digits by auto
  have neg: "hd (nat_digits n) \<noteq> CHR ''-''" using d digit_head by (cases "nat_digits n") auto
  have rest: "takeWhile is_digit r = []" using assms(1) by (cases r) (auto simp: ends_number_def)
  have take: "takeWhile is_digit (nat_digits n @ r) = nat_digits n"
    using d(1) rest by (simp add: takeWhile_append2 list_all_iff)
  have ip: "(if nat_digits n @ r \<noteq> [] \<and> hd (nat_digits n @ r) = CHR ''0'' then ''0'' else takeWhile is_digit (nat_digits n @ r))
      = nat_digits n"
  proof (cases "n = 0")
    case True
    moreover have "nat_digits 0 = ''0''" by code_simp
    ultimately show ?thesis by simp
  next
    case False
    then show ?thesis using nat_digits_leading [of n] d(2) take by simp
  qed
  have sign: "(nat_digits n @ r \<noteq> [] \<and> hd (nat_digits n @ r) = CHR ''-'') = False"
    "(CHR ''-'' # nat_digits n @ r \<noteq> [] \<and> hd (CHR ''-'' # nat_digits n @ r) = CHR ''-'') = True"
    using neg d(2) by simp_all
  have drop: "drop (length (nat_digits n)) (nat_digits n @ r) = r" by simp
  show "scan_num (nat_digits n @ r) = Some (PInt (int n), r)"
    unfolding scan_num_def Let_def sign if_False ip drop using scan_ends [OF assms(1)] assms(2) d(2) by simp
  show "scan_num (CHR ''-'' # nat_digits n @ r) = Some (PInt (- int n), r)"
    unfolding scan_num_def Let_def sign if_True list.sel(3) ip drop using scan_ends [OF assms(1)] assms(2) d(2) by simp
qed

lemma lex_int:
  assumes "ends_number r" "length (int_str i) \<le> 4300"
  shows "lex (int_str i @ r) = map_option (Cons (TVal (PInt i))) (lex r)"
proof (cases "i < 0")
  case True
  define n where "n = nat (- i)"
  with True assms(2) have n: "i = - int n" "length (nat_digits n) \<le> 4300" "int_str i = CHR ''-'' # nat_digits n"
    by (simp_all add: int_str_def)
  have "scan_literal literals (CHR ''-'' # nat_digits n @ r) = None"
    using list_all_nat_digits [of n] digit_head by (cases "nat_digits n") (auto simp: literals_def)
  then have "scan_token CHR ''-'' (nat_digits n @ r) = Some (TVal (PInt i), r)"
    using scan_digits(2) [OF assms(1) n(2)] n(1) by (simp add: scan_token_def punctuation_def)
  then show ?thesis unfolding n(3) by (simp add: json_space_def lex.simps(2))
next
  case False
  define n where "n = nat i"
  with False assms(2) have n: "i = int n" "length (nat_digits n) \<le> 4300" "int_str i = nat_digits n"
    by (simp_all add: int_str_def)
  obtain c s where c: "nat_digits n = c # s" "is_digit c" using list_all_nat_digits [of n] by (cases "nat_digits n") auto
  have "scan_literal literals (c # s @ r) = None" using digit_head [OF c(2)] by (auto simp: literals_def)
  then have "scan_token c (s @ r) = Some (TVal (PInt i), r)"
    using scan_digits(1) [OF assms(1) n(2)] n(1) c digit_head [OF c(2)] by (simp add: scan_token_def)
  then show ?thesis unfolding n(3) c(1) using digit_head [OF c(2)] by (simp add: lex.simps(2))
qed

section \<open>Printed values\<close>

text \<open>What the scripts print: plain data with valid strings and integers \<open>json.loads\<close> accepts.\<close>

fun printable :: "pyval \<Rightarrow> bool" where
  "printable (PStr s) = utf8_valid s"
| "printable (PBool b) = True"
| "printable (PInt i) = (length (int_str i) \<le> 4300)"
| "printable PNone = True"
| "printable (PList xs) = list_all printable xs"
| "printable (PDict d) = (distinct (map fst d) \<and> list_all (\<lambda>p. utf8_valid (fst p) \<and> printable (snd p)) d)"
| "printable _ = False"

fun key_sorted :: "pyval \<Rightarrow> pyval" where
  "key_sorted (PList xs) = PList (map key_sorted xs)"
| "key_sorted (PDict d) = PDict (sort_dict (map (\<lambda>p. (fst p, key_sorted (snd p))) d))"
| "key_sorted v = v"

fun separated :: "token list list \<Rightarrow> token list" where
  "separated [] = []"
| "separated [t] = t"
| "separated (t # u # ts) = t @ TComma # separated (u # ts)"

fun json_tokens :: "pyval \<Rightarrow> token list" where
  "json_tokens (PStr s) = [TStr s]"
| "json_tokens (PList xs) = TLBracket # separated (map json_tokens xs) @ [TRBracket]"
| "json_tokens (PDict d) =
     TLBrace # separated (map (\<lambda>p. TStr (fst p) # TColon # json_tokens (snd p)) d) @ [TRBrace]"
| "json_tokens v = [TVal v]"

definition ascii :: "string \<Rightarrow> bool" where
  "ascii s \<longleftrightarrow> list_all (\<lambda>c. (of_char c :: nat) < 128) s"

definition reads :: "string \<Rightarrow> token list \<Rightarrow> bool" where
  "reads s ts \<longleftrightarrow> ascii s \<and> (\<forall>r. ends_number r \<longrightarrow> lex (s @ r) = map_option (append ts) (lex r))"

lemma ascii_append [simp]: "ascii (s @ t) \<longleftrightarrow> ascii s \<and> ascii t"
  by (simp add: ascii_def)

lemma ascii_simps [simp]: "ascii []" "ascii (c # s) \<longleftrightarrow> (of_char c :: nat) < 128 \<and> ascii s"
  by (simp_all add: ascii_def)

lemma append_single: "(@) [x] = (#) x" "(@) (x # xs) = (\<lambda>r. x # xs @ r)"
  by (simp_all add: fun_eq_iff)

lemma reads_single: "reads s [t] \<longleftrightarrow> ascii s \<and> (\<forall>r. ends_number r \<longrightarrow> lex (s @ r) = map_option (Cons t) (lex r))"
  by (simp add: reads_def append_single)

lemma ascii_utf8: "ascii s \<Longrightarrow> utf8_valid s"
  by (induction s) (auto simp: ascii_def utf8_valid_def byte_in_def Let_def)

lemma ascii_point: "scalar_point n \<Longrightarrow> ascii (ascii_char n)"
proof -
  have "\<forall>d \<in> set [0..<16]. (of_char (''0123456789abcdef'' ! d) :: nat) < 128" by code_simp
  then have digit: "(of_char (''0123456789abcdef'' ! d) :: nat) < 128" if "d < 16" for d
    using that by (simp only: set_upt) simp
  have marks: "ascii [CHR 0x5C, CHR ''u'']" "ascii [CHR 0x5C, CHR ''b'']" "ascii [CHR 0x5C, CHR ''t'']" "ascii [CHR 0x5C, CHR ''n'']"
    "ascii [CHR 0x5C, CHR ''f'']" "ascii [CHR 0x5C, CHR ''r'']" "ascii [CHR 0x5C]"
    by code_simp+
  have hex: "ascii (hex_escape m)" for m
    unfolding hex_escape_def ascii_append using marks(1) digit by (simp add: ascii_def)
  have char: "ascii [char_of m]" if "m < 128" for m :: nat
    using that char_of_byte [of m] by (simp add: ascii_def)
  have "ascii [CHR 0x5C, char_of m]" if "m < 128" for m :: nat
    using marks(7) char [OF that] ascii_append [of "[CHR 0x5C]" "[char_of m]"] by simp
  with hex char marks show ?thesis by (auto simp: ascii_char_def simp del: char_of_nat)
qed

lemma ends_number_marks [simp]:
  "ends_number []" "ends_number (CHR '','' # r)" "ends_number (CHR '']'' # r)" "ends_number (CHR ''}'' # r)"
  "ends_number (CHR 0x0A # r)"
  by (simp_all add: ends_number_def is_digit_def)

lemma reads_string: "utf8_valid s \<Longrightarrow> reads (dump_string s) [TStr s]"
proof -
  assume s: "utf8_valid s"
  have "ascii (concat (map ascii_char ns))" if "list_all scalar_point ns" for ns
    using that by (induction ns) (simp_all add: ascii_point)
  then have "ascii (concat (map ascii_char (code_points s)))" using code_points_encoded [OF s] by blast
  moreover have "ascii [CHR 0x22]" by code_simp
  ultimately have "ascii (dump_string s)" using ascii_append [of "[CHR 0x22]"] by (simp add: dump_string_def)
  then show ?thesis using lex_string [OF s] by (simp add: reads_single)
qed

text \<open>White space between the tokens.\<close>

definition blank :: "string \<Rightarrow> bool" where
  "blank ws \<longleftrightarrow> list_all json_space ws"

lemma blank_simps [simp]: "blank []" "blank (new_line n)" "blank '' ''"
  by (simp_all add: blank_def new_line_def json_space_def list_all_iff)

lemma blank_text:
  assumes "blank ws"
  shows "ascii ws" "lex (ws @ r) = lex r" "ends_number r \<Longrightarrow> ends_number (ws @ r)"
proof -
  have "(of_char c :: nat) < 128" if "json_space c" for c using that by (auto simp: json_space_def)
  then show "ascii ws" using assms by (induction ws) (simp_all add: blank_def)
  show "lex (ws @ r) = lex r" using assms by (induction ws) (auto simp: blank_def)
  show "ends_number r \<Longrightarrow> ends_number (ws @ r)"
    using assms by (cases ws) (auto simp: blank_def json_space_def ends_number_def is_digit_def)
qed

lemma ascii_marks [simp]: "ascii ''[''" "ascii '']''" "ascii ''{''" "ascii ''}''" "ascii '',''" "ascii '':''"
  by code_simp+

lemma reads_joined:
  assumes "list_all2 reads ss tss" "blank ws"
  shows "ascii (joined ('','' @ ws) ss)"
    "ends_number r \<Longrightarrow> lex (joined ('','' @ ws) ss @ r) = map_option (append (separated tss)) (lex r)"
proof -
  show "ascii (joined ('','' @ ws) ss)"
    using assms(1)
  proof (induction rule: list_all2_induct)
    case (Cons s ss t ts)
    then have "ascii s" by (simp add: reads_def)
    with Cons(3) blank_text(1) [OF assms(2)] ascii_marks show ?case
      using ascii_append [of "'',''"] by (cases ss) simp_all
  qed simp
  show "lex (joined ('','' @ ws) ss @ r) = map_option (append (separated tss)) (lex r)" if "ends_number r"
    using assms(1)
  proof (induction rule: list_all2_induct)
    case Nil
    then show ?case by (simp add: option.map_id0 [unfolded id_def])
  next
    case (Cons s ss t ts)
    from Cons(1) have s: "lex (s @ x) = map_option (append t) (lex x)" if "ends_number x" for x
      using that by (simp add: reads_def)
    show ?case
    proof (cases ss)
      case Nil
      with Cons(2) s [OF that] show ?thesis by simp
    next
      case more: (Cons s2 ss')
      with Cons(2) obtain t2 ts' where ts: "ts = t2 # ts'" by (cases ts) auto
      have "lex (joined ('','' @ ws) (s # ss) @ r) = lex (s @ CHR '','' # ws @ joined ('','' @ ws) ss @ r)"
        using more by simp
      also have "\<dots> = map_option (append t) (map_option (Cons TComma) (lex (joined ('','' @ ws) ss @ r)))"
        unfolding s [OF ends_number_marks(2)] lex_marks blank_text(2) [OF assms(2)] ..
      finally show ?thesis unfolding Cons(3) ts by (simp add: option.map_comp o_def)
    qed
  qed
qed

lemma reads_enclosed:
  assumes ss: "list_all2 reads ss tss" and blank: "blank ws" "blank ws'"
    and mark: "open_mark = ''['' \<and> close_mark = '']'' \<and> ot = TLBracket \<and> ct = TRBracket
      \<or> open_mark = ''{'' \<and> close_mark = ''}'' \<and> ot = TLBrace \<and> ct = TRBrace"
  shows "reads (open_mark @ ws @ joined ('','' @ ws) ss @ ws' @ close_mark) (ot # separated tss @ [ct])"
proof -
  have ends: "ends_number (ws' @ close_mark @ r)" for r using mark blank_text(3) [OF blank(2)] by auto
  have "lex (open_mark @ ws @ joined ('','' @ ws) ss @ ws' @ close_mark @ r)
      = map_option (Cons ot) (map_option (append (separated tss)) (map_option (Cons ct) (lex r)))" for r
  proof -
    have "lex (open_mark @ x) = map_option (Cons ot) (lex x)" "lex (close_mark @ x) = map_option (Cons ct) (lex x)" for x
      using mark lex_marks by auto
    then show ?thesis by (simp only: blank_text(2) [OF blank(1)] blank_text(2) [OF blank(2)] reads_joined(2) [OF ss blank(1) ends])
  qed
  moreover have "ascii open_mark" "ascii close_mark" using mark by auto
  ultimately show ?thesis
    unfolding reads_def using reads_joined(1) [OF ss blank(1)] blank_text(1) [OF blank(1)] blank_text(1) [OF blank(2)]
    by (simp add: option.map_comp o_def append_single)
qed

lemma reads_entry:
  assumes "utf8_valid k" "reads s ts" "blank ws"
  shows "reads (dump_string k @ '':'' @ ws @ s) (TStr k # TColon # ts)"
proof -
  have "ascii (dump_string k)" "ascii s" "ascii ws"
    using reads_string [OF assms(1)] assms(2) blank_text(1) [OF assms(3)] by (simp_all add: reads_def)
  moreover have "lex ((dump_string k @ '':'' @ ws @ s) @ r) = map_option (append (TStr k # TColon # ts)) (lex r)"
    if "ends_number r" for r
  proof -
    have "lex (s @ r) = map_option (append ts) (lex r)" using assms(2) that by (simp add: reads_def)
    then show ?thesis
      by (simp add: lex_string [OF assms(1)] lex_marks(5) blank_text(2) [OF assms(3)] option.map_comp o_def append_single)
  qed
  ultimately show ?thesis by (simp add: reads_def)
qed

lemma reads_scalars:
  "reads ''null'' [TVal PNone]" "reads ''true'' [TVal (PBool True)]" "reads ''false'' [TVal (PBool False)]"
  "length (int_str i) \<le> 4300 \<Longrightarrow> reads (int_str i) [TVal (PInt i)]"
proof -
  show "reads ''null'' [TVal PNone]" "reads ''true'' [TVal (PBool True)]" "reads ''false'' [TVal (PBool False)]"
    using lex_literals by (simp_all add: reads_single)
  have "ascii (nat_digits n)" for n
    using list_all_nat_digits [of n] by (auto simp: ascii_def list_all_iff is_digit_def Let_def)
  then have "ascii (int_str i)" by (simp add: int_str_def)
  then show "length (int_str i) \<le> 4300 \<Longrightarrow> reads (int_str i) [TVal (PInt i)]"
    using lex_int by (simp add: reads_single)
qed

section \<open>Printing and reading back\<close>

lemma sort_dict_Nil [simp]: "sort_dict [] = []"
  by (simp add: sort_dict_def)

lemma sort_dict_map:
  fixes f :: "'a \<Rightarrow> 'b"
  shows "sort_dict (map (\<lambda>p. (fst p, f (snd p))) d) = map (\<lambda>p. (fst p, f (snd p))) (sort_dict d)"
proof -
  have insert: "insort_key fst (fst p, f (snd p)) (map (\<lambda>p. (fst p, f (snd p))) d)
      = map (\<lambda>p. (fst p, f (snd p))) (insort_key fst p d)" for p and d :: "(string \<times> 'a) list"
    by (induction d) auto
  show ?thesis unfolding sort_dict_def by (induction d) (simp_all add: insert)
qed

lemma compact_maps:
  "compact_list xs = map dump_compact xs" "compact_items d = map (\<lambda>p. (fst p, dump_compact (snd p))) d"
proof -
  show "compact_list xs = map dump_compact xs" by (induction xs) simp_all
  show "compact_items d = map (\<lambda>p. (fst p, dump_compact (snd p))) d" by (induction d) simp_all
qed

lemma dump_maps:
  "dump_list n xs = map (dump_indented n) xs" "dump_items n d = map (\<lambda>p. (fst p, dump_indented n (snd p))) d"
proof -
  show "dump_list n xs = map (dump_indented n) xs" by (induction xs) simp_all
  show "dump_items n d = map (\<lambda>p. (fst p, dump_indented n (snd p))) d" by (induction d) simp_all
qed

lemma reads_map: "(\<And>x. x \<in> set xs \<Longrightarrow> reads (f x) (g x)) \<Longrightarrow> list_all2 reads (map f xs) (map g xs)"
  by (induction xs) auto

lemma reads_compact: "printable v \<Longrightarrow> reads (dump_compact v) (json_tokens (key_sorted v))"
proof (induction v rule: printable.induct)
  case (1 s)
  then show ?case using reads_string by simp
next
  case (2 b)
  then show ?case using reads_scalars by simp
next
  case (3 i)
  then show ?case using reads_scalars by simp
next
  case 4
  then show ?case using reads_scalars by simp
next
  case (5 xs)
  then have "list_all2 reads (map dump_compact xs) (map (json_tokens \<circ> key_sorted) xs)"
    by (intro reads_map) (simp add: list_all_iff)
  from reads_enclosed [OF this, of "[]" "[]" "''[''" "'']''" TLBracket TRBracket] show ?case
    by (simp add: compact_maps)
next
  case (6 d)
  have "reads (dump_string (fst p) @ '':'' @ [] @ dump_compact (snd p)) (TStr (fst p) # TColon # json_tokens (key_sorted (snd p)))"
    if "p \<in> set d" for p
    using 6 that by (intro reads_entry) (simp_all add: list_all_iff)
  then have "list_all2 reads (map (\<lambda>p. dump_string (fst p) @ '':'' @ [] @ dump_compact (snd p)) (sort_dict d))
      (map (\<lambda>p. TStr (fst p) # TColon # json_tokens (key_sorted (snd p))) (sort_dict d))"
    by (intro reads_map) simp
  from reads_enclosed [OF this, of "[]" "[]" "''{''" "''}''" TLBrace TRBrace] show ?case
    by (simp add: compact_maps sort_dict_map o_def)
qed simp_all

lemma reads_indented: "printable v \<Longrightarrow> reads (dump_indented n v) (json_tokens (key_sorted v))"
proof (induction v arbitrary: n rule: printable.induct)
  case (1 s)
  then show ?case using reads_string by simp
next
  case (2 b)
  then show ?case using reads_scalars by simp
next
  case (3 i)
  then show ?case using reads_scalars by simp
next
  case 4
  then show ?case using reads_scalars by simp
next
  case (5 xs)
  then have all: "list_all2 reads (map (dump_indented (n + 1)) xs) (map (json_tokens \<circ> key_sorted) xs)"
    by (intro reads_map) (simp add: list_all_iff)
  have "reads (''['' @ [] @ joined ('','' @ []) [] @ [] @ '']'') (TLBracket # separated [] @ [TRBracket])"
    by (rule reads_enclosed) simp_all
  with reads_enclosed [OF all, of "new_line (n + 1)" "new_line n" "''[''" "'']''" TLBracket TRBracket] show ?case
    by (auto simp: dump_maps)
next
  case (6 d)
  have "reads (dump_string (fst p) @ '':'' @ '' '' @ dump_indented (n + 1) (snd p)) (TStr (fst p) # TColon # json_tokens (key_sorted (snd p)))"
    if "p \<in> set d" for p
    using 6 that by (intro reads_entry) (simp_all add: list_all_iff)
  then have all: "list_all2 reads (map (\<lambda>p. dump_string (fst p) @ '':'' @ '' '' @ dump_indented (n + 1) (snd p)) (sort_dict d))
      (map (\<lambda>p. TStr (fst p) # TColon # json_tokens (key_sorted (snd p))) (sort_dict d))"
    by (intro reads_map) simp
  have "reads (''{'' @ [] @ joined ('','' @ []) [] @ [] @ ''}'') (TLBrace # separated [] @ [TRBrace])"
    by (rule reads_enclosed) simp_all
  with reads_enclosed [OF all, of "new_line (n + 1)" "new_line n" "''{''" "''}''" TLBrace TRBrace] show ?case
    by (auto simp: dump_maps sort_dict_map o_def)
qed simp_all

text \<open>The parser takes the tokens of a value to that value.\<close>

fun keyed :: "pyval \<Rightarrow> bool" where
  "keyed (PList xs) = list_all keyed xs"
| "keyed (PDict d) = (distinct (map fst d) \<and> list_all (\<lambda>p. keyed (snd p)) d)"
| "keyed v = True"

definition parsed :: "pyval \<Rightarrow> bool" where
  "parsed v \<longleftrightarrow> (\<forall>ts stk b. parse_tokens (json_tokens v @ ts) stk (MValue b) = parse_tokens ts stk (MAfter v))"

lemma parse_items:
  assumes "list_all parsed xs" "xs \<noteq> []"
  shows "parse_tokens (separated (map json_tokens xs) @ TRBracket # ts) (FArr ys # stk) (MValue b)
    = parse_tokens ts stk (MAfter (PList (ys @ xs)))"
  using assms
proof (induction xs arbitrary: ys b rule: induct_list012)
  case (3 x y xs)
  then have "parse_tokens (json_tokens x @ us) (FArr ys # stk) (MValue b) = parse_tokens us (FArr ys # stk) (MAfter x)" for us
    by (simp add: parsed_def)
  with 3 show ?case by simp
qed (simp_all add: parsed_def)

lemma update_fresh: "k \<notin> keys d \<Longrightarrow> AList.update k v d = d @ [(k, v)]"
  by (induction d) auto

lemma parse_entries:
  assumes "list_all (\<lambda>p. parsed (snd p)) d" "d \<noteq> []" "distinct (map fst (e @ d))"
  shows "parse_tokens (separated (map (\<lambda>p. TStr (fst p) # TColon # json_tokens (snd p)) d) @ TRBrace # ts) stk (MKey e b)
    = parse_tokens ts stk (MAfter (PDict (e @ d)))"
  using assms
proof (induction d arbitrary: e b rule: induct_list012)
  case (2 p)
  then show ?case by (cases p) (simp add: parsed_def update_fresh)
next
  case (3 p q d)
  then have "parse_tokens (json_tokens (snd p) @ us) (FObj e (fst p) # stk) (MValue False)
      = parse_tokens us (FObj e (fst p) # stk) (MAfter (snd p))" for us
    by (simp add: parsed_def)
  moreover have "AList.update (fst p) (snd p) e = e @ [p]" using 3 update_fresh [of "fst p" e "snd p"] by simp
  moreover have "parse_tokens (separated (map (\<lambda>p. TStr (fst p) # TColon # json_tokens (snd p)) (q # d)) @ TRBrace # ts) stk
      (MKey (e @ [p]) False) = parse_tokens ts stk (MAfter (PDict ((e @ [p]) @ q # d)))"
    using 3(3,5) by (intro 3(2)) auto
  ultimately show ?case by simp
qed simp

lemma parsed_keyed: "keyed v \<Longrightarrow> parsed v"
proof (induction v rule: keyed.induct)
  case (1 xs)
  then have "list_all parsed xs" by (simp add: list_all_iff)
  then show ?case using parse_items [of xs _ "[]"] by (cases "xs = []") (simp_all add: parsed_def)
next
  case (2 d)
  then have "list_all (\<lambda>p. parsed (snd p)) d" by (simp add: list_all_iff)
  with 2 show ?case using parse_entries [of d "[]"] by (cases "d = []") (simp_all add: parsed_def)
qed (simp_all add: parsed_def)

lemma keyed_sorted: "printable v \<Longrightarrow> keyed (key_sorted v)"
  by (induction v rule: printable.induct) (auto simp: list_all_iff o_def sort_dict_map)

lemma reads_loads:
  assumes "reads s (json_tokens (key_sorted v))" "printable v" "blank ws"
  shows "json_loads (s @ ws) = Some (key_sorted v)"
proof -
  have "lex (s @ ws) = map_option (append (json_tokens (key_sorted v))) (lex ws)"
    using assms(1) blank_text(3) [OF assms(3), of "[]"] by (simp add: reads_def)
  moreover have "lex ws = Some []" using blank_text(2) [OF assms(3), of "[]"] by simp
  moreover have "utf8_valid (s @ ws)" using assms(1) blank_text(1) [OF assms(3)] by (intro ascii_utf8) (simp add: reads_def)
  moreover have "parsed (key_sorted v)" using assms(2) by (intro parsed_keyed keyed_sorted)
  then have "parse_tokens (json_tokens (key_sorted v) @ []) [] (MValue False) = parse_tokens [] [] (MAfter (key_sorted v))"
    unfolding parsed_def by blast
  ultimately show ?thesis by (simp add: json_loads_def)
qed

text \<open>What \<open>json.dumps\<close> prints, in either layout and with or without a final line break, \<open>json.loads\<close> reads back.\<close>

lemma json_loads_dump:
  assumes "printable v"
  shows "json_loads (dump_compact v) = Some (key_sorted v)" "json_loads (dump_indented n v @ [CHR 0x0A]) = Some (key_sorted v)"
    "json_loads (dump_indented n v) = Some (key_sorted v)"
  using reads_loads [OF reads_compact [OF assms] assms, of "[]"] reads_loads [OF reads_indented [OF assms] assms]
    blank_simps(1) blank_simps(2) [of 0] by (fastforce simp: new_line_def)+

section \<open>The SBOM read back\<close>

lemma ascii_digits: "list_all is_digit s \<Longrightarrow> ascii s"
  by (induction s) (auto simp: is_digit_def Let_def)

lemma ascii_hash: "ascii (sha256_hex b)"
proof -
  have "ascii s" if "list_all is_lower_hex s" for s
    using that by (induction s) (auto simp: is_lower_hex_def is_digit_def Let_def)
  then show ?thesis using sha256_hex_format(2) by blast
qed

lemma ascii_epoch: "epoch_text v = Inr t \<Longrightarrow> ascii t"
  by (auto simp: epoch_text_def format_seconds_def flow ascii_digits pad_digits)

lemma printable_document:
  assumes "list_all utf8_valid names" "\<And>n h. map_of checksums n = Some h \<Longrightarrow> ascii h" "ascii created"
  shows "printable (sbom_document names checksums created)"
proof -
  have id: "utf8_valid (artifact_id i)" for i
    by (rule ascii_utf8) (simp add: artifact_id_def ascii_digits list_all_nat_digits)
  define numbered where "numbered = zip [1..<Suc (length names)] names"
  define files where "files = map (file_entry checksums) numbered"
  define rels where "rels = relationship ''SPDXRef-DOCUMENT'' ''DESCRIBES'' ''SPDXRef-Package''
    # map (\<lambda>p. relationship ''SPDXRef-Package'' ''GENERATES'' (artifact_id (fst p))) numbered"
  have names: "utf8_valid (snd p)" if "p \<in> set numbered" for p
    using assms(1) that set_zip_rightD [of "fst p" "snd p"] by (simp add: list_all_iff numbered_def)
  have "printable (file_entry checksums p)" if "utf8_valid (snd p)" for p
  proof -
    have "printable (of_opt PStr (map_of checksums (snd p)))"
      using assms(2) [of "snd p"] by (cases "map_of checksums (snd p)") (simp_all add: ascii_utf8)
    with that id show ?thesis by (simp add: file_entry_def ascii_utf8)
  qed
  with names have "list_all printable files" by (simp add: files_def list_all_iff)
  moreover have "printable (relationship a k b)" if "ascii a" "ascii k" "utf8_valid b" for a k b
    using that by (simp add: relationship_def ascii_utf8)
  then have "list_all printable rels" using id by (simp add: rels_def list_all_iff ascii_utf8)
  moreover have "utf8_valid created" using assms(3) by (rule ascii_utf8)
  ultimately show ?thesis
    unfolding sbom_document_def Let_def numbered_def [symmetric] files_def [symmetric] rels_def [symmetric]
    by (simp add: ascii_utf8 ascii_hash sbom_name_def sbom_version_def)
qed

lemma generated_sbom_reads:
  assumes "generate_sbom xs epoch = Inr out" "distinct (map fst xs)" "list_all utf8_valid (map fst xs)"
  obtains created checksums where
    "epoch_text (PInt (projr (int_of_text (case epoch of None \<Rightarrow> ''0'' | Some t \<Rightarrow> t)))) = Inr created"
    "\<And>n. map_of checksums n = file_hash xs n"
    "json_loads out = Some (key_sorted (sbom_document (map fst (sort_key fst xs)) checksums created))"
proof -
  let ?f = "\<lambda>p. rbind (read_bytes [p] (fst p)) (\<lambda>b. Inr (fst p, sha256_hex b))"
  from generate_sbom_returns [OF assms(1,2)] obtain created checksums where
    out: "out = dump_indented 0 (sbom_document (map fst (sort_key fst xs)) checksums created) @ [CHR 0x0A]"
      "\<And>n. map_of checksums n = file_hash xs n"
      "epoch_text (PInt (projr (int_of_text (case epoch of None \<Rightarrow> ''0'' | Some t \<Rightarrow> t)))) = Inr created"
    by metis
  have "printable (sbom_document (map fst (sort_key fst xs)) checksums created)"
  proof (rule printable_document)
    show "list_all utf8_valid (map fst (sort_key fst xs))" using assms(3) by (simp add: list_all_iff)
    show "ascii h" if "map_of checksums n = Some h" for n h
      using that ascii_hash by (auto simp: out(2) file_hash_def split: option.splits)
    show "ascii created" using out(3) by (rule ascii_epoch)
  qed
  from json_loads_dump(2) [OF this, of 0] show thesis unfolding out(1) [symmetric] by (rule that [OF out(3,2)])
qed

lemma document_created:
  "\<exists>s i. key_sorted (sbom_document names checksums created) = PDict s \<and> map_of s ''creationInfo'' = Some (PDict i)
    \<and> map_of i ''created'' = Some (PStr created)"
  by (simp add: sbom_document_def Let_def map_of_sort_dict)

section \<open>Checksum lists\<close>

text \<open>The lines \<open>sha256sum\<close> writes, as the release check reads them.\<close>

definition plain :: "string \<Rightarrow> bool" where
  "plain s \<longleftrightarrow> list_all (\<lambda>c. 32 < (of_char c :: nat) \<and> (of_char c :: nat) < 127) s"

definition checksum_text :: "string dict \<Rightarrow> string" where
  "checksum_text ps = concat (map (\<lambda>p. snd p @ ''  '' @ fst p @ [CHR 0x0A]) ps)"

lemma plain_simps [simp]: "plain []" "plain (c # s) \<longleftrightarrow> 32 < (of_char c :: nat) \<and> (of_char c :: nat) < 127 \<and> plain s"
  "plain (s @ t) \<longleftrightarrow> plain s \<and> plain t"
  by (simp_all add: plain_def)

lemma plain_hash: "plain (sha256_hex b)"
proof -
  have "plain s" if "list_all is_lower_hex s" for s
    using that by (induction s) (auto simp: is_lower_hex_def is_digit_def Let_def)
  then show ?thesis using sha256_hex_format(2) by blast
qed

lemma split_lines_plain:
  assumes "list_all (\<lambda>c. 32 \<le> (of_char c :: nat) \<and> (of_char c :: nat) < 127) l"
  shows "split_lines acc (l @ CHR 0x0A # r) = (rev acc @ l) # split_lines [] r"
  using assms
proof (induction l arbitrary: acc)
  case (Cons c l)
  then have "line_break (c # l @ CHR 0x0A # r) = 0" by (simp add: Let_def)
  with Cons show ?case by (simp del: line_break.simps)
qed (simp add: Let_def)

lemma cut_plain: "plain h \<Longrightarrow> cut_two_spaces (h @ ''  '' @ n) = Some (h, n)"
  by (induction h) (auto simp: plain_def)

lemma dict_of_distinct_pairs:
  fixes ps :: "(string \<times> 'v) list"
  assumes "distinct (map fst ps)"
  shows "dict_of_pairs ps = ps"
proof -
  have "foldl (\<lambda>d p. AList.update (fst p) (snd p) d) d ps = d @ ps" if "distinct (map fst (d @ ps))" for d
    using that
  proof (induction ps arbitrary: d)
    case (Cons p ps)
    then have "AList.update (fst p) (snd p) d = d @ [p]" using update_fresh [of "fst p" d "snd p"] by simp
    with Cons show ?case by simp
  qed simp
  with assms show ?thesis by (simp add: dict_of_pairs_def)
qed

lemma read_checksums_text:
  assumes "distinct (map fst ps)" "list_all (\<lambda>p. plain (fst p) \<and> plain (snd p)) ps"
  shows "read_checksums (checksum_text ps) = Inr ps"
proof -
  have lines: "split_lines [] (checksum_text ps) = map (\<lambda>p. snd p @ ''  '' @ fst p) ps"
    using assms(2)
  proof (induction ps)
    case (Cons p ps)
    then have "list_all (\<lambda>c. 32 \<le> (of_char c :: nat) \<and> (of_char c :: nat) < 127) (snd p @ ''  '' @ fst p)"
      by (auto simp: plain_def list_all_iff)
    from split_lines_plain [OF this, of "[]" "checksum_text ps"] Cons show ?case by (simp add: checksum_text_def)
  qed (simp add: checksum_text_def)
  have "ascii s" if "plain s" for s using that by (induction s) simp_all
  then have "ascii (checksum_text ps)"
    using assms(2) by (induction ps) (simp_all add: checksum_text_def)
  then have "utf8_valid (checksum_text ps)" by (rule ascii_utf8)
  moreover have "rmap checksum_entry (map (\<lambda>p. snd p @ ''  '' @ fst p) ps) = Inr ps"
    using assms(2) by (induction ps) (auto simp: checksum_entry_def cut_plain [simplified])
  ultimately show ?thesis using dict_of_distinct_pairs [OF assms(1)] by (simp add: read_checksums_def lines)
qed

end
