(* ===== verification/ReleaseProperties.thy ===== *)
theory ReleaseProperties
  imports Distributions Printing
begin

text \<open>
  The release scripts: what an accepted release is, that accepted releases of one evidence file are
  reproductions of each other, and what the SBOM and the RECORD of a wheel say. The witnesses run on a
  release of three files of a few bytes and its checksum list.
\<close>

section \<open>A release\<close>

definition ex_sbom :: string where
  "ex_sbom = dump_compact (PDict [(''creationInfo'', PDict [(''created'', PStr ''1970-01-01T00:00:00Z'')])])"

definition ex_artifacts :: "pyval dict" where
  "ex_artifacts = [(''p.whl'', PStr (''sha256:'' @ sha256_hex ''w'')), (''p.tar.gz'', PStr (''sha256:'' @ sha256_hex ''s'')),
     (''p.spdx.json'', PStr (''sha256:'' @ sha256_hex ex_sbom))]"

definition ex_evidence :: "pyval dict" where
  "ex_evidence = [(''artifacts'', PDict ex_artifacts), (''generatedAt'', PStr ''1970-01-01T00:00:00Z''),
     (''sourceDateEpoch'', PInt 0)]"

definition ex_sums :: "string dict" where
  "ex_sums = [(''p.whl'', sha256_hex ''w''), (''p.tar.gz'', sha256_hex ''s'')]"

definition ex_release :: directory where
  "ex_release = [(''p.whl'', Some ''w''), (''p.tar.gz'', Some ''s''), (''p.spdx.json'', Some ex_sbom), (sums_name, Some (checksum_text ex_sums))]"

definition ex_rebuilt :: directory where
  "ex_rebuilt = [(sums_name, Some (checksum_text (rev ex_sums))), (''p.spdx.json'', Some ex_sbom), (''p.tar.gz'', Some ''s''), (''p.whl'', Some ''w'')]"

lemma ex_evidence_read:
  "\<exists>d. json_loads (dump_compact (PDict ex_evidence)) = Some (PDict d) \<and> map_of d ''artifacts'' = Some (PDict (sort_dict ex_artifacts))
    \<and> map_of d ''generatedAt'' = Some (PStr ''1970-01-01T00:00:00Z'') \<and> map_of d ''sourceDateEpoch'' = Some (PInt 0)"
proof -
  have "printable (PDict ex_evidence)"
    by (simp add: ex_evidence_def ex_artifacts_def ascii_hash int_str_def nat_digits.simps ascii_utf8)
  moreover have "key_sorted (PDict ex_evidence) = PDict (sort_dict (map (\<lambda>p. (fst p, key_sorted (snd p))) ex_evidence))" by simp
  moreover have "key_sorted (PDict ex_artifacts) = PDict (sort_dict ex_artifacts)" by (simp add: ex_artifacts_def)
  ultimately show ?thesis using json_loads_dump(1) [of "PDict ex_evidence"] by (simp add: map_of_sort_dict ex_evidence_def)
qed

lemma ex_artifacts_sorted:
  "sort_dict ex_artifacts = [(''p.spdx.json'', PStr (''sha256:'' @ sha256_hex ex_sbom)),
     (''p.tar.gz'', PStr (''sha256:'' @ sha256_hex ''s'')), (''p.whl'', PStr (''sha256:'' @ sha256_hex ''w''))]"
  by (simp add: ex_artifacts_def sort_dict_def)

definition ex_of_artifacts :: "directory \<Rightarrow> string \<Rightarrow> bool" where
  "ex_of_artifacts dir sums \<longleftrightarrow> keys dir = {''p.whl'', ''p.tar.gz'', ''p.spdx.json'', sums_name}
     \<and> map_of dir ''p.whl'' = Some (Some ''w'') \<and> map_of dir ''p.tar.gz'' = Some (Some ''s'')
     \<and> map_of dir ''p.spdx.json'' = Some (Some ex_sbom) \<and> map_of dir sums_name = Some (Some sums)"

lemma ex_of_artifacts:
  "ex_of_artifacts ex_release (checksum_text ex_sums)" "ex_of_artifacts ex_rebuilt (checksum_text (rev ex_sums))"
  by (auto simp: ex_of_artifacts_def ex_release_def ex_rebuilt_def sums_name_def)

lemma ex_accepted:
  assumes dir: "ex_of_artifacts dir (checksum_text sums)" and sums: "read_checksums (checksum_text sums) = Inr sums"
    and entries: "map_of sums = map_of ex_sums"
  shows "\<exists>out. verify_release_evidence (dump_compact (PDict ex_evidence)) dir = Inr out"
proof -
  define arts where "arts = sort_dict ex_artifacts"
  have hashes: "file_hash dir ''p.whl'' = Some (sha256_hex ''w'')" "file_hash dir ''p.tar.gz'' = Some (sha256_hex ''s'')"
    "file_hash dir ''p.spdx.json'' = Some (sha256_hex ex_sbom)"
    using dir by (simp_all add: ex_of_artifacts_def file_hash_def)
  have keys: "keys arts = {''p.whl'', ''p.tar.gz'', ''p.spdx.json''}" "arts \<noteq> []"
    unfolding arts_def ex_artifacts_sorted by auto
  have names: "path_name ''p.whl'' = ''p.whl''" "path_name ''p.tar.gz'' = ''p.tar.gz''" "path_name ''p.spdx.json'' = ''p.spdx.json''"
    "is_distribution ''p.whl''" "is_distribution ''p.tar.gz''" "\<not> is_distribution ''p.spdx.json''"
    "\<not> ends_with ''.spdx.json'' ''p.whl''" "\<not> ends_with ''.spdx.json'' ''p.tar.gz''" "ends_with ''.spdx.json'' ''p.spdx.json''"
    by code_simp+
  have epoch: "epoch_text (PInt 0) = Inr ''1970-01-01T00:00:00Z''" by code_simp
  have sbom: "json_loads ex_sbom = Some (PDict [(''creationInfo'', PDict [(''created'', PStr ''1970-01-01T00:00:00Z'')])])"
    using json_loads_dump(1) [of "PDict [(''creationInfo'', PDict [(''created'', PStr ''1970-01-01T00:00:00Z'')])]"]
    by (simp add: ex_sbom_def ascii_utf8 sort_dict_def)
  have arts: "map_of arts ''p.whl'' = Some (PStr (''sha256:'' @ sha256_hex ''w''))"
    "map_of arts ''p.tar.gz'' = Some (PStr (''sha256:'' @ sha256_hex ''s''))"
    "map_of arts ''p.spdx.json'' = Some (PStr (''sha256:'' @ sha256_hex ex_sbom))"
    by (simp_all add: arts_def ex_artifacts_sorted)
  have entry: "path_name n = n \<and> (\<exists>h. file_hash dir n = Some h \<and> map_of arts n = Some (PStr (''sha256:'' @ h)))"
    if "n \<in> keys arts" for n
  proof -
    from that consider "n = ''p.whl''" | "n = ''p.tar.gz''" | "n = ''p.spdx.json''" unfolding keys by blast
    then show ?thesis by cases (use names(1-3) hashes arts in blast)+
  qed
  have "keys dir = insert sums_name (keys arts)" using dir unfolding ex_of_artifacts_def keys by blast
  moreover have "sums_name \<notin> keys arts" unfolding keys by (simp add: sums_name_def)
  ultimately have "keys dir - {sums_name} = keys arts" by blast
  with entry keys(2) have "artifacts_ok arts dir" unfolding artifacts_ok_def by blast
  moreover have "sbom_ok arts dir ''1970-01-01T00:00:00Z''"
  proof -
    have "{x \<in> keys arts. ends_with ''.spdx.json'' x} = {''p.spdx.json''}" unfolding keys using names(7-9) by blast
    moreover have "map_of dir ''p.spdx.json'' = Some (Some ex_sbom)" using dir by (simp add: ex_of_artifacts_def)
    ultimately show ?thesis unfolding sbom_ok_def using sbom by fastforce
  qed
  moreover have "sums_ok arts dir"
  proof -
    have two: "{n \<in> keys arts. is_distribution n} = {''p.whl'', ''p.tar.gz''}" unfolding keys using names(4-6) by blast
    have "map_of sums n = (if n \<in> {''p.whl'', ''p.tar.gz''} then file_hash dir n else None)" for n
      unfolding entries using hashes by (simp add: ex_sums_def)
    then have "map_of sums n = (if n \<in> keys arts \<and> is_distribution n then file_hash dir n else None)" for n
      using two by (metis (mono_tags, lifting) mem_Collect_eq)
    moreover have "map_of dir sums_name = Some (Some (checksum_text sums))" using dir by (simp add: ex_of_artifacts_def)
    ultimately show ?thesis unfolding sums_ok_def two using sums by auto
  qed
  ultimately show ?thesis
    unfolding verify_release_iff release_ok_def using ex_evidence_read epoch unfolding arts_def by blast
qed

lemma ex_releases_accepted:
  "\<exists>out. verify_release_evidence (dump_compact (PDict ex_evidence)) ex_release = Inr out"
  "\<exists>out. verify_release_evidence (dump_compact (PDict ex_evidence)) ex_rebuilt = Inr out"
proof -
  have sums: "read_checksums (checksum_text ex_sums) = Inr ex_sums"
    "read_checksums (checksum_text (rev ex_sums)) = Inr (rev ex_sums)"
    by (rule read_checksums_text; simp add: ex_sums_def plain_hash)+
  show "\<exists>out. verify_release_evidence (dump_compact (PDict ex_evidence)) ex_release = Inr out"
    by (rule ex_accepted [OF ex_of_artifacts(1) sums(1)]) simp
  show "\<exists>out. verify_release_evidence (dump_compact (PDict ex_evidence)) ex_rebuilt = Inr out"
    by (rule ex_accepted [OF ex_of_artifacts(2) sums(2)]) (auto simp: ex_sums_def)
qed

section \<open>Properties\<close>

text \<open>C34. The release check accepts a directory exactly if it is the release its evidence describes: the
  evidence parses, its time is that of its epoch, its artifacts are the files of the directory with their
  digests, the one SBOM carries the same time, and the checksum list holds exactly the two distributions
  with their digests (the script counts wheels and sdists together).\<close>
theorem release_check_exact:
  "(\<exists>out. verify_release_evidence src dir = Inr out) \<longleftrightarrow> (\<exists>ev. json_loads src = Some ev \<and> release_ok ev dir)"
  by (rule verify_release_iff)

text \<open>C35. Two directories accepted with one evidence file hold the same files with the same digests, the
  checksum list apart, and the comparison of the two builds succeeds.\<close>
theorem accepted_releases_reproducible:
  assumes "verify_release_evidence src dir1 = Inr out1" "verify_release_evidence src dir2 = Inr out2"
    "distinct (map fst dir1)" "distinct (map fst dir2)" "''.whl'' \<notin> keys dir1"
  shows "keys dir1 - {sums_name} = keys dir2 - {sums_name}
    \<and> (\<forall>n \<in> keys dir1 - {sums_name}. file_hash dir1 n \<noteq> None \<and> file_hash dir1 n = file_hash dir2 n)
    \<and> (\<exists>out. compare_builds dir1 dir2 = Inr out)"
proof -
  obtain ev where "release_ok ev dir1" "release_ok ev dir2"
    using verify_release_iff [of src dir1] verify_release_iff [of src dir2] assms(1,2) by auto
  with release_ok_pins [of ev dir1 dir2] release_ok_reproducible [of ev dir1 dir2] assms(3-) show ?thesis by blast
qed

theorem accepted_releases_reproducible_witness:
  "ex_release \<noteq> ex_rebuilt \<and> (\<exists>out. compare_builds ex_release ex_rebuilt = Inr out)"
proof -
  have "distinct (map fst ex_release)" "distinct (map fst ex_rebuilt)" "''.whl'' \<notin> keys ex_release"
    by (simp_all add: ex_release_def ex_rebuilt_def sums_name_def)
  with ex_releases_accepted accepted_releases_reproducible show ?thesis
    by (auto simp: ex_release_def ex_rebuilt_def sums_name_def)
qed

text \<open>C37. The SBOM does not depend on the order in which the artifacts are named, and what is written is
  JSON that reads back as the document of the artifacts in the order of their names, each with the digest of
  its bytes and an identifier of its own.\<close>
theorem sbom_order_independent:
  assumes "mset xs = mset ys" "distinct (map fst xs)" "list_all utf8_valid (map fst xs)"
  shows "generate_sbom xs epoch = generate_sbom ys epoch
    \<and> (\<forall>out. generate_sbom ys epoch = Inr out \<longrightarrow> (\<exists>created checksums.
          json_loads out = Some (key_sorted (sbom_document (map fst (sort_key fst xs)) checksums created))
          \<and> (\<forall>n. map_of checksums n = file_hash xs n) \<and> distinct (map artifact_id [1..<Suc (length xs)])))"
proof -
  have "generate_sbom xs epoch = generate_sbom ys epoch" by (rule generate_sbom_permuted [OF assms(1,2)])
  moreover have "distinct (map artifact_id [1..<Suc (length xs)])"
    by (simp add: distinct_map inj_on_def artifact_id_inject)
  ultimately show ?thesis using generated_sbom_reads [OF _ assms(2,3), of epoch] by metis
qed

lemma ex_generated: "\<exists>out. generate_sbom [(''p.whl'', Some ''w''), (''p.tar.gz'', Some ''s'')] None = Inr out"
proof -
  have "sort_key fst [(''p.whl'', Some ''w''), (''p.tar.gz'', Some ''s'')] = [(''p.tar.gz'', Some ''s''), (''p.whl'', Some ''w'')]"
    by code_simp
  moreover have "int_of_text ''0'' = Inr 0" "epoch_text (PInt 0) = Inr ''1970-01-01T00:00:00Z''" by code_simp+
  ultimately show ?thesis by (simp add: generate_sbom_def read_bytes_def Let_def)
qed

theorem sbom_order_independent_witness:
  "\<exists>out v. generate_sbom [(''p.whl'', Some ''w''), (''p.tar.gz'', Some ''s'')] None = Inr out
    \<and> generate_sbom [(''p.tar.gz'', Some ''s''), (''p.whl'', Some ''w'')] None = Inr out \<and> json_loads out = Some v"
proof -
  from ex_generated obtain out where "generate_sbom [(''p.whl'', Some ''w''), (''p.tar.gz'', Some ''s'')] None = Inr out" by blast
  with sbom_order_independent [of "[(''p.tar.gz'', Some ''s''), (''p.whl'', Some ''w'')]"
      "[(''p.whl'', Some ''w''), (''p.tar.gz'', Some ''s'')]" None]
  show ?thesis by (simp add: ascii_utf8 add_mset_commute del: upt_Suc) blast
qed

text \<open>C36. The SBOM generated for an epoch passes the SBOM check of the release verification for that epoch.\<close>
theorem generated_sbom_accepted:
  assumes "generate_sbom xs epoch = Inr out" "distinct (map fst xs)" "list_all utf8_valid (map fst xs)"
    "int_of_text (case epoch of None \<Rightarrow> ''0'' | Some t \<Rightarrow> t) = Inr e" "epoch_text (PInt e) = Inr at"
    "filter (ends_with ''.spdx.json'') (map fst expected) = [name]" "read_bytes dir name = Inr out"
  shows "check_sbom expected dir at = Inr ()"
proof -
  from generated_sbom_reads [OF assms(1-3)] assms(4,5) obtain checksums
    where "json_loads out = Some (key_sorted (sbom_document (map fst (sort_key fst xs)) checksums at))" by (metis sum.inject(2) sum.sel(2))
  with document_created [of "map fst (sort_key fst xs)" checksums at] assms(6,7) show ?thesis
    by (auto simp: check_sbom_def load_json_def py_item_def)
qed

theorem generated_sbom_accepted_witness:
  "\<exists>out. generate_sbom [(''p.whl'', Some ''w''), (''p.tar.gz'', Some ''s'')] None = Inr out
    \<and> check_sbom [(''p.whl'', PNone), (''p.spdx.json'', PNone)] [(''p.spdx.json'', Some out)] ''1970-01-01T00:00:00Z'' = Inr ()"
proof -
  from ex_generated obtain out where out: "generate_sbom [(''p.whl'', Some ''w''), (''p.tar.gz'', Some ''s'')] None = Inr out" by blast
  have "int_of_text ''0'' = Inr 0" "epoch_text (PInt 0) = Inr ''1970-01-01T00:00:00Z''"
    "ends_with ''.spdx.json'' ''p.spdx.json''" "\<not> ends_with ''.spdx.json'' ''p.whl''" by code_simp+
  with generated_sbom_accepted [OF out, of 0 "''1970-01-01T00:00:00Z''" "[(''p.whl'', PNone), (''p.spdx.json'', PNone)]"
      "''p.spdx.json''" "[(''p.spdx.json'', Some out)]"] out
  show ?thesis by (simp add: ascii_utf8 read_bytes_def)
qed

text \<open>C38. Two archives whose contents pass the check of one RECORD table have, for every member the table
  gives a hash for, contents of the same SHA-256 digest and the same length.\<close>
theorem record_pins_contents:
  assumes "verify_record a1 r = Inr ()" "verify_record a2 r = Inr ()"
    "archive_read a1 r = Inr t" "archive_read a2 r = Inr t"
    "[name, h, sz] \<in> set (fst (csv_reader t))" "h \<noteq> []"
  shows "\<exists>b1 b2. archive_read a1 name = Inr b1 \<and> archive_read a2 name = Inr b2
    \<and> sha256_hex b1 = sha256_hex b2 \<and> length b1 = length b2"
  unfolding archive_read_Inr_iff by (rule verify_record_pins [OF assms])

definition ex_record :: string where
  "ex_record = ''m.py,sha256=ungWv48Bz-pBQUDeXa4iI7ADYaOWF3qctBD_YfIAFa0,3'' @ [CHR 0x0D, CHR 0x0A] @ ''RECORD,,'' @ [CHR 0x0D, CHR 0x0A]"

theorem record_pins_contents_witness:
  "verify_record [(''RECORD'', ex_record), (''m.py'', ''abc'')] ''RECORD'' = Inr ()
    \<and> (\<exists>b. archive_read [(''m.py'', ''abc''), (''RECORD'', ex_record)] ''m.py'' = Inr b \<and> length b = 3)"
proof -
  have rows: "csv_reader ex_record = ([[''m.py'', ''sha256=ungWv48Bz-pBQUDeXa4iI7ADYaOWF3qctBD_YfIAFa0'', ''3''], [''RECORD'', [], []]], False)"
    by code_simp
  have "b64_unpadded (concat (map (be_bytes 4) [0xba7816bf, 0x8f01cfea, 0x414140de, 0x5dae2223, 0xb00361a3, 0x96177a9c,
      0xb410ff61, 0xf20015ad])) = ''ungWv48Bz-pBQUDeXa4iI7ADYaOWF3qctBD_YfIAFa0''"
    by code_simp
  then have "record_hash ''abc'' = ''ungWv48Bz-pBQUDeXa4iI7ADYaOWF3qctBD_YfIAFa0''"
    unfolding record_hash_def sha256_raw_def sha256_words_abc prod.case .
  moreover have "utf8_valid ex_record" "int_of_text ''3'' = Inr 3" by code_simp+
  ultimately have raw: "utf8_valid ex_record" "record_hash ''abc'' = ''ungWv48Bz-pBQUDeXa4iI7ADYaOWF3qctBD_YfIAFa0''"
    "int_of_text ''3'' = Inr 3" by blast+
  have read: "archive_read [(''RECORD'', ex_record), (''m.py'', ''abc'')] n = archive_read [(''m.py'', ''abc''), (''RECORD'', ex_record)] n"
    "archive_read [(''m.py'', ''abc''), (''RECORD'', ex_record)] ''RECORD'' = Inr ex_record"
    "archive_read [(''m.py'', ''abc''), (''RECORD'', ex_record)] ''m.py'' = Inr ''abc''" for n
    by (auto simp: archive_read_def)
  have ok: "verify_record a ''RECORD'' = Inr ()" if "archive_read a ''RECORD'' = Inr ex_record" "archive_read a ''m.py'' = Inr ''abc''" for a
    using that rows raw by (simp add: verify_record_def decode_text_def check_record_row_def cut_equals_def)
  from record_pins_contents [OF ok ok, of "[(''RECORD'', ex_record), (''m.py'', ''abc'')]" "[(''m.py'', ''abc''), (''RECORD'', ex_record)]"
      ex_record "''m.py''" "''sha256=ungWv48Bz-pBQUDeXa4iI7ADYaOWF3qctBD_YfIAFa0''" "''3''"]
  obtain b where "archive_read [(''RECORD'', ex_record), (''m.py'', ''abc'')] ''m.py'' = Inr b"
    "length b = 3" using read rows by auto
  with ok [of "[(''RECORD'', ex_record), (''m.py'', ''abc'')]"] read show ?thesis by auto
qed

end
