(* ===== verification/Bundle.thy ===== *)
theory Bundle
  imports Store Scripts
begin

text \<open>
  What the distribution declares of itself: the Schema bundle of \<open>schemas/provider.py\<close>, the manifest and
  the factory of \<open>plugin.py\<close>, the combined repositories, and the packaged documents of \<open>contracts.py\<close>.
  A bundle or a manifest is the data the source passes to the classes of Core; the conversion of a Schema
  to a Core definition is a parameter, as is its reference.
\<close>

section \<open>The bundle and the manifest\<close>

definition package_version :: string where
  "package_version = ''1.1.2''"

definition SCHEMA_PROVIDER_ID :: string where
  "SCHEMA_PROVIDER_ID = ''meridian.plugin.config-artifact''"

definition SCHEMA_PROVIDER_CONTRACT_VERSION :: string where
  "SCHEMA_PROVIDER_CONTRACT_VERSION = ''1.0.0''"

record namespace_definition =
  nd_catalog :: string
  nd_name :: string
  nd_labels :: "string dict"

record 's resource_bundle =
  rb_provider_id :: string
  rb_provider_version :: string
  rb_contract_version :: string
  rb_namespaces :: "namespace_definition list"
  rb_schemas :: "'s list"
  rb_resources :: "resource_definition list"
  rb_extensions :: "pyval dict"

definition load_bundle :: "(schema_document \<Rightarrow> (exn, 's) result) \<Rightarrow> (exn, 's resource_bundle) result" where
  "load_bundle to_core =
     rbind (rmap to_core schema_documents) (\<lambda>schemas. Inr
       \<lparr>rb_provider_id = SCHEMA_PROVIDER_ID, rb_provider_version = package_version,
        rb_contract_version = SCHEMA_PROVIDER_CONTRACT_VERSION,
        rb_namespaces = map (\<lambda>c. \<lparr>nd_catalog = c, nd_name = resource_namespace, nd_labels = [(''owner'', ''config-artifact'')]\<rparr>)
          [''structured'', ''object''],
        rb_schemas = schemas, rb_resources = bundle_resources,
        rb_extensions = [(''design.hldRevision'', PInt 56), (''design.catalogRevision'', PInt 70),
          (''design.configArtifactLldRevision'', PInt 44), (''distribution'', PStr ''meridian-plugin-config-artifact''),
          (''catalogs'', PList [PStr ''object'', PStr ''structured''])]\<rparr>)"

record plugin_manifest =
  pm_plugin_id :: string
  pm_plugin_version :: string
  pm_contract_version :: string
  pm_core_contract :: string
  pm_extensions :: "string dict"

definition plugin_id :: string where
  "plugin_id = ''config-artifact''"

definition manifest :: plugin_manifest where
  "manifest = \<lparr>pm_plugin_id = plugin_id, pm_plugin_version = package_version, pm_contract_version = ''1.0.0'',
     pm_core_contract = ''1.x'',
     pm_extensions = [(''distribution'', ''meridian-plugin-config-artifact''), (''profiles'', ''configuration,artifact''),
       (''catalogs'', ''structured,object''), (''design.hldRevision'', ''56''), (''design.catalogRevision'', ''70''),
       (''design.configArtifactLldRevision'', ''44'')]\<rparr>"

definition create_store :: "'w runtime \<Rightarrow> ('w, exn, 'w resource_store) prog" where
  "create_store rt = mk_resource_store rt default_collections None None"

text \<open>
  The bundle is closed: every resource names a declared Schema, relates to declared resources only and
  lies in a declared namespace, and no two declare the same resource.
\<close>

lemma bundle_closed:
  assumes "r \<in> set bundle_resources"
  shows "\<And>s. rd_schema r = Some s \<Longrightarrow> s \<in> set (map sd_name schema_documents)"
    "set (rd_related r) \<subseteq> set (map rd_ref bundle_resources) - {rd_ref r}"
    "rf_namespace (rd_ref r) = resource_namespace" "rf_catalog (rd_ref r) \<in> {''structured'', ''object''}"
    "distinct (map rd_ref bundle_resources)"
  using assms
  by (auto simp: bundle_resources_def structured_resource_def layout_defs schema_documents_def schema_doc_def
      stored_resource_schema_def resource_channel_schema_def provenance_schema_def orphan_candidate_schema_def)

section \<open>Combined repositories\<close>

record 'w configuration_repository =
  cr_publisher :: "'w configuration_publisher"
  cr_consumer :: "'w configuration_consumer"

definition mk_configuration_repository ::
  "'w metadata_repository \<Rightarrow> 'w validator \<Rightarrow> 'w channel_repository \<Rightarrow> 'w clock option \<Rightarrow> 'w configuration_repository" where
  "mk_configuration_repository metadata validator channels clock =
     \<lparr>cr_publisher = mk_configuration_publisher metadata validator channels clock,
      cr_consumer = \<lparr>cc_metadata = metadata, cc_channels = channels\<rparr>\<rparr>"

record 'w artifact_repository =
  ar_publisher :: "'w artifact_publisher"
  ar_consumer :: "'w artifact_consumer"

definition mk_artifact_repository ::
  "'w metadata_repository \<Rightarrow> 'w object_repository \<Rightarrow> 'w channel_repository \<Rightarrow> 'w runtime \<Rightarrow> 'w clock option
    \<Rightarrow> 'w artifact_repository" where
  "mk_artifact_repository metadata objects channels payloads clock =
     \<lparr>ar_publisher = mk_artifact_publisher metadata objects channels payloads clock,
      ar_consumer = \<lparr>ac_metadata = metadata, ac_objects = objects, ac_channels = channels, ac_payloads = payloads\<rparr>\<rparr>"

section \<open>Packaged documents\<close>

text \<open>The installed package's files first, then the checkout's.\<close>

definition package_document :: "directory \<Rightarrow> directory \<Rightarrow> string \<Rightarrow> (exn, pyval) result" where
  "package_document packaged checkout relative = (case map_of packaged relative of
     Some (Some b) \<Rightarrow> load_json b
   | _ \<Rightarrow> rbind (read_bytes checkout relative) load_json)"

definition public_api_contract :: "directory \<Rightarrow> directory \<Rightarrow> (exn, pyval) result" where
  "public_api_contract p c = package_document p c ''contracts/public-api/meridian-config-artifact.v1.json''"

definition stored_resource_contract :: "directory \<Rightarrow> directory \<Rightarrow> (exn, pyval) result" where
  "stored_resource_contract p c = package_document p c ''contracts/models/meridian-stored-resource.v1.schema.json''"

definition resource_channel_contract :: "directory \<Rightarrow> directory \<Rightarrow> (exn, pyval) result" where
  "resource_channel_contract p c = package_document p c ''contracts/models/meridian-resource-channel.v1.schema.json''"

definition provenance_contract :: "directory \<Rightarrow> directory \<Rightarrow> (exn, pyval) result" where
  "provenance_contract p c = package_document p c ''contracts/models/meridian-provenance.v1.schema.json''"

definition orphan_candidate_contract :: "directory \<Rightarrow> directory \<Rightarrow> (exn, pyval) result" where
  "orphan_candidate_contract p c = package_document p c ''contracts/models/meridian-orphan-candidate.v1.schema.json''"

definition compatibility_document :: "directory \<Rightarrow> directory \<Rightarrow> (exn, pyval) result" where
  "compatibility_document p c = package_document p c ''compatibility.json''"

lemma package_document_installed:
  assumes "map_of packaged n = Some (Some b)"
  shows "package_document packaged checkout n = load_json b"
  using assms by (simp add: package_document_def)

end
