(* ===== verification/Contracts.thy ===== *)
theory Contracts
  imports Bundle Distributions
begin

text \<open>
  \<open>scripts/verify_contracts.py\<close>: the checks of a checkout against its locked contracts, its dependency
  bounds and its import boundary. What the script asks of its environment (TOML, JSON Schema, the parsers
  of requirements and of Python, installed versions) is a record of parameters. The three attribute checks
  of classes of the package hold of the source and leave no trace here.
\<close>

section \<open>The environment\<close>

record requirement_spec =
  rq_name :: string
  rq_specifier :: string
  rq_marked :: bool
  rq_text :: string

datatype import_node = Import "string list" | ImportFrom "string option" | OtherNode

record environment =
  en_files :: directory
  en_toml :: "string \<Rightarrow> (exn, pyval) result"
  en_check_schema :: "pyval \<Rightarrow> (exn, unit) result"
  en_requirement :: "string \<Rightarrow> (exn, requirement_spec) result"
  en_contains :: "string \<Rightarrow> string \<Rightarrow> (exn, bool) result"
  en_requires :: "(exn, string list) result"
  en_parse :: "string \<Rightarrow> (exn, import_node list) result"
  en_version :: "string \<Rightarrow> string"
  en_to_core :: "schema_document \<Rightarrow> (exn, pyval) result"

section \<open>Dependency bounds\<close>

definition bound_requirements :: "string dict" where
  "bound_requirements =
     [(''meridian-storage-core'', ''meridian-storage-core>=1.1.0,<2''),
      (''meridian-storage-object-common'', ''meridian-storage-object-common>=1.0.3,<2''),
      (''meridian-storage-query'', ''meridian-storage-query>=1.0.3,<2''),
      (''meridian-storage-semantics'', ''meridian-storage-semantics>=2.0.1,<3'')]"

definition expected_bounds :: "environment \<Rightarrow> (exn, string dict) result" where
  "expected_bounds env =
     rmap (\<lambda>p. rbind (en_requirement env (snd p)) (\<lambda>r. Inr (fst p, rq_specifier r))) bound_requirements"

definition unmarked_bounds :: "string dict \<Rightarrow> requirement_spec list \<Rightarrow> string dict" where
  "unmarked_bounds expected rs = dict_of_pairs (map (\<lambda>r. (rq_name r, rq_specifier r))
     (filter (\<lambda>r. rq_name r \<in> keys expected \<and> \<not> rq_marked r) rs))"

definition distribution_bounds :: "environment \<Rightarrow> (exn, string dict) result" where
  "distribution_bounds env =
     rbind (expected_bounds env) (\<lambda>expected.
     rbind (en_requires env) (\<lambda>raws.
     rbind (rmap (en_requirement env) raws) (\<lambda>rs.
     let bounds = unmarked_bounds expected rs in
     rbind (require (smap_eq bounds expected) ''public Meridian bounds differ'') (\<lambda>_. Inr bounds))))"

section \<open>The import boundary\<close>

definition forbidden_imports :: "string list" where
  "forbidden_imports =
     [''boto'', ''botocore'', ''meridian_storage.adapters'', ''meridian_storage.spi.adapters'', ''oci'', ''s3fs'']"

definition is_forbidden :: "string \<Rightarrow> bool" where
  "is_forbidden name = list_ex (\<lambda>f. name = f \<or> begins_with (f @ ''.'') name) forbidden_imports"

definition node_names :: "import_node \<Rightarrow> string list" where
  "node_names n = (case n of Import ns \<Rightarrow> ns | ImportFrom (Some m) \<Rightarrow> [m] | _ \<Rightarrow> [])"

definition check_source :: "environment \<Rightarrow> string \<Rightarrow> (exn, unit) result" where
  "check_source env path =
     rbind (read_bytes (en_files env) path) (\<lambda>b.
     rbind (decode_text b) (\<lambda>source.
     rbind (require (\<not> contains ''NativeQuery'' source) ''post-V1 NativeQuery appears'') (\<lambda>_.
     rbind (en_parse env source) (\<lambda>nodes.
     rbind (rmap (\<lambda>n. require (\<not> list_ex is_forbidden (node_names n))
       ''consumer source imports an Adapter, Engine, or provider SDK'') nodes) (\<lambda>_. Inr ())))))"

text \<open>\<open>sorted\<close> of paths compares their parts.\<close>

definition sort_paths :: "string list \<Rightarrow> string list" where
  "sort_paths ps = sort_key (split_at CHR ''/'' []) ps"

definition source_paths :: "directory \<Rightarrow> string list" where
  "source_paths dir = sort_paths (filter (\<lambda>p. begins_with ''src/'' p \<and> ends_with ''.py'' p) (map fst dir))"

definition import_boundary :: "environment \<Rightarrow> (exn, int) result" where
  "import_boundary env =
     rbind (rmap (check_source env) (source_paths (en_files env))) (\<lambda>us. Inr (int (length us)))"

section \<open>The locked documents\<close>

definition load_object :: "directory \<Rightarrow> string \<Rightarrow> (exn, pyval) result" where
  "load_object dir path =
     rbind (read_bytes dir path) (\<lambda>b.
     rbind (load_json b) (\<lambda>v.
     rbind (require (case v of PDict d \<Rightarrow> True | _ \<Rightarrow> False) ''file must contain a JSON object'') (\<lambda>_. Inr v)))"

definition item_is :: "pyval \<Rightarrow> string \<Rightarrow> pyval \<Rightarrow> string \<Rightarrow> (exn, unit) result" where
  "item_is v k x message = rbind (py_item v k) (\<lambda>y. require (py_eq y x) message)"

definition model_paths :: "directory \<Rightarrow> string list" where
  "model_paths dir = sort_paths (filter (\<lambda>p. begins_with ''contracts/models/'' p \<and> ends_with ''.schema.json'' p
     \<and> CHR ''/'' \<notin> set (drop (length ''contracts/models/'') p)) (map fst dir))"

definition check_project :: "pyval \<Rightarrow> (exn, unit) result" where
  "check_project project =
     rbind (item_is project ''name'' (PStr distribution_name) ''name differs'') (\<lambda>_.
     rbind (py_item project ''version'') (\<lambda>v.
     rbind (require (py_eq v (PStr package_version) \<and> package_version = release_version) ''version differs'') (\<lambda>_.
     item_is project ''license'' (PStr ''Apache-2.0'') ''license differs'')))"

definition check_catalogs :: "pyval \<Rightarrow> (exn, unit) result" where
  "check_catalogs compatibility =
     rbind (item_is compatibility ''catalogsDefined'' (PList []) ''plugin must define no Catalog'') (\<lambda>_.
     item_is compatibility ''catalogsConsumed'' (PList [PStr ''object'', PStr ''structured''])
       ''plugin must consume only object and structured Catalogs'')"

definition publish_parameters :: "string list" where
  "publish_parameters = [''self'', ''namespace'', ''kind'', ''name'', ''version'', ''payload'', ''schema'', ''actor'',
     ''media_type_value'', ''labels'', ''annotations'', ''provenance'', ''supersedes'', ''version_order'', ''channel'',
     ''expected_pointer_version'']"

definition check_declarations :: "environment \<Rightarrow> pyval \<Rightarrow> pyval \<Rightarrow> (exn, unit) result" where
  "check_declarations env public compatibility =
     rbind (item_is public ''pluginId'' (PStr (pm_plugin_id manifest)) ''plugin id differs'') (\<lambda>_.
     rbind (require (pm_plugin_version manifest = package_version) ''plugin version differs'') (\<lambda>_.
     rbind (require (pm_contract_version manifest = ''1.0.0'') ''plugin contract differs'') (\<lambda>_.
     rbind (require (''schema'' \<in> set publish_parameters) ''locked configuration schema argument differs'') (\<lambda>_.
     rbind (require (''payload_schema'' \<notin> set publish_parameters) ''unapproved configuration argument is exposed'') (\<lambda>_.
     rbind (load_bundle (en_to_core env)) (\<lambda>bundle.
     rbind (item_is public ''schemaProviderId'' (PStr (rb_provider_id bundle)) ''schema provider differs'') (\<lambda>_.
     rbind (require (map_of (pm_extensions manifest) ''distribution'' = Some distribution_name) ''manifest name differs'') (\<lambda>_.
     rbind (require (map_of (rb_extensions bundle) ''distribution'' = Some (PStr distribution_name)) ''schema bundle name differs'') (\<lambda>_.
     rbind (item_is public ''distribution'' (PStr distribution_name) ''public contract name differs'') (\<lambda>_.
     rbind (item_is compatibility ''distribution'' (PStr distribution_name) ''compatibility name differs'') (\<lambda>_.
     rbind (item_is compatibility ''version'' (PStr release_version) ''compatibility version differs'') (\<lambda>_.
     rbind (py_item compatibility ''lockedDesign'') (\<lambda>locked.
     rbind (item_is locked ''configArtifactLldRevision'' (PInt 48) ''locked LLD revision differs'') (\<lambda>_.
     rbind (require (length (rb_resources bundle) = 5 \<and> length (rb_schemas bundle) = 4) ''bundle differs'') (\<lambda>_.
     require (set (map (\<lambda>r. rf_catalog (rd_ref r)) (rb_resources bundle)) = {''object'', ''structured''})
       ''bundle contains an unapproved Catalog'')))))))))))))))"

text \<open>\<open>all\<close> over a generator: it stops at the first false item.\<close>

fun rall :: "('a \<Rightarrow> (exn, bool) result) \<Rightarrow> 'a list \<Rightarrow> (exn, bool) result" where
  "rall f [] = Inr True"
| "rall f (x # xs) = rbind (f x) (\<lambda>b. if b then rall f xs else Inr False)"

definition installed_versions :: "environment \<Rightarrow> string dict" where
  "installed_versions env = map (\<lambda>p. (fst p, en_version env (fst p))) bound_requirements"

definition check_installed :: "environment \<Rightarrow> string dict \<Rightarrow> (exn, unit) result" where
  "check_installed env expected =
     rbind (rall (\<lambda>p. en_contains env (fst p @ the (map_of expected (fst p))) (snd p)) (installed_versions env))
       (\<lambda>b. require b ''installed Meridian versions violate public bounds'')"

definition ledger_entry :: "environment \<Rightarrow> string dict \<Rightarrow> string \<times> pyval \<Rightarrow> (exn, bool) result" where
  "ledger_entry env expected p = (case snd p of
     PStr bound \<Rightarrow>
       rbind (en_requirement env (fst p @ bound)) (\<lambda>r.
       case map_of expected (fst p) of None \<Rightarrow> Inl (KeyError (fst p)) | Some b \<Rightarrow> Inr (rq_specifier r = b))
   | _ \<Rightarrow> Inl (TypeError ''can only concatenate str to str''))"

definition check_ledger :: "environment \<Rightarrow> string dict \<Rightarrow> pyval \<Rightarrow> (exn, unit) result" where
  "check_ledger env expected compatibility =
     rbind (py_item compatibility ''dependencyCompatibility'') (\<lambda>ledger.
     rbind (case ledger of PDict d \<Rightarrow> Inr d | _ \<Rightarrow> Inl (OtherException ''AttributeError'')) (\<lambda>d.
     rbind (rall (ledger_entry env expected) d) (\<lambda>b. require b ''compatibility ledger bounds differ'')))"

definition check_layout :: "directory \<Rightarrow> (exn, unit) result" where
  "check_layout dir =
     rbind (require (length (filter (\<lambda>n. n = ''pyproject.toml'') (map fst dir)) = 1) ''repository must have one project'') (\<lambda>_.
     rbind (require (''src/meridian_storage/__init__.py'' \<notin> keys dir) ''distribution must not own the root PEP 420 namespace'') (\<lambda>_.
     require (''src/meridian_storage/plugins/__init__.py'' \<notin> keys dir) ''distribution must not own the plugins PEP 420 namespace''))"

section \<open>\<open>main\<close>\<close>

definition model_hash :: "directory \<Rightarrow> string \<Rightarrow> (exn, string \<times> pyval) result" where
  "model_hash dir p = rbind (read_bytes dir p) (\<lambda>b. Inr (path_name p, PStr (sha256_hex b)))"

definition all_error_codes :: "error_code list" where
  "all_error_codes = [INVALID_PAYLOAD, IDENTITY_CONFLICT, STALE_CHANNEL_POINTER, INCOMPATIBLE_PROFILE, RESOURCE_NOT_FOUND,
     MISSING_OBJECT, DIGEST_MISMATCH, FORBIDDEN_DELETION, INCOMPLETE_PUBLICATION, INVALID_RESULT,
     SCHEMA_UNAVAILABLE]"

definition public_api_path :: string where
  "public_api_path = ''contracts/public-api/meridian-config-artifact.v1.json''"

definition contract_evidence ::
  "environment \<Rightarrow> pyval \<Rightarrow> string dict \<Rightarrow> int \<Rightarrow> (exn, pyval dict) result" where
  "contract_evidence env project pins checked =
     rbind (py_item project ''name'') (\<lambda>name.
     rbind (rmap (model_hash (en_files env)) (model_paths (en_files env))) (\<lambda>models.
     rbind (read_bytes (en_files env) public_api_path) (\<lambda>api.
     Inr [(''formatVersion'', PStr ''meridian.config-artifact.conformance.v1''), (''package'', name),
          (''version'', PStr package_version),
          (''contracts'', PDict [(''models'', PDict (dict_of_pairs models)), (''publicApi'', PStr (sha256_hex api))]),
          (''errors'', PList (map PStr (sort_names (map code_value all_error_codes)))),
          (''installedVersions'', PDict (str_dict (installed_versions env))), (''pins'', PDict (str_dict pins)),
          (''sourceFilesChecked'', PInt checked), (''status'', PStr ''passed'')])))"

definition verify_contracts :: "environment \<Rightarrow> (exn, string) result" where
  "verify_contracts env =
     (let dir = en_files env in
      rbind (expected_bounds env) (\<lambda>expected.
      rbind (read_bytes dir ''pyproject.toml'') (\<lambda>toml.
      rbind (rbind (decode_text toml) (en_toml env)) (\<lambda>document.
      rbind (py_item document ''project'') (\<lambda>project.
      rbind (load_object dir ''compatibility.json'') (\<lambda>compatibility.
      rbind (load_object dir public_api_path) (\<lambda>public.
      rbind (rmap (\<lambda>p. rbind (load_object dir p) (en_check_schema env)) (model_paths dir)) (\<lambda>_.
      rbind (check_project project) (\<lambda>_.
      rbind (check_catalogs compatibility) (\<lambda>_.
      rbind (check_declarations env public compatibility) (\<lambda>_.
      rbind (check_installed env expected) (\<lambda>_.
      rbind (check_ledger env expected compatibility) (\<lambda>_.
      rbind (distribution_bounds env) (\<lambda>pins.
      rbind (import_boundary env) (\<lambda>checked.
      rbind (check_layout dir) (\<lambda>_.
      rbind (contract_evidence env project pins checked) (\<lambda>evidence.
      let encoded = dump_compact (PDict evidence) in
      Inr (dump_compact (PDict (evidence @ [(''fingerprint'', PStr (''sha256:'' @ sha256_hex encoded))])) @ [CHR 0x0A]))))))))))))))))))"

lemma all_error_codes: "c \<in> set all_error_codes"
  by (cases c) (simp_all add: all_error_codes_def)

section \<open>What a passing check means\<close>

text \<open>A file of the source tree that stays inside the boundary.\<close>

definition source_clean :: "environment \<Rightarrow> string \<Rightarrow> bool" where
  "source_clean env path \<longleftrightarrow> (\<exists>source nodes. map_of (en_files env) path = Some (Some source)
     \<and> \<not> contains ''NativeQuery'' source \<and> en_parse env source = Inr nodes
     \<and> (\<forall>n \<in> set nodes. \<forall>name \<in> set (node_names n). \<not> is_forbidden name))"

lemma rmap_require: "rmap (\<lambda>x. require (P x) m) xs = Inr us \<Longrightarrow> x \<in> set xs \<Longrightarrow> P x"
  by (induction xs arbitrary: us) (auto simp: flow)

lemma rmap_member: "rmap f xs = Inr ys \<Longrightarrow> y \<in> set ys \<Longrightarrow> \<exists>x \<in> set xs. f x = Inr y"
  by (induction xs arbitrary: ys) (auto simp: flow)

lemma rmap_image: "rmap f xs = Inr ys \<Longrightarrow> x \<in> set xs \<Longrightarrow> f x = Inr y \<Longrightarrow> y \<in> set ys"
  by (induction xs arbitrary: ys) (auto simp: flow)

lemma check_source_clean:
  assumes "check_source env path = Inr u"
  shows "source_clean env path"
proof -
  from assms obtain source nodes us where s: "map_of (en_files env) path = Some (Some source)"
    "\<not> contains ''NativeQuery'' source" "en_parse env source = Inr nodes"
    "rmap (\<lambda>n. require (\<not> list_ex is_forbidden (node_names n))
       ''consumer source imports an Adapter, Engine, or provider SDK'') nodes = Inr us"
    by (auto simp: check_source_def decode_text_def flow simp del: list_ex_iff split: if_splits)
  from rmap_require [OF s(4)] s(1-3) show ?thesis unfolding source_clean_def list_ex_iff by blast
qed

lemma set_source_paths: "set (source_paths dir) = {p \<in> keys dir. begins_with ''src/'' p \<and> ends_with ''.py'' p}"
  by (auto simp: source_paths_def sort_paths_def)

lemma import_boundary_clean:
  assumes "import_boundary env = Inr n"
  shows "\<forall>p \<in> keys (en_files env). begins_with ''src/'' p \<and> ends_with ''.py'' p \<longrightarrow> source_clean env p"
proof -
  from assms obtain us where "rmap (check_source env) (source_paths (en_files env)) = Inr us"
    by (auto simp: import_boundary_def flow)
  then have "\<forall>p \<in> set (source_paths (en_files env)). source_clean env p"
    using rmap_returns [of "check_source env"] check_source_clean by blast
  then show ?thesis unfolding set_source_paths by blast
qed

lemma expected_bounds_Inr:
  assumes "expected_bounds env = Inr expected"
  shows "distinct (map fst expected)" "map fst expected = map fst bound_requirements"
    "map_of bound_requirements n = Some t \<Longrightarrow> \<exists>r. en_requirement env t = Inr r \<and> map_of expected n = Some (rq_specifier r)"
proof -
  from assms have all: "list_all2 (\<lambda>p q. fst q = fst p \<and> (\<exists>r. en_requirement env (snd p) = Inr r \<and> snd q = rq_specifier r))
      bound_requirements expected"
    unfolding expected_bounds_def rmap_Inr_iff by (rule list_all2_mono) (auto simp: flow)
  show names: "map fst expected = map fst bound_requirements"
    using all by (induction rule: list_all2_induct) simp_all
  show "distinct (map fst expected)" unfolding names by (simp add: bound_requirements_def)
  show "map_of bound_requirements n = Some t \<Longrightarrow> \<exists>r. en_requirement env t = Inr r \<and> map_of expected n = Some (rq_specifier r)"
    using all by (induction rule: list_all2_induct) (auto split: if_splits)
qed

lemma map_of_dict_of_pairs_in:
  fixes ps :: "(string \<times> 'v) list"
  assumes "map_of (dict_of_pairs ps) k = Some v"
  shows "(k, v) \<in> set ps"
proof -
  have "map_of (foldl (\<lambda>d p. AList.update (fst p) (snd p) d) d ps) k = Some v \<Longrightarrow> (k, v) \<in> set ps \<or> map_of d k = Some v"
    for d
  proof (induction ps arbitrary: d)
    case (Cons p ps)
    then show ?case by (cases p) (fastforce simp: update_conv' split: if_splits)
  qed simp
  from this [of "[]"] assms show ?thesis by (simp add: dict_of_pairs_def)
qed

text \<open>The bounds of an accepted distribution are the expected ones, each from an unmarked requirement.\<close>

lemma distribution_bounds_Inr:
  assumes "distribution_bounds env = Inr bounds" "en_requires env = Inr raws" "map_of bound_requirements n = Some t"
  shows "\<exists>r v q. en_requirement env t = Inr r \<and> v \<in> set raws \<and> en_requirement env v = Inr q \<and> rq_name q = n
    \<and> \<not> rq_marked q \<and> rq_specifier q = rq_specifier r"
proof -
  from assms(1,2) obtain expected rs where e: "expected_bounds env = Inr expected" "rmap (en_requirement env) raws = Inr rs"
    "smap_eq (unmarked_bounds expected rs) expected"
    by (auto simp: distribution_bounds_def Let_def flow)
  have "map_of (unmarked_bounds expected rs) = map_of expected"
    using e(3) expected_bounds_Inr(1) [OF e(1)] distinct_dict_of_pairs unfolding unmarked_bounds_def
    by (subst (asm) smap_eq_maps) auto
  moreover obtain r where r: "en_requirement env t = Inr r" "map_of expected n = Some (rq_specifier r)"
    using expected_bounds_Inr(3) [OF e(1) assms(3)] by blast
  ultimately have "map_of (unmarked_bounds expected rs) n = Some (rq_specifier r)" by simp
  then obtain q where q: "q \<in> set rs" "rq_name q = n" "\<not> rq_marked q" "rq_specifier q = rq_specifier r"
    unfolding unmarked_bounds_def by (auto dest!: map_of_dict_of_pairs_in)
  from e(2) q(1) obtain v where "v \<in> set raws" "en_requirement env v = Inr q"
    using rmap_member by metis
  with r(1) q(2-) show ?thesis by blast
qed

lemma rall_True: "rall f xs = Inr True \<longleftrightarrow> (\<forall>x \<in> set xs. f x = Inr True)"
  by (induction xs) (auto simp: flow split: if_splits)

lemma item_is_PStr [flow]: "item_is v k (PStr s) m = Inr u \<longleftrightarrow> (\<exists>d. v = PDict d \<and> map_of d k = Some (PStr s))"
  by (auto simp: item_is_def flow)

lemma verify_contracts_Inr:
  assumes "verify_contracts env = Inr out"
  obtains expected bounds n compatibility where "expected_bounds env = Inr expected" "distribution_bounds env = Inr bounds"
    "import_boundary env = Inr n" "check_installed env expected = Inr ()" "check_layout (en_files env) = Inr ()"
  using assms unfolding verify_contracts_def Let_def by (auto simp: flow)

lemma bound_requirements_names: "distinct (map fst bound_requirements)"
  by (simp add: bound_requirements_def)

lemma installed_in_bounds:
  assumes "expected_bounds env = Inr expected" "check_installed env expected = Inr ()" "map_of bound_requirements n = Some t"
  shows "\<exists>r. en_requirement env t = Inr r \<and> en_contains env (n @ rq_specifier r) (en_version env n) = Inr True"
proof -
  obtain r where r: "en_requirement env t = Inr r" "map_of expected n = Some (rq_specifier r)"
    using expected_bounds_Inr(3) [OF assms(1,3)] by blast
  have "(n, en_version env n) \<in> set (installed_versions env)"
    using map_of_SomeD [OF assms(3)] by (force simp: installed_versions_def)
  moreover have "rall (\<lambda>p. en_contains env (fst p @ the (map_of expected (fst p))) (snd p)) (installed_versions env) = Inr True"
    using assms(2) by (auto simp: check_installed_def flow)
  ultimately have "en_contains env (n @ the (map_of expected n)) (en_version env n) = Inr True"
    unfolding rall_True by fastforce
  with r show ?thesis by auto
qed

end
