(* ===== verification/ContractProperties.thy ===== *)
theory ContractProperties
  imports Contracts Printing
begin

text \<open>
  The contract check of a checkout: what a passing check guarantees of the sources and of the installed
  dependencies, and that it cannot pass for a wheel the artifact check accepts. The witnesses run on a
  checkout of four files, with a requirement parser that cuts a requirement at its first operator.
\<close>

section \<open>A checkout\<close>

definition ex_requirement :: "string \<Rightarrow> (exn, requirement_spec) result" where
  "ex_requirement v = Inr \<lparr>rq_name = takeWhile (\<lambda>c. c \<notin> {CHR ''<'', CHR ''>'', CHR ''='', CHR '';'', CHR '' ''}) v,
     rq_specifier = takeWhile (\<lambda>c. c \<noteq> CHR '';'') (dropWhile (\<lambda>c. c \<notin> {CHR ''<'', CHR ''>'', CHR ''='', CHR '';'', CHR '' ''}) v),
     rq_marked = (CHR '';'' \<in> set v), rq_text = v\<rparr>"

definition ex_public :: "pyval dict" where
  "ex_public = [(''pluginId'', PStr ''config-artifact''), (''schemaProviderId'', PStr ''meridian.plugin.config-artifact''),
     (''distribution'', PStr ''meridian-plugin-config-artifact'')]"

definition ex_compatibility :: "pyval dict" where
  "ex_compatibility = [(''catalogsDefined'', PList []), (''catalogsConsumed'', PList [PStr ''object'', PStr ''structured'']),
     (''distribution'', PStr ''meridian-plugin-config-artifact''), (''version'', PStr ''1.1.2''),
     (''lockedDesign'', PDict [(''configArtifactLldRevision'', PInt 48)]), (''dependencyCompatibility'', PDict [])]"

definition ex_project :: pyval where
  "ex_project = PDict [(''project'', PDict [(''name'', PStr ''meridian-plugin-config-artifact''), (''version'', PStr ''1.1.2''),
     (''license'', PStr ''Apache-2.0'')])]"

definition ex_environment :: "string list \<Rightarrow> environment" where
  "ex_environment requires =
     \<lparr>en_files = [(''pyproject.toml'', Some []), (''compatibility.json'', Some (dump_compact (PDict ex_compatibility))),
        (public_api_path, Some (dump_compact (PDict ex_public))), (''src/plugin.py'', Some ''import json'')],
      en_toml = (\<lambda>_. Inr ex_project), en_check_schema = (\<lambda>_. Inr ()), en_requirement = ex_requirement,
      en_contains = (\<lambda>_ _. Inr True), en_requires = Inr requires, en_parse = (\<lambda>_. Inr [Import [''json'']]),
      en_version = (\<lambda>_. ''2.0.1''), en_to_core = (\<lambda>d. Inr (PStr (sd_name d)))\<rparr>"

lemma load_printed:
  assumes "printable (PDict d)" "map_of dir n = Some (Some (dump_compact (PDict d)))"
  shows "load_object dir n = Inr (key_sorted (PDict d))"
proof -
  have "load_object dir n = rbind (require (case key_sorted (PDict d) of PDict d \<Rightarrow> True | _ \<Rightarrow> False)
      ''file must contain a JSON object'') (\<lambda>_. Inr (key_sorted (PDict d)))"
    unfolding load_object_def read_bytes_def assms(2) load_json_def by (simp only: option.case json_loads_dump(1) [OF assms(1)] rbind_simps)
  then show ?thesis by simp
qed

lemma item_sorted:
  assumes "map_of d k = Some v" "key_sorted v = w"
  shows "py_item (key_sorted (PDict d)) k = Inr w"
proof -
  from assms(1)
  have "map_of (map (\<lambda>p. (fst p, key_sorted (snd p))) d) k = Some (key_sorted v)" by (induction d) (auto split: if_splits)
  with assms(2) show ?thesis by (simp add: py_item_def map_of_sort_dict)
qed

lemma ex_files:
  "map_of (en_files (ex_environment rs)) ''compatibility.json'' = Some (Some (dump_compact (PDict ex_compatibility)))"
  "map_of (en_files (ex_environment rs)) public_api_path = Some (Some (dump_compact (PDict ex_public)))"
  "map_of (en_files (ex_environment rs)) ''pyproject.toml'' = Some (Some [])"
  "map_of (en_files (ex_environment rs)) ''src/plugin.py'' = Some (Some ''import json'')"
  "map fst (en_files (ex_environment rs)) = [''pyproject.toml'', ''compatibility.json'', public_api_path, ''src/plugin.py'']"
  by (simp_all add: ex_environment_def public_api_path_def del: dump_compact.simps)

lemma ex_printable: "printable (PDict ex_compatibility)" "printable (PDict ex_public)"
  by (simp_all add: ex_compatibility_def ex_public_def ascii_utf8 int_str_def nat_digits.simps)

definition ex_compatibility_read :: pyval where
  "ex_compatibility_read = key_sorted (PDict ex_compatibility)"

definition ex_public_read :: pyval where
  "ex_public_read = key_sorted (PDict ex_public)"

lemmas ex_documents = load_printed [OF ex_printable(1) ex_files(1), folded ex_compatibility_read_def]
  load_printed [OF ex_printable(2) ex_files(2), folded ex_public_read_def]

lemma ex_checks:
  "check_catalogs ex_compatibility_read = Inr ()"
  "check_declarations (ex_environment rs) ex_public_read ex_compatibility_read = Inr ()"
  "check_ledger (ex_environment rs) expected ex_compatibility_read = Inr ()"
proof -
  let ?c = ex_compatibility_read and ?p = ex_public_read
  have c: "py_item ?c ''catalogsDefined'' = Inr (PList [])"
    "py_item ?c ''catalogsConsumed'' = Inr (PList [PStr ''object'', PStr ''structured''])"
    "py_item ?c ''distribution'' = Inr (PStr ''meridian-plugin-config-artifact'')" "py_item ?c ''version'' = Inr (PStr ''1.1.2'')"
    "py_item ?c ''lockedDesign'' = Inr (PDict [(''configArtifactLldRevision'', PInt 48)])"
    "py_item ?c ''dependencyCompatibility'' = Inr (PDict [])"
    unfolding ex_compatibility_read_def by (rule item_sorted, simp add: ex_compatibility_def, simp add: sort_dict_def)+
  have p: "py_item ?p ''pluginId'' = Inr (PStr ''config-artifact'')"
    "py_item ?p ''schemaProviderId'' = Inr (PStr ''meridian.plugin.config-artifact'')"
    "py_item ?p ''distribution'' = Inr (PStr ''meridian-plugin-config-artifact'')"
    unfolding ex_public_read_def by (rule item_sorted, simp add: ex_public_def, simp)+
  show "check_catalogs ?c = Inr ()" by (simp add: check_catalogs_def item_is_def c)
  show "check_ledger (ex_environment rs) expected ?c = Inr ()" by (simp add: check_ledger_def c)
  have "load_bundle (en_to_core (ex_environment rs)) = load_bundle (\<lambda>d. Inr (PStr (sd_name d)))"
    by (simp add: ex_environment_def)
  moreover have "\<exists>b. load_bundle (\<lambda>d. Inr (PStr (sd_name d))) = Inr b \<and> rb_provider_id b = ''meridian.plugin.config-artifact''
    \<and> map_of (rb_extensions b) ''distribution'' = Some (PStr distribution_name) \<and> length (rb_resources b) = 5
    \<and> length (rb_schemas b) = 4 \<and> set (map (\<lambda>r. rf_catalog (rd_ref r)) (rb_resources b)) = {''object'', ''structured''}"
    by (auto simp: load_bundle_def schema_documents_def bundle_resources_def structured_resource_def layout_defs
        SCHEMA_PROVIDER_ID_def distribution_name_def)
  moreover have "pm_plugin_id manifest = ''config-artifact''" "pm_plugin_version manifest = package_version"
    "pm_contract_version manifest = ''1.0.0''" "map_of (pm_extensions manifest) ''distribution'' = Some distribution_name"
    by (simp_all add: manifest_def plugin_id_def distribution_name_def)
  moreover have "''schema'' \<in> set publish_parameters" "''payload_schema'' \<notin> set publish_parameters"
    by (simp_all add: publish_parameters_def)
  moreover have "py_item (PDict [(''configArtifactLldRevision'', PInt 48)]) ''configArtifactLldRevision'' = Inr (PInt 48)"
    "py_eq (PInt 48) (PInt 48)" "distribution_name = ''meridian-plugin-config-artifact''" "release_version = ''1.1.2''"
    by (simp_all add: py_item_def scalar_eq_def distribution_name_def release_version_def num_view_def)
  ultimately show "check_declarations (ex_environment rs) ?p ?c = Inr ()"
    unfolding check_declarations_def item_is_def c p by (elim exE conjE) (simp add: require_simps)
qed

lemma ex_contracts: "\<exists>out. verify_contracts (ex_environment (map snd bound_requirements)) = Inr out"
proof -
  let ?env = "ex_environment (map snd bound_requirements)"
  have paths: "model_paths (en_files ?env) = []" "source_paths (en_files ?env) = [''src/plugin.py'']"
    unfolding model_paths_def source_paths_def ex_files by code_simp+
  obtain expected where expected: "expected_bounds ?env = Inr expected"
    "expected = map (\<lambda>p. (fst p, rq_specifier (projr (ex_requirement (snd p))))) bound_requirements"
    by (simp add: expected_bounds_def ex_environment_def ex_requirement_def bound_requirements_def)
  have project: "read_bytes (en_files ?env) ''pyproject.toml'' = Inr []" "en_toml ?env [] = Inr ex_project"
    "decode_text [] = Inr []"
    by (simp_all add: read_bytes_def ex_files) (simp_all add: ex_environment_def decode_text_def utf8_valid_def)
  obtain d where d: "py_item ex_project ''project'' = Inr (PDict d)" "py_item (PDict d) ''name'' = Inr (PStr distribution_name)"
    "check_project (PDict d) = Inr ()"
    by (simp add: ex_project_def py_item_def check_project_def item_is_def package_version_def release_version_def distribution_name_def)
  have installed: "check_installed ?env expected = Inr ()"
    by (simp add: check_installed_def ex_environment_def installed_versions_def bound_requirements_def)
  have bounds: "distribution_bounds ?env = Inr expected"
  proof -
    let ?rs = "map (\<lambda>p. projr (ex_requirement (snd p))) bound_requirements"
    have "rmap ex_requirement (map snd bound_requirements) = Inr ?rs"
      by (simp add: ex_requirement_def bound_requirements_def)
    moreover have "unmarked_bounds expected ?rs = expected" unfolding expected(2) by code_simp
    moreover have "smap_eq expected expected" unfolding expected(2) by code_simp
    moreover have "en_requires ?env = Inr (map snd bound_requirements)" "en_requirement ?env = ex_requirement"
      by (simp_all add: ex_environment_def)
    ultimately show ?thesis by (simp add: distribution_bounds_def expected(1))
  qed
  have boundary: "import_boundary ?env = Inr 1"
  proof -
    have "decode_text ''import json'' = Inr ''import json''" "\<not> contains ''NativeQuery'' ''import json''"
      "\<not> list_ex is_forbidden (node_names (Import [''json'']))"
      by code_simp+
    moreover have "en_parse ?env ''import json'' = Inr [Import [''json'']]" by (simp add: ex_environment_def)
    ultimately have "check_source ?env ''src/plugin.py'' = Inr ()"
      by (simp add: check_source_def read_bytes_def ex_files del: list_ex_iff)
    then show ?thesis by (simp add: import_boundary_def paths)
  qed
  have layout: "check_layout (en_files ?env) = Inr ()"
    by (simp add: check_layout_def ex_files public_api_path_def)
  show ?thesis
    unfolding verify_contracts_def Let_def
    by (simp add: expected(1) project d ex_documents paths ex_checks installed bounds boundary layout contract_evidence_def
        read_bytes_def ex_files)
qed

section \<open>Properties\<close>

text \<open>C39. When the contract check passes, no Python file of the source tree names the post-V1 query type or
  imports an Adapter, an Engine or a provider SDK, whole or in part; the distribution does not own the two
  namespace packages; and of each Meridian dependency the installed metadata hold the locked bound, unmarked,
  and the installed version lies within it.\<close>
theorem contract_check_sound:
  assumes "verify_contracts env = Inr out" "en_requires env = Inr raws"
  shows "(\<forall>p \<in> keys (en_files env). begins_with ''src/'' p \<and> ends_with ''.py'' p \<longrightarrow> source_clean env p)
    \<and> {''src/meridian_storage/__init__.py'', ''src/meridian_storage/plugins/__init__.py''} \<inter> keys (en_files env) = {}
    \<and> (\<forall>n t. map_of bound_requirements n = Some t \<longrightarrow> (\<exists>r v q. en_requirement env t = Inr r
         \<and> en_contains env (n @ rq_specifier r) (en_version env n) = Inr True
         \<and> v \<in> set raws \<and> en_requirement env v = Inr q \<and> rq_name q = n \<and> \<not> rq_marked q \<and> rq_specifier q = rq_specifier r))"
proof -
  obtain expected bounds n where c: "expected_bounds env = Inr expected" "distribution_bounds env = Inr bounds"
    "import_boundary env = Inr n" "check_installed env expected = Inr ()" "check_layout (en_files env) = Inr ()"
    using assms(1) by (rule verify_contracts_Inr)
  have "{''src/meridian_storage/__init__.py'', ''src/meridian_storage/plugins/__init__.py''} \<inter> keys (en_files env) = {}"
    using c(5) by (auto simp: check_layout_def flow)
  moreover have "\<exists>r v q. en_requirement env t = Inr r \<and> en_contains env (n @ rq_specifier r) (en_version env n) = Inr True
      \<and> v \<in> set raws \<and> en_requirement env v = Inr q \<and> rq_name q = n \<and> \<not> rq_marked q \<and> rq_specifier q = rq_specifier r"
    if "map_of bound_requirements n = Some t" for n t
    using distribution_bounds_Inr [OF c(2) assms(2) that] installed_in_bounds [OF c(1,4) that] by fastforce
  ultimately show ?thesis using import_boundary_clean [OF c(3)] by blast
qed

theorem contract_check_sound_witness:
  "source_clean (ex_environment (map snd bound_requirements)) ''src/plugin.py''"
proof -
  obtain out where out: "verify_contracts (ex_environment (map snd bound_requirements)) = Inr out" using ex_contracts by blast
  have raws: "en_requires (ex_environment (map snd bound_requirements)) = Inr (map snd bound_requirements)"
    by (simp add: ex_environment_def)
  have mem: "''src/plugin.py'' \<in> keys (en_files (ex_environment (map snd bound_requirements)))"
    unfolding list.set_map [symmetric] ex_files by simp
  have "begins_with ''src/'' ''src/plugin.py'' \<and> ends_with ''.py'' ''src/plugin.py''" by code_simp
  then show ?thesis by (rule mp [OF bspec [OF conjunct1 [OF contract_check_sound [OF out raws]] mem]])
qed

text \<open>C40. No build passes both checks: the artifact check asks for the bounds of \<open>pyproject.toml\<close>, the contract
  check for those of the compatibility ledger, and they differ. If the printed form of a requirement keeps its
  name and its bounds, and every unmarked requirement of the wheel on Core is written the usual way, the contract check of
  an installed wheel whose metadata the artifact check accepted does not return.\<close>
theorem contract_bounds_conflict:
  assumes "check_wheel_metadata pk b = Inr u" "en_requires env = Inr (headers_of (pk_headers pk b) ''Requires-Dist'')"
    and prints: "\<And>v. pk_requirement pk v = rbind (en_requirement env v) (\<lambda>r. Inr (rq_text r))"
    and faithful: "\<And>v w q r. en_requirement env v = Inr q \<Longrightarrow> en_requirement env w = Inr r \<Longrightarrow> rq_text q = rq_text r
      \<Longrightarrow> rq_name q = rq_name r \<and> rq_specifier q = rq_specifier r"
    and usual: "\<And>v r. v \<in> set (headers_of (pk_headers pk b) ''Requires-Dist'') \<Longrightarrow> en_requirement env v = Inr r \<Longrightarrow> rq_name r = ''meridian-storage-core'' \<Longrightarrow> \<not> rq_marked r
      \<Longrightarrow> begins_with ''meridian-storage-'' v \<and> \<not> contains ''; extra =='' v"
    and artifact: "\<And>v r. v \<in> set artifact_requirements \<Longrightarrow> en_requirement env v = Inr r
      \<Longrightarrow> rq_name r = ''meridian-storage-core'' \<Longrightarrow> v = ''meridian-storage-core>=1,<2''"
    and bounds: "\<And>q r. en_requirement env ''meridian-storage-core>=1,<2'' = Inr q
      \<Longrightarrow> en_requirement env ''meridian-storage-core>=1.1.0,<2'' = Inr r \<Longrightarrow> rq_specifier q \<noteq> rq_specifier r"
  shows "verify_contracts env \<noteq> Inr out"
proof
  let ?raws = "headers_of (pk_headers pk b) ''Requires-Dist''"
  assume "verify_contracts env = Inr out"
  then obtain found where "distribution_bounds env = Inr found" by (rule verify_contracts_Inr) blast
  moreover have "map_of bound_requirements ''meridian-storage-core'' = Some ''meridian-storage-core>=1.1.0,<2''"
    by (simp add: bound_requirements_def)
  ultimately obtain r v q where v: "en_requirement env ''meridian-storage-core>=1.1.0,<2'' = Inr r" "v \<in> set ?raws"
    "en_requirement env v = Inr q" "rq_name q = ''meridian-storage-core''" "\<not> rq_marked q" "rq_specifier q = rq_specifier r"
    using distribution_bounds_Inr [OF _ assms(2)] by blast
  obtain pins expected where pins: "rmap (pk_requirement pk)
      (filter (\<lambda>v. begins_with ''meridian-storage-'' v \<and> \<not> contains ''; extra =='' v) ?raws) = Inr pins"
    "rmap (pk_requirement pk) artifact_requirements = Inr expected" "set pins = set expected"
    using check_wheel_metadata_pins [OF assms(1)] by blast
  have "v \<in> set (filter (\<lambda>v. begins_with ''meridian-storage-'' v \<and> \<not> contains ''; extra =='' v) ?raws)"
    using v(2) usual [OF v(2-5)] by simp
  moreover have "pk_requirement pk v = Inr (rq_text q)" by (simp add: prints v(3))
  ultimately have "rq_text q \<in> set pins" by (rule rmap_image [OF pins(1)])
  then have "rq_text q \<in> set expected" by (simp only: pins(3))
  then obtain w where w: "w \<in> set artifact_requirements" "pk_requirement pk w = Inr (rq_text q)"
    using rmap_member [OF pins(2)] by blast
  then obtain q' where q': "en_requirement env w = Inr q'" "rq_text q = rq_text q'" by (auto simp: prints flow)
  from faithful [OF v(3) q'] artifact [OF w(1) q'(1)] v(4) have "w = ''meridian-storage-core>=1,<2''" by simp
  with bounds [OF _ v(1)] q'(1) faithful [OF v(3) q'] v(6) show False by simp
qed

definition ex_packaging :: packaging where
  "ex_packaging = \<lparr>pk_requirement = Inr, pk_same_specifiers = (\<lambda>_ _. Inr True),
     pk_headers = (\<lambda>_. [(''Name'', distribution_name), (''Version'', release_version), (''License-Expression'', ''Apache-2.0'')]
       @ map (\<lambda>v. (''Requires-Dist'', v)) artifact_requirements),
     pk_zip = (\<lambda>_. Inl (ValueError ''not a zip file'')), pk_tar = (\<lambda>_. Inl (ValueError ''not a tar file''))\<rparr>"

theorem contract_bounds_conflict_witness:
  "check_wheel_metadata ex_packaging [] = Inr () \<and> (\<forall>out. verify_contracts (ex_environment artifact_requirements) \<noteq> Inr out)"
proof -
  have headers: "headers_of (pk_headers ex_packaging []) ''Requires-Dist'' = artifact_requirements" by code_simp
  have wheel: "check_wheel_metadata ex_packaging [] = Inr ()" by code_simp
  have usual: "\<forall>v \<in> set artifact_requirements. begins_with ''meridian-storage-'' v \<and> \<not> contains ''; extra =='' v" by code_simp
  have artifact: "\<forall>v \<in> set artifact_requirements. rq_name (projr (ex_requirement v)) = ''meridian-storage-core''
      \<longrightarrow> v = ''meridian-storage-core>=1,<2''" by code_simp
  have differ: "rq_specifier (projr (ex_requirement ''meridian-storage-core>=1,<2''))
      \<noteq> rq_specifier (projr (ex_requirement ''meridian-storage-core>=1.1.0,<2''))" by code_simp
  have env: "en_requirement (ex_environment artifact_requirements) = ex_requirement"
    "en_requires (ex_environment artifact_requirements) = Inr artifact_requirements" "pk_requirement ex_packaging = Inr"
    by (simp_all add: ex_environment_def ex_packaging_def)
  have "verify_contracts (ex_environment artifact_requirements) \<noteq> Inr out" for out
  proof (rule contract_bounds_conflict [OF wheel])
    show "en_requires (ex_environment artifact_requirements) = Inr (headers_of (pk_headers ex_packaging []) ''Requires-Dist'')"
      by (simp add: env headers)
    show "pk_requirement ex_packaging v = rbind (en_requirement (ex_environment artifact_requirements) v) (\<lambda>r. Inr (rq_text r))" for v
      by (simp add: env ex_requirement_def)
    show "rq_name q = rq_name r \<and> rq_specifier q = rq_specifier r"
      if "en_requirement (ex_environment artifact_requirements) v = Inr q" "en_requirement (ex_environment artifact_requirements) w = Inr r"
        "rq_text q = rq_text r" for v w q r
      using that by (auto simp: env ex_requirement_def)
    show "begins_with ''meridian-storage-'' v \<and> \<not> contains ''; extra =='' v"
      if "v \<in> set (headers_of (pk_headers ex_packaging []) ''Requires-Dist'')" for v
      using that usual unfolding headers by blast
    show "v = ''meridian-storage-core>=1,<2''"
      if "v \<in> set artifact_requirements" "en_requirement (ex_environment artifact_requirements) v = Inr r"
        "rq_name r = ''meridian-storage-core''" for v r
      using that artifact unfolding env by auto
    show "rq_specifier q \<noteq> rq_specifier r"
      if "en_requirement (ex_environment artifact_requirements) ''meridian-storage-core>=1,<2'' = Inr q"
        "en_requirement (ex_environment artifact_requirements) ''meridian-storage-core>=1.1.0,<2'' = Inr r" for q r
      using that differ unfolding env by simp
  qed
  with wheel show ?thesis by blast
qed

end
