(* ===== verification/Spec2Isabelle.thy ===== *)
theory Spec2Isabelle
  imports StoreProperties OrphanProperties ChannelProperties ConsumerProperties RepositoryProperties ModelProperties
    ProgressProperties ReleaseProperties ContractProperties
begin

text \<open>
  A verification library for the configuration and artifact plugin (the Python package
  \<open>meridian_storage.plugins.config_artifact\<close> under \<open>src/src\<close>).

  \<^bold>\<open>The program.\<close> The plugin publishes immutable, versioned resources over two Catalogs of the
  Meridian runtime: a structured one, which keeps metadata rows (resources, channel pointers,
  provenance, orphan candidates), and an object one, which keeps the bytes of artifacts. A
  configuration is stored inline in its row; an artifact's bytes are put first and its row follows
  in a transaction. Channels are named pointers that move by compare-and-set over append-only rows.
  Deprecation is the only change a stored resource admits, and nothing is deleted.

  \<^bold>\<open>The model.\<close> Python values are the datatype \<open>pyval\<close>; a raised exception is a value of \<open>exn\<close>. A
  function without effects returns \<open>(exn, 'a) result\<close>; one with effects is a
  \<open>('w, exn, 'a) prog\<close>, a function on an arbitrary world \<open>'w\<close> that keeps the world an exception was
  raised in. The runtime is a record of the calls the plugin makes of it (\<open>runtime\<close>), with the pure
  functions of the imported packages in \<open>external\<close>; both are parameters, with their documented laws
  as locales. The theories, in the order of the code:
  \<^item> \<open>Prelude\<close>: results, programs, their inversion rules, invariants through the combinators, dicts.
  \<^item> \<open>PyValues\<close>, \<open>Hashing\<close>, \<open>PyJson\<close>, \<open>Timestamps\<close>: the standard library the source uses: values and
    their equality, SHA-1 and SHA-256 on 32-bit words, version-5 UUIDs, \<open>json.loads\<close>, \<open>strptime\<close>,
    \<open>strftime\<close> and the conversion of an aware \<open>datetime\<close> to UTC.
  \<^item> \<open>Errors\<close> (\<open>errors.py\<close>), \<open>Canonical\<close> (\<open>_canonical.py\<close>), \<open>Refs\<close> (\<open>models/refs.py\<close>).
  \<^item> \<open>External\<close>: the imported functions and their contract; \<open>Resources\<close>, \<open>Records\<close>, \<open>Pointers\<close>
    (\<open>models/resources.py\<close>, \<open>models/results.py\<close>): provenance, stored resources, channel rows,
    orphan candidates, with constructors, printing and parsing.
  \<^item> \<open>Runtime\<close> (\<open>_runtime.py\<close>), \<open>Metadata\<close> (\<open>repositories/metadata.py\<close>), \<open>Objects\<close>
    (\<open>repositories/object.py\<close>, \<open>artifact/payloads.py\<close>, \<open>validation.py\<close>), \<open>Channels\<close>
    (\<open>channels/repository.py\<close>).
  \<^item> \<open>Publication\<close>, \<open>Configuration\<close>, \<open>Artifact\<close>, \<open>Consumer\<close>: the publishers and consumers of
    \<open>configuration/repository.py\<close> and \<open>artifact/repository.py\<close>.
  \<^item> \<open>Schemas\<close> (\<open>schemas/provider.py\<close>), \<open>Store\<close> (\<open>store.py\<close>, \<open>publisher.py\<close>, \<open>consumer.py\<close>).
  \<^item> \<open>Catalog\<close>: the contract of a structured Catalog as locales (\<open>structured_catalog\<close>,
    \<open>metadata_catalog\<close>) and channel promotion over it; \<open>Rows\<close>: the metadata rows as a map from
    identifiers to resources; \<open>Ledger\<close>: the locale of transactions and conditional patches
    (\<open>transactional_catalog\<close>) and the outcomes of each write.
  \<^item> \<open>Guarantees\<close>: the abstract specification (\<open>catalogue\<close>, \<open>evolves\<close>, \<open>ledger_ok\<close>, \<open>moves\<close>), total
    correctness triples over programs, and the guarantee of every metadata operation;
    \<open>Publishing\<close>: publication as a write-once insertion; \<open>Plugin\<close>: the locale of the whole runtime
    (\<open>plugin_catalog\<close>) and the artifact publisher; \<open>Serving\<close>: the consumers, the operations of a store
    as a step relation (\<open>store_step\<close>), and its reachable worlds.
  \<^item> \<open>Reference\<close>: concrete functions for the imported ones, which meet their contract;
    \<open>FakeRuntime\<close>: the in-memory runtime of \<open>tests/conftest.py\<close>, on which every locale of the
    contracts is interpreted; \<open>Examples\<close>, \<open>ArtifactExamples\<close>: concrete runs for the witnesses.
  \<^item> \<open>Progress\<close>, \<open>ArtifactProgress\<close>: when operations return. The locale \<open>available_catalog\<close> extends the Catalog
    contract by what a caller may expect while the Catalog is up, \<open>object_catalog\<close> extends it by the Objects and
    the payload registry; both are interpreted on the in-memory runtime, up until a failure is injected.
  \<^item> \<open>Calendar\<close>: the calendar behind timestamps and epochs, its conversions inverse to each other;
    \<open>Orphans\<close>: orphan records of publications whose metadata write fails, and of discovery.
  \<^item> \<open>Bundle\<close> (\<open>schemas/provider.py\<close>, \<open>plugin.py\<close>, \<open>contracts.py\<close>): the Schema bundle, the manifest and the
    factory, the packaged documents.
  \<^item> The release scripts under \<open>src/scripts\<close>: \<open>Scripts\<close> (what they share: files, texts, epochs), \<open>Evidence\<close>
    (\<open>verify_release_evidence.py\<close>, \<open>compare_artifacts.py\<close>) with the specification \<open>release_ok\<close> of an accepted
    release, \<open>Sbom\<close> (\<open>generate_sbom.py\<close>) and \<open>Printing\<close> (what \<open>json.dumps\<close> writes \<open>json.loads\<close> reads back),
    \<open>Distributions\<close> (\<open>verify_artifacts.py\<close>), \<open>Contracts\<close> (\<open>verify_contracts.py\<close>).
  \<^item> \<open>StoreProperties\<close>, \<open>ChannelProperties\<close>, \<open>ConsumerProperties\<close>, \<open>RepositoryProperties\<close>,
    \<open>OrphanProperties\<close>, \<open>ProgressProperties\<close>, \<open>ModelProperties\<close>, \<open>ReleaseProperties\<close>, \<open>ContractProperties\<close>:
    the properties.

  \<^bold>\<open>What the lemmas show.\<close> The records: what a constructor accepts satisfies an invariant, and printing
  and parsing are inverse on it. The repositories: each call has its outcomes listed, with what it
  leaves of the collections. The store: from any well-formed world, whatever operations are called
  and whichever of them raise, entries of the metadata only appear or become deprecated, channel
  histories only grow and have no gap, and a publication is a write-once insertion. Operations are
  interleaved whole; inside one, other writers enter where the contract lets a call fail with a
  conflict. The consumers: bytes handed out are those the metadata names. Progress: while the Catalogs are up,
  lookups, promotions from the newest pointer and publications of new identities return, and what is
  published is found and read back, byte for byte and by range. The release scripts: a passing
  check is characterised without its loops, accepted releases of one evidence file are reproductions of
  each other, a generated SBOM passes the release check, one RECORD table pins the contents of a wheel,
  and the bounds of the artifact check and of the contract check exclude each other.

  \<^bold>\<open>Termination.\<close> Every loop of the source is structural recursion, or recursion on the length of a text
  (the scanners of \<open>PyJson\<close>, \<open>Scripts\<close> and \<open>Sbom\<close>), except the verifying reader's, which reads a stream of
  the world to its end: \<open>drain\<close> is a partial function whose value is \<open>None\<close> when the stream never ends.

  \<^bold>\<open>Parameters of the scripts.\<close> Zip and tar files, mail headers, TOML, JSON Schema, the \<open>packaging\<close>
  requirements and specifiers, the parser of Python and the installed distributions are parameters
  (\<open>packaging\<close>, \<open>environment\<close>). A directory is a list of names with their bytes. CSV fields are below the
  reader's limit, \<open>int\<close> reads ASCII digits, and a timestamp out of range is one exception whichever
  class the library raises.

  \<^bold>\<open>Not modelled.\<close> Digits other than the ASCII ones in timestamps (\<open>strptime\<close> reads other decimal
  digits), and row values that are \<open>datetime\<close> objects; the assertions of the harness on the mode of a
  put; exception messages built from representations, retry flags beyond what the source sets, the
  re-exports of the packages, argument parsing and printing of the scripts, and the three attribute
  checks of imported classes in \<open>verify_contracts.py\<close>.
\<close>

end
